(* ===== verification/Prelude.thy ===== *)
theory Prelude
  imports Complex_Main "HOL-Library.Multiset" "HOL-Library.List_Lexorder" "HOL-Library.Char_ord"
begin

text \<open>
  What the TypeScript sources take from their language, shared by every component:
  dynamic values (\<open>unknown\<close>), numbers, strings and their order, property access through the
  prototype chain, \<open>Map\<close> built from pairs, results that may throw, and the facts about
  stable sorting and reindexing that the components' proofs rest on.

  Strings are lists of UTF-16 code units below 256 (the type \<open>string\<close>); on them
  \<open>length\<close> is JavaScript's \<open>length\<close>, the number of code points and of code units agree,
  and the order of \<open>HOL-Library.List_Lexorder\<close> over \<open>HOL-Library.Char_ord\<close> is the code
  unit order of JavaScript's \<open><\<close> on strings.
\<close>

named_theorems js_defs \<open>definitions of the language layer, unfolded to evaluate a witness\<close>
named_theorems res_iff \<open>when a computation that may throw returns\<close>

section \<open>Results\<close>

text \<open>A throwing function returns \<open>Inl\<close> of what it throws.\<close>

definition rbind :: "'e + 'a \<Rightarrow> ('a \<Rightarrow> 'e + 'b) \<Rightarrow> 'e + 'b" where
  "rbind m f = (case m of Inl e \<Rightarrow> Inl e | Inr x \<Rightarrow> f x)"

definition guard :: "bool \<Rightarrow> 'e \<Rightarrow> 'e + unit" where
  "guard b e = (if b then Inr () else Inl e)"

lemma rbind_simps [simp]:
  "rbind (Inl e) f = Inl e"
  "rbind (Inr x) f = f x"
  by (simp_all add: rbind_def)

lemma guard_simps [simp]:
  "guard True e = Inr ()"
  "guard False e = Inl e"
  by (simp_all add: guard_def)

lemma rbind_Inr_iff [res_iff]: "rbind m f = Inr y \<longleftrightarrow> (\<exists>x. m = Inr x \<and> f x = Inr y)"
  by (cases m) auto

lemma rbind_Inl_iff: "rbind m f = Inl e \<longleftrightarrow> m = Inl e \<or> (\<exists>x. m = Inr x \<and> f x = Inl e)"
  by (cases m) auto

lemma guard_Inr_iff [res_iff, simp]: "guard b e = Inr u \<longleftrightarrow> b"
  by (simp add: guard_def)

lemma guard_Inl_iff [simp]: "guard b e = Inl e' \<longleftrightarrow> \<not> b \<and> e' = e"
  by (auto simp: guard_def)

text \<open>\<open>Array.prototype.map\<close> with a function that may throw: the first throw wins.\<close>

fun rmap :: "('a \<Rightarrow> 'e + 'b) \<Rightarrow> 'a list \<Rightarrow> 'e + 'b list" where
  "rmap f [] = Inr []"
| "rmap f (x # xs) = rbind (f x) (\<lambda>y. rbind (rmap f xs) (\<lambda>ys. Inr (y # ys)))"

lemma rmap_Inr_iff [res_iff]: "rmap f xs = Inr ys \<longleftrightarrow> list_all2 (\<lambda>x y. f x = Inr y) xs ys"
proof (induction xs arbitrary: ys)
  case Nil
  then show ?case by auto
next
  case (Cons x xs)
  then show ?case by (cases ys) (auto simp: res_iff)
qed

lemma rmap_length: "rmap f xs = Inr ys \<Longrightarrow> length ys = length xs"
  by (auto simp: res_iff dest: list_all2_lengthD)

section \<open>Numbers\<close>

text \<open>
  An IEEE double as the sources can tell it apart: the finite ones by their rational value,
  with negative zero on its own because \<open>Object.is\<close> separates it from zero.
\<close>

datatype jsnum = NaN | PosInf | NegInf | NegZero | Fin rat

fun num_val :: "jsnum \<Rightarrow> rat option" where
  "num_val (Fin q) = Some q"
| "num_val NegZero = Some 0"
| "num_val _ = None"

definition of_int_num :: "int \<Rightarrow> jsnum" where [js_defs]:
  "of_int_num i = Fin (of_int i)"

text \<open>\<open>Number.isInteger\<close>, \<open>Number.isSafeInteger\<close>, \<open>Number.isFinite\<close>.\<close>

definition num_isInteger :: "jsnum \<Rightarrow> bool" where [js_defs]:
  "num_isInteger n = (case num_val n of None \<Rightarrow> False | Some q \<Rightarrow> of_int \<lfloor>q\<rfloor> = q)"

definition max_safe :: int where [js_defs]:
  "max_safe = 9007199254740991"

definition num_isSafeInteger :: "jsnum \<Rightarrow> bool" where [js_defs]:
  "num_isSafeInteger n =
     (num_isInteger n \<and> (case num_val n of None \<Rightarrow> False | Some q \<Rightarrow> \<bar>q\<bar> \<le> of_int max_safe))"

definition num_isFinite :: "jsnum \<Rightarrow> bool" where [js_defs]:
  "num_isFinite n = (num_val n \<noteq> None)"

text \<open>The integer a checked integral number stands for.\<close>

definition num_int :: "jsnum \<Rightarrow> int" where [js_defs]:
  "num_int n = (case num_val n of None \<Rightarrow> 0 | Some q \<Rightarrow> \<lfloor>q\<rfloor>)"

text \<open>The relation \<open><\<close>; every comparison with \<open>NaN\<close> is false.\<close>

fun num_lt :: "jsnum \<Rightarrow> jsnum \<Rightarrow> bool" where
  "num_lt NaN _ = False"
| "num_lt _ NaN = False"
| "num_lt PosInf _ = False"
| "num_lt _ NegInf = False"
| "num_lt NegInf _ = True"
| "num_lt _ PosInf = True"
| "num_lt m n = (case (num_val m, num_val n) of (Some p, Some q) \<Rightarrow> p < q | _ \<Rightarrow> False)"

lemma of_int_num_special [simp]:
  "of_int_num i \<noteq> NaN" "of_int_num i \<noteq> NegZero" "of_int_num i \<noteq> PosInf" "of_int_num i \<noteq> NegInf"
  "of_int_num i = Fin 0 \<longleftrightarrow> i = 0" "of_int_num i = of_int_num j \<longleftrightarrow> i = j"
  by (simp_all add: of_int_num_def)

lemma num_lt_of_int [simp]: "num_lt (of_int_num i) (of_int_num j) \<longleftrightarrow> i < j"
  by (simp add: of_int_num_def)

lemma num_isInteger_of_int [simp]: "num_isInteger (of_int_num i)"
  by (simp add: js_defs)

lemma num_int_of_int [simp]: "num_int (of_int_num i) = i"
  by (simp add: js_defs)

lemma num_isSafeInteger_of_int [simp]:
  "num_isSafeInteger (of_int_num i) \<longleftrightarrow> \<bar>i\<bar> \<le> max_safe"
proof -
  have "(\<bar>rat_of_int i\<bar> \<le> rat_of_int max_safe) = (\<bar>i\<bar> \<le> max_safe)"
    by (metis of_int_abs of_int_le_iff)
  then show ?thesis
    by (simp add: num_isSafeInteger_def) (simp add: of_int_num_def)
qed

lemma num_isInteger_Some: "num_isInteger n \<Longrightarrow> num_val n = Some (of_int (num_int n))"
  by (auto simp: num_isInteger_def num_int_def split: option.splits)

lemma num_lt_integer:
  assumes "num_isInteger n"
  shows "num_lt n (of_int_num j) \<longleftrightarrow> num_int n < j"
    and "num_lt (of_int_num j) n \<longleftrightarrow> j < num_int n"
  using num_isInteger_Some [OF assms]
  by (cases n; auto simp: of_int_num_def num_int_def)+

section \<open>Dynamic values\<close>

text \<open>
  A value of type \<open>unknown\<close>. An object is the list of its own enumerable properties in
  order; \<open>JFun\<close> is any function object (its \<open>typeof\<close> is \<open>function\<close>).
\<close>

datatype jsval =
    JUndef
  | JNull
  | JBool bool
  | JNum jsnum
  | JStr string
  | JArr "jsval list"
  | JObj "(string \<times> jsval) list"
  | JFun

abbreviation JInt :: "int \<Rightarrow> jsval" where
  "JInt i \<equiv> JNum (of_int_num i)"

text \<open>
  The properties every object inherits from \<open>Object.prototype\<close>. They are functions, but
  for \<open>__proto__\<close>, whose getter answers \<open>Object.prototype\<close>, an object with no enumerable
  property.
\<close>

definition proto_functions :: "string list" where [js_defs]:
  "proto_functions =
     [''constructor'', ''toString'', ''toLocaleString'', ''valueOf'', ''hasOwnProperty'',
      ''isPrototypeOf'', ''propertyIsEnumerable'', ''__defineGetter__'', ''__defineSetter__'',
      ''__lookupGetter__'', ''__lookupSetter__'']"

definition proto_get :: "string \<Rightarrow> jsval option" where [js_defs]:
  "proto_get k =
     (if k \<in> set proto_functions then Some JFun
      else if k = ''__proto__'' then Some (JObj []) else None)"

text \<open>The read \<open>o[k]\<close> of an object, and the test \<open>k in o\<close>.\<close>

definition obj_get :: "(string \<times> jsval) list \<Rightarrow> string \<Rightarrow> jsval" where [js_defs]:
  "obj_get ps k =
     (case map_of ps k of Some v \<Rightarrow> v
      | None \<Rightarrow> (case proto_get k of Some v \<Rightarrow> v | None \<Rightarrow> JUndef))"

definition obj_in :: "string \<Rightarrow> (string \<times> jsval) list \<Rightarrow> bool" where [js_defs]:
  "obj_in k ps = (k \<in> set (map fst ps) \<or> proto_get k \<noteq> None)"

lemma obj_get_Cons:
  "obj_get ((k, v) # ps) k' = (if k = k' then v else obj_get ps k')"
  by (simp add: obj_get_def)

lemma obj_get_Nil: "obj_get [] k = (case proto_get k of Some v \<Rightarrow> v | None \<Rightarrow> JUndef)"
  by (simp add: obj_get_def)

fun is_str :: "jsval \<Rightarrow> bool" where
  "is_str (JStr s) = True"
| "is_str _ = False"

fun is_bool :: "jsval \<Rightarrow> bool" where
  "is_bool (JBool b) = True"
| "is_bool _ = False"

fun str_of :: "jsval \<Rightarrow> string" where
  "str_of (JStr s) = s"
| "str_of _ = ''''"

fun bool_of :: "jsval \<Rightarrow> bool" where
  "bool_of (JBool b) = b"
| "bool_of _ = False"

fun arr_of :: "jsval \<Rightarrow> jsval list" where
  "arr_of (JArr vs) = vs"
| "arr_of _ = []"

fun is_arr :: "jsval \<Rightarrow> bool" where
  "is_arr (JArr vs) = True"
| "is_arr _ = False"

fun props_of :: "jsval \<Rightarrow> (string \<times> jsval) list" where
  "props_of (JObj ps) = ps"
| "props_of _ = []"

fun val_isInteger :: "jsval \<Rightarrow> bool" where
  "val_isInteger (JNum n) = num_isInteger n"
| "val_isInteger _ = False"

fun val_isSafeInteger :: "jsval \<Rightarrow> bool" where
  "val_isSafeInteger (JNum n) = num_isSafeInteger n"
| "val_isSafeInteger _ = False"

fun val_int :: "jsval \<Rightarrow> int" where
  "val_int (JNum n) = num_int n"
| "val_int _ = 0"

text \<open>
  The idiom \<open>typeof v === "object" && v !== null && !Array.isArray(v)\<close>, which the sources
  define in five modules.
\<close>

fun isRecord :: "jsval \<Rightarrow> bool" where
  "isRecord (JObj ps) = True"
| "isRecord _ = False"

text \<open>Truthiness.\<close>

fun truthy :: "jsval \<Rightarrow> bool" where
  "truthy JUndef = False"
| "truthy JNull = False"
| "truthy (JBool b) = b"
| "truthy (JNum n) = (n \<noteq> NaN \<and> n \<noteq> NegZero \<and> n \<noteq> Fin 0)"
| "truthy (JStr s) = (s \<noteq> '''')"
| "truthy _ = True"

lemma isRecord_iff: "isRecord v \<longleftrightarrow> (\<exists>ps. v = JObj ps)"
  by (cases v) auto

lemma is_str_iff: "is_str v \<longleftrightarrow> (\<exists>s. v = JStr s)"
  by (cases v) auto

lemma is_bool_iff: "is_bool v \<longleftrightarrow> (\<exists>b. v = JBool b)"
  by (cases v) auto

lemma is_arr_iff: "is_arr v \<longleftrightarrow> (\<exists>vs. v = JArr vs)"
  by (cases v) auto

lemma val_isSafeInteger_isInteger: "val_isSafeInteger v \<Longrightarrow> val_isInteger v"
  by (cases v) (auto simp: num_isSafeInteger_def)

section \<open>Strings\<close>

text \<open>\<open>String.prototype.trim\<close>: the white space and line terminators below code unit 256.\<close>

definition js_space :: "char \<Rightarrow> bool" where [js_defs]:
  "js_space c = (c \<in> {CHR 0x09, CHR 0x0A, CHR 0x0B, CHR 0x0C, CHR 0x0D, CHR 0x20, CHR 0xA0})"

definition js_trim :: "string \<Rightarrow> string" where [js_defs]:
  "js_trim s = rev (dropWhile js_space (rev (dropWhile js_space s)))"

definition blank :: "string \<Rightarrow> bool" where [js_defs]:
  "blank s = (js_trim s = '''')"

definition is_digit :: "char \<Rightarrow> bool" where [js_defs]:
  "is_digit c = (CHR ''0'' \<le> c \<and> c \<le> CHR ''9'')"

definition is_hex_lower :: "char \<Rightarrow> bool" where [js_defs]:
  "is_hex_lower c = (is_digit c \<or> (CHR ''a'' \<le> c \<and> c \<le> CHR ''f''))"

text \<open>A regular expression that is a fixed sequence of character classes, anchored at both ends.\<close>

definition seq_match :: "(char \<Rightarrow> bool) list \<Rightarrow> string \<Rightarrow> bool" where [js_defs]:
  "seq_match ps s = list_all2 (\<lambda>p c. p c) ps s"

text \<open>\<open>value || null\<close> on a string, and reading an optional string as an absent-or-empty one.\<close>

definition or_null :: "string \<Rightarrow> string option" where [js_defs]:
  "or_null s = (if s = '''' then None else Some s)"

definition truthy_opt :: "string option \<Rightarrow> bool" where [js_defs]:
  "truthy_opt so = (case so of None \<Rightarrow> False | Some s \<Rightarrow> s \<noteq> '''')"

lemma truthy_opt_simps [simp]:
  "truthy_opt None = False"
  "truthy_opt (Some s) = (s \<noteq> '''')"
  by (simp_all add: truthy_opt_def)

lemma dropWhile_idem: "dropWhile P (dropWhile P xs) = dropWhile P xs"
  by (induction xs) auto

lemma set_js_trim: "set (js_trim s) \<subseteq> set s"
  by (auto simp: js_trim_def dest!: set_dropWhileD)

lemma js_trim_idem [simp]: "js_trim (js_trim s) = js_trim s"
proof -
  define t where "t = dropWhile js_space s"
  have t: "dropWhile js_space t = t"
    unfolding t_def by (rule dropWhile_idem)
  define u where "u = rev (dropWhile js_space (rev t))"
  have pre: "\<exists>w. t = u @ w"
    unfolding u_def
    by (metis rev_append rev_rev_ident takeWhile_dropWhile_id)
  have "dropWhile js_space u = u"
  proof (cases u)
    case Nil
    then show ?thesis by simp
  next
    case (Cons c cs)
    then obtain w where "t = c # cs @ w"
      using pre by auto
    then have "\<not> js_space c"
      using t by (metis dropWhile_eq_Cons_conv list.inject)
    then show ?thesis
      using Cons by simp
  qed
  moreover have "dropWhile js_space (rev u) = rev u"
    unfolding u_def by (simp add: dropWhile_idem)
  moreover have "js_trim s = u"
    by (simp add: js_trim_def t_def u_def)
  ultimately show ?thesis
    by (simp add: js_trim_def)
qed

lemma blank_trim [simp]: "blank (js_trim s) \<longleftrightarrow> blank s"
  by (simp add: blank_def)

section \<open>Maps built from pairs\<close>

text \<open>\<open>new Map(pairs)\<close>: a later pair overwrites an earlier one with the same key.\<close>

definition js_Map :: "('k \<times> 'v) list \<Rightarrow> ('k \<rightharpoonup> 'v)" where [js_defs]:
  "js_Map ps = map_of (rev ps)"

lemma js_Map_distinct: "distinct (map fst ps) \<Longrightarrow> js_Map ps = map_of ps"
  unfolding js_Map_def
  by (metis distinct_map distinct_rev map_of_eq_Some_iff map_of_inject_set rev_map set_rev)

text \<open>The index of each element under its key: \<open>new Map(xs.map((x, i) => [key(x), i]))\<close>.\<close>

definition index_map :: "('a \<Rightarrow> 'k) \<Rightarrow> 'a list \<Rightarrow> ('k \<rightharpoonup> int)" where [js_defs]:
  "index_map key xs = js_Map (map (\<lambda>(i, x). (key x, int i)) (enumerate 0 xs))"

lemma index_map_nth:
  assumes "distinct (map key xs)" and "i < length xs"
  shows "index_map key xs (key (xs ! i)) = Some (int i)"
proof -
  let ?ps = "map (\<lambda>(i, x). (key x, int i)) (enumerate 0 xs)"
  have fst: "map fst ?ps = map key xs"
    by (rule nth_equalityI) (auto simp: nth_enumerate_eq)
  have "?ps ! i = (key (xs ! i), int i)" and "i < length ?ps"
    using assms(2) by (simp_all add: nth_enumerate_eq)
  then have "(key (xs ! i), int i) \<in> set ?ps"
    by (metis nth_mem)
  moreover have "distinct (map fst ?ps)"
    using fst assms(1) by simp
  ultimately show ?thesis
    unfolding index_map_def by (simp add: js_Map_distinct)
qed

lemma index_map_None: "k \<notin> key ` set xs \<Longrightarrow> index_map key xs k = None"
  unfolding index_map_def js_Map_def
  by (subst map_of_eq_None_iff) (auto simp: in_set_enumerate_eq)

section \<open>Stable sorting and reindexing\<close>

text \<open>
  \<open>Array.prototype.sort\<close> with a comparator \<open>f(a) - f(b)\<close> is the stable sort by \<open>f\<close>,
  the library's \<open>sort_key\<close>.
\<close>

lemma filter_eq_replicate_count: "filter (\<lambda>x. x = k) xs = replicate (count (mset xs) k) k"
  by (induction xs) auto

lemma sort_key_eqI:
  assumes "mset xs = mset ys" "sorted (map f ys)" "distinct (map f ys)"
  shows "sort_key f xs = ys"
proof (rule properties_for_sort_key)
  show "mset ys = mset xs"
    using assms(1) by simp
  show "sorted (map f ys)"
    by (rule assms(2))
  fix k
  assume k: "k \<in> set ys"
  have inj: "inj_on f (set ys)"
    using assms(3) by (simp add: distinct_map)
  have set: "set xs = set ys"
    using assms(1) by (rule mset_eq_setD)
  have eq: "\<And>zs. set zs \<subseteq> set ys \<Longrightarrow>
      filter (\<lambda>x. f k = f x) zs = filter (\<lambda>x. x = k) zs"
    by (rule filter_cong) (use inj k in \<open>auto simp: inj_on_def\<close>)
  have "count (mset ys) k = count (mset xs) k"
    using assms(1) by simp
  then show "filter (\<lambda>x. f k = f x) ys = filter (\<lambda>x. f k = f x) xs"
    using set by (simp add: eq filter_eq_replicate_count)
qed

lemma map_sort_key_map:
  assumes "distinct (map f (map g (sort_key h xs)))" "sorted (map f (map g (sort_key h xs)))"
  shows "sort_key f (map g xs) = map g (sort_key h xs)"
  by (rule sort_key_eqI) (use assms in auto)

lemma sort_key_stable_filter: "filter P (sort_key f xs) = sort_key f (filter P xs)"
  by (simp add: filter_sort)

lemma sorted_map_int_upt: "sorted (map int [0..<n])"
  by (simp add: sorted_iff_nth_mono)

lemma distinct_map_int_upt: "distinct (map int [0..<n])"
  by (simp add: distinct_map)

section \<open>List idioms\<close>

text \<open>\<open>Array.prototype.findIndex\<close>: \<open>None\<close> where the source gets \<open>-1\<close>.\<close>

fun findIndex :: "('a \<Rightarrow> bool) \<Rightarrow> 'a list \<Rightarrow> nat option" where
  "findIndex P [] = None"
| "findIndex P (x # xs) = (if P x then Some 0 else map_option Suc (findIndex P xs))"

lemma findIndex_None: "findIndex P xs = None \<longleftrightarrow> (\<forall>x \<in> set xs. \<not> P x)"
  by (induction xs) auto

lemma findIndex_Some:
  "findIndex P xs = Some i \<Longrightarrow> i < length xs \<and> P (xs ! i) \<and> (\<forall>k < i. \<not> P (xs ! k))"
proof (induction xs arbitrary: i)
  case Nil
  then show ?case by simp
next
  case (Cons x xs)
  then show ?case
    by (cases i) (auto split: if_splits simp: less_Suc_eq_0_disj)
qed

lemma find_SomeD: "find P xs = Some x \<Longrightarrow> x \<in> set xs \<and> P x"
  by (auto simp: find_Some_iff)

lemma find_NoneD: "find P xs = None \<longleftrightarrow> (\<forall>x \<in> set xs. \<not> P x)"
  by (auto simp: find_None_iff)

lemma distinct_map_eq:
  "distinct (map f xs) \<Longrightarrow> x \<in> set xs \<Longrightarrow> y \<in> set xs \<Longrightarrow> f x = f y \<Longrightarrow> x = y"
  by (auto simp: distinct_map inj_on_def)

lemma distinct_map_filterI: "distinct (map f xs) \<Longrightarrow> distinct (map f (filter P xs))"
  by (simp add: distinct_map_filter)

lemma map_replace:
  "(\<And>x. x \<in> set xs \<Longrightarrow> P x \<Longrightarrow> f y = f x) \<Longrightarrow>
   map f (map (\<lambda>x. if P x then y else x) xs) = map f xs"
  by (induction xs) auto

lemma map_sort_key: "map f (sort_key f xs) = sort (map f xs)"
  by (rule sym, rule properties_for_sort) simp_all

lemma sort_eq_upt_iff: "sort ys = map int [0..<n] \<longleftrightarrow> mset ys = mset (map int [0..<n])"
  by (metis mset_sort properties_for_sort sorted_map_int_upt)

section \<open>Transition systems\<close>

text \<open>
  The interface every stateful component is proved against: which states it starts in, how it
  steps, and an invariant that holds at the start and is kept by each step.
\<close>

locale invariant_system =
  fixes init :: "'s \<Rightarrow> bool"
    and step :: "'s \<Rightarrow> 's \<Rightarrow> bool"
    and inv :: "'s \<Rightarrow> bool"
  assumes inv_init: "init s \<Longrightarrow> inv s"
    and inv_step: "step s t \<Longrightarrow> inv s \<Longrightarrow> inv t"
begin

lemma inv_steps: "step\<^sup>*\<^sup>* s t \<Longrightarrow> inv s \<Longrightarrow> inv t"
  by (induction rule: rtranclp_induct) (auto intro: inv_step)

lemma inv_reachable: "init s \<Longrightarrow> step\<^sup>*\<^sup>* s t \<Longrightarrow> inv t"
  by (blast intro: inv_init inv_steps)

end

text \<open>
  A system that keeps a log of receipts under unique keys and only ever appends to it: what is
  promised to a client that retries a request it has a receipt for.
\<close>

locale receipt_store = invariant_system init step inv
  for init :: "'s \<Rightarrow> bool"
    and step :: "'s \<Rightarrow> 's \<Rightarrow> bool"
    and inv :: "'s \<Rightarrow> bool" +
  fixes log :: "'s \<Rightarrow> 'r list"
    and key :: "'r \<Rightarrow> 'k"
  assumes log_grows: "step s t \<Longrightarrow> inv s \<Longrightarrow> \<exists>new. log t = log s @ new"
    and log_unique: "inv s \<Longrightarrow> distinct (map key (log s))"
begin

lemma log_prefix: "step\<^sup>*\<^sup>* s t \<Longrightarrow> inv s \<Longrightarrow> \<exists>new. log t = log s @ new"
proof (induction rule: rtranclp_induct)
  case base
  then show ?case by simp
next
  case (step t u)
  then obtain new where "log t = log s @ new" by blast
  moreover have "\<exists>new. log u = log t @ new"
    using step by (blast intro: log_grows inv_steps)
  ultimately show ?case by auto
qed

lemma receipt_stable:
  assumes "step\<^sup>*\<^sup>* s t" "inv s" "find (\<lambda>x. key x = k) (log s) = Some r"
  shows "find (\<lambda>x. key x = k) (log t) = Some r"
proof -
  have "find P xs = Some r \<Longrightarrow> find P (xs @ ys) = Some r" for P and xs ys :: "'r list"
    by (induction xs) auto
  then show ?thesis
    using log_prefix [OF assms(1,2)] assms(3) by auto
qed

lemma receipt_once: "inv s \<Longrightarrow> r \<in> set (log s) \<Longrightarrow> r' \<in> set (log s) \<Longrightarrow> key r = key r' \<Longrightarrow> r = r'"
  by (rule distinct_map_eq [OF log_unique])

end

end
