(* ===== verification/Domain.thy ===== *)
theory Domain
  imports Prelude
begin

text \<open>
  The Journey domain of the web client, \<open>apps/web/src/features/journeys/domain.ts\<close>: its data
  types, the validators of the three form inputs, the selectors, and the reader of stored
  data, with the invariant \<open>wf_data\<close> that the reader enforces. Numbers that the types of
  \<open>JourneyData\<close> hold are integers; the one unchecked number of an input (the packing
  quantity, which comes from \<open>Number(event.target.value)\<close>) is a full \<open>jsnum\<close>.
\<close>

section \<open>Data\<close>

datatype journey_status = Planning | Active | Completed | Archived

datatype packing_category = Documents | Clothing | Toiletries | Electronics | Other

record journey =
  j_id :: string
  j_name :: string
  j_startDate :: "string option"
  j_endDate :: "string option"
  j_status :: journey_status
  j_recordVersion :: int
  j_createdAt :: string
  j_updatedAt :: string

text \<open>What a stay and a move have of their own (the tag \<open>kind\<close> is the constructor).\<close>

datatype segment_detail =
    Stay (placeName: string)
  | Move (originName: string) (destinationName: string) (transportMode: string)

record segment =
  s_id :: string
  s_journeyId :: string
  s_position :: int
  s_startDate :: "string option"
  s_endDate :: "string option"
  s_notes :: string
  s_recordVersion :: int
  s_createdAt :: string
  s_updatedAt :: string
  s_detail :: segment_detail

record packing_item =
  p_id :: string
  p_journeyId :: string
  p_label :: string
  p_category :: packing_category
  p_quantity :: int
  p_packedQuantity :: int
  p_essential :: bool
  p_recordVersion :: int
  p_createdAt :: string
  p_updatedAt :: string

text \<open>\<open>JourneyData\<close>; its field \<open>schemaVersion\<close> has the literal type \<open>1\<close>.\<close>

record journey_data =
  journeys :: "journey list"
  segments :: "segment list"
  packingItems :: "packing_item list"

definition EMPTY_JOURNEY_DATA :: journey_data where
  "EMPTY_JOURNEY_DATA = \<lparr>journeys = [], segments = [], packingItems = []\<rparr>"

record journey_input =
  ji_name :: string
  ji_startDate :: string
  ji_endDate :: string

record segment_input =
  si_detail :: segment_detail
  si_startDate :: string
  si_endDate :: string
  si_notes :: string

record packing_input =
  pi_label :: string
  pi_category :: packing_category
  pi_quantity :: jsnum
  pi_essential :: bool

section \<open>Validators\<close>

datatype validation_error =
  Name_required | Date_order | Place_required | Route_required
  | Packing_label_required | Quantity_invalid

definition date_order_violated :: "string \<Rightarrow> string \<Rightarrow> bool" where
  "date_order_violated startDate endDate \<longleftrightarrow>
     startDate \<noteq> '''' \<and> endDate \<noteq> '''' \<and> endDate < startDate"

definition validateJourney :: "journey_input \<Rightarrow> validation_error list" where
  "validateJourney input =
     (if length (js_trim (ji_name input)) = 0 then [Name_required] else [])
     @ (if date_order_violated (ji_startDate input) (ji_endDate input) then [Date_order] else [])"

definition validateSegment :: "segment_input \<Rightarrow> validation_error list" where
  "validateSegment input =
     (if date_order_violated (si_startDate input) (si_endDate input) then [Date_order] else [])
     @ (case si_detail input of
          Stay place \<Rightarrow> if length (js_trim place) = 0 then [Place_required] else []
        | Move origin destination mode \<Rightarrow>
            if length (js_trim origin) = 0 \<or> length (js_trim destination) = 0
            then [Route_required] else [])"

definition validatePacking :: "packing_input \<Rightarrow> validation_error list" where
  "validatePacking input =
     (if length (js_trim (pi_label input)) = 0 then [Packing_label_required] else [])
     @ (if \<not> num_isInteger (pi_quantity input)
           \<or> num_lt (pi_quantity input) (of_int_num 1) \<or> num_lt (of_int_num 99) (pi_quantity input)
        then [Quantity_invalid] else [])"

section \<open>Selectors\<close>

definition segmentsForJourney :: "journey_data \<Rightarrow> string \<Rightarrow> segment list" where
  "segmentsForJourney data journeyId =
     sort_key s_position (filter (\<lambda>s. s_journeyId s = journeyId) (segments data))"

definition packingForJourney :: "journey_data \<Rightarrow> string \<Rightarrow> packing_item list" where
  "packingForJourney data journeyId =
     filter (\<lambda>p. p_journeyId p = journeyId) (packingItems data)"

text \<open>The pair of \<open>packed\<close> and \<open>total\<close>.\<close>

definition packingProgress :: "packing_item list \<Rightarrow> int \<times> int" where
  "packingProgress items =
     foldl (\<lambda>(packed, total) item. (packed + p_packedQuantity item, total + p_quantity item))
       (0, 0) items"

section \<open>Reading stored data\<close>

definition status_table :: "(string \<times> journey_status) list" where
  "status_table = [(''planning'', Planning), (''active'', Active),
     (''completed'', Completed), (''archived'', Archived)]"

definition category_table :: "(string \<times> packing_category) list" where
  "category_table = [(''documents'', Documents), (''clothing'', Clothing),
     (''toiletries'', Toiletries), (''electronics'', Electronics), (''other'', Other)]"

fun status_name :: "journey_status \<Rightarrow> string" where
  "status_name Planning = ''planning''"
| "status_name Active = ''active''"
| "status_name Completed = ''completed''"
| "status_name Archived = ''archived''"

fun category_name :: "packing_category \<Rightarrow> string" where
  "category_name Documents = ''documents''"
| "category_name Clothing = ''clothing''"
| "category_name Toiletries = ''toiletries''"
| "category_name Electronics = ''electronics''"
| "category_name Other = ''other''"

text \<open>\<open>LOCAL_DATE = /^\d{4}-\d{2}-\d{2}$/\<close>.\<close>

definition LOCAL_DATE :: "string \<Rightarrow> bool" where
  "LOCAL_DATE =
     seq_match (replicate 4 is_digit @ [(=) CHR ''-''] @ replicate 2 is_digit
       @ [(=) CHR ''-''] @ replicate 2 is_digit)"

fun nonEmptyString :: "jsval \<Rightarrow> bool" where
  "nonEmptyString (JStr s) = (length (js_trim s) > 0)"
| "nonEmptyString _ = False"

fun nullableDate :: "jsval \<Rightarrow> bool" where
  "nullableDate JNull = True"
| "nullableDate (JStr s) = LOCAL_DATE s"
| "nullableDate _ = False"

fun positiveVersion :: "jsval \<Rightarrow> bool" where
  "positiveVersion (JNum n) = (num_isInteger n \<and> \<not> num_lt n (of_int_num 1))"
| "positiveVersion _ = False"

text \<open>
  The host's \<open>Date.parse\<close> is the parameter \<open>dp\<close>: which strings it reads as a time. Beyond the
  ISO format the language leaves it to the implementation.
\<close>

fun isoTimestamp :: "(string \<Rightarrow> bool) \<Rightarrow> jsval \<Rightarrow> bool" where
  "isoTimestamp dp (JStr s) = (dp s \<and> CHR ''T'' \<in> set s)"
| "isoTimestamp dp _ = False"

text \<open>The guard \<open>a && b && b < a\<close> on two values that passed \<open>nullableDate\<close>.\<close>

definition dates_reversed :: "jsval \<Rightarrow> jsval \<Rightarrow> bool" where
  "dates_reversed s e \<longleftrightarrow> truthy s \<and> truthy e \<and> str_of e < str_of s"

datatype local_error = Invalid_local_data

definition journey_ok :: "(string \<Rightarrow> bool) \<Rightarrow> string set \<Rightarrow> jsval \<Rightarrow> bool" where
  "journey_ok dp journeyIds v \<longleftrightarrow>
     (let get = obj_get (props_of v) in
      isRecord v \<and> nonEmptyString (get ''id'') \<and> str_of (get ''id'') \<notin> journeyIds
      \<and> nonEmptyString (get ''name'')
      \<and> is_str (get ''status'') \<and> str_of (get ''status'') \<in> set (map fst status_table)
      \<and> nullableDate (get ''startDate'') \<and> nullableDate (get ''endDate'')
      \<and> \<not> dates_reversed (get ''startDate'') (get ''endDate'')
      \<and> positiveVersion (get ''recordVersion'')
      \<and> isoTimestamp dp (get ''createdAt'') \<and> isoTimestamp dp (get ''updatedAt''))"

fun check_journeys :: "(string \<Rightarrow> bool) \<Rightarrow> string set \<Rightarrow> jsval list \<Rightarrow> local_error + string set" where
  "check_journeys dp journeyIds [] = Inr journeyIds"
| "check_journeys dp journeyIds (v # vs) =
     (if journey_ok dp journeyIds v
      then check_journeys dp (insert (str_of (obj_get (props_of v) ''id'')) journeyIds) vs
      else Inl Invalid_local_data)"

definition segment_detail_ok :: "(string \<Rightarrow> jsval) \<Rightarrow> bool" where
  "segment_detail_ok get \<longleftrightarrow>
     (if get ''kind'' = JStr ''stay'' then nonEmptyString (get ''placeName'')
      else if get ''kind'' = JStr ''move'' then
        nonEmptyString (get ''originName'') \<and> nonEmptyString (get ''destinationName'')
        \<and> is_str (get ''transportMode'')
      else False)"

definition segment_ok :: "(string \<Rightarrow> bool) \<Rightarrow> string set \<Rightarrow> string set \<Rightarrow> jsval \<Rightarrow> bool" where
  "segment_ok dp journeyIds segmentIds v \<longleftrightarrow>
     (let get = obj_get (props_of v) in
      isRecord v \<and> nonEmptyString (get ''id'') \<and> str_of (get ''id'') \<notin> segmentIds
      \<and> nonEmptyString (get ''journeyId'') \<and> str_of (get ''journeyId'') \<in> journeyIds
      \<and> val_isInteger (get ''position'') \<and> \<not> val_int (get ''position'') < 0
      \<and> nullableDate (get ''startDate'') \<and> nullableDate (get ''endDate'')
      \<and> \<not> dates_reversed (get ''startDate'') (get ''endDate'')
      \<and> is_str (get ''notes'')
      \<and> positiveVersion (get ''recordVersion'')
      \<and> isoTimestamp dp (get ''createdAt'') \<and> isoTimestamp dp (get ''updatedAt'')
      \<and> segment_detail_ok get)"

text \<open>
  \<open>positions\<close> is \<open>positionsByJourney\<close>, the positions already taken in each journey;
  \<open>taken\<close> is \<open>positionsByJourney.get(journeyId) ?? new Set()\<close>.
\<close>

definition taken :: "(string \<rightharpoonup> int set) \<Rightarrow> string \<Rightarrow> int set" where
  "taken positions j = (case positions j of Some ps \<Rightarrow> ps | None \<Rightarrow> {})"

fun check_segments ::
  "(string \<Rightarrow> bool) \<Rightarrow> string set \<Rightarrow> string set \<Rightarrow> (string \<rightharpoonup> int set) \<Rightarrow> jsval list \<Rightarrow> local_error + unit"
where
  "check_segments dp journeyIds segmentIds positions [] = Inr ()"
| "check_segments dp journeyIds segmentIds positions (v # vs) =
     (let get = obj_get (props_of v);
          jid = str_of (get ''journeyId'')
      in if \<not> segment_ok dp journeyIds segmentIds v then Inl Invalid_local_data
         else if val_int (get ''position'') \<in> taken positions jid then Inl Invalid_local_data
         else check_segments dp journeyIds (insert (str_of (get ''id'')) segmentIds)
                (positions(jid \<mapsto> insert (val_int (get ''position'')) (taken positions jid))) vs)"

definition packing_ok :: "(string \<Rightarrow> bool) \<Rightarrow> string set \<Rightarrow> string set \<Rightarrow> jsval \<Rightarrow> bool" where
  "packing_ok dp journeyIds packingIds v \<longleftrightarrow>
     (let get = obj_get (props_of v) in
      isRecord v \<and> nonEmptyString (get ''id'') \<and> str_of (get ''id'') \<notin> packingIds
      \<and> nonEmptyString (get ''journeyId'') \<and> str_of (get ''journeyId'') \<in> journeyIds
      \<and> nonEmptyString (get ''label'')
      \<and> is_str (get ''category'') \<and> str_of (get ''category'') \<in> set (map fst category_table)
      \<and> val_isInteger (get ''quantity'') \<and> val_isInteger (get ''packedQuantity'')
      \<and> \<not> val_int (get ''quantity'') < 1 \<and> \<not> val_int (get ''quantity'') > 99
      \<and> \<not> val_int (get ''packedQuantity'') < 0
      \<and> \<not> val_int (get ''packedQuantity'') > val_int (get ''quantity'')
      \<and> is_bool (get ''essential'')
      \<and> positiveVersion (get ''recordVersion'')
      \<and> isoTimestamp dp (get ''createdAt'') \<and> isoTimestamp dp (get ''updatedAt''))"

fun check_packing :: "(string \<Rightarrow> bool) \<Rightarrow> string set \<Rightarrow> string set \<Rightarrow> jsval list \<Rightarrow> local_error + unit"
where
  "check_packing dp journeyIds packingIds [] = Inr ()"
| "check_packing dp journeyIds packingIds (v # vs) =
     (if packing_ok dp journeyIds packingIds v
      then check_packing dp journeyIds (insert (str_of (obj_get (props_of v) ''id'')) packingIds) vs
      else Inl Invalid_local_data)"

text \<open>The checked clone at its TypeScript type.\<close>

fun opt_str :: "jsval \<Rightarrow> string option" where
  "opt_str (JStr s) = Some s"
| "opt_str _ = None"

definition journey_view :: "jsval \<Rightarrow> journey" where
  "journey_view v =
     (let get = obj_get (props_of v) in
      \<lparr>j_id = str_of (get ''id''), j_name = str_of (get ''name''),
       j_startDate = opt_str (get ''startDate''), j_endDate = opt_str (get ''endDate''),
       j_status = the (map_of status_table (str_of (get ''status''))),
       j_recordVersion = val_int (get ''recordVersion''),
       j_createdAt = str_of (get ''createdAt''), j_updatedAt = str_of (get ''updatedAt'')\<rparr>)"

definition segment_view :: "jsval \<Rightarrow> segment" where
  "segment_view v =
     (let get = obj_get (props_of v) in
      \<lparr>s_id = str_of (get ''id''), s_journeyId = str_of (get ''journeyId''),
       s_position = val_int (get ''position''),
       s_startDate = opt_str (get ''startDate''), s_endDate = opt_str (get ''endDate''),
       s_notes = str_of (get ''notes''), s_recordVersion = val_int (get ''recordVersion''),
       s_createdAt = str_of (get ''createdAt''), s_updatedAt = str_of (get ''updatedAt''),
       s_detail =
         (if get ''kind'' = JStr ''stay'' then Stay (str_of (get ''placeName''))
          else Move (str_of (get ''originName'')) (str_of (get ''destinationName''))
                 (str_of (get ''transportMode'')))\<rparr>)"

definition packing_view :: "jsval \<Rightarrow> packing_item" where
  "packing_view v =
     (let get = obj_get (props_of v) in
      \<lparr>p_id = str_of (get ''id''), p_journeyId = str_of (get ''journeyId''),
       p_label = str_of (get ''label''),
       p_category = the (map_of category_table (str_of (get ''category''))),
       p_quantity = val_int (get ''quantity''), p_packedQuantity = val_int (get ''packedQuantity''),
       p_essential = bool_of (get ''essential''), p_recordVersion = val_int (get ''recordVersion''),
       p_createdAt = str_of (get ''createdAt''), p_updatedAt = str_of (get ''updatedAt'')\<rparr>)"

definition parseJourneyData :: "(string \<Rightarrow> bool) \<Rightarrow> jsval \<Rightarrow> local_error + journey_data" where
  "parseJourneyData dp v =
     (let get = obj_get (props_of v);
          js = get ''journeys''; ss = get ''segments''; ps = get ''packingItems''
      in rbind (guard (isRecord v \<and> val_isInteger (get ''schemaVersion'')
                       \<and> val_int (get ''schemaVersion'') = 1) Invalid_local_data) (\<lambda>_.
         rbind (guard (is_arr js \<and> is_arr ss \<and> is_arr ps) Invalid_local_data) (\<lambda>_.
         rbind (check_journeys dp {} (arr_of js)) (\<lambda>journeyIds.
         rbind (check_segments dp journeyIds {} (\<lambda>_. None) (arr_of ss)) (\<lambda>_.
         rbind (check_packing dp journeyIds {} (arr_of ps)) (\<lambda>_.
         Inr \<lparr>journeys = map journey_view (arr_of js), segments = map segment_view (arr_of ss),
              packingItems = map packing_view (arr_of ps)\<rparr>))))))"

text \<open>The stored form of typed data, as \<open>structuredClone\<close> or JSON hands it back.\<close>

fun opt_js :: "string option \<Rightarrow> jsval" where
  "opt_js None = JNull"
| "opt_js (Some s) = JStr s"

definition journey_js :: "journey \<Rightarrow> jsval" where
  "journey_js j = JObj
     [(''id'', JStr (j_id j)), (''name'', JStr (j_name j)),
      (''startDate'', opt_js (j_startDate j)), (''endDate'', opt_js (j_endDate j)),
      (''status'', JStr (status_name (j_status j))),
      (''recordVersion'', JInt (j_recordVersion j)),
      (''createdAt'', JStr (j_createdAt j)), (''updatedAt'', JStr (j_updatedAt j))]"

definition detail_js :: "segment_detail \<Rightarrow> (string \<times> jsval) list" where
  "detail_js d =
     (case d of
        Stay place \<Rightarrow> [(''kind'', JStr ''stay''), (''placeName'', JStr place)]
      | Move origin destination mode \<Rightarrow>
          [(''kind'', JStr ''move''), (''originName'', JStr origin),
           (''destinationName'', JStr destination), (''transportMode'', JStr mode)])"

definition segment_js :: "segment \<Rightarrow> jsval" where
  "segment_js s = JObj
     ([(''id'', JStr (s_id s)), (''journeyId'', JStr (s_journeyId s)),
       (''position'', JInt (s_position s)),
       (''startDate'', opt_js (s_startDate s)), (''endDate'', opt_js (s_endDate s)),
       (''notes'', JStr (s_notes s)), (''recordVersion'', JInt (s_recordVersion s)),
       (''createdAt'', JStr (s_createdAt s)), (''updatedAt'', JStr (s_updatedAt s))]
      @ detail_js (s_detail s))"

definition packing_js :: "packing_item \<Rightarrow> jsval" where
  "packing_js p = JObj
     [(''id'', JStr (p_id p)), (''journeyId'', JStr (p_journeyId p)),
      (''label'', JStr (p_label p)), (''category'', JStr (category_name (p_category p))),
      (''quantity'', JInt (p_quantity p)), (''packedQuantity'', JInt (p_packedQuantity p)),
      (''essential'', JBool (p_essential p)), (''recordVersion'', JInt (p_recordVersion p)),
      (''createdAt'', JStr (p_createdAt p)), (''updatedAt'', JStr (p_updatedAt p))]"

definition data_js :: "journey_data \<Rightarrow> jsval" where
  "data_js d = JObj
     [(''schemaVersion'', JInt 1), (''journeys'', JArr (map journey_js (journeys d))),
      (''segments'', JArr (map segment_js (segments d))),
      (''packingItems'', JArr (map packing_js (packingItems d)))]"

section \<open>The invariant of stored data\<close>

definition date_ok :: "string option \<Rightarrow> bool" where
  "date_ok d \<longleftrightarrow> (case d of None \<Rightarrow> True | Some s \<Rightarrow> LOCAL_DATE s)"

definition dates_ok :: "string option \<Rightarrow> string option \<Rightarrow> bool" where
  "dates_ok s e \<longleftrightarrow> date_ok s \<and> date_ok e
     \<and> (case (s, e) of (Some x, Some y) \<Rightarrow> x \<le> y | _ \<Rightarrow> True)"

definition stamp_ok :: "(string \<Rightarrow> bool) \<Rightarrow> string \<Rightarrow> bool" where
  "stamp_ok dp s \<longleftrightarrow> dp s \<and> CHR ''T'' \<in> set s"

definition wf_journey :: "(string \<Rightarrow> bool) \<Rightarrow> journey \<Rightarrow> bool" where
  "wf_journey dp j \<longleftrightarrow> \<not> blank (j_id j) \<and> \<not> blank (j_name j)
     \<and> dates_ok (j_startDate j) (j_endDate j) \<and> 1 \<le> j_recordVersion j
     \<and> stamp_ok dp (j_createdAt j) \<and> stamp_ok dp (j_updatedAt j)"

definition wf_detail :: "segment_detail \<Rightarrow> bool" where
  "wf_detail d \<longleftrightarrow> (case d of Stay place \<Rightarrow> \<not> blank place
     | Move origin destination mode \<Rightarrow> \<not> blank origin \<and> \<not> blank destination)"

definition wf_segment :: "(string \<Rightarrow> bool) \<Rightarrow> segment \<Rightarrow> bool" where
  "wf_segment dp s \<longleftrightarrow> \<not> blank (s_id s) \<and> \<not> blank (s_journeyId s) \<and> 0 \<le> s_position s
     \<and> dates_ok (s_startDate s) (s_endDate s) \<and> 1 \<le> s_recordVersion s
     \<and> stamp_ok dp (s_createdAt s) \<and> stamp_ok dp (s_updatedAt s) \<and> wf_detail (s_detail s)"

definition wf_packing :: "(string \<Rightarrow> bool) \<Rightarrow> packing_item \<Rightarrow> bool" where
  "wf_packing dp p \<longleftrightarrow> \<not> blank (p_id p) \<and> \<not> blank (p_journeyId p) \<and> \<not> blank (p_label p)
     \<and> 1 \<le> p_quantity p \<and> p_quantity p \<le> 99
     \<and> 0 \<le> p_packedQuantity p \<and> p_packedQuantity p \<le> p_quantity p
     \<and> 1 \<le> p_recordVersion p
     \<and> stamp_ok dp (p_createdAt p) \<and> stamp_ok dp (p_updatedAt p)"

abbreviation slot :: "segment \<Rightarrow> string \<times> int" where
  "slot s \<equiv> (s_journeyId s, s_position s)"

abbreviation journey_ids :: "journey_data \<Rightarrow> string set" where
  "journey_ids d \<equiv> j_id ` set (journeys d)"

definition wf_journeys :: "(string \<Rightarrow> bool) \<Rightarrow> journey_data \<Rightarrow> bool" where
  "wf_journeys dp d \<longleftrightarrow> (\<forall>j \<in> set (journeys d). wf_journey dp j) \<and> distinct (map j_id (journeys d))"

definition wf_segments :: "(string \<Rightarrow> bool) \<Rightarrow> journey_data \<Rightarrow> bool" where
  "wf_segments dp d \<longleftrightarrow>
     (\<forall>s \<in> set (segments d). wf_segment dp s \<and> s_journeyId s \<in> journey_ids d)
     \<and> distinct (map s_id (segments d)) \<and> distinct (map slot (segments d))"

definition wf_packings :: "(string \<Rightarrow> bool) \<Rightarrow> journey_data \<Rightarrow> bool" where
  "wf_packings dp d \<longleftrightarrow>
     (\<forall>p \<in> set (packingItems d). wf_packing dp p \<and> p_journeyId p \<in> journey_ids d)
     \<and> distinct (map p_id (packingItems d))"

definition wf_data :: "(string \<Rightarrow> bool) \<Rightarrow> journey_data \<Rightarrow> bool" where
  "wf_data dp d \<longleftrightarrow> wf_journeys dp d \<and> wf_segments dp d \<and> wf_packings dp d"

lemmas wf_item_defs = wf_journey_def wf_segment_def wf_packing_def
lemmas wf_data_defs = wf_data_def wf_journeys_def wf_segments_def wf_packings_def

lemma wf_dataD:
  assumes "wf_data dp d"
  shows "j \<in> set (journeys d) \<Longrightarrow> wf_journey dp j"
    and "s \<in> set (segments d) \<Longrightarrow> wf_segment dp s"
    and "s \<in> set (segments d) \<Longrightarrow> s_journeyId s \<in> journey_ids d"
    and "p \<in> set (packingItems d) \<Longrightarrow> wf_packing dp p"
    and "p \<in> set (packingItems d) \<Longrightarrow> p_journeyId p \<in> journey_ids d"
    and "distinct (map j_id (journeys d))"
    and "distinct (map s_id (segments d))"
    and "distinct (map slot (segments d))"
    and "distinct (map p_id (packingItems d))"
  using assms by (auto simp: wf_data_defs)

section \<open>The reader enforces the invariant\<close>

lemma nonEmptyString_iff: "nonEmptyString v \<longleftrightarrow> is_str v \<and> \<not> blank (str_of v)"
  by (cases v) (auto simp: blank_def)

lemma positiveVersion_iff: "positiveVersion v \<longleftrightarrow> val_isInteger v \<and> 1 \<le> val_int v"
  by (cases v) (auto simp: num_lt_integer)

lemma isoTimestamp_iff: "isoTimestamp dp v \<longleftrightarrow> is_str v \<and> stamp_ok dp (str_of v)"
  by (cases v) (auto simp: stamp_ok_def)

lemma LOCAL_DATE_nonempty: "\<not> LOCAL_DATE ''''"
  by (simp add: LOCAL_DATE_def seq_match_def)

lemma nullableDate_dates:
  "nullableDate s \<Longrightarrow> nullableDate e \<Longrightarrow>
   \<not> dates_reversed s e \<longleftrightarrow> dates_ok (opt_str s) (opt_str e)"
  by (cases s; cases e)
    (auto simp: dates_reversed_def dates_ok_def date_ok_def LOCAL_DATE_nonempty)

lemma status_table_names: "map_of status_table (status_name s) = Some s"
  by (cases s) (simp_all add: status_table_def)

lemma category_table_names: "map_of category_table (category_name c) = Some c"
  by (cases c) (simp_all add: category_table_def)

lemma status_name_in_table: "status_name s \<in> set (map fst status_table)"
  by (cases s) (simp_all add: status_table_def)

lemma category_name_in_table: "category_name c \<in> set (map fst category_table)"
  by (cases c) (simp_all add: category_table_def)

lemmas ok_iffs = nonEmptyString_iff positiveVersion_iff isoTimestamp_iff

lemma journey_ok_ids: "journey_ok dp ids v \<longleftrightarrow> journey_ok dp {} v \<and> j_id (journey_view v) \<notin> ids"
  by (auto simp: journey_ok_def journey_view_def Let_def)

lemma segment_ok_ids:
  "segment_ok dp J ids v \<longleftrightarrow> segment_ok dp J {} v \<and> s_id (segment_view v) \<notin> ids"
  by (auto simp: segment_ok_def segment_view_def Let_def)

lemma packing_ok_ids:
  "packing_ok dp J ids v \<longleftrightarrow> packing_ok dp J {} v \<and> p_id (packing_view v) \<notin> ids"
  by (auto simp: packing_ok_def packing_view_def Let_def)

lemma journey_ok_wf: "journey_ok dp {} v \<Longrightarrow> wf_journey dp (journey_view v)"
  using nullableDate_dates
  by (auto simp: journey_ok_def journey_view_def wf_journey_def Let_def ok_iffs)

lemma segment_ok_wf:
  "segment_ok dp J {} v \<Longrightarrow>
   wf_segment dp (segment_view v) \<and> s_journeyId (segment_view v) \<in> J"
  using nullableDate_dates
  by (auto simp: segment_ok_def segment_view_def wf_segment_def Let_def ok_iffs
      segment_detail_ok_def wf_detail_def split: if_splits)

lemma packing_ok_wf:
  "packing_ok dp J {} v \<Longrightarrow>
   wf_packing dp (packing_view v) \<and> p_journeyId (packing_view v) \<in> J"
  by (simp add: packing_ok_def packing_view_def wf_packing_def Let_def ok_iffs not_less)

lemma check_journeys_iff:
  "check_journeys dp ids vs = Inr ids' \<longleftrightarrow>
     (\<forall>v \<in> set vs. journey_ok dp {} v) \<and> distinct (map (\<lambda>v. j_id (journey_view v)) vs)
     \<and> (\<lambda>v. j_id (journey_view v)) ` set vs \<inter> ids = {}
     \<and> ids' = ids \<union> (\<lambda>v. j_id (journey_view v)) ` set vs"
proof (induction vs arbitrary: ids)
  case Nil
  then show ?case by auto
next
  case (Cons v vs)
  have id: "str_of (obj_get (props_of v) ''id'') = j_id (journey_view v)"
    by (simp add: journey_view_def Let_def)
  show ?case
    by (subst check_journeys.simps, subst journey_ok_ids) (auto simp: Cons.IH id)
qed

lemma taken_upd [simp]:
  "taken (positions(j \<mapsto> ps)) k = (if k = j then ps else taken positions k)"
  by (simp add: taken_def)

lemma taken_free:
  "(\<forall>w \<in> W. q w \<notin> taken (positions(j \<mapsto> insert p (taken positions j))) (k w)) \<longleftrightarrow>
     (j, p) \<notin> (\<lambda>w. (k w, q w)) ` W \<and> (\<forall>w \<in> W. q w \<notin> taken positions (k w))"
  by (auto simp: image_iff)

lemma check_segments_iff:
  "check_segments dp J ids positions vs = Inr () \<longleftrightarrow>
     (\<forall>v \<in> set vs. segment_ok dp J {} v) \<and> distinct (map (\<lambda>v. s_id (segment_view v)) vs)
     \<and> (\<lambda>v. s_id (segment_view v)) ` set vs \<inter> ids = {}
     \<and> distinct (map (\<lambda>v. slot (segment_view v)) vs)
     \<and> (\<forall>v \<in> set vs. s_position (segment_view v) \<notin> taken positions (s_journeyId (segment_view v)))"
proof (induction vs arbitrary: ids positions)
  case Nil
  then show ?case by simp
next
  case (Cons v vs)
  have sv: "str_of (obj_get (props_of v) ''id'') = s_id (segment_view v)"
      "str_of (obj_get (props_of v) ''journeyId'') = s_journeyId (segment_view v)"
      "val_int (obj_get (props_of v) ''position'') = s_position (segment_view v)"
    by (simp_all add: segment_view_def Let_def)
  let ?i = "s_id (segment_view v)" and ?j = "s_journeyId (segment_view v)"
    and ?p = "s_position (segment_view v)"
  have step: "check_segments dp J ids positions (v # vs) = Inr () \<longleftrightarrow>
      segment_ok dp J {} v \<and> ?i \<notin> ids \<and> ?p \<notin> taken positions ?j
      \<and> check_segments dp J (insert ?i ids) (positions(?j \<mapsto> insert ?p (taken positions ?j))) vs
          = Inr ()"
    by (subst check_segments.simps, subst segment_ok_ids) (simp add: Let_def sv)
  show ?case
    unfolding step Cons.IH taken_free by (simp split: if_splits) (metis (no_types, lifting))
qed

lemma check_packing_iff:
  "check_packing dp J ids vs = Inr () \<longleftrightarrow>
     (\<forall>v \<in> set vs. packing_ok dp J {} v) \<and> distinct (map (\<lambda>v. p_id (packing_view v)) vs)
     \<and> (\<lambda>v. p_id (packing_view v)) ` set vs \<inter> ids = {}"
proof (induction vs arbitrary: ids)
  case Nil
  then show ?case by simp
next
  case (Cons v vs)
  have id: "str_of (obj_get (props_of v) ''id'') = p_id (packing_view v)"
    by (simp add: packing_view_def Let_def)
  show ?case
    by (subst check_packing.simps, subst packing_ok_ids) (auto simp: Cons.IH id)
qed

lemma parse_Inr_iff:
  "parseJourneyData dp v = Inr d \<longleftrightarrow>
     (let get = obj_get (props_of v) in
      isRecord v \<and> val_isInteger (get ''schemaVersion'') \<and> val_int (get ''schemaVersion'') = 1
      \<and> is_arr (get ''journeys'') \<and> is_arr (get ''segments'') \<and> is_arr (get ''packingItems'')
      \<and> (\<forall>v \<in> set (arr_of (get ''journeys'')). journey_ok dp {} v)
      \<and> (\<forall>v \<in> set (arr_of (get ''segments'')). segment_ok dp (journey_ids d) {} v)
      \<and> (\<forall>v \<in> set (arr_of (get ''packingItems'')). packing_ok dp (journey_ids d) {} v)
      \<and> distinct (map j_id (journeys d)) \<and> distinct (map s_id (segments d))
      \<and> distinct (map slot (segments d)) \<and> distinct (map p_id (packingItems d))
      \<and> d = \<lparr>journeys = map journey_view (arr_of (get ''journeys'')),
             segments = map segment_view (arr_of (get ''segments'')),
             packingItems = map packing_view (arr_of (get ''packingItems''))\<rparr>)"
  by (auto simp: parseJourneyData_def Let_def rbind_Inr_iff check_journeys_iff check_segments_iff
      check_packing_iff taken_def image_comp comp_def)

lemma parse_wf:
  assumes "parseJourneyData dp v = Inr d"
  shows "wf_data dp d"
proof -
  note p = assms [unfolded parse_Inr_iff Let_def]
  have "\<forall>j \<in> set (journeys d). wf_journey dp j"
    using p journey_ok_wf by auto
  moreover have "\<forall>s \<in> set (segments d). wf_segment dp s \<and> s_journeyId s \<in> journey_ids d"
    using p segment_ok_wf by auto
  moreover have "\<forall>i \<in> set (packingItems d). wf_packing dp i \<and> p_journeyId i \<in> journey_ids d"
    using p packing_ok_wf by auto
  ultimately show ?thesis
    using p unfolding wf_data_defs by blast
qed

section \<open>The round trip through the stored form\<close>

lemma opt_js_simps [simp]:
  "opt_str (opt_js d) = d" "nullableDate (opt_js d) \<longleftrightarrow> date_ok d"
  by (cases d; simp add: date_ok_def)+

lemma opt_js_reversed:
  "date_ok s \<Longrightarrow> date_ok e \<Longrightarrow> \<not> dates_reversed (opt_js s) (opt_js e) \<longleftrightarrow> dates_ok s e"
  using nullableDate_dates [of "opt_js s" "opt_js e"] by simp

lemma dates_ok_iff:
  "date_ok s \<and> date_ok e \<and> \<not> dates_reversed (opt_js s) (opt_js e) \<longleftrightarrow> dates_ok s e"
  using opt_js_reversed by (auto simp: dates_ok_def)

declare obj_get_Cons [simp]

lemma journey_view_js [simp]: "journey_view (journey_js j) = j"
  by (simp add: journey_view_def journey_js_def Let_def status_table_names)

lemma segment_view_js [simp]: "segment_view (segment_js s) = s"
  by (cases "s_detail s") (simp_all add: segment_view_def segment_js_def detail_js_def Let_def)

lemma packing_view_js [simp]: "packing_view (packing_js p) = p"
  by (simp add: packing_view_def packing_js_def Let_def category_table_names)

lemma journey_ok_js: "journey_ok dp {} (journey_js j) \<longleftrightarrow> wf_journey dp j"
  using status_name_in_table [of "j_status j"]
  by (auto simp: journey_ok_def journey_js_def wf_journey_def Let_def ok_iffs
      dates_ok_iff [symmetric])

lemma segment_ok_js:
  "segment_ok dp J {} (segment_js s) \<longleftrightarrow> wf_segment dp s \<and> s_journeyId s \<in> J"
  by (cases "s_detail s")
    (auto simp: segment_ok_def segment_js_def detail_js_def wf_segment_def Let_def ok_iffs
      segment_detail_ok_def wf_detail_def dates_ok_iff [symmetric])

lemma packing_ok_js:
  "packing_ok dp J {} (packing_js p) \<longleftrightarrow> wf_packing dp p \<and> p_journeyId p \<in> J"
  using category_name_in_table [of "p_category p"]
  by (auto simp: packing_ok_def packing_js_def wf_packing_def Let_def ok_iffs not_less)

lemma parse_data_js: "parseJourneyData dp (data_js d) = Inr d \<longleftrightarrow> wf_data dp d"
  by (auto simp: parse_Inr_iff Let_def data_js_def wf_data_defs journey_ok_js segment_ok_js
      packing_ok_js comp_def)

section \<open>Facts about the validators and selectors\<close>

lemma validateJourney_nil:
  "validateJourney input = [] \<longleftrightarrow>
     \<not> blank (ji_name input) \<and> \<not> date_order_violated (ji_startDate input) (ji_endDate input)"
  by (simp add: validateJourney_def blank_def)

lemma validateSegment_nil:
  "validateSegment input = [] \<longleftrightarrow>
     wf_detail (si_detail input) \<and> \<not> date_order_violated (si_startDate input) (si_endDate input)"
  by (cases "si_detail input") (auto simp: validateSegment_def wf_detail_def blank_def)

lemma validatePacking_nil:
  "validatePacking input = [] \<longleftrightarrow>
     \<not> blank (pi_label input) \<and> num_isInteger (pi_quantity input)
     \<and> 1 \<le> num_int (pi_quantity input) \<and> num_int (pi_quantity input) \<le> 99"
  by (auto simp: validatePacking_def blank_def num_lt_integer split: if_splits)

text \<open>What a form's date field hands over: nothing, or a calendar date as the browser writes it.\<close>

definition date_input :: "string \<Rightarrow> bool" where
  "date_input s \<longleftrightarrow> s = '''' \<or> LOCAL_DATE s"

lemma dates_ok_input:
  "date_input s \<Longrightarrow> date_input e \<Longrightarrow> \<not> date_order_violated s e \<Longrightarrow>
   dates_ok (or_null s) (or_null e)"
  by (auto simp: dates_ok_def date_ok_def or_null_def date_input_def date_order_violated_def)

lemma packingProgress_sum:
  "packingProgress items = (sum_list (map p_packedQuantity items), sum_list (map p_quantity items))"
proof -
  have "foldl (\<lambda>(packed, total) item. (packed + p_packedQuantity item, total + p_quantity item))
      (a, b) items
    = (a + sum_list (map p_packedQuantity items), b + sum_list (map p_quantity items))" for a b
    by (induction items arbitrary: a b) auto
  then show ?thesis
    by (simp add: packingProgress_def)
qed

lemma set_segmentsForJourney [simp]:
  "set (segmentsForJourney d j) = {s \<in> set (segments d). s_journeyId s = j}"
  by (auto simp: segmentsForJourney_def)

lemma mset_segmentsForJourney:
  "mset (segmentsForJourney d j) = mset (filter (\<lambda>s. s_journeyId s = j) (segments d))"
  by (simp add: segmentsForJourney_def)

lemma length_segmentsForJourney:
  "length (segmentsForJourney d j) = length (filter (\<lambda>s. s_journeyId s = j) (segments d))"
  by (simp add: segmentsForJourney_def)

end
