(* ===== verification/Journey_Service.thy ===== *)
theory Journey_Service
  imports Domain
begin

text \<open>
  The operations on \<open>JourneyData\<close> of \<open>apps/web/src/features/journeys/journey-service.ts\<close>.
  A throw is \<open>Inl\<close>; the impure \<open>Runtime\<close> (\<open>id()\<close> and \<open>now()\<close>) is a record of two streams
  with a cursor each, threaded through every call. No operation consults the runtime before
  its last check, so a throw leaves it as it was.
\<close>

section \<open>Runtime and errors\<close>

record runtime =
  rt_ids :: "nat \<Rightarrow> string"
  rt_nid :: nat
  rt_clock :: "nat \<Rightarrow> string"
  rt_nnow :: nat

definition rt_id :: "runtime \<Rightarrow> string \<times> runtime" where
  "rt_id rt = (rt_ids rt (rt_nid rt), rt\<lparr>rt_nid := Suc (rt_nid rt)\<rparr>)"

definition rt_now :: "runtime \<Rightarrow> string \<times> runtime" where
  "rt_now rt = (rt_clock rt (rt_nnow rt), rt\<lparr>rt_nnow := Suc (rt_nnow rt)\<rparr>)"

datatype operation_code = Journey_not_found | Item_not_found

datatype service_error =
    JourneyValidationError "validation_error list"
  | JourneyOperationError operation_code

definition assertValid :: "validation_error list \<Rightarrow> service_error + unit" where
  "assertValid codes = guard (codes = []) (JourneyValidationError codes)"

definition assertJourneyExists :: "journey_data \<Rightarrow> string \<Rightarrow> service_error + unit" where
  "assertJourneyExists data journeyId =
     guard (list_ex (\<lambda>j. j_id j = journeyId) (journeys data)) (JourneyOperationError Journey_not_found)"

definition assertOwnedItem :: "bool \<Rightarrow> service_error + unit" where
  "assertOwnedItem owned = guard owned (JourneyOperationError Item_not_found)"

text \<open>\<open>journeys.map(j => j.id === journeyId ? f(j, runtime.now()) : j)\<close>.\<close>

fun map_now ::
  "string \<Rightarrow> (string \<Rightarrow> journey \<Rightarrow> journey) \<Rightarrow> journey list \<Rightarrow> runtime \<Rightarrow> journey list \<times> runtime"
where
  "map_now journeyId f [] rt = ([], rt)"
| "map_now journeyId f (j # js) rt =
     (if j_id j = journeyId then
        let (now, rt1) = rt_now rt; (js', rt2) = map_now journeyId f js rt1 in (f now j # js', rt2)
      else
        let (js', rt1) = map_now journeyId f js rt in (j # js', rt1))"

definition touchJourney :: "journey_data \<Rightarrow> string \<Rightarrow> runtime \<Rightarrow> journey_data \<times> runtime" where
  "touchJourney data journeyId rt =
     (let (js, rt1) = map_now journeyId (\<lambda>now j. j\<lparr>j_updatedAt := now\<rparr>) (journeys data) rt
      in (data\<lparr>journeys := js\<rparr>, rt1))"

section \<open>Journeys\<close>

definition createJourney ::
  "journey_data \<Rightarrow> journey_input \<Rightarrow> runtime \<Rightarrow> service_error + ((journey_data \<times> journey) \<times> runtime)"
where
  "createJourney data input rt =
     rbind (assertValid (validateJourney input)) (\<lambda>_.
       let (timestamp, rt1) = rt_now rt;
           (newId, rt2) = rt_id rt1;
           journey = \<lparr>j_id = newId, j_name = js_trim (ji_name input),
             j_startDate = or_null (ji_startDate input), j_endDate = or_null (ji_endDate input),
             j_status = Planning, j_recordVersion = 1,
             j_createdAt = timestamp, j_updatedAt = timestamp\<rparr>
       in Inr ((data\<lparr>journeys := journeys data @ [journey]\<rparr>, journey), rt2))"

definition updateJourney ::
  "journey_data \<Rightarrow> string \<Rightarrow> journey_input \<Rightarrow> runtime \<Rightarrow> service_error + (journey_data \<times> runtime)"
where
  "updateJourney data journeyId input rt =
     rbind (assertJourneyExists data journeyId) (\<lambda>_.
     rbind (assertValid (validateJourney input)) (\<lambda>_.
       let (js, rt1) = map_now journeyId (\<lambda>now j. j\<lparr>j_name := js_trim (ji_name input),
               j_startDate := or_null (ji_startDate input),
               j_endDate := or_null (ji_endDate input), j_updatedAt := now\<rparr>) (journeys data) rt
       in Inr (data\<lparr>journeys := js\<rparr>, rt1)))"

definition setJourneyStatus ::
  "journey_data \<Rightarrow> string \<Rightarrow> journey_status \<Rightarrow> runtime \<Rightarrow> service_error + (journey_data \<times> runtime)"
where
  "setJourneyStatus data journeyId status rt =
     rbind (assertJourneyExists data journeyId) (\<lambda>_.
       let (js, rt1) = map_now journeyId (\<lambda>now j. j\<lparr>j_status := status, j_updatedAt := now\<rparr>)
             (journeys data) rt
       in Inr (data\<lparr>journeys := js\<rparr>, rt1))"

definition deleteJourney :: "journey_data \<Rightarrow> string \<Rightarrow> service_error + journey_data" where
  "deleteJourney data journeyId =
     rbind (assertJourneyExists data journeyId) (\<lambda>_.
       Inr (data\<lparr>journeys := filter (\<lambda>j. j_id j \<noteq> journeyId) (journeys data),
                 segments := filter (\<lambda>s. s_journeyId s \<noteq> journeyId) (segments data),
                 packingItems := filter (\<lambda>p. p_journeyId p \<noteq> journeyId) (packingItems data)\<rparr>))"

section \<open>Segments\<close>

fun trim_detail :: "segment_detail \<Rightarrow> segment_detail" where
  "trim_detail (Stay place) = Stay (js_trim place)"
| "trim_detail (Move origin destination mode) =
     Move (js_trim origin) (js_trim destination) (js_trim mode)"

definition find_segment :: "journey_data \<Rightarrow> string \<Rightarrow> string option \<Rightarrow> segment option" where
  "find_segment data journeyId segmentId =
     (if truthy_opt segmentId
      then find (\<lambda>s. s_id s = the segmentId \<and> s_journeyId s = journeyId) (segments data)
      else None)"

definition saveSegment ::
  "journey_data \<Rightarrow> string \<Rightarrow> segment_input \<Rightarrow> runtime \<Rightarrow> string option
     \<Rightarrow> service_error + (journey_data \<times> runtime)"
where
  "saveSegment data journeyId input rt segmentId =
     rbind (assertJourneyExists data journeyId) (\<lambda>_.
     rbind (assertValid (validateSegment input)) (\<lambda>_.
       let existing = find_segment data journeyId segmentId in
     rbind (guard (\<not> (truthy_opt segmentId \<and> existing = None))
              (JourneyOperationError Item_not_found)) (\<lambda>_.
       let position = (case existing of Some e \<Rightarrow> s_position e
             | None \<Rightarrow> int (length (segmentsForJourney data journeyId)));
           (timestamp, rt1) = rt_now rt;
           (newId, rt2) = (case existing of Some e \<Rightarrow> (s_id e, rt1) | None \<Rightarrow> rt_id rt1);
           segment = \<lparr>s_id = newId, s_journeyId = journeyId, s_position = position,
             s_startDate = or_null (si_startDate input), s_endDate = or_null (si_endDate input),
             s_notes = js_trim (si_notes input),
             s_recordVersion = (case existing of Some e \<Rightarrow> s_recordVersion e | None \<Rightarrow> 1),
             s_createdAt = (case existing of Some e \<Rightarrow> s_createdAt e | None \<Rightarrow> timestamp),
             s_updatedAt = timestamp, s_detail = trim_detail (si_detail input)\<rparr>;
           segments' = (case existing of
               Some e \<Rightarrow> map (\<lambda>item. if s_id item = s_id e then segment else item) (segments data)
             | None \<Rightarrow> segments data @ [segment])
       in Inr (touchJourney (data\<lparr>segments := segments'\<rparr>) journeyId rt2))))"

text \<open>\<open>position: positions.get(segment.id) ?? segment.position\<close> on every segment.\<close>

definition reposition :: "(string \<rightharpoonup> int) \<Rightarrow> segment \<Rightarrow> segment" where
  "reposition positions s =
     s\<lparr>s_position := (case positions (s_id s) of Some i \<Rightarrow> i | None \<Rightarrow> s_position s)\<rparr>"

definition deleteSegment ::
  "journey_data \<Rightarrow> string \<Rightarrow> string \<Rightarrow> runtime \<Rightarrow> service_error + (journey_data \<times> runtime)"
where
  "deleteSegment data journeyId segmentId rt =
     rbind (assertJourneyExists data journeyId) (\<lambda>_.
     rbind (assertOwnedItem
              (list_ex (\<lambda>s. s_id s = segmentId \<and> s_journeyId s = journeyId) (segments data))) (\<lambda>_.
       let remaining = filter (\<lambda>s. s_id s \<noteq> segmentId) (segments data);
           ordered = sort_key s_position (filter (\<lambda>s. s_journeyId s = journeyId) remaining);
           positions = index_map s_id ordered
       in Inr (touchJourney (data\<lparr>segments := map (reposition positions) remaining\<rparr>) journeyId rt)))"

text \<open>The parameter \<open>direction\<close> of type \<open>-1 | 1\<close>.\<close>

datatype direction = Up | Down

fun offset :: "direction \<Rightarrow> int" where
  "offset Up = -1"
| "offset Down = 1"

definition moveSegment ::
  "journey_data \<Rightarrow> string \<Rightarrow> string \<Rightarrow> direction \<Rightarrow> runtime \<Rightarrow> service_error + (journey_data \<times> runtime)"
where
  "moveSegment data journeyId segmentId direction rt =
     rbind (assertJourneyExists data journeyId) (\<lambda>_.
       let ordered = segmentsForJourney data journeyId in
       case findIndex (\<lambda>s. s_id s = segmentId) ordered of
         None \<Rightarrow> Inl (JourneyOperationError Item_not_found)
       | Some index \<Rightarrow>
           let target = int index + offset direction in
           if target < 0 \<or> target \<ge> int (length ordered) then Inr (data, rt)
           else
             let current = ordered ! index; destination = ordered ! nat target;
                 reordered = (ordered[index := destination])[nat target := current];
                 positions = index_map s_id reordered
             in Inr (touchJourney
                   (data\<lparr>segments := map (reposition positions) (segments data)\<rparr>) journeyId rt))"

section \<open>Packing\<close>

definition find_packing :: "journey_data \<Rightarrow> string \<Rightarrow> string option \<Rightarrow> packing_item option" where
  "find_packing data journeyId itemId =
     (if truthy_opt itemId
      then find (\<lambda>p. p_id p = the itemId \<and> p_journeyId p = journeyId) (packingItems data)
      else None)"

text \<open>A new item asks the clock twice (\<open>createdAt\<close>, then \<open>updatedAt\<close>).\<close>

definition savePackingItem ::
  "journey_data \<Rightarrow> string \<Rightarrow> packing_input \<Rightarrow> runtime \<Rightarrow> string option
     \<Rightarrow> service_error + (journey_data \<times> runtime)"
where
  "savePackingItem data journeyId input rt itemId =
     rbind (assertJourneyExists data journeyId) (\<lambda>_.
     rbind (assertValid (validatePacking input)) (\<lambda>_.
       let existing = find_packing data journeyId itemId in
     rbind (guard (\<not> (truthy_opt itemId \<and> existing = None))
              (JourneyOperationError Item_not_found)) (\<lambda>_.
       let (newId, rt1) = (case existing of Some e \<Rightarrow> (p_id e, rt) | None \<Rightarrow> rt_id rt);
           (created, rt2) = (case existing of Some e \<Rightarrow> (p_createdAt e, rt1) | None \<Rightarrow> rt_now rt1);
           (updated, rt3) = rt_now rt2;
           quantity = num_int (pi_quantity input);
           item = \<lparr>p_id = newId, p_journeyId = journeyId, p_label = js_trim (pi_label input),
             p_category = pi_category input, p_quantity = quantity,
             p_packedQuantity =
               min (case existing of Some e \<Rightarrow> p_packedQuantity e | None \<Rightarrow> 0) quantity,
             p_essential = pi_essential input,
             p_recordVersion = (case existing of Some e \<Rightarrow> p_recordVersion e | None \<Rightarrow> 1),
             p_createdAt = created, p_updatedAt = updated\<rparr>;
           items' = (case existing of
               Some e \<Rightarrow> map (\<lambda>c. if p_id c = p_id e then item else c) (packingItems data)
             | None \<Rightarrow> packingItems data @ [item])
       in Inr (touchJourney (data\<lparr>packingItems := items'\<rparr>) journeyId rt3))))"

text \<open>The callers pass the integers \<open>0\<close>, \<open>1\<close> and \<open>packedQuantity \<plusminus> 1\<close>.\<close>

definition setPackedQuantity ::
  "journey_data \<Rightarrow> string \<Rightarrow> string \<Rightarrow> int \<Rightarrow> runtime \<Rightarrow> service_error + (journey_data \<times> runtime)"
where
  "setPackedQuantity data journeyId itemId packedQuantity rt =
     rbind (assertJourneyExists data journeyId) (\<lambda>_.
     rbind (assertOwnedItem
              (list_ex (\<lambda>p. p_id p = itemId \<and> p_journeyId p = journeyId) (packingItems data))) (\<lambda>_.
       Inr (touchJourney (data\<lparr>packingItems := map (\<lambda>p. if p_id p = itemId
              then p\<lparr>p_packedQuantity := max 0 (min (p_quantity p) packedQuantity)\<rparr> else p)
              (packingItems data)\<rparr>) journeyId rt)))"

definition deletePackingItem ::
  "journey_data \<Rightarrow> string \<Rightarrow> string \<Rightarrow> runtime \<Rightarrow> service_error + (journey_data \<times> runtime)"
where
  "deletePackingItem data journeyId itemId rt =
     rbind (assertJourneyExists data journeyId) (\<lambda>_.
     rbind (assertOwnedItem
              (list_ex (\<lambda>p. p_id p = itemId \<and> p_journeyId p = journeyId) (packingItems data))) (\<lambda>_.
       Inr (touchJourney (data\<lparr>packingItems :=
              filter (\<lambda>p. p_id p \<noteq> itemId) (packingItems data)\<rparr>) journeyId rt)))"

lemmas service_defs =
  createJourney_def updateJourney_def setJourneyStatus_def deleteJourney_def saveSegment_def
  deleteSegment_def moveSegment_def savePackingItem_def setPackedQuantity_def
  deletePackingItem_def touchJourney_def assertValid_def assertJourneyExists_def
  assertOwnedItem_def find_segment_def find_packing_def

end
