(* ===== verification/Journey_Invariants.thy ===== *)
theory Journey_Invariants
  imports Journey_Service
begin

text \<open>
  The invariant of the Journey service, \<open>service_inv\<close> (stored data is well formed and each
  timeline is numbered from 0 without gaps), kept by every operation; what each operation does
  to the timeline and the packing list; and the transition system of all of them.
\<close>

section \<open>Timelines are numbered from 0 without gaps\<close>

definition dense :: "journey_data \<Rightarrow> bool" where
  "dense d \<longleftrightarrow>
     (\<forall>j \<in> s_journeyId ` set (segments d).
        map s_position (segmentsForJourney d j)
          = map int [0..<length (segmentsForJourney d j)])"

definition service_inv :: "(string \<Rightarrow> bool) \<Rightarrow> journey_data \<Rightarrow> bool" where
  "service_inv dp d \<longleftrightarrow> wf_data dp d \<and> dense d"

text \<open>
  What the runtime promises (\<open>crypto.randomUUID()\<close>, \<open>Date.toISOString()\<close>): the clock writes
  timestamps that \<open>Date.parse\<close> reads, and the next identifier is not blank and not in use.
\<close>

definition good_clock :: "(string \<Rightarrow> bool) \<Rightarrow> runtime \<Rightarrow> bool" where
  "good_clock dp rt \<longleftrightarrow> (\<forall>n. stamp_ok dp (rt_clock rt n))"

definition fresh_id :: "journey_data \<Rightarrow> runtime \<Rightarrow> bool" where
  "fresh_id d rt \<longleftrightarrow>
     (let i = fst (rt_id rt) in
      \<not> blank i \<and> i \<notin> j_id ` set (journeys d) \<and> i \<notin> s_id ` set (segments d)
      \<and> i \<notin> p_id ` set (packingItems d))"

text \<open>Density as a fact about the slots, the pairs of journey and position.\<close>

definition slot_positions :: "(string \<times> int) list \<Rightarrow> string \<Rightarrow> int list" where
  "slot_positions sl j = map snd (filter (\<lambda>(k, p). k = j) sl)"

definition dense_slots :: "(string \<times> int) list \<Rightarrow> bool" where
  "dense_slots sl \<longleftrightarrow>
     (\<forall>j. mset (slot_positions sl j) = mset (map int [0..<length (slot_positions sl j)]))"

lemma slot_positions_slots:
  "slot_positions (map slot xs) j = map s_position (filter (\<lambda>s. s_journeyId s = j) xs)"
  by (induction xs) (auto simp: slot_positions_def)

lemma map_position_timeline:
  "map s_position (segmentsForJourney d j) = sort (slot_positions (map slot (segments d)) j)"
  by (simp add: segmentsForJourney_def map_sort_key slot_positions_slots)

lemma length_timeline:
  "length (segmentsForJourney d j) = length (slot_positions (map slot (segments d)) j)"
  by (simp add: segmentsForJourney_def slot_positions_slots)

lemma dense_at_iff:
  "map s_position (segmentsForJourney d j) = map int [0..<length (segmentsForJourney d j)]
   \<longleftrightarrow> mset (slot_positions (map slot (segments d)) j)
       = mset (map int [0..<length (slot_positions (map slot (segments d)) j)])"
  unfolding map_position_timeline length_timeline by (rule sort_eq_upt_iff)

lemma slot_positions_absent:
  "j \<notin> s_journeyId ` set xs \<Longrightarrow> slot_positions (map slot xs) j = []"
  by (auto simp: slot_positions_slots filter_empty_conv)

lemma dense_iff: "dense d \<longleftrightarrow> dense_slots (map slot (segments d))"
  unfolding dense_def dense_slots_def dense_at_iff
proof (intro iffI allI ballI)
  fix j
  assume h: "\<forall>j \<in> s_journeyId ` set (segments d).
      mset (slot_positions (map slot (segments d)) j)
        = mset (map int [0..<length (slot_positions (map slot (segments d)) j)])"
  show "mset (slot_positions (map slot (segments d)) j)
      = mset (map int [0..<length (slot_positions (map slot (segments d)) j)])"
    using h slot_positions_absent [of j "segments d"]
    by (cases "j \<in> s_journeyId ` set (segments d)") auto
qed blast

lemma dense_timeline:
  assumes "dense d"
  shows "map s_position (segmentsForJourney d j) = map int [0..<length (segmentsForJourney d j)]"
  using assms unfolding dense_iff dense_slots_def map_position_timeline length_timeline
  by (simp add: sort_eq_upt_iff)

lemma dense_slots_distinct: "dense_slots sl \<Longrightarrow> distinct (slot_positions sl j)"
  unfolding dense_slots_def by (metis distinct_map_int_upt mset_eq_imp_distinct_iff)

lemma distinct_slotsI:
  "(\<And>j. distinct (slot_positions sl j)) \<Longrightarrow> distinct sl"
proof (induction sl)
  case Nil
  then show ?case by simp
next
  case (Cons a sl)
  have "distinct (slot_positions sl j)" for j
    using Cons.prems [of j] by (cases a) (auto simp: slot_positions_def split: if_splits)
  moreover have "a \<notin> set sl"
    using Cons.prems [of "fst a"] by (cases a) (auto simp: slot_positions_def image_iff)
  ultimately show ?case
    using Cons.IH by simp
qed

lemma dense_distinct_slots: "dense_slots (map slot xs) \<Longrightarrow> distinct (map slot xs)"
  by (intro distinct_slotsI dense_slots_distinct)

lemma dense_positions_lt:
  assumes "dense d" "s \<in> set (segments d)" "s_journeyId s = j"
  shows "0 \<le> s_position s \<and> s_position s < int (length (segmentsForJourney d j))"
proof -
  have "s_position s \<in> set (map s_position (segmentsForJourney d j))"
    using assms(2,3) by auto
  then show ?thesis
    unfolding dense_timeline [OF assms(1)] by auto
qed

section \<open>Touching a journey\<close>

lemma rt_now_simps [simp]:
  "fst (rt_now rt) = rt_clock rt (rt_nnow rt)"
  "rt_clock (snd (rt_now rt)) = rt_clock rt"
  "rt_ids (snd (rt_now rt)) = rt_ids rt"
  "rt_nid (snd (rt_now rt)) = rt_nid rt"
  by (simp_all add: rt_now_def)

lemma rt_id_simps [simp]:
  "rt_clock (snd (rt_id rt)) = rt_clock rt"
  "rt_nnow (snd (rt_id rt)) = rt_nnow rt"
  by (simp_all add: rt_id_def)

lemma rt_id_now [simp]: "fst (rt_id (snd (rt_now rt))) = fst (rt_id rt)"
  by (simp add: rt_id_def)

lemma good_clock_simps [simp]:
  "good_clock dp (snd (rt_now rt)) = good_clock dp rt"
  "good_clock dp (snd (rt_id rt)) = good_clock dp rt"
  by (simp_all add: good_clock_def)

lemma good_clock_now: "good_clock dp rt \<Longrightarrow> stamp_ok dp (fst (rt_now rt))"
  by (simp add: good_clock_def)

lemma map_now_ids:
  assumes "\<And>t j. j_id (f t j) = j_id j"
  shows "map j_id (fst (map_now k f js rt)) = map j_id js"
  by (induction js arbitrary: rt) (auto simp: assms Let_def split: prod.splits, (metis fst_conv)+)

lemma map_now_mem:
  assumes "j' \<in> set (fst (map_now k f js rt))"
  shows "\<exists>j \<in> set js. (j_id j \<noteq> k \<and> j' = j) \<or> (j_id j = k \<and> (\<exists>n. j' = f (rt_clock rt n) j))"
  using assms
proof (induction js arbitrary: rt)
  case Nil
  then show ?case by simp
next
  case (Cons j js)
  show ?case
  proof (cases "j_id j = k")
    case True
    have "fst (map_now k f (j # js) rt)
        = f (fst (rt_now rt)) j # fst (map_now k f js (snd (rt_now rt)))"
      using True by (simp add: Let_def case_prod_unfold)
    with Cons.prems consider "j' = f (fst (rt_now rt)) j"
      | "j' \<in> set (fst (map_now k f js (snd (rt_now rt))))"
      by auto
    then show ?thesis
    proof cases
      case 1
      then show ?thesis using True by auto
    next
      case 2
      from Cons.IH [OF this] show ?thesis by auto
    qed
  next
    case False
    then have "fst (map_now k f (j # js) rt) = j # fst (map_now k f js rt)"
      by (simp add: Let_def split: prod.splits)
    with Cons.prems Cons.IH [of rt] False show ?thesis by auto
  qed
qed

lemma map_now_other:
  "filter (\<lambda>j. j_id j \<noteq> k) (fst (map_now k f js rt)) = filter (\<lambda>j. j_id j \<noteq> k) js"
  if "\<And>t j. j_id (f t j) = j_id j"
  by (induction js arbitrary: rt) (auto simp: that Let_def split: prod.splits, (metis fst_conv)+)

lemma touch_simps [simp]:
  "segments (fst (touchJourney d k rt)) = segments d"
  "packingItems (fst (touchJourney d k rt)) = packingItems d"
  "map j_id (journeys (fst (touchJourney d k rt))) = map j_id (journeys d)"
  by (simp_all add: touchJourney_def Let_def case_prod_unfold map_now_ids)

lemma touch_journey_ids [simp]: "journey_ids (fst (touchJourney d k rt)) = journey_ids d"
  by (metis list.set_map touch_simps(3))

lemma wf_journeys_map_now:
  assumes wf: "wf_journeys dp d"
    and ids: "\<And>t j. j_id (f t j) = j_id j"
    and keep: "\<And>n j. wf_journey dp j \<Longrightarrow> wf_journey dp (f (rt_clock rt n) j)"
  shows "wf_journeys dp (d\<lparr>journeys := fst (map_now k f (journeys d) rt)\<rparr>)"
  unfolding wf_journeys_def
proof (intro conjI ballI)
  fix j'
  assume "j' \<in> set (journeys (d\<lparr>journeys := fst (map_now k f (journeys d) rt)\<rparr>))"
  then obtain j where "j \<in> set (journeys d)" "j' = j \<or> (\<exists>n. j' = f (rt_clock rt n) j)"
    using map_now_mem by fastforce
  then show "wf_journey dp j'"
    using wf keep by (auto simp: wf_journeys_def)
next
  show "distinct (map j_id (journeys (d\<lparr>journeys := fst (map_now k f (journeys d) rt)\<rparr>)))"
    using wf ids by (simp add: map_now_ids wf_journeys_def)
qed

lemma wf_journey_touch: "good_clock dp rt \<Longrightarrow> wf_journey dp j \<Longrightarrow>
   wf_journey dp (j\<lparr>j_updatedAt := rt_clock rt n\<rparr>)"
  by (simp add: wf_journey_def good_clock_def)

lemma service_inv_journeys:
  assumes inv: "service_inv dp d"
    and wf: "wf_journeys dp (d\<lparr>journeys := js\<rparr>)" and ids: "map j_id js = map j_id (journeys d)"
  shows "service_inv dp (d\<lparr>journeys := js\<rparr>)"
proof -
  have "j_id ` set js = journey_ids d"
    using ids by (metis list.set_map)
  then show ?thesis
    using inv wf
    by (simp add: service_inv_def wf_data_def wf_segments_def wf_packings_def dense_iff)
qed

lemma service_inv_touch:
  assumes "service_inv dp d" "good_clock dp rt"
  shows "service_inv dp (fst (touchJourney d k rt))"
proof -
  have "fst (touchJourney d k rt)
      = d\<lparr>journeys := fst (map_now k (\<lambda>now j. j\<lparr>j_updatedAt := now\<rparr>) (journeys d) rt)\<rparr>"
    by (simp add: touchJourney_def Let_def case_prod_unfold)
  moreover have "service_inv dp \<dots>"
  proof (rule service_inv_journeys [OF assms(1)])
    show "wf_journeys dp (d\<lparr>journeys :=
        fst (map_now k (\<lambda>now j. j\<lparr>j_updatedAt := now\<rparr>) (journeys d) rt)\<rparr>)"
      using assms by (intro wf_journeys_map_now)
        (auto simp: service_inv_def wf_data_def intro: wf_journey_touch)
  qed (simp add: map_now_ids)
  ultimately show ?thesis by simp
qed

section \<open>Renumbering a timeline\<close>

lemma reposition_simps [simp]:
  "s_id (reposition m s) = s_id s"
  "s_journeyId (reposition m s) = s_journeyId s"
  by (simp_all add: reposition_def)

lemma reposition_filter:
  "filter (\<lambda>s. s_journeyId s = j) (map (reposition m) xs)
     = map (reposition m) (filter (\<lambda>s. s_journeyId s = j) xs)"
  by (simp add: filter_map comp_def)

lemma reposition_positions:
  assumes "distinct (map s_id ord)"
  shows "map s_position (map (reposition (index_map s_id ord)) ord) = map int [0..<length ord]"
  by (rule nth_equalityI) (use assms in \<open>simp_all add: reposition_def index_map_nth\<close>)

lemma reposition_other:
  assumes "distinct (map s_id xs)" "set ord \<subseteq> set xs" "s \<in> set xs" "s \<notin> set ord"
  shows "reposition (index_map s_id ord) s = s"
proof -
  have "s_id s \<notin> s_id ` set ord"
    using assms distinct_map_eq [OF assms(1)] by (metis (no_types, lifting) imageE subsetD)
  then show ?thesis
    by (simp add: reposition_def index_map_None)
qed

lemma timeline_reposition:
  assumes dist: "distinct (map s_id xs)"
    and perm: "mset ord = mset (filter (\<lambda>s. s_journeyId s = j) xs)"
  shows "sort_key s_position
      (filter (\<lambda>s. s_journeyId s = j) (map (reposition (index_map s_id ord)) xs))
    = map (reposition (index_map s_id ord)) ord" (is "sort_key _ (filter _ (map ?R xs)) = _")
proof -
  have "mset (map s_id ord) = mset (map s_id (filter (\<lambda>s. s_journeyId s = j) xs))"
    using perm by (metis mset_map)
  then have d: "distinct (map s_id ord)"
    using distinct_map_filterI [OF dist] mset_eq_imp_distinct_iff by blast
  show ?thesis
  proof (rule sort_key_eqI)
    show "mset (filter (\<lambda>s. s_journeyId s = j) (map ?R xs)) = mset (map ?R ord)"
      unfolding reposition_filter using perm by (metis mset_map)
    show "sorted (map s_position (map ?R ord))" "distinct (map s_position (map ?R ord))"
      unfolding reposition_positions [OF d]
      by (rule sorted_map_int_upt, rule distinct_map_int_upt)
  qed
qed

lemma dense_reposition:
  assumes dist: "distinct (map s_id xs)"
    and perm: "mset ord = mset (filter (\<lambda>s. s_journeyId s = j) xs)"
    and rest: "\<And>k. k \<noteq> j \<Longrightarrow> mset (slot_positions (map slot xs) k)
        = mset (map int [0..<length (slot_positions (map slot xs) k)])"
  shows "dense_slots (map slot (map (reposition (index_map s_id ord)) xs))"
  unfolding dense_slots_def
proof
  fix k
  let ?R = "reposition (index_map s_id ord)"
  have d: "distinct (map s_id ord)"
    by (metis dist distinct_map_filterI mset_eq_imp_distinct_iff mset_map perm)
  have sub: "set ord = {s \<in> set xs. s_journeyId s = j}"
    using mset_eq_setD [OF perm] by auto
  show "mset (slot_positions (map slot (map ?R xs)) k)
      = mset (map int [0..<length (slot_positions (map slot (map ?R xs)) k)])"
  proof (cases "k = j")
    case True
    have "mset (slot_positions (map slot (map ?R xs)) j) = mset (map s_position (map ?R ord))"
      unfolding slot_positions_slots reposition_filter using perm by (metis mset_map)
    also have "\<dots> = mset (map int [0..<length ord])"
      unfolding reposition_positions [OF d] ..
    finally have "mset (slot_positions (map slot (map ?R xs)) j) = mset (map int [0..<length ord])" .
    moreover from this have "length (slot_positions (map slot (map ?R xs)) j) = length ord"
      by (metis length_map length_upt minus_nat.diff_0 size_mset)
    ultimately show ?thesis using True by simp
  next
    case False
    have "map ?R (filter (\<lambda>s. s_journeyId s = k) xs) = filter (\<lambda>s. s_journeyId s = k) xs"
      by (rule map_idI) (use False sub reposition_other [OF dist] in auto)
    then have "slot_positions (map slot (map ?R xs)) k = slot_positions (map slot xs) k"
      unfolding slot_positions_slots reposition_filter by simp
    then show ?thesis using rest [OF False] by simp
  qed
qed

lemma wf_reposition:
  assumes "wf_segment dp s" "0 \<le> s_position (reposition m s)"
  shows "wf_segment dp (reposition m s)"
  using assms by (simp add: wf_segment_def reposition_def)

lemma dense_slots_nonneg:
  assumes "dense_slots (map slot xs)" "s \<in> set xs"
  shows "0 \<le> s_position s"
proof -
  have "s_position s \<in> set (slot_positions (map slot xs) (s_journeyId s))"
    using assms(2) by (auto simp: slot_positions_slots)
  then have "s_position s \<in>
      set (map int [0..<length (slot_positions (map slot xs) (s_journeyId s))])"
    using assms(1) unfolding dense_slots_def by (metis mset_eq_setD)
  then show ?thesis by auto
qed

section \<open>Replacing one list of the data\<close>

lemma service_inv_segments:
  assumes "service_inv dp d"
    and "\<And>s. s \<in> set ss \<Longrightarrow> wf_segment dp s \<and> s_journeyId s \<in> journey_ids d"
    and "distinct (map s_id ss)" and "dense_slots (map slot ss)"
  shows "service_inv dp (d\<lparr>segments := ss\<rparr>)"
  using assms dense_distinct_slots [OF assms(4)]
  by (simp add: service_inv_def wf_data_defs dense_iff)

lemma service_inv_packing:
  assumes "service_inv dp d"
    and "\<And>p. p \<in> set ps \<Longrightarrow> wf_packing dp p \<and> p_journeyId p \<in> journey_ids d"
    and "distinct (map p_id ps)"
  shows "service_inv dp (d\<lparr>packingItems := ps\<rparr>)"
  using assms by (simp add: service_inv_def wf_data_defs dense_iff)

lemma service_inv_reposition:
  assumes inv: "service_inv dp d" and sub: "set xs \<subseteq> set (segments d)"
    and dist: "distinct (map s_id xs)"
    and dense: "dense_slots (map slot (map (reposition m) xs))"
  shows "service_inv dp (d\<lparr>segments := map (reposition m) xs\<rparr>)"
proof (rule service_inv_segments [OF inv])
  fix s
  assume "s \<in> set (map (reposition m) xs)"
  then obtain t where t: "t \<in> set xs" "s = reposition m t" by auto
  then have "0 \<le> s_position s"
    using dense_slots_nonneg [OF dense, of s] by simp
  then show "wf_segment dp s \<and> s_journeyId s \<in> journey_ids d"
    using t sub inv wf_reposition by (auto simp: service_inv_def wf_data_defs)
next
  show "distinct (map s_id (map (reposition m) xs))"
    using dist by (simp add: comp_def)
qed (rule dense)

section \<open>Every operation keeps the invariant\<close>

lemma service_invD:
  assumes "service_inv dp d"
  shows "s \<in> set (segments d) \<Longrightarrow> wf_segment dp s"
    and "p \<in> set (packingItems d) \<Longrightarrow> wf_packing dp p"
    and "distinct (map s_id (segments d))"
    and "distinct (map p_id (packingItems d))"
    and "k \<in> journey_ids d \<Longrightarrow> \<not> blank k"
  using assms by (auto simp: service_inv_def wf_data_defs wf_journey_def)

lemma assertJourneyExists_iff [simp]:
  "assertJourneyExists d k = Inr u \<longleftrightarrow> k \<in> journey_ids d"
  by (auto simp: assertJourneyExists_def list_ex_iff)

lemma assertValid_iff [simp]: "assertValid cs = Inr u \<longleftrightarrow> cs = []"
  by (simp add: assertValid_def)

lemma assertOwnedItem_iff [simp]: "assertOwnedItem b = Inr u \<longleftrightarrow> b"
  by (simp add: assertOwnedItem_def)

lemma createJourney_Inr:
  "createJourney d input rt = Inr ((d', j), rt') \<longleftrightarrow>
     validateJourney input = []
     \<and> j = \<lparr>j_id = fst (rt_id rt), j_name = js_trim (ji_name input),
         j_startDate = or_null (ji_startDate input), j_endDate = or_null (ji_endDate input),
         j_status = Planning, j_recordVersion = 1,
         j_createdAt = fst (rt_now rt), j_updatedAt = fst (rt_now rt)\<rparr>
     \<and> d' = d\<lparr>journeys := journeys d @ [j]\<rparr> \<and> rt' = snd (rt_id (snd (rt_now rt)))"
  by (auto simp: createJourney_def rbind_Inr_iff Let_def case_prod_unfold)

lemma createJourney_inv:
  assumes "service_inv dp d" "good_clock dp rt" "fresh_id d rt"
    and "date_input (ji_startDate input)" "date_input (ji_endDate input)"
    and "createJourney d input rt = Inr ((d', j), rt')"
  shows "service_inv dp d'"
proof -
  have "wf_journey dp j"
    using assms good_clock_now [OF assms(2)] dates_ok_input
    by (simp add: createJourney_Inr wf_journey_def validateJourney_nil fresh_id_def Let_def)
  moreover have "j_id j \<notin> journey_ids d"
    using assms by (simp add: createJourney_Inr fresh_id_def Let_def)
  moreover have "d' = d\<lparr>journeys := journeys d @ [j]\<rparr>"
    using assms by (simp add: createJourney_Inr)
  ultimately show ?thesis
    using assms(1) by (auto simp: service_inv_def wf_data_defs dense_iff)
qed

lemma updateJourney_inv:
  assumes "service_inv dp d" "good_clock dp rt"
    and "date_input (ji_startDate input)" "date_input (ji_endDate input)"
    and "updateJourney d k input rt = Inr (d', rt')"
  shows "service_inv dp d'"
proof -
  let ?f = "\<lambda>now j. j\<lparr>j_name := js_trim (ji_name input),
      j_startDate := or_null (ji_startDate input), j_endDate := or_null (ji_endDate input),
      j_updatedAt := now\<rparr>"
  have d': "d' = d\<lparr>journeys := fst (map_now k ?f (journeys d) rt)\<rparr>" "validateJourney input = []"
    using assms(5) by (auto simp: updateJourney_def rbind_Inr_iff Let_def case_prod_unfold)
  have "wf_journey dp j \<Longrightarrow> wf_journey dp (?f (rt_clock rt n) j)" for n j
    using d'(2) assms dates_ok_input
    by (simp add: wf_journey_def validateJourney_nil good_clock_def)
  then have "wf_journeys dp (d\<lparr>journeys := fst (map_now k ?f (journeys d) rt)\<rparr>)"
    using assms(1) by (intro wf_journeys_map_now) (auto simp: service_inv_def wf_data_def)
  then show ?thesis
    unfolding d' by (rule service_inv_journeys [OF assms(1)]) (simp add: map_now_ids)
qed

lemma setJourneyStatus_inv:
  assumes "service_inv dp d" "good_clock dp rt"
    and "setJourneyStatus d k status rt = Inr (d', rt')"
  shows "service_inv dp d'"
proof -
  let ?f = "\<lambda>now j. j\<lparr>j_status := status, j_updatedAt := now\<rparr>"
  have d': "d' = d\<lparr>journeys := fst (map_now k ?f (journeys d) rt)\<rparr>"
    using assms(3) by (auto simp: setJourneyStatus_def rbind_Inr_iff Let_def case_prod_unfold)
  have "wf_journeys dp (d\<lparr>journeys := fst (map_now k ?f (journeys d) rt)\<rparr>)"
    using assms by (intro wf_journeys_map_now)
      (auto simp: service_inv_def wf_data_def wf_journey_def good_clock_def)
  then show ?thesis
    unfolding d' by (rule service_inv_journeys [OF assms(1)]) (simp add: map_now_ids)
qed

lemma slot_positions_filter:
  "slot_positions (map slot (filter (\<lambda>s. s_journeyId s \<noteq> k) xs)) j
     = (if j = k then [] else slot_positions (map slot xs) j)"
proof (induction xs)
  case (Cons a xs)
  then show ?case by (cases "j = k") (auto simp: slot_positions_def)
qed (simp add: slot_positions_def)

lemma deleteJourney_Inr:
  "deleteJourney d k = Inr d' \<longleftrightarrow> k \<in> journey_ids d
     \<and> d' = \<lparr>journeys = filter (\<lambda>j. j_id j \<noteq> k) (journeys d),
            segments = filter (\<lambda>s. s_journeyId s \<noteq> k) (segments d),
            packingItems = filter (\<lambda>p. p_journeyId p \<noteq> k) (packingItems d)\<rparr>"
  by (auto simp: deleteJourney_def rbind_Inr_iff)

lemma deleteJourney_inv:
  assumes "service_inv dp d" "deleteJourney d k = Inr d'"
  shows "service_inv dp d'"
proof -
  have "dense_slots (map slot (segments d'))"
    using assms by (simp add: deleteJourney_Inr service_inv_def dense_iff dense_slots_def
        slot_positions_filter)
  moreover have "wf_data dp d'"
    using assms
    by (auto simp: deleteJourney_Inr service_inv_def wf_data_defs distinct_map_filterI
        intro: distinct_map_filterI)
  ultimately show ?thesis
    by (simp add: service_inv_def dense_iff)
qed

lemma find_segment_Some:
  "find_segment d k i = Some e \<Longrightarrow>
   e \<in> set (segments d) \<and> s_journeyId e = k \<and> i = Some (s_id e) \<and> s_id e \<noteq> ''''"
  by (cases i) (auto simp: find_segment_def split: if_splits dest: find_SomeD)

lemma wf_trim_detail [simp]: "wf_detail (trim_detail d) \<longleftrightarrow> wf_detail d"
  by (cases d) (simp_all add: wf_detail_def)

text \<open>What \<open>saveSegment\<close> writes: an edit in place, or an append at the end of the timeline.\<close>

lemma saveSegment_Inr:
  assumes "saveSegment d k input rt i = Inr (d', rt')"
  obtains (edit) e s rtx where "find_segment d k i = Some e" "k \<in> journey_ids d"
      "validateSegment input = []"
      "s = e\<lparr>s_startDate := or_null (si_startDate input), s_endDate := or_null (si_endDate input),
             s_notes := js_trim (si_notes input), s_updatedAt := fst (rt_now rt),
             s_detail := trim_detail (si_detail input)\<rparr>"
      "rt_clock rtx = rt_clock rt"
      "d' = fst (touchJourney (d\<lparr>segments :=
              map (\<lambda>item. if s_id item = s_id e then s else item) (segments d)\<rparr>) k rtx)"
    | (new) s rtx where "\<not> truthy_opt i" "k \<in> journey_ids d" "validateSegment input = []"
      "s = \<lparr>s_id = fst (rt_id rt), s_journeyId = k,
            s_position = int (length (segmentsForJourney d k)),
            s_startDate = or_null (si_startDate input), s_endDate = or_null (si_endDate input),
            s_notes = js_trim (si_notes input), s_recordVersion = 1,
            s_createdAt = fst (rt_now rt), s_updatedAt = fst (rt_now rt),
            s_detail = trim_detail (si_detail input)\<rparr>"
      "rt_clock rtx = rt_clock rt"
      "d' = fst (touchJourney (d\<lparr>segments := segments d @ [s]\<rparr>) k rtx)"
proof (cases "find_segment d k i")
  case None
  then show ?thesis
    using assms
    by (intro new [where rtx = "snd (rt_id (snd (rt_now rt)))"])
      (auto simp: saveSegment_def rbind_Inr_iff Let_def case_prod_unfold dest: arg_cong [of _ _ fst])
next
  case (Some e)
  note e = find_segment_Some [OF Some]
  let ?s = "e\<lparr>s_startDate := or_null (si_startDate input), s_endDate := or_null (si_endDate input),
      s_notes := js_trim (si_notes input), s_updatedAt := fst (rt_now rt),
      s_detail := trim_detail (si_detail input)\<rparr>"
  have s: "\<lparr>s_id = s_id e, s_journeyId = k, s_position = s_position e,
      s_startDate = or_null (si_startDate input), s_endDate = or_null (si_endDate input),
      s_notes = js_trim (si_notes input), s_recordVersion = s_recordVersion e,
      s_createdAt = s_createdAt e, s_updatedAt = fst (rt_now rt),
      s_detail = trim_detail (si_detail input)\<rparr> = ?s"
    using e by (cases e) simp
  have "k \<in> journey_ids d" "validateSegment input = []"
    and t: "touchJourney (d\<lparr>segments :=
        map (\<lambda>item. if s_id item = s_id e then ?s else item) (segments d)\<rparr>) k (snd (rt_now rt))
      = (d', rt')"
    using assms Some unfolding s [symmetric]
    by (auto simp: saveSegment_def rbind_Inr_iff Let_def case_prod_unfold cong: if_cong)
  then show ?thesis
    by (intro edit [OF Some _ _ refl, where rtx = "snd (rt_now rt)"])
      (simp_all only: rt_now_simps t fst_conv)
qed

lemma slot_positions_snoc:
  "slot_positions (sl @ [(k, p)]) j
     = (if j = k then slot_positions sl j @ [p] else slot_positions sl j)"
  by (simp add: slot_positions_def)

lemma dense_slots_snoc:
  assumes "dense_slots sl"
  shows "dense_slots (sl @ [(k, int (length (slot_positions sl k)))])"
  using assms unfolding dense_slots_def by (simp add: slot_positions_snoc del: mset_map mset_upt)

lemma saveSegment_inv:
  assumes inv: "service_inv dp d" and clock: "good_clock dp rt" and fresh: "fresh_id d rt"
    and dates: "date_input (si_startDate input)" "date_input (si_endDate input)"
    and op: "saveSegment d k input rt i = Inr (d', rt')"
  shows "service_inv dp d'"
  using op
proof (cases rule: saveSegment_Inr)
  case (edit e s rt2)
  note e = find_segment_Some [OF edit(1)]
  let ?ss = "map (\<lambda>item. if s_id item = s_id e then s else item) (segments d)"
  have "service_inv dp (d\<lparr>segments := ?ss\<rparr>)"
  proof (rule service_inv_segments [OF inv])
    have wf: "wf_segment dp e"
      using e service_invD(1) [OF inv] by simp
    have "wf_segment dp s"
      using edit(3) wf dates_ok_input [OF dates] good_clock_now [OF clock]
      unfolding edit(4) by (simp add: wf_segment_def validateSegment_nil)
    then show "wf_segment dp t \<and> s_journeyId t \<in> journey_ids d" if "t \<in> set ?ss" for t
      using that inv e edit(2,4) by (auto simp: service_inv_def wf_data_defs)
    have eq: "t \<in> set (segments d) \<Longrightarrow> s_id t = s_id e \<Longrightarrow> t = e" for t
      using e distinct_map_eq [OF service_invD(3) [OF inv]] by blast
    have "map s_id ?ss = map s_id (segments d)"
      by (rule map_replace) (simp add: edit(4))
    then show "distinct (map s_id ?ss)"
      using service_invD(3) [OF inv] by (simp only:)
    have "map slot ?ss = map slot (segments d)"
      by (rule map_replace) (use eq in \<open>auto simp: edit(4)\<close>)
    then show "dense_slots (map slot ?ss)"
      using inv by (simp only: service_inv_def dense_iff)
  qed
  then show ?thesis
    using service_inv_touch clock edit(5,6) by (simp add: good_clock_def)
next
  case (new s rt2)
  have "service_inv dp (d\<lparr>segments := segments d @ [s]\<rparr>)"
  proof (rule service_inv_segments [OF inv])
    have "\<not> blank k"
      by (rule service_invD(5) [OF inv new(2)])
    then have "wf_segment dp s"
      using new(3) fresh dates_ok_input [OF dates] good_clock_now [OF clock]
      unfolding new(4) by (simp add: wf_segment_def validateSegment_nil fresh_id_def Let_def)
    then show "wf_segment dp t \<and> s_journeyId t \<in> journey_ids d"
      if "t \<in> set (segments d @ [s])" for t
      using that inv new(2,4) by (auto simp: service_inv_def wf_data_defs)
    show "distinct (map s_id (segments d @ [s]))"
      using inv fresh new(4)
      by (auto simp: service_inv_def wf_data_defs fresh_id_def Let_def)
    have "map slot (segments d @ [s]) = map slot (segments d)
        @ [(k, int (length (slot_positions (map slot (segments d)) k)))]"
      by (simp add: new(4) length_timeline)
    then show "dense_slots (map slot (segments d @ [s]))"
      using inv dense_slots_snoc by (simp only: service_inv_def dense_iff)
  qed
  then show ?thesis
    using service_inv_touch clock new(5,6) by (simp add: good_clock_def)
qed

lemma deleteSegment_Inr:
  "deleteSegment d k i rt = Inr (d', rt') \<Longrightarrow>
     k \<in> journey_ids d \<and> (\<exists>s \<in> set (segments d). s_id s = i \<and> s_journeyId s = k)
     \<and> d' = fst (touchJourney (d\<lparr>segments :=
           map (reposition (index_map s_id (filter (\<lambda>s. s_id s \<noteq> i) (segmentsForJourney d k))))
             (filter (\<lambda>s. s_id s \<noteq> i) (segments d))\<rparr>) k rt)"
  by (auto simp: deleteSegment_def rbind_Inr_iff Let_def list_ex_iff segmentsForJourney_def
      filter_sort conj_commute dest: arg_cong [of _ _ fst])

lemma deleteSegment_inv:
  assumes inv: "service_inv dp d" and clock: "good_clock dp rt"
    and op: "deleteSegment d k i rt = Inr (d', rt')"
  shows "service_inv dp d'"
proof -
  let ?rest = "filter (\<lambda>s. s_id s \<noteq> i) (segments d)"
  let ?ord = "filter (\<lambda>s. s_id s \<noteq> i) (segmentsForJourney d k)"
  have dist: "distinct (map s_id (segments d))"
    by (rule service_invD(3) [OF inv])
  obtain g where g: "g \<in> set (segments d)" "s_id g = i" "s_journeyId g = k"
    using deleteSegment_Inr [OF op] by auto
  have only: "s \<in> set (segments d) \<Longrightarrow> s_id s = i \<Longrightarrow> s_journeyId s = k" for s
    using distinct_map_eq [OF dist _ g(1)] g by metis
  have "dense_slots (map slot (map (reposition (index_map s_id ?ord)) ?rest))"
  proof (rule dense_reposition [where j = k])
    show "distinct (map s_id ?rest)"
      by (rule distinct_map_filterI [OF dist])
    show "mset ?ord = mset (filter (\<lambda>s. s_journeyId s = k) ?rest)"
      by (simp add: segmentsForJourney_def filter_sort conj_commute)
    fix j
    assume "j \<noteq> k"
    then have "filter (\<lambda>s. s_journeyId s = j) ?rest = filter (\<lambda>s. s_journeyId s = j) (segments d)"
      unfolding filter_filter by (intro filter_cong) (use only in auto)
    then have "slot_positions (map slot ?rest) j = slot_positions (map slot (segments d)) j"
      by (simp add: slot_positions_slots)
    then show "mset (slot_positions (map slot ?rest) j)
        = mset (map int [0..<length (slot_positions (map slot ?rest) j)])"
      using inv by (simp add: service_inv_def dense_iff dense_slots_def)
  qed
  then have "service_inv dp (d\<lparr>segments := map (reposition (index_map s_id ?ord)) ?rest\<rparr>)"
    by (intro service_inv_reposition [OF inv]) (auto simp: distinct_map_filterI [OF dist])
  then show ?thesis
    using service_inv_touch clock deleteSegment_Inr [OF op] by simp
qed

text \<open>\<open>moveSegment\<close> does nothing at the ends and swaps two neighbours otherwise.\<close>

definition swap :: "nat \<Rightarrow> nat \<Rightarrow> 'a list \<Rightarrow> 'a list" where
  "swap i j xs = xs[i := xs ! j, j := xs ! i]"

lemma mset_swap_list: "i < length xs \<Longrightarrow> j < length xs \<Longrightarrow> mset (swap i j xs) = mset xs"
  by (simp add: swap_def mset_swap)

lemma map_swap: "i < length xs \<Longrightarrow> j < length xs \<Longrightarrow> map f (swap i j xs) = swap i j (map f xs)"
  by (simp add: swap_def map_update)

lemma swap_swap: "i < length xs \<Longrightarrow> j < length xs \<Longrightarrow> swap i j (swap j i xs) = xs"
  by (rule nth_equalityI) (auto simp: swap_def nth_list_update)

lemma moveSegment_Inr:
  assumes "moveSegment d k i dir rt = Inr (d', rt')"
  obtains (stay) n where "k \<in> journey_ids d"
      "findIndex (\<lambda>s. s_id s = i) (segmentsForJourney d k) = Some n" "d' = d" "rt' = rt"
      "int n + offset dir < 0 \<or> int n + offset dir \<ge> int (length (segmentsForJourney d k))"
    | (swap) n t where "k \<in> journey_ids d"
      "findIndex (\<lambda>s. s_id s = i) (segmentsForJourney d k) = Some n"
      "int t = int n + offset dir" "t < length (segmentsForJourney d k)"
      "d' = fst (touchJourney (d\<lparr>segments :=
           map (reposition (index_map s_id (swap n t (segmentsForJourney d k)))) (segments d)\<rparr>) k rt)"
proof (cases "findIndex (\<lambda>s. s_id s = i) (segmentsForJourney d k)")
  case None
  then show ?thesis
    using assms by (auto simp: moveSegment_def rbind_Inr_iff)
next
  case (Some n)
  let ?t = "int n + offset dir"
  show ?thesis
  proof (cases "?t < 0 \<or> ?t \<ge> int (length (segmentsForJourney d k))")
    case True
    then show ?thesis
      using assms Some by (intro stay) (auto simp: moveSegment_def rbind_Inr_iff Let_def)
  next
    case False
    then show ?thesis
      using assms Some
      by (intro swap [of n "nat ?t"])
        (auto simp: moveSegment_def rbind_Inr_iff Let_def swap_def dest: arg_cong [of _ _ fst])
  qed
qed

lemma moveSegment_inv:
  assumes inv: "service_inv dp d" and clock: "good_clock dp rt"
    and op: "moveSegment d k i dir rt = Inr (d', rt')"
  shows "service_inv dp d'"
  using op
proof (cases rule: moveSegment_Inr)
  case (stay n)
  then show ?thesis using inv by simp
next
  case (swap n t)
  let ?ord = "swap n t (segmentsForJourney d k)"
  have dist: "distinct (map s_id (segments d))"
    by (rule service_invD(3) [OF inv])
  have n: "n < length (segmentsForJourney d k)"
    using findIndex_Some [OF swap(2)] by simp
  have "dense_slots (map slot (map (reposition (index_map s_id ?ord)) (segments d)))"
  proof (rule dense_reposition [OF dist, where j = k])
    show "mset ?ord = mset (filter (\<lambda>s. s_journeyId s = k) (segments d))"
      using mset_swap_list [OF n swap(4)] by (simp add: mset_segmentsForJourney)
  qed (use inv in \<open>simp add: service_inv_def dense_iff dense_slots_def\<close>)
  then have "service_inv dp (d\<lparr>segments :=
      map (reposition (index_map s_id ?ord)) (segments d)\<rparr>)"
    by (intro service_inv_reposition [OF inv]) (auto simp: dist)
  then show ?thesis
    using service_inv_touch clock swap(5) by simp
qed

lemma find_packing_Some:
  "find_packing d k i = Some e \<Longrightarrow>
   e \<in> set (packingItems d) \<and> p_journeyId e = k \<and> i = Some (p_id e) \<and> p_id e \<noteq> ''''"
  by (cases i) (auto simp: find_packing_def split: if_splits dest: find_SomeD)

text \<open>The item \<open>savePackingItem\<close> builds, over the existing one or over a blank one.\<close>

definition packed_item :: "packing_item \<Rightarrow> packing_input \<Rightarrow> string \<Rightarrow> packing_item" where
  "packed_item base input updated =
     base\<lparr>p_label := js_trim (pi_label input), p_category := pi_category input,
          p_quantity := num_int (pi_quantity input),
          p_packedQuantity := min (p_packedQuantity base) (num_int (pi_quantity input)),
          p_essential := pi_essential input, p_updatedAt := updated\<rparr>"

definition blank_item :: "string \<Rightarrow> string \<Rightarrow> string \<Rightarrow> packing_item" where
  "blank_item i k created =
     \<lparr>p_id = i, p_journeyId = k, p_label = '''', p_category = Other, p_quantity = 0,
      p_packedQuantity = 0, p_essential = False, p_recordVersion = 1, p_createdAt = created,
      p_updatedAt = created\<rparr>"

lemma savePackingItem_Inr:
  assumes "savePackingItem d k input rt i = Inr (d', rt')"
  obtains (edit) e rtx where "find_packing d k i = Some e" "k \<in> journey_ids d"
      "validatePacking input = []" "rt_clock rtx = rt_clock rt"
      "d' = fst (touchJourney (d\<lparr>packingItems := map (\<lambda>c. if p_id c = p_id e
              then packed_item e input (fst (rt_now rt)) else c) (packingItems d)\<rparr>) k rtx)"
    | (new) t u rtx where "\<not> truthy_opt i" "k \<in> journey_ids d" "validatePacking input = []"
      "t \<in> range (rt_clock rt)" "u \<in> range (rt_clock rt)" "rt_clock rtx = rt_clock rt"
      "d' = fst (touchJourney (d\<lparr>packingItems := packingItems d
              @ [packed_item (blank_item (fst (rt_id rt)) k t) input u]\<rparr>) k rtx)"
proof (cases "find_packing d k i")
  case None
  let ?r1 = "snd (rt_id rt)"
  let ?r2 = "snd (rt_now ?r1)"
  have "\<not> truthy_opt i" "k \<in> journey_ids d" "validatePacking input = []"
    and t: "touchJourney (d\<lparr>packingItems := packingItems d
        @ [packed_item (blank_item (fst (rt_id rt)) k (fst (rt_now ?r1))) input (fst (rt_now ?r2))]\<rparr>)
        k (snd (rt_now ?r2)) = (d', rt')"
    using assms None
    by (auto simp: savePackingItem_def rbind_Inr_iff Let_def case_prod_unfold packed_item_def
        blank_item_def)
  then show ?thesis
    by (intro new [where t = "fst (rt_now ?r1)" and u = "fst (rt_now ?r2)"
          and rtx = "snd (rt_now ?r2)"]) (simp_all add: t)
next
  case (Some e)
  note e = find_packing_Some [OF Some]
  have item: "\<lparr>p_id = p_id e, p_journeyId = k, p_label = js_trim (pi_label input),
      p_category = pi_category input, p_quantity = num_int (pi_quantity input),
      p_packedQuantity = min (p_packedQuantity e) (num_int (pi_quantity input)),
      p_essential = pi_essential input, p_recordVersion = p_recordVersion e,
      p_createdAt = p_createdAt e, p_updatedAt = fst (rt_now rt)\<rparr>
      = packed_item e input (fst (rt_now rt))"
    using e by (cases e) (simp add: packed_item_def)
  have "k \<in> journey_ids d" "validatePacking input = []"
    and t: "touchJourney (d\<lparr>packingItems := map (\<lambda>c. if p_id c = p_id e
          then packed_item e input (fst (rt_now rt)) else c) (packingItems d)\<rparr>) k (snd (rt_now rt))
      = (d', rt')"
    using assms Some unfolding item [symmetric]
    by (auto simp: savePackingItem_def rbind_Inr_iff Let_def case_prod_unfold cong: if_cong)
  then show ?thesis
    by (intro edit [OF Some, where rtx = "snd (rt_now rt)"]) (simp_all only: rt_now_simps t fst_conv)
qed

lemma wf_packed_item:
  assumes "validatePacking input = []" "stamp_ok dp u" "stamp_ok dp (p_createdAt b)"
    and "\<not> blank (p_id b)" "\<not> blank (p_journeyId b)" "0 \<le> p_packedQuantity b" "1 \<le> p_recordVersion b"
  shows "wf_packing dp (packed_item b input u)"
  using assms by (simp add: wf_packing_def packed_item_def validatePacking_nil)

lemma packed_item_simps [simp]:
  "p_id (packed_item b input u) = p_id b"
  "p_journeyId (packed_item b input u) = p_journeyId b"
  by (simp_all add: packed_item_def)

lemma savePackingItem_inv:
  assumes inv: "service_inv dp d" and clock: "good_clock dp rt" and fresh: "fresh_id d rt"
    and op: "savePackingItem d k input rt i = Inr (d', rt')"
  shows "service_inv dp d'"
  using op
proof (cases rule: savePackingItem_Inr)
  case (edit e rtx)
  note e = find_packing_Some [OF edit(1)]
  let ?x = "packed_item e input (fst (rt_now rt))"
  let ?ps = "map (\<lambda>c. if p_id c = p_id e then ?x else c) (packingItems d)"
  have "service_inv dp (d\<lparr>packingItems := ?ps\<rparr>)"
  proof (rule service_inv_packing [OF inv])
    have "wf_packing dp e"
      using e service_invD(2) [OF inv] by simp
    then have "wf_packing dp ?x"
      using edit(3) good_clock_now [OF clock] by (intro wf_packed_item) (simp_all add: wf_packing_def)
    then show "wf_packing dp p \<and> p_journeyId p \<in> journey_ids d" if "p \<in> set ?ps" for p
      using that inv e edit(2) by (auto simp: service_inv_def wf_data_defs)
    have "map p_id ?ps = map p_id (packingItems d)"
      by (rule map_replace) simp
    then show "distinct (map p_id ?ps)"
      using service_invD(4) [OF inv] by (simp only:)
  qed
  then show ?thesis
    using service_inv_touch clock edit(4,5) by (simp add: good_clock_def)
next
  case (new t u rtx)
  let ?x = "packed_item (blank_item (fst (rt_id rt)) k t) input u"
  have "service_inv dp (d\<lparr>packingItems := packingItems d @ [?x]\<rparr>)"
  proof (rule service_inv_packing [OF inv])
    have "wf_packing dp ?x"
      using new(3-5) fresh clock service_invD(5) [OF inv new(2)]
      by (intro wf_packed_item) (auto simp: blank_item_def good_clock_def fresh_id_def Let_def)
    then show "wf_packing dp p \<and> p_journeyId p \<in> journey_ids d"
      if "p \<in> set (packingItems d @ [?x])" for p
      using that inv new(2) by (auto simp: service_inv_def wf_data_defs blank_item_def)
    show "distinct (map p_id (packingItems d @ [?x]))"
      using service_invD(4) [OF inv] fresh by (auto simp: fresh_id_def Let_def blank_item_def)
  qed
  then show ?thesis
    using service_inv_touch clock new(6,7) by (simp add: good_clock_def)
qed

lemma setPackedQuantity_Inr:
  "setPackedQuantity d k i q rt = Inr (d', rt') \<Longrightarrow>
     k \<in> journey_ids d \<and> (\<exists>p \<in> set (packingItems d). p_id p = i \<and> p_journeyId p = k)
     \<and> d' = fst (touchJourney (d\<lparr>packingItems := map (\<lambda>p. if p_id p = i
            then p\<lparr>p_packedQuantity := max 0 (min (p_quantity p) q)\<rparr> else p) (packingItems d)\<rparr>) k rt)"
  by (auto simp: setPackedQuantity_def rbind_Inr_iff list_ex_iff dest: arg_cong [of _ _ fst])

lemma setPackedQuantity_inv:
  assumes inv: "service_inv dp d" and clock: "good_clock dp rt"
    and op: "setPackedQuantity d k i q rt = Inr (d', rt')"
  shows "service_inv dp d'"
proof -
  let ?f = "\<lambda>p. if p_id p = i then p\<lparr>p_packedQuantity := max 0 (min (p_quantity p) q)\<rparr> else p"
  have "service_inv dp (d\<lparr>packingItems := map ?f (packingItems d)\<rparr>)"
  proof (rule service_inv_packing [OF inv])
    fix p
    assume "p \<in> set (map ?f (packingItems d))"
    then obtain x where "x \<in> set (packingItems d)" "p = ?f x" by auto
    then show "wf_packing dp p \<and> p_journeyId p \<in> journey_ids d"
      using inv by (auto simp: service_inv_def wf_data_defs wf_packing_def)
  next
    have "map p_id (map ?f (packingItems d)) = map p_id (packingItems d)"
      by simp
    then show "distinct (map p_id (map ?f (packingItems d)))"
      using service_invD(4) [OF inv] by (simp only:)
  qed
  then show ?thesis
    using service_inv_touch clock setPackedQuantity_Inr [OF op] by simp
qed

lemma deletePackingItem_inv:
  assumes inv: "service_inv dp d" and clock: "good_clock dp rt"
    and op: "deletePackingItem d k i rt = Inr (d', rt')"
  shows "service_inv dp d'"
proof -
  have d': "d' = fst (touchJourney (d\<lparr>packingItems :=
      filter (\<lambda>p. p_id p \<noteq> i) (packingItems d)\<rparr>) k rt)"
    using op by (auto simp: deletePackingItem_def rbind_Inr_iff dest: arg_cong [of _ _ fst])
  have "service_inv dp (d\<lparr>packingItems := filter (\<lambda>p. p_id p \<noteq> i) (packingItems d)\<rparr>)"
    using inv by (intro service_inv_packing [OF inv])
      (auto simp: service_inv_def wf_data_defs distinct_map_filterI)
  then show ?thesis
    using service_inv_touch clock unfolding d' by simp
qed

section \<open>All operations as one transition system\<close>

text \<open>One rule per operation the pages call, with what the caller hands over.\<close>

inductive service_step :: "(string \<Rightarrow> bool) \<Rightarrow> journey_data \<Rightarrow> journey_data \<Rightarrow> bool" for dp where
  create: "\<lbrakk>good_clock dp rt; fresh_id d rt; date_input (ji_startDate input);
      date_input (ji_endDate input); createJourney d input rt = Inr ((d', j), rt')\<rbrakk>
    \<Longrightarrow> service_step dp d d'"
| update: "\<lbrakk>good_clock dp rt; date_input (ji_startDate input); date_input (ji_endDate input);
      updateJourney d k input rt = Inr (d', rt')\<rbrakk> \<Longrightarrow> service_step dp d d'"
| status: "\<lbrakk>good_clock dp rt; setJourneyStatus d k st rt = Inr (d', rt')\<rbrakk> \<Longrightarrow> service_step dp d d'"
| delete: "deleteJourney d k = Inr d' \<Longrightarrow> service_step dp d d'"
| save_segment: "\<lbrakk>good_clock dp rt; fresh_id d rt; date_input (si_startDate si);
      date_input (si_endDate si); saveSegment d k si rt i = Inr (d', rt')\<rbrakk>
    \<Longrightarrow> service_step dp d d'"
| delete_segment: "\<lbrakk>good_clock dp rt; deleteSegment d k s rt = Inr (d', rt')\<rbrakk>
    \<Longrightarrow> service_step dp d d'"
| move_segment: "\<lbrakk>good_clock dp rt; moveSegment d k s dir rt = Inr (d', rt')\<rbrakk>
    \<Longrightarrow> service_step dp d d'"
| save_packing: "\<lbrakk>good_clock dp rt; fresh_id d rt; savePackingItem d k pin rt i = Inr (d', rt')\<rbrakk>
    \<Longrightarrow> service_step dp d d'"
| set_packed: "\<lbrakk>good_clock dp rt; setPackedQuantity d k p q rt = Inr (d', rt')\<rbrakk>
    \<Longrightarrow> service_step dp d d'"
| delete_packing: "\<lbrakk>good_clock dp rt; deletePackingItem d k p rt = Inr (d', rt')\<rbrakk>
    \<Longrightarrow> service_step dp d d'"

lemmas service_op_invs =
  createJourney_inv updateJourney_inv setJourneyStatus_inv deleteJourney_inv saveSegment_inv
  deleteSegment_inv moveSegment_inv savePackingItem_inv setPackedQuantity_inv deletePackingItem_inv

lemma service_inv_empty: "service_inv dp EMPTY_JOURNEY_DATA"
  by (simp add: service_inv_def wf_data_defs dense_def EMPTY_JOURNEY_DATA_def)

interpretation service: invariant_system
  "\<lambda>d. d = EMPTY_JOURNEY_DATA" "service_step dp" "service_inv dp" for dp
proof (unfold_locales, goal_cases)
  case (1 s)
  then show ?case by (simp add: service_inv_empty)
next
  case (2 s t)
  then show ?case
    by (induction rule: service_step.induct) (blast intro: service_op_invs)+
qed

section \<open>What the operations do to a timeline\<close>

definition renumber :: "segment list \<Rightarrow> segment list" where
  "renumber ss = map (\<lambda>(p, s). s\<lparr>s_position := int p\<rparr>) (enumerate 0 ss)"

lemma renumber_nth: "n < length ss \<Longrightarrow> renumber ss ! n = (ss ! n)\<lparr>s_position := int n\<rparr>"
  by (simp add: renumber_def nth_enumerate_eq)

lemma length_renumber [simp]: "length (renumber ss) = length ss"
  by (simp add: renumber_def)

lemma renumber_ids [simp]: "map s_id (renumber ss) = map s_id ss"
  by (rule nth_equalityI) (simp_all add: renumber_nth)

lemma renumber_id: "map s_position ss = map int [0..<length ss] \<Longrightarrow> renumber ss = ss"
proof (rule nth_equalityI, simp_all add: renumber_nth)
  fix n
  assume "map s_position ss = map int [0..<length ss]" "n < length ss"
  then have "s_position (ss ! n) = int n"
    by (metis add_0 length_map nth_map nth_upt)
  then show "(ss ! n)\<lparr>s_position := int n\<rparr> = ss ! n"
    by (cases "ss ! n") simp
qed

lemma renumber_swap_back:
  assumes "n < length ss" "t < length ss"
  shows "renumber (swap t n (renumber (swap n t ss))) = renumber ss"
  by (rule nth_equalityI)
    (use assms in \<open>auto simp: renumber_nth swap_def nth_list_update\<close>)

lemma reposition_renumber:
  "distinct (map s_id ord) \<Longrightarrow> map (reposition (index_map s_id ord)) ord = renumber ord"
  by (rule nth_equalityI) (simp_all add: renumber_nth reposition_def index_map_nth)

lemma timeline_cong:
  "filter (\<lambda>s. s_journeyId s = j) (segments d') = filter (\<lambda>s. s_journeyId s = j) (segments d) \<Longrightarrow>
   segmentsForJourney d' j = segmentsForJourney d j"
  by (simp add: segmentsForJourney_def)

lemma timeline_touch [simp]:
  "segmentsForJourney (fst (touchJourney d k rt)) j = segmentsForJourney d j"
  by (simp add: segmentsForJourney_def)

lemma distinct_timeline_ids:
  assumes "service_inv dp d"
  shows "distinct (map s_id (segmentsForJourney d k))"
proof -
  have "mset (map s_id (segmentsForJourney d k))
      = mset (map s_id (filter (\<lambda>s. s_journeyId s = k) (segments d)))"
    by (simp add: mset_segmentsForJourney)
  then show ?thesis
    using distinct_map_filterI [OF service_invD(3) [OF assms]] mset_eq_imp_distinct_iff by blast
qed

text \<open>Renumbering after the order \<open>ord\<close> of one journey's remaining segments.\<close>

lemma timeline_after_reposition:
  assumes dist: "distinct (map s_id xs)"
    and perm: "mset ord = mset (filter (\<lambda>s. s_journeyId s = k) xs)"
  shows "segmentsForJourney (d\<lparr>segments := map (reposition (index_map s_id ord)) xs\<rparr>) j
    = (if j = k then renumber ord
       else sort_key s_position (filter (\<lambda>s. s_journeyId s = j) xs))"
proof (cases "j = k")
  case True
  have "distinct (map s_id ord)"
    by (metis dist distinct_map_filterI mset_eq_imp_distinct_iff mset_map perm)
  with True timeline_reposition [OF assms] show ?thesis
    by (simp add: segmentsForJourney_def reposition_renumber)
next
  case False
  have sub: "set ord = {s \<in> set xs. s_journeyId s = k}"
    using mset_eq_setD [OF perm] by auto
  have "map (reposition (index_map s_id ord)) (filter (\<lambda>s. s_journeyId s = j) xs)
      = filter (\<lambda>s. s_journeyId s = j) xs"
    by (rule map_idI) (use False sub reposition_other [OF dist] in auto)
  with False show ?thesis
    by (simp add: segmentsForJourney_def filter_map comp_def)
qed

lemma findIndex_id:
  assumes "distinct (map f xs)" "n < length xs"
  shows "findIndex (\<lambda>x. f x = f (xs ! n)) xs = Some n"
proof (cases "findIndex (\<lambda>x. f x = f (xs ! n)) xs")
  case None
  then show ?thesis
    using assms(2) by (auto simp: findIndex_None)
next
  case (Some m)
  then have "m < length xs" "f (xs ! m) = f (xs ! n)"
    using findIndex_Some [OF Some] by auto
  then have "m = n"
    using assms by (metis length_map nth_eq_iff_index_eq nth_map)
  with Some show ?thesis by simp
qed

lemma moveSegment_at:
  assumes inv: "service_inv dp d" and k: "k \<in> journey_ids d"
    and n: "n < length (segmentsForJourney d k)" and i: "i = s_id (segmentsForJourney d k ! n)"
    and t: "int t = int n + offset dir" "t < length (segmentsForJourney d k)"
  obtains d' rt' where "moveSegment d k i dir rt = Inr (d', rt')"
    and "segmentsForJourney d' k = renumber (swap n t (segmentsForJourney d k))"
    and "\<And>j. j \<noteq> k \<Longrightarrow> segmentsForJourney d' j = segmentsForJourney d j"
    and "packingItems d' = packingItems d" and "journey_ids d' = journey_ids d"
proof -
  let ?ord = "swap n t (segmentsForJourney d k)"
  let ?d = "d\<lparr>segments := map (reposition (index_map s_id ?ord)) (segments d)\<rparr>"
  have f: "findIndex (\<lambda>s. s_id s = i) (segmentsForJourney d k) = Some n"
    unfolding i by (rule findIndex_id [OF distinct_timeline_ids [OF inv] n])
  have perm: "mset ?ord = mset (filter (\<lambda>s. s_journeyId s = k) (segments d))"
    using mset_swap_list [OF n t(2)] by (simp add: mset_segmentsForJourney)
  have "list_ex (\<lambda>j. j_id j = k) (journeys d)"
    using k by (auto simp: list_ex_iff)
  moreover have "nat (int n + offset dir) = t"
    using t(1) by simp
  ultimately have "moveSegment d k i dir rt = Inr (touchJourney ?d k rt)"
    using f t by (simp add: moveSegment_def assertJourneyExists_def swap_def Let_def)
  then have m: "moveSegment d k i dir rt
      = Inr (fst (touchJourney ?d k rt), snd (touchJourney ?d k rt))"
    by simp
  show thesis
    by (rule that [OF m])
      (simp_all add: timeline_after_reposition [OF service_invD(3) [OF inv] perm],
        simp add: segmentsForJourney_def)
qed

lemma deleteSegment_at:
  assumes inv: "service_inv dp d" and s: "s \<in> set (segments d)" and k: "k \<in> journey_ids d"
    and i: "s_id s = i" "s_journeyId s = k"
  obtains d' rt' where "deleteSegment d k i rt = Inr (d', rt')"
    and "segmentsForJourney d' k
      = renumber (filter (\<lambda>s. s_id s \<noteq> i) (segmentsForJourney d k))"
    and "\<And>j. j \<noteq> k \<Longrightarrow> segmentsForJourney d' j = segmentsForJourney d j"
    and "packingItems d' = packingItems d"
proof -
  let ?rest = "filter (\<lambda>s. s_id s \<noteq> i) (segments d)"
  let ?ord = "filter (\<lambda>s. s_id s \<noteq> i) (segmentsForJourney d k)"
  let ?d = "d\<lparr>segments := map (reposition (index_map s_id ?ord)) ?rest\<rparr>"
  have perm: "mset ?ord = mset (filter (\<lambda>s. s_journeyId s = k) ?rest)"
    by (simp add: segmentsForJourney_def filter_sort conj_commute)
  have "list_ex (\<lambda>j. j_id j = k) (journeys d)"
    using k by (auto simp: list_ex_iff)
  moreover have "list_ex (\<lambda>s. s_id s = i \<and> s_journeyId s = k) (segments d)"
    using s i by (auto simp: list_ex_iff)
  ultimately have m: "deleteSegment d k i rt
      = Inr (fst (touchJourney ?d k rt), snd (touchJourney ?d k rt))"
    by (simp add: deleteSegment_def assertJourneyExists_def assertOwnedItem_def Let_def
        segmentsForJourney_def filter_sort conj_commute)
  have dist: "distinct (map s_id (segments d))"
    by (rule service_invD(3) [OF inv])
  have only: "t \<in> set (segments d) \<Longrightarrow> s_id t = i \<Longrightarrow> s_journeyId t = k" for t
    using distinct_map_eq [OF dist _ s] i by metis
  have "j \<noteq> k \<Longrightarrow> filter (\<lambda>s. s_journeyId s = j) ?rest = filter (\<lambda>s. s_journeyId s = j) (segments d)"
    for j
    unfolding filter_filter by (intro filter_cong) (use only in auto)
  then show thesis
    by (intro that [OF m])
      (simp_all add: timeline_after_reposition [OF distinct_map_filterI [OF dist] perm],
        simp add: segmentsForJourney_def)
qed

lemma saveSegment_appends:
  assumes inv: "service_inv dp d" and k: "k \<in> journey_ids d"
    and v: "validateSegment input = []" and i: "\<not> truthy_opt i"
  obtains d' rt' s where "saveSegment d k input rt i = Inr (d', rt')"
    and "segmentsForJourney d' k = segmentsForJourney d k @ [s]"
    and "s_id s = fst (rt_id rt)" and "s_detail s = trim_detail (si_detail input)"
    and "s_position s = int (length (segmentsForJourney d k))"
    and "\<And>j. j \<noteq> k \<Longrightarrow> segmentsForJourney d' j = segmentsForJourney d j"
proof -
  have "list_ex (\<lambda>j. j_id j = k) (journeys d)"
    using k by (auto simp: list_ex_iff)
  then have "\<exists>r. saveSegment d k input rt i = Inr r"
    using v i by (simp add: saveSegment_def assertJourneyExists_def assertValid_def
        find_segment_def Let_def case_prod_unfold)
  then obtain d' rt' where op: "saveSegment d k input rt i = Inr (d', rt')"
    by (metis surj_pair)
  from op show thesis
  proof (cases rule: saveSegment_Inr)
    case (edit e s rtx)
    then show ?thesis using i find_segment_Some [OF edit(1)] by auto
  next
    case (new s rtx)
    have lt: "t \<in> set (segmentsForJourney d k) \<Longrightarrow> s_position t < s_position s" for t
      using dense_positions_lt [of d t k] inv by (simp add: service_inv_def new(4))
    have "segmentsForJourney d' k = segmentsForJourney d k @ [s]"
    proof -
      have "sort_key s_position (filter (\<lambda>s. s_journeyId s = k) (segments d) @ [s])
          = segmentsForJourney d k @ [s]"
      proof (rule sort_key_eqI)
        show "mset (filter (\<lambda>s. s_journeyId s = k) (segments d) @ [s])
            = mset (segmentsForJourney d k @ [s])"
          by (simp add: mset_segmentsForJourney)
        show "sorted (map s_position (segmentsForJourney d k @ [s]))"
          using lt by (auto simp: sorted_append segmentsForJourney_def intro: less_imp_le)
        show "distinct (map s_position (segmentsForJourney d k @ [s]))"
          using inv by (auto simp: service_inv_def dense_timeline distinct_map_int_upt new(4))
      qed
      then show ?thesis
        using new(4,6) by (simp add: segmentsForJourney_def)
    qed
    then show ?thesis
      using new by (intro that [OF op, of s]) (simp_all add: segmentsForJourney_def)
  qed
qed

section \<open>A small journey\<close>

definition demo_stamp :: string where
  "demo_stamp = ''2026-01-01T00:00:00Z''"

definition demo_rt :: runtime where
  "demo_rt = \<lparr>rt_ids = (\<lambda>n. ''new-'' @ replicate n CHR ''i''), rt_nid = 0,
     rt_clock = (\<lambda>n. demo_stamp), rt_nnow = 0\<rparr>"

definition demo_stay :: "string \<Rightarrow> int \<Rightarrow> string \<Rightarrow> segment" where
  "demo_stay i p place = \<lparr>s_id = i, s_journeyId = ''j1'', s_position = p, s_startDate = None,
     s_endDate = None, s_notes = '''', s_recordVersion = 1, s_createdAt = demo_stamp,
     s_updatedAt = demo_stamp, s_detail = Stay place\<rparr>"

definition demo_data :: journey_data where
  "demo_data =
     \<lparr>journeys = [\<lparr>j_id = ''j1'', j_name = ''Trip'', j_startDate = Some ''2026-02-01'',
        j_endDate = Some ''2026-02-09'', j_status = Planning, j_recordVersion = 1,
        j_createdAt = demo_stamp, j_updatedAt = demo_stamp\<rparr>],
      segments = [demo_stay ''s1'' 1 ''Rome'', demo_stay ''s0'' 0 ''Turin''],
      packingItems = [\<lparr>p_id = ''p1'', p_journeyId = ''j1'', p_label = ''Socks'',
        p_category = Clothing, p_quantity = 3, p_packedQuantity = 1, p_essential = False,
        p_recordVersion = 1, p_createdAt = demo_stamp, p_updatedAt = demo_stamp\<rparr>]\<rparr>"

abbreviation any_date :: "string \<Rightarrow> bool" where
  "any_date \<equiv> \<lambda>_. True"

lemma demo_timeline:
  "segmentsForJourney demo_data ''j1'' = [demo_stay ''s0'' 0 ''Turin'', demo_stay ''s1'' 1 ''Rome'']"
  by (simp add: segmentsForJourney_def demo_data_def demo_stay_def)

lemma demo_inv: "service_inv any_date demo_data"
proof -
  have "dense demo_data"
    unfolding dense_def
    by (simp add: demo_data_def demo_stay_def segmentsForJourney_def upt_rec)
  moreover have "wf_data any_date demo_data"
    by (simp add: wf_data_defs wf_item_defs demo_data_def demo_stay_def demo_stamp_def
        dates_ok_def date_ok_def LOCAL_DATE_def stamp_ok_def wf_detail_def js_defs
        numeral_eq_Suc less_eq_char_def)
  ultimately show ?thesis
    by (simp add: service_inv_def)
qed

lemma demo_clock: "good_clock any_date demo_rt"
  by (simp add: good_clock_def stamp_ok_def demo_rt_def demo_stamp_def)

lemma demo_fresh: "fresh_id demo_data demo_rt" "fresh_id EMPTY_JOURNEY_DATA demo_rt"
  by (simp_all add: fresh_id_def rt_id_def demo_rt_def demo_data_def demo_stay_def js_defs
      EMPTY_JOURNEY_DATA_def)

lemma demo_ids: "journey_ids demo_data = {''j1''}"
  by (simp add: demo_data_def)

end
