(* ===== verification/Journey_Properties.thy ===== *)
theory Journey_Properties
  imports Journey_Invariants
begin

text \<open>The properties of the Journey domain and service, over the lemmas of the two theories.\<close>



text \<open>C8. \<open>parseJourneyData\<close> accepts the stored form of data exactly when the data satisfies the
  invariant (unique identifiers, references that resolve, one segment per position, packed
  counts within quantities, ordered dates, valid timestamps), and then returns that data.\<close>
theorem parse_print_iff_wf: "parseJourneyData dp (data_js d) = Inr d \<longleftrightarrow> wf_data dp d"
  by (rule parse_data_js)

text \<open>Whatever value \<open>parseJourneyData\<close> is given, if it returns at all the data it returns
  satisfies the invariant; anything else throws \<open>invalid_local_data\<close>.\<close>
theorem parse_sound:
  assumes "parseJourneyData dp v \<noteq> Inl Invalid_local_data"
  shows "\<exists>d. parseJourneyData dp v = Inr d \<and> wf_data dp d"
proof (cases "parseJourneyData dp v")
  case (Inl e)
  then show ?thesis using assms by (cases e) simp
next
  case (Inr d)
  then show ?thesis using parse_wf by blast
qed

theorem parse_sound_witness:
  "\<exists>d. parseJourneyData any_date (data_js demo_data) = Inr d \<and> wf_data any_date d"
  by (rule parse_sound) (use demo_inv in \<open>simp add: parse_data_js [THEN iffD2] service_inv_def\<close>)

text \<open>C2. \<open>moveSegment\<close> on a segment that has a neighbour in the given direction succeeds, swaps
  the two in their journey's timeline and renumbers it, and leaves the timelines of the other
  journeys and the packing list as they were.\<close>
theorem moveSegment_swaps:
  assumes "service_inv dp d" "k \<in> journey_ids d"
    and "n < length (segmentsForJourney d k)" "i = s_id (segmentsForJourney d k ! n)"
    and "int t = int n + offset dir" "t < length (segmentsForJourney d k)"
  shows "\<exists>d' rt'. moveSegment d k i dir rt = Inr (d', rt')
     \<and> segmentsForJourney d' k = renumber (swap n t (segmentsForJourney d k))
     \<and> (\<forall>j. j \<noteq> k \<longrightarrow> segmentsForJourney d' j = segmentsForJourney d j)
     \<and> packingItems d' = packingItems d"
  by (rule moveSegment_at [OF assms, of rt]) blast

theorem moveSegment_swaps_witness:
  "\<exists>d' rt'. moveSegment demo_data ''j1'' ''s0'' Down demo_rt = Inr (d', rt')
     \<and> map s_id (segmentsForJourney d' ''j1'') = [''s1'', ''s0'']"
proof -
  have "\<exists>d' rt'. moveSegment demo_data ''j1'' ''s0'' Down demo_rt = Inr (d', rt')
     \<and> segmentsForJourney d' ''j1'' = renumber (swap 0 1 (segmentsForJourney demo_data ''j1''))
     \<and> (\<forall>j. j \<noteq> ''j1'' \<longrightarrow> segmentsForJourney d' j = segmentsForJourney demo_data j)
     \<and> packingItems d' = packingItems demo_data"
    by (rule moveSegment_swaps [OF demo_inv])
      (simp_all add: demo_timeline demo_stay_def demo_ids)
  then obtain d' rt' where "moveSegment demo_data ''j1'' ''s0'' Down demo_rt = Inr (d', rt')"
    "segmentsForJourney d' ''j1'' = renumber (swap 0 1 (segmentsForJourney demo_data ''j1''))"
    by blast
  then show ?thesis
    by (simp add: demo_timeline demo_stay_def swap_def)
qed

text \<open>Moving a segment down and then up again restores its journey's timeline exactly.\<close>
theorem moveSegment_down_up:
  assumes "service_inv dp d" "good_clock dp rt" "k \<in> journey_ids d"
    and "Suc n < length (segmentsForJourney d k)" "i = s_id (segmentsForJourney d k ! n)"
  shows "\<exists>d1 rt1 d2 rt2. moveSegment d k i Down rt = Inr (d1, rt1)
     \<and> moveSegment d1 k i Up rt1 = Inr (d2, rt2)
     \<and> segmentsForJourney d2 k = segmentsForJourney d k"
proof -
  let ?tl = "segmentsForJourney d k"
  have n: "n < length ?tl" using assms(4) by simp
  obtain d1 rt1 where d1: "moveSegment d k i Down rt = Inr (d1, rt1)"
    "segmentsForJourney d1 k = renumber (swap n (Suc n) ?tl)" "journey_ids d1 = journey_ids d"
    by (rule moveSegment_at [OF assms(1,3) n assms(5), of "Suc n" Down rt])
      (use assms(4) in auto)
  have inv1: "service_inv dp d1"
    by (rule moveSegment_inv [OF assms(1,2) d1(1)])
  have i1: "i = s_id (segmentsForJourney d1 k ! Suc n)"
    using assms(4,5) n by (simp add: d1(2) renumber_nth swap_def)
  obtain d2 rt2 where d2: "moveSegment d1 k i Up rt1 = Inr (d2, rt2)"
    "segmentsForJourney d2 k = renumber (swap (Suc n) n (segmentsForJourney d1 k))"
    by (rule moveSegment_at [OF inv1 _ _ i1, of n Up rt1])
      (use assms(3,4) d1 in \<open>auto simp: swap_def\<close>)
  have "segmentsForJourney d2 k = renumber ?tl"
    using d2(2) d1(2) renumber_swap_back [OF n assms(4)] by simp
  also have "\<dots> = ?tl"
    using assms(1) by (intro renumber_id dense_timeline) (simp add: service_inv_def)
  finally show ?thesis
    using d1(1) d2(1) by blast
qed

theorem moveSegment_down_up_witness:
  "\<exists>d1 rt1 d2 rt2. moveSegment demo_data ''j1'' ''s0'' Down demo_rt = Inr (d1, rt1)
     \<and> moveSegment d1 ''j1'' ''s0'' Up rt1 = Inr (d2, rt2)
     \<and> segmentsForJourney d2 ''j1'' = segmentsForJourney demo_data ''j1''"
  by (rule moveSegment_down_up [OF demo_inv demo_clock, of _ 0])
    (simp_all add: demo_timeline demo_stay_def demo_ids)

text \<open>C3. \<open>deleteSegment\<close> removes exactly that segment from its journey's timeline, keeps the
  order of the rest and closes the gap in the numbering; other timelines do not change.\<close>
theorem deleteSegment_closes_gap:
  assumes "service_inv dp d" "s \<in> set (segments d)" "k \<in> journey_ids d"
    and "s_id s = i" "s_journeyId s = k"
  shows "\<exists>d' rt'. deleteSegment d k i rt = Inr (d', rt')
     \<and> segmentsForJourney d' k
         = renumber (filter (\<lambda>s. s_id s \<noteq> i) (segmentsForJourney d k))
     \<and> (\<forall>j. j \<noteq> k \<longrightarrow> segmentsForJourney d' j = segmentsForJourney d j)
     \<and> packingItems d' = packingItems d"
  by (rule deleteSegment_at [OF assms, of rt]) blast

theorem deleteSegment_closes_gap_witness:
  "\<exists>d' rt'. deleteSegment demo_data ''j1'' ''s0'' demo_rt = Inr (d', rt')
     \<and> segmentsForJourney d' ''j1'' = [demo_stay ''s1'' 0 ''Rome'']"
proof -
  have "\<exists>d' rt'. deleteSegment demo_data ''j1'' ''s0'' demo_rt = Inr (d', rt')
     \<and> segmentsForJourney d' ''j1''
         = renumber (filter (\<lambda>s. s_id s \<noteq> ''s0'') (segmentsForJourney demo_data ''j1''))
     \<and> (\<forall>j. j \<noteq> ''j1'' \<longrightarrow> segmentsForJourney d' j = segmentsForJourney demo_data j)
     \<and> packingItems d' = packingItems demo_data"
    by (rule deleteSegment_closes_gap [OF demo_inv, of "demo_stay ''s0'' 0 ''Turin''"])
      (simp_all add: demo_data_def demo_stay_def)
  then show ?thesis
    by (auto simp: demo_timeline demo_stay_def renumber_def)
qed

text \<open>\<open>saveSegment\<close> without a segment id, on a valid input, appends the trimmed segment at the
  end of its journey's timeline, numbered by its index, and touches no other timeline.\<close>
theorem saveSegment_appends_at_end:
  assumes "service_inv dp d" "k \<in> journey_ids d" "validateSegment input = []" "\<not> truthy_opt i"
  shows "\<exists>d' rt' s. saveSegment d k input rt i = Inr (d', rt')
     \<and> segmentsForJourney d' k = segmentsForJourney d k @ [s]
     \<and> s_id s = fst (rt_id rt) \<and> s_detail s = trim_detail (si_detail input)
     \<and> s_position s = int (length (segmentsForJourney d k))
     \<and> (\<forall>j. j \<noteq> k \<longrightarrow> segmentsForJourney d' j = segmentsForJourney d j)"
  by (rule saveSegment_appends [OF assms, of rt]) blast

theorem saveSegment_appends_at_end_witness:
  "\<exists>d' rt' s. saveSegment demo_data ''j1''
       \<lparr>si_detail = Stay '' Pisa '', si_startDate = '''', si_endDate = '''', si_notes = ''''\<rparr> demo_rt None
       = Inr (d', rt')
     \<and> segmentsForJourney d' ''j1'' = segmentsForJourney demo_data ''j1'' @ [s]
     \<and> s_id s = ''new-'' \<and> s_detail s = Stay ''Pisa'' \<and> s_position s = 2"
proof -
  let ?in = "\<lparr>si_detail = Stay '' Pisa '', si_startDate = '''', si_endDate = '''', si_notes = ''''\<rparr>"
  have "\<exists>d' rt' s. saveSegment demo_data ''j1'' ?in demo_rt None = Inr (d', rt')
     \<and> segmentsForJourney d' ''j1'' = segmentsForJourney demo_data ''j1'' @ [s]
     \<and> s_id s = fst (rt_id demo_rt) \<and> s_detail s = trim_detail (si_detail ?in)
     \<and> s_position s = int (length (segmentsForJourney demo_data ''j1''))
     \<and> (\<forall>j. j \<noteq> ''j1'' \<longrightarrow> segmentsForJourney d' j = segmentsForJourney demo_data j)"
    by (rule saveSegment_appends_at_end [OF demo_inv])
      (simp_all add: demo_ids validateSegment_def date_order_violated_def js_defs)
  then obtain d' rt' s where "saveSegment demo_data ''j1'' ?in demo_rt None = Inr (d', rt')"
    "segmentsForJourney d' ''j1'' = segmentsForJourney demo_data ''j1'' @ [s]"
    "s_id s = fst (rt_id demo_rt)" "s_detail s = trim_detail (si_detail ?in)"
    "s_position s = int (length (segmentsForJourney demo_data ''j1''))"
    by blast
  moreover have "fst (rt_id demo_rt) = ''new-''" "trim_detail (si_detail ?in) = Stay ''Pisa''"
    "int (length (segmentsForJourney demo_data ''j1'')) = 2"
    by (simp_all add: rt_id_def demo_rt_def js_defs demo_timeline)
  ultimately show ?thesis by auto
qed

text \<open>The errors of \<open>saveSegment\<close>, in the order of its checks: a missing journey, then every
  validation code of the input, then a segment id that names no segment of this journey; in
  every other case it returns new data.\<close>
theorem saveSegment_outcome:
  "(k \<notin> journey_ids d \<longrightarrow>
      saveSegment d k input rt i = Inl (JourneyOperationError Journey_not_found))
   \<and> (k \<in> journey_ids d \<and> validateSegment input \<noteq> [] \<longrightarrow>
      saveSegment d k input rt i = Inl (JourneyValidationError (validateSegment input)))
   \<and> (k \<in> journey_ids d \<and> validateSegment input = [] \<and> truthy_opt i \<and> find_segment d k i = None \<longrightarrow>
      saveSegment d k input rt i = Inl (JourneyOperationError Item_not_found))
   \<and> ((\<exists>r. saveSegment d k input rt i = Inr r) \<longleftrightarrow>
      k \<in> journey_ids d \<and> validateSegment input = [] \<and> (truthy_opt i \<longrightarrow> find_segment d k i \<noteq> None))"
proof -
  have ex: "list_ex (\<lambda>j. j_id j = k) (journeys d) \<longleftrightarrow> k \<in> journey_ids d"
    by (auto simp: list_ex_iff)
  show ?thesis
    by (auto simp: saveSegment_def assertJourneyExists_def assertValid_def ex Let_def
        case_prod_unfold guard_def)
qed

theorem saveSegment_outcome_witness:
  "saveSegment demo_data ''j9''
     \<lparr>si_detail = Stay ''Pisa'', si_startDate = '''', si_endDate = '''', si_notes = ''''\<rparr>
     demo_rt (Some ''s1'') = Inl (JourneyOperationError Journey_not_found)"
  by (rule saveSegment_outcome [THEN conjunct1, THEN mp]) (simp add: demo_ids)

text \<open>\<open>deleteJourney\<close> removes the journey with every segment and packing item that refers to it
  and nothing else; the remaining data still satisfies the invariant.\<close>
theorem deleteJourney_cascades:
  assumes "service_inv dp d" "k \<in> journey_ids d"
  shows "\<exists>d'. deleteJourney d k = Inr d' \<and> service_inv dp d' \<and> journey_ids d' = journey_ids d - {k}
     \<and> set (segments d') = {s \<in> set (segments d). s_journeyId s \<noteq> k}
     \<and> set (packingItems d') = {p \<in> set (packingItems d). p_journeyId p \<noteq> k}
     \<and> (\<forall>j. j \<noteq> k \<longrightarrow> segmentsForJourney d' j = segmentsForJourney d j
              \<and> packingForJourney d' j = packingForJourney d j)"
proof -
  obtain d' where op: "deleteJourney d k = Inr d'"
    using assms(2) deleteJourney_Inr [of d k] by blast
  moreover have "j \<noteq> k \<Longrightarrow> filter (\<lambda>s. s_journeyId s \<noteq> k \<and> s_journeyId s = j) xs
      = filter (\<lambda>s. s_journeyId s = j) xs" for j and xs :: "segment list"
    by (rule filter_cong) auto
  moreover have "j \<noteq> k \<Longrightarrow> filter (\<lambda>p. p_journeyId p \<noteq> k \<and> p_journeyId p = j) ps
      = filter (\<lambda>p. p_journeyId p = j) ps" for j and ps :: "packing_item list"
    by (rule filter_cong) auto
  ultimately show ?thesis
    using deleteJourney_inv [OF assms(1) op]
    by (auto simp: deleteJourney_Inr segmentsForJourney_def packingForJourney_def)
qed

theorem deleteJourney_cascades_witness:
  "\<exists>d'. deleteJourney demo_data ''j1'' = Inr d' \<and> set (segments d') = {} \<and> set (packingItems d') = {}"
proof -
  have seg: "\<forall>s \<in> set (segments demo_data). s_journeyId s = ''j1''"
    and item: "\<forall>p \<in> set (packingItems demo_data). p_journeyId p = ''j1''"
    by (simp_all add: demo_data_def demo_stay_def)
  have mem: "''j1'' \<in> journey_ids demo_data"
    by (simp add: demo_ids)
  obtain d' where "deleteJourney demo_data ''j1'' = Inr d'"
      "set (segments d') = {s \<in> set (segments demo_data). s_journeyId s \<noteq> ''j1''}"
      "set (packingItems d') = {p \<in> set (packingItems demo_data). p_journeyId p \<noteq> ''j1''}"
    using deleteJourney_cascades [OF demo_inv mem] by (elim exE conjE)
  moreover have "set (segments d') = {}" "set (packingItems d') = {}"
    unfolding calculation(2,3) using seg item by simp_all
  ultimately show ?thesis
    by blast
qed

text \<open>\<open>setPackedQuantity\<close> stores the requested count clamped to what the item holds, so a
  journey's progress always has \<open>0 \<le> packed \<le> total\<close>.\<close>
theorem setPackedQuantity_clamps:
  assumes "service_inv dp d" "good_clock dp rt" "k \<in> journey_ids d"
    and "p \<in> set (packingItems d)" "p_id p = i" "p_journeyId p = k"
  shows "\<exists>d' rt'. setPackedQuantity d k i q rt = Inr (d', rt')
     \<and> p\<lparr>p_packedQuantity := max 0 (min (p_quantity p) q)\<rparr> \<in> set (packingItems d')
     \<and> (\<forall>j. case packingProgress (packingForJourney d' j) of (packed, tot) \<Rightarrow>
              0 \<le> packed \<and> packed \<le> tot)"
proof -
  have "list_ex (\<lambda>j. j_id j = k) (journeys d)"
    and "list_ex (\<lambda>p. p_id p = i \<and> p_journeyId p = k) (packingItems d)"
    using assms(3-6) by (auto simp: list_ex_iff)
  then obtain d' rt' where op: "setPackedQuantity d k i q rt = Inr (d', rt')"
    by (cases "setPackedQuantity d k i q rt")
      (auto simp: setPackedQuantity_def assertJourneyExists_def assertOwnedItem_def)
  have inv: "service_inv dp d'"
    by (rule setPackedQuantity_inv [OF assms(1,2) op])
  have "p\<lparr>p_packedQuantity := max 0 (min (p_quantity p) q)\<rparr> \<in> set (packingItems d')"
    using assms(4,5) setPackedQuantity_Inr [OF op] by auto
  moreover have "case packingProgress (packingForJourney d' j) of (packed, tot) \<Rightarrow>
      0 \<le> packed \<and> packed \<le> tot" for j
    using service_invD(2) [OF inv]
    by (auto simp: packingProgress_sum packingForJourney_def wf_packing_def
        intro!: sum_list_nonneg sum_list_mono)
  ultimately show ?thesis
    using op by blast
qed

theorem setPackedQuantity_clamps_witness:
  "\<exists>d' rt'. setPackedQuantity demo_data ''j1'' ''p1'' 7 demo_rt = Inr (d', rt')
     \<and> packingProgress (packingForJourney d' ''j1'') = (3, 3)"
proof -
  let ?p = "hd (packingItems demo_data)"
  have "\<exists>d' rt'. setPackedQuantity demo_data ''j1'' ''p1'' 7 demo_rt = Inr (d', rt')
     \<and> ?p\<lparr>p_packedQuantity := max 0 (min (p_quantity ?p) 7)\<rparr> \<in> set (packingItems d')
     \<and> (\<forall>j. case packingProgress (packingForJourney d' j) of (packed, tot) \<Rightarrow>
              0 \<le> packed \<and> packed \<le> tot)"
    by (rule setPackedQuantity_clamps [OF demo_inv demo_clock])
      (simp_all add: demo_ids demo_data_def)
  then obtain d' rt' where op: "setPackedQuantity demo_data ''j1'' ''p1'' 7 demo_rt = Inr (d', rt')"
    by blast
  then show ?thesis
    using setPackedQuantity_Inr [OF op]
    by (simp add: packingForJourney_def packingProgress_def demo_data_def)
qed

section \<open>A numbering the reader accepts and the service breaks\<close>

definition sparse_data :: journey_data where
  "sparse_data = demo_data\<lparr>segments := [demo_stay ''s1'' 1 ''Rome''], packingItems := []\<rparr>"

text \<open>C9. \<open>parseJourneyData\<close> asks for distinct positions, \<open>saveSegment\<close> takes the number of segments as
  the next position: from stored data with the single position 1 it appends a second segment
  at position 1, and the result is no longer readable.\<close>
theorem sparse_positions_break_saveSegment:
  "parseJourneyData any_date (data_js sparse_data) = Inr sparse_data
   \<and> (\<exists>d' rt'. saveSegment sparse_data ''j1''
          \<lparr>si_detail = Stay ''Pisa'', si_startDate = '''', si_endDate = '''', si_notes = ''''\<rparr>
          demo_rt None = Inr (d', rt')
        \<and> parseJourneyData any_date (data_js d') \<noteq> Inr d')"
proof -
  let ?in = "\<lparr>si_detail = Stay ''Pisa'', si_startDate = '''', si_endDate = '''', si_notes = ''''\<rparr>"
  have "wf_data any_date sparse_data"
    using demo_inv by (auto simp: service_inv_def sparse_data_def wf_data_defs demo_data_def)
  moreover have "\<exists>r. saveSegment sparse_data ''j1'' ?in demo_rt None = Inr r"
    by (simp add: saveSegment_def assertJourneyExists_def assertValid_def find_segment_def Let_def
        case_prod_unfold validateSegment_def date_order_violated_def sparse_data_def demo_data_def js_defs)
  then obtain d' rt' where op: "saveSegment sparse_data ''j1'' ?in demo_rt None = Inr (d', rt')"
    by (metis surj_pair)
  from op have "\<not> wf_data any_date d'"
  proof (cases rule: saveSegment_Inr)
    case (edit e s rtx)
    then show ?thesis by (simp add: find_segment_def)
  next
    case (new s rtx)
    then have "segments d' = [demo_stay ''s1'' 1 ''Rome'', s]" "slot s = (''j1'', 1)"
      by (simp_all add: sparse_data_def segmentsForJourney_def demo_stay_def)
    then show ?thesis
      by (simp add: wf_data_defs demo_stay_def)
  qed
  ultimately show ?thesis
    using op by (auto simp: parse_data_js)
qed

end
