(* ===== verification/Negotiation.thy ===== *)
theory Negotiation
  imports Prelude
begin

text \<open>
  Version negotiation of the API client, \<open>packages/api-client/src/negotiation.ts\<close>, with the
  client's own ranges from \<open>packages/api-client/generated/client.ts\<close>. The bounds are JavaScript
  numbers here as in the source: the server's answer may hold \<open>NaN\<close>, fractions or unsafe
  integers, and the validation is what rules them out.
\<close>

section \<open>Model\<close>

datatype negotiation_code =
    Invalid_contract_metadata
  | Client_too_old
  | Client_too_new
  | Unsupported_command
  | Command_version_no_overlap

record version_range =
  minimum_supported :: jsnum
  maximum_supported :: jsnum

record server_range = version_range +
  current :: jsnum

record command_support = server_range +
  command_type :: string

record contract_discovery =
  schema_version :: string
  api_range :: server_range
  command_ranges :: "command_support list"

record client_support =
  support_api :: version_range
  support_commands :: "(string \<times> version_range) list"

record negotiated_contract =
  apiVersion :: jsnum
  commandVersions :: "(string \<times> jsnum) list"

definition clientSupport :: client_support where
  "clientSupport = \<lparr>
     support_api = \<lparr>minimum_supported = of_int_num 1, maximum_supported = of_int_num 1\<rparr>,
     support_commands =
       [(''journey.update'', \<lparr>minimum_supported = of_int_num 1, maximum_supported = of_int_num 1\<rparr>)]\<rparr>"

text \<open>\<open>Math.min\<close>.\<close>

definition num_min :: "jsnum \<Rightarrow> jsnum \<Rightarrow> jsnum" where
  "num_min m n =
     (if m = NaN \<or> n = NaN then NaN
      else if num_lt n m \<or> (n = NegZero \<and> m = Fin 0) then n else m)"

definition positiveSafeInteger :: "jsnum \<Rightarrow> bool" where
  "positiveSafeInteger n = (num_isSafeInteger n \<and> num_lt (of_int_num 0) n)"

definition validateRange :: "'a version_range_scheme \<Rightarrow> negotiation_code + unit" where
  "validateRange r =
     guard (\<not> (\<not> positiveSafeInteger (minimum_supported r)
               \<or> \<not> positiveSafeInteger (maximum_supported r)
               \<or> num_lt (maximum_supported r) (minimum_supported r))) Invalid_contract_metadata"

definition validateServerRange :: "'a server_range_scheme \<Rightarrow> negotiation_code + unit" where
  "validateServerRange r =
     rbind (validateRange r) (\<lambda>_.
     rbind (guard (positiveSafeInteger (current r)) Invalid_contract_metadata) (\<lambda>_.
     guard (\<not> (num_lt (current r) (minimum_supported r)
               \<or> num_lt (maximum_supported r) (current r))) Invalid_contract_metadata))"

definition negotiateRange ::
  "'a version_range_scheme \<Rightarrow> 'b version_range_scheme \<Rightarrow> negotiation_code + jsnum"
where
  "negotiateRange client server =
     rbind (validateRange client) (\<lambda>_.
     rbind (validateRange server) (\<lambda>_.
     if num_lt (maximum_supported client) (minimum_supported server) then Inl Client_too_old
     else if num_lt (maximum_supported server) (minimum_supported client) then Inl Client_too_new
     else Inr (num_min (maximum_supported client) (maximum_supported server))))"

fun check_commands :: "string set \<Rightarrow> command_support list \<Rightarrow> negotiation_code + unit" where
  "check_commands commandTypes [] = Inr ()"
| "check_commands commandTypes (c # cs) =
     rbind (guard (command_type c \<notin> commandTypes) Invalid_contract_metadata) (\<lambda>_.
     rbind (validateServerRange c) (\<lambda>_.
     check_commands (insert (command_type c) commandTypes) cs))"

text \<open>The \<open>catch\<close> clause around a command's negotiation.\<close>

definition command_negotiation_error :: "negotiation_code \<Rightarrow> negotiation_code" where
  "command_negotiation_error e =
     (if e = Client_too_old \<or> e = Client_too_new then Command_version_no_overlap else e)"

fun negotiate_commands ::
  "(string \<rightharpoonup> command_support) \<Rightarrow> (string \<times> version_range) list
     \<Rightarrow> negotiation_code + (string \<times> jsnum) list"
where
  "negotiate_commands serverCommands [] = Inr []"
| "negotiate_commands serverCommands ((commandType, clientRange) # rest) =
     (case serverCommands commandType of
        None \<Rightarrow> Inl Unsupported_command
      | Some serverRange \<Rightarrow>
          (case negotiateRange clientRange serverRange of
             Inl e \<Rightarrow> Inl (command_negotiation_error e)
           | Inr v \<Rightarrow>
               rbind (negotiate_commands serverCommands rest) (\<lambda>vs. Inr ((commandType, v) # vs))))"

definition negotiate_with ::
  "client_support \<Rightarrow> contract_discovery \<Rightarrow> negotiation_code + negotiated_contract"
where
  "negotiate_with support metadata =
     rbind (guard (schema_version metadata = ''1'') Invalid_contract_metadata) (\<lambda>_.
     rbind (validateServerRange (api_range metadata)) (\<lambda>_.
     rbind (check_commands {} (command_ranges metadata)) (\<lambda>_.
     rbind (negotiateRange (support_api support) (api_range metadata)) (\<lambda>version.
     rbind (negotiate_commands
              (js_Map (map (\<lambda>c. (command_type c, c)) (command_ranges metadata)))
              (support_commands support)) (\<lambda>versions.
     Inr \<lparr>apiVersion = version, commandVersions = versions\<rparr>)))))"

definition negotiateContract :: "contract_discovery \<Rightarrow> negotiation_code + negotiated_contract" where
  "negotiateContract = negotiate_with clientSupport"

section \<open>What a range supports\<close>

text \<open>A range as the versions it stands for: none unless its bounds are well formed.\<close>

definition valid_range :: "'a version_range_scheme \<Rightarrow> bool" where
  "valid_range r = (positiveSafeInteger (minimum_supported r)
     \<and> positiveSafeInteger (maximum_supported r)
     \<and> num_int (minimum_supported r) \<le> num_int (maximum_supported r))"

definition supports :: "'a version_range_scheme \<Rightarrow> int \<Rightarrow> bool" where
  "supports r v = (valid_range r
     \<and> num_int (minimum_supported r) \<le> v \<and> v \<le> num_int (maximum_supported r))"

text \<open>\<open>v\<close> is the highest version both sides support.\<close>

definition highest_common ::
  "'a version_range_scheme \<Rightarrow> 'b version_range_scheme \<Rightarrow> int \<Rightarrow> bool"
where
  "highest_common c s v =
     (supports c v \<and> supports s v \<and> (\<forall>w. supports c w \<and> supports s w \<longrightarrow> w \<le> v))"

definition valid_server_range :: "'a server_range_scheme \<Rightarrow> bool" where
  "valid_server_range r = (positiveSafeInteger (current r) \<and> supports r (num_int (current r)))"

definition valid_discovery :: "contract_discovery \<Rightarrow> bool" where
  "valid_discovery m = (schema_version m = ''1'' \<and> valid_server_range (api_range m)
     \<and> distinct (map command_type (command_ranges m))
     \<and> (\<forall>c \<in> set (command_ranges m). valid_server_range c))"

section \<open>Lemmas\<close>

lemma positiveSafeInteger_isInteger: "positiveSafeInteger n \<Longrightarrow> num_isInteger n"
  by (simp add: positiveSafeInteger_def num_isSafeInteger_def)

lemma num_lt_positive:
  assumes "positiveSafeInteger m" "positiveSafeInteger n"
  shows "num_lt m n \<longleftrightarrow> num_int m < num_int n"
  using num_isInteger_Some [OF positiveSafeInteger_isInteger [OF assms(1)]]
    num_isInteger_Some [OF positiveSafeInteger_isInteger [OF assms(2)]] assms
  by (cases m; cases n; auto simp: positiveSafeInteger_def of_int_num_def num_int_def)

lemma num_min_positive:
  assumes "positiveSafeInteger m" "positiveSafeInteger n"
  shows "num_int (num_min m n) = min (num_int m) (num_int n)"
    and "positiveSafeInteger (num_min m n)"
  using assms num_lt_positive [OF assms(2,1)]
  by (auto simp: num_min_def positiveSafeInteger_def js_defs split: if_splits)

lemma validateRange_Inr: "validateRange r = Inr u \<longleftrightarrow> valid_range r"
  by (auto simp: validateRange_def valid_range_def num_lt_positive)

lemma validateRange_cases:
  "validateRange r = (if valid_range r then Inr () else Inl Invalid_contract_metadata)"
  using validateRange_Inr [of r] by (auto simp: validateRange_def guard_def)

lemma validateServerRange_Inr: "validateServerRange r = Inr u \<longleftrightarrow> valid_server_range r"
  by (auto simp: validateServerRange_def validateRange_cases valid_server_range_def supports_def
      valid_range_def num_lt_positive guard_def split: if_splits)

lemma validateServerRange_cases:
  "validateServerRange r = (if valid_server_range r then Inr () else Inl Invalid_contract_metadata)"
proof (cases "validateServerRange r")
  case (Inl e)
  then have "e = Invalid_contract_metadata"
    by (auto simp: validateServerRange_def validateRange_def rbind_Inl_iff)
  then show ?thesis
    using Inl validateServerRange_Inr [of r "()"] by simp
next
  case (Inr u)
  then show ?thesis
    using validateServerRange_Inr [of r u] by simp
qed

lemma check_commands_cases:
  "check_commands seen cs =
     (if distinct (map command_type cs) \<and> seen \<inter> command_type ` set cs = {}
          \<and> (\<forall>c \<in> set cs. valid_server_range c)
      then Inr () else Inl Invalid_contract_metadata)"
  by (induction cs arbitrary: seen) (auto simp: validateServerRange_cases guard_def)

text \<open>The outcome of a range negotiation, by where the two ranges lie.\<close>

lemma negotiateRange_cases:
  "negotiateRange c s =
     (if \<not> (valid_range c \<and> valid_range s) then Inl Invalid_contract_metadata
      else if num_int (maximum_supported c) < num_int (minimum_supported s) then Inl Client_too_old
      else if num_int (maximum_supported s) < num_int (minimum_supported c) then Inl Client_too_new
      else Inr (num_min (maximum_supported c) (maximum_supported s)))"
  by (auto simp: negotiateRange_def validateRange_cases valid_range_def num_lt_positive)

lemma overlap_iff:
  "(\<exists>w. supports c w \<and> supports s w) \<longleftrightarrow>
     valid_range c \<and> valid_range s
     \<and> num_int (minimum_supported s) \<le> num_int (maximum_supported c)
     \<and> num_int (minimum_supported c) \<le> num_int (maximum_supported s)"
proof
  assume "valid_range c \<and> valid_range s
     \<and> num_int (minimum_supported s) \<le> num_int (maximum_supported c)
     \<and> num_int (minimum_supported c) \<le> num_int (maximum_supported s)"
  then have "supports c (min (num_int (maximum_supported c)) (num_int (maximum_supported s)))
      \<and> supports s (min (num_int (maximum_supported c)) (num_int (maximum_supported s)))"
    by (simp add: supports_def valid_range_def)
  then show "\<exists>w. supports c w \<and> supports s w" ..
qed (auto simp: supports_def)

lemma negotiateRange_Inr:
  "negotiateRange c s = Inr v \<Longrightarrow> highest_common c s (num_int v) \<and> positiveSafeInteger v"
  by (auto simp: negotiateRange_cases highest_common_def supports_def num_min_positive
      valid_range_def split: if_splits)

lemma negotiateRange_Inr_ex:
  "(\<exists>v. negotiateRange c s = Inr v) \<longleftrightarrow> (\<exists>w. supports c w \<and> supports s w)"
  unfolding overlap_iff by (auto simp: negotiateRange_cases)

lemma negotiate_commands_Inr:
  "negotiate_commands m cs = Inr vs \<longleftrightarrow>
     list_all2 (\<lambda>(k, c) (k', v). k' = k \<and> (\<exists>s. m k = Some s \<and> negotiateRange c s = Inr v)) cs vs"
proof (induction cs arbitrary: vs)
  case Nil
  then show ?case by auto
next
  case (Cons kc cs)
  obtain k c where kc: "kc = (k, c)" by fastforce
  show ?case
    by (cases vs)
      (auto simp: kc Cons.IH rbind_Inr_iff split: option.splits sum.splits)
qed

lemma negotiate_commands_ex:
  "(\<exists>vs. negotiate_commands m cs = Inr vs) \<longleftrightarrow>
     (\<forall>(k, c) \<in> set cs. \<exists>s. m k = Some s \<and> (\<exists>w. supports c w \<and> supports s w))"
  by (induction cs)
    (auto simp: rbind_Inr_iff negotiateRange_Inr_ex [symmetric] split: option.splits sum.splits)

lemma negotiate_commands_Inl:
  "negotiate_commands m cs = Inl e \<Longrightarrow> e \<noteq> Client_too_old \<and> e \<noteq> Client_too_new"
  by (induction cs)
    (auto simp: rbind_Inl_iff command_negotiation_error_def split: option.splits sum.splits if_splits)

lemma advertised_command:
  assumes "distinct (map command_type cs)"
  shows "js_Map (map (\<lambda>c. (command_type c, c)) cs) k = Some s \<longleftrightarrow> s \<in> set cs \<and> command_type s = k"
proof -
  have "distinct (map fst (map (\<lambda>c. (command_type c, c)) cs))"
    using assms by (simp add: comp_def)
  then show ?thesis
    by (auto simp: js_Map_distinct simp del: map_map)
qed

lemma find_advertised:
  assumes "distinct (map command_type cs)"
  shows "js_Map (map (\<lambda>c. (command_type c, c)) cs) k = find (\<lambda>c. command_type c = k) cs"
proof (cases "find (\<lambda>c. command_type c = k) cs")
  case None
  then have "\<not> (\<exists>s. js_Map (map (\<lambda>c. (command_type c, c)) cs) k = Some s)"
    using advertised_command [OF assms] by (auto simp: find_None_iff)
  then show ?thesis
    using None by simp
next
  case (Some s)
  then show ?thesis
    using advertised_command [OF assms, of k s] by (auto dest: find_SomeD)
qed

lemma negotiate_with_cases:
  "negotiate_with own m =
     (if \<not> valid_discovery m then Inl Invalid_contract_metadata
      else rbind (negotiateRange (support_api own) (api_range m)) (\<lambda>version.
        rbind (negotiate_commands (\<lambda>k. find (\<lambda>c. command_type c = k) (command_ranges m))
                 (support_commands own)) (\<lambda>versions.
        Inr \<lparr>apiVersion = version, commandVersions = versions\<rparr>)))"
  by (auto simp: negotiate_with_def validateServerRange_cases check_commands_cases
      valid_discovery_def find_advertised [THEN ext] guard_def)

abbreviation version_one :: version_range where
  "version_one \<equiv> \<lparr>minimum_supported = of_int_num 1, maximum_supported = of_int_num 1\<rparr>"

lemma one_positive [simp]: "positiveSafeInteger (of_int_num 1)"
  by (simp add: positiveSafeInteger_def max_safe_def)

lemma positiveSafeInteger_ge: "positiveSafeInteger n \<Longrightarrow> 1 \<le> num_int n"
  using num_lt_integer(2) [of n 0] by (auto simp: positiveSafeInteger_def num_isSafeInteger_def)

lemma positiveSafeInteger_one: "positiveSafeInteger n \<Longrightarrow> num_int n = 1 \<Longrightarrow> n = of_int_num 1"
  using num_isInteger_Some [of n] positiveSafeInteger_isInteger [of n]
  by (cases n) (auto simp: of_int_num_def positiveSafeInteger_def)

lemma negotiateRange_version_one:
  assumes "valid_range s"
  shows "negotiateRange version_one s =
     (if 1 < num_int (minimum_supported s) then Inl Client_too_old else Inr (of_int_num 1))"
proof -
  have max: "positiveSafeInteger (maximum_supported s)"
    using assms by (simp add: valid_range_def)
  have "num_min (of_int_num 1) (maximum_supported s) = of_int_num 1"
    using num_min_positive [OF one_positive max] positiveSafeInteger_ge [OF max]
    by (auto intro: positiveSafeInteger_one)
  then show ?thesis
    using assms positiveSafeInteger_ge [OF max]
    by (simp add: negotiateRange_cases) (simp add: valid_range_def)
qed

section \<open>Properties\<close>

text \<open>\<open>negotiateRange\<close> answers the highest version both ranges support; it throws \<open>client_too_old\<close>
  when every version of the client lies below the server's, \<open>client_too_new\<close> when every version
  lies above, and \<open>invalid_contract_metadata\<close> exactly when a range is malformed (a bound that is
  no positive safe integer, or reversed bounds).\<close>
theorem negotiateRange_outcome:
  "case negotiateRange c s of
     Inr v \<Rightarrow> highest_common c s (num_int v) \<and> positiveSafeInteger v
   | Inl Client_too_old \<Rightarrow> valid_range c \<and> valid_range s
       \<and> num_int (maximum_supported c) < num_int (minimum_supported s)
   | Inl Client_too_new \<Rightarrow> valid_range c \<and> valid_range s
       \<and> num_int (maximum_supported s) < num_int (minimum_supported c)
   | Inl Invalid_contract_metadata \<Rightarrow> \<not> (valid_range c \<and> valid_range s)
   | Inl Unsupported_command \<Rightarrow> False
   | Inl Command_version_no_overlap \<Rightarrow> False"
  using negotiateRange_Inr [of c s] negotiateRange_cases [of c s]
  by (auto split: sum.splits negotiation_code.splits if_splits)

text \<open>A negotiated contract comes from well-formed metadata, its API version is the highest common
  one, and it holds, for each command of the client in order, the highest version that the
  server advertises for that very command and the client supports.\<close>
theorem negotiate_with_sound:
  assumes "negotiate_with own m = Inr r"
  shows "valid_discovery m
     \<and> highest_common (support_api own) (api_range m) (num_int (apiVersion r))
     \<and> list_all2 (\<lambda>(k, c) (k', v). k' = k \<and> (\<exists>s \<in> set (command_ranges m).
            command_type s = k \<and> highest_common c s (num_int v)))
         (support_commands own) (commandVersions r)"
proof -
  have valid: "valid_discovery m"
    using assms by (auto simp: negotiate_with_cases split: if_splits)
  obtain v vs where parts: "negotiateRange (support_api own) (api_range m) = Inr v"
      "negotiate_commands (\<lambda>k. find (\<lambda>c. command_type c = k) (command_ranges m))
         (support_commands own) = Inr vs"
      "r = \<lparr>apiVersion = v, commandVersions = vs\<rparr>"
    using assms valid by (auto simp: negotiate_with_cases rbind_Inr_iff)
  have "list_all2 (\<lambda>(k, c) (k', v). k' = k \<and> (\<exists>s \<in> set (command_ranges m).
      command_type s = k \<and> highest_common c s (num_int v))) (support_commands own) vs"
    using parts(2) unfolding negotiate_commands_Inr
    by (rule list_all2_mono) (auto dest!: find_SomeD negotiateRange_Inr)
  then show ?thesis
    using valid parts(3) negotiateRange_Inr [OF parts(1)] by simp
qed

text \<open>With the ranges this client is built with, the outcome of \<open>negotiateContract\<close> on any metadata:
  malformed metadata first, then an API minimum above 1, then a missing \<open>journey.update\<close>, then a
  minimum above 1 for it; otherwise version 1 for both. In particular \<open>client_too_new\<close> is never
  thrown.\<close>
theorem negotiateContract_outcome:
  "negotiateContract m =
     (if \<not> valid_discovery m then Inl Invalid_contract_metadata
      else if 1 < num_int (minimum_supported (api_range m)) then Inl Client_too_old
      else case find (\<lambda>c. command_type c = ''journey.update'') (command_ranges m) of
        None \<Rightarrow> Inl Unsupported_command
      | Some s \<Rightarrow>
          if 1 < num_int (minimum_supported s) then Inl Command_version_no_overlap
          else Inr \<lparr>apiVersion = of_int_num 1, commandVersions = [(''journey.update'', of_int_num 1)]\<rparr>)"
proof (cases "valid_discovery m")
  case False
  then show ?thesis
    by (simp add: negotiateContract_def negotiate_with_cases)
next
  case True
  have api: "valid_range (api_range m)"
    using True by (simp add: valid_discovery_def valid_server_range_def supports_def)
  have cmd: "valid_range s" if "find (\<lambda>c. command_type c = ''journey.update'') (command_ranges m) = Some s" for s
    using True find_SomeD [OF that] by (simp add: valid_discovery_def valid_server_range_def supports_def)
  show ?thesis
    using True
    by (auto simp: negotiateContract_def negotiate_with_cases clientSupport_def
        negotiateRange_version_one [OF api] negotiateRange_version_one [OF cmd]
        command_negotiation_error_def split: option.split)
qed

definition demo_range :: "int \<Rightarrow> int \<Rightarrow> server_range" where
  "demo_range l h = \<lparr>minimum_supported = of_int_num l, maximum_supported = of_int_num h,
     current = of_int_num h\<rparr>"

definition demo_discovery :: contract_discovery where
  "demo_discovery = \<lparr>schema_version = ''1'', api_range = demo_range 1 3,
     command_ranges = [server_range.extend (demo_range 1 2) (command_support.fields ''journey.update'')]\<rparr>"

theorem negotiate_with_sound_witness:
  "\<exists>r. negotiate_with clientSupport demo_discovery = Inr r
     \<and> highest_common version_one (demo_range 1 3) (num_int (apiVersion r))"
proof -
  have "negotiate_with clientSupport demo_discovery
      = Inr \<lparr>apiVersion = of_int_num 1, commandVersions = [(''journey.update'', of_int_num 1)]\<rparr>"
    by (simp add: negotiate_with_def demo_discovery_def demo_range_def clientSupport_def
        validateServerRange_def validateRange_def positiveSafeInteger_def negotiateRange_def
        num_min_def js_Map_def server_range.extend_def command_support.fields_def max_safe_def)
  then show ?thesis
    using negotiate_with_sound [of clientSupport demo_discovery]
    by (auto simp: demo_discovery_def clientSupport_def)
qed

end
