(* ===== verification/Text.thy ===== *)
theory Text
  imports Prelude
begin

text \<open>
  Text operations of the language that several components use: lower-casing, decimal printing,
  conversion of a dynamic value to a string, and the lemmas on decimal printing.
\<close>

section \<open>Operations\<close>

text \<open>\<open>String.prototype.toLowerCase\<close> below code unit 256.\<close>

definition lower_char :: "char \<Rightarrow> char" where [js_defs]:
  "lower_char c =
     (if (CHR ''A'' \<le> c \<and> c \<le> CHR ''Z'') \<or> (CHR 0xC0 \<le> c \<and> c \<le> CHR 0xDE \<and> c \<noteq> CHR 0xD7)
      then char_of (of_char c + 32 :: nat) else c)"

definition toLowerCase :: "string \<Rightarrow> string" where [js_defs]:
  "toLowerCase s = map lower_char s"

text \<open>Decimal digits of a natural number, and of an integer as \<open>JSON.stringify\<close> prints it.\<close>

definition digit_char :: "nat \<Rightarrow> char" where
  "digit_char n = char_of (48 + n)"

fun nat_str :: "nat \<Rightarrow> string" where
  "nat_str n = (if n < 10 then [digit_char n] else nat_str (n div 10) @ [digit_char (n mod 10)])"

declare nat_str.simps [simp del]

definition int_str :: "int \<Rightarrow> string" where
  "int_str i = (if i < 0 then CHR ''-'' # nat_str (nat (- i)) else nat_str (nat i))"

text \<open>The same over integers, to evaluate it.\<close>

function int_digits :: "int \<Rightarrow> string" where
  "int_digits i = (if i < 10 then [''0123456789'' ! nat i] else int_digits (i div 10) @ [''0123456789'' ! nat (i mod 10)])"
  by auto
termination
  by (relation "measure nat") auto

declare int_digits.simps [simp del]

lemma digit_char_nth:
  assumes "n < 10"
  shows "digit_char n = ''0123456789'' ! n"
proof -
  have "n = 0 \<or> n = 1 \<or> n = 2 \<or> n = 3 \<or> n = 4 \<or> n = 5 \<or> n = 6 \<or> n = 7 \<or> n = 8 \<or> n = 9"
    using assms by auto
  then show ?thesis
    by (elim disjE) (simp_all add: digit_char_def char_of_def bit_iff_odd)
qed

lemma int_digits_nat_str: "0 \<le> i \<Longrightarrow> int_digits i = nat_str (nat i)"
proof (induction i rule: int_digits.induct)
  case (1 i)
  show ?case
  proof (cases "i < 10")
    case True
    then show ?thesis
      using 1(2) by (simp add: int_digits.simps nat_str.simps digit_char_nth)
  next
    case False
    then have "nat (i div 10) = nat i div 10" "nat (i mod 10) = nat i mod 10" "\<not> nat i < 10"
      using 1(2) by (simp_all add: nat_div_distrib nat_mod_distrib)
    moreover have "0 \<le> i div 10"
      using 1(2) by (simp add: pos_imp_zdiv_nonneg_iff)
    ultimately show ?thesis
      using 1 False by (simp add: int_digits.simps [of i] nat_str.simps [of "nat i"] digit_char_nth)
  qed
qed

lemma int_str_code [code]: "int_str i = (if i < 0 then CHR ''-'' # int_digits (- i) else int_digits i)"
  by (simp add: int_str_def int_digits_nat_str)

text \<open>\<open>String(v)\<close>: \<open>None\<close> where it throws a \<open>TypeError\<close>. A value read from JSON holds no function.\<close>

fun js_String :: "(jsnum \<Rightarrow> string) \<Rightarrow> jsval \<Rightarrow> string option"
  and js_join :: "(jsnum \<Rightarrow> string) \<Rightarrow> jsval list \<Rightarrow> string option"
  and js_elem :: "(jsnum \<Rightarrow> string) \<Rightarrow> jsval \<Rightarrow> string option"
where
  "js_String num_str JUndef = Some ''undefined''"
| "js_String num_str JNull = Some ''null''"
| "js_String num_str (JBool b) = Some (if b then ''true'' else ''false'')"
| "js_String num_str (JNum n) = Some (num_str n)"
| "js_String num_str (JStr s) = Some s"
| "js_String num_str (JArr vs) = js_join num_str vs"
| "js_String num_str (JObj ps) =
     (if ''toString'' \<in> set (map fst ps) then None else Some ''[object Object]'')"
| "js_String num_str JFun = None"
| "js_join num_str [] = Some ''''"
| "js_join num_str [v] = js_elem num_str v"
| "js_join num_str (v # w # vs) =
     (case (js_elem num_str v, js_join num_str (w # vs)) of
        (Some s, Some t) \<Rightarrow> Some (s @ '','' @ t) | _ \<Rightarrow> None)"
| "js_elem num_str JUndef = Some ''''"
| "js_elem num_str JNull = Some ''''"
| "js_elem num_str (JBool b) = Some (if b then ''true'' else ''false'')"
| "js_elem num_str (JNum n) = Some (num_str n)"
| "js_elem num_str (JStr s) = Some s"
| "js_elem num_str (JArr vs) = js_join num_str vs"
| "js_elem num_str (JObj ps) =
     (if ''toString'' \<in> set (map fst ps) then None else Some ''[object Object]'')"
| "js_elem num_str JFun = None"

section \<open>Decimal printing is uniquely readable\<close>

lemma of_char_digit_char: "n < 10 \<Longrightarrow> of_char (digit_char n) = (48 + n :: nat)"
  by (simp add: digit_char_def)

lemma digit_char_inj: "m < 10 \<Longrightarrow> n < 10 \<Longrightarrow> digit_char m = digit_char n \<longleftrightarrow> m = n"
  by (metis of_char_digit_char add_left_cancel)

lemma nat_str_snoc:
  "nat_str n = (if n < 10 then [] else nat_str (n div 10)) @ [digit_char (n mod 10)]"
  by (subst nat_str.simps) auto

lemma nat_str_not_Nil [simp]: "nat_str n \<noteq> []"
  by (subst nat_str_snoc) simp

lemma nat_str_inj: "nat_str m = nat_str n \<longleftrightarrow> m = n"
proof (induction m arbitrary: n rule: nat_str.induct)
  case (1 m)
  define p where "p k = (if k < 10 then [] else nat_str (k div 10))" for k
  have snoc: "nat_str k = p k @ [digit_char (k mod 10)]" for k
    unfolding p_def by (rule nat_str_snoc)
  have "m = n" if eq: "nat_str m = nat_str n"
  proof -
    have last: "m mod 10 = n mod 10" and rest: "p m = p n"
      using eq by (simp_all add: snoc digit_char_inj)
    have "m div 10 = n div 10"
      using rest 1 by (auto simp: p_def eq_commute [of "[]"] split: if_splits)
    with last show ?thesis
      by (metis div_mult_mod_eq)
  qed
  then show ?case by blast
qed

lemma nat_str_digits: "c \<in> set (nat_str n) \<Longrightarrow> \<exists>d<10. c = digit_char d"
proof (induction n rule: nat_str.induct)
  case (1 n)
  have "\<exists>d<10. digit_char (n mod 10) = digit_char d"
    by (rule exI [of _ "n mod 10"]) simp
  with 1(2) show ?case
    by (subst (asm) nat_str.simps) (auto split: if_splits dest: 1(1))
qed

lemma digit_char_neq:
  "d < 10 \<Longrightarrow> digit_char d \<noteq> CHR '',''" "d < 10 \<Longrightarrow> digit_char d \<noteq> CHR ''-''"
  by (auto dest!: arg_cong [where f = "of_char :: char \<Rightarrow> nat"] simp: of_char_digit_char)

lemma int_str_inj: "int_str i = int_str j \<longleftrightarrow> i = j"
proof -
  have "nat_str n \<noteq> CHR ''-'' # s" for n s
    using nat_str_digits [of "CHR ''-''" n] digit_char_neq(2) by (metis list.set_intros(1))
  moreover from this have "CHR ''-'' # s \<noteq> nat_str n" for n s
    by metis
  ultimately show ?thesis
    by (auto simp: int_str_def nat_str_inj)
qed

lemma int_str_no_comma: "CHR '','' \<notin> set (int_str i)"
proof -
  have "CHR '','' \<notin> set (nat_str n)" for n
    using digit_char_neq(1) nat_str_digits [of "CHR '',''" n] by metis
  then show ?thesis
    by (simp add: int_str_def)
qed

lemma append_sep_inj:
  "c \<notin> set x \<Longrightarrow> c \<notin> set y \<Longrightarrow> x @ c # u = y @ c # v \<longleftrightarrow> x = y \<and> u = v"
  by (induction x arbitrary: y) (case_tac y; auto)+

lemma int_str_append_inj [simp]:
  "int_str i @ CHR '','' # u = int_str j @ CHR '','' # v \<longleftrightarrow> i = j \<and> u = v"
  by (simp add: append_sep_inj int_str_no_comma int_str_inj)

lemma findIndex_nth:
  "distinct xs \<Longrightarrow> n < length xs \<Longrightarrow> findIndex (\<lambda>a. a = xs ! n) xs = Some n"
proof (induction xs arbitrary: n)
  case Nil
  then show ?case by simp
next
  case (Cons x xs)
  then show ?case by (cases n) (auto simp: nth_mem)
qed

end
