(* ===== verification/Command_Protocol.thy ===== *)
theory Command_Protocol
  imports Text
begin

text \<open>
  The command protocol of the synchronisation spike,
  \<open>spikes/powersync/harness/src/command-protocol.ts\<close>: the strict readers of replica sessions,
  command envelopes and command responses, and the digest that binds a result to its command.

  SHA-256 (from \<open>node:crypto\<close>) and \<open>Number.prototype.toString\<close> are parameters: \<open>sha\<close> and
  \<open>num_str\<close>. JSON printing of the digest's input, lower-casing and base64url are modelled in full.
\<close>

section \<open>Language pieces\<close>

text \<open>Strict equality of a dynamic value with a number literal other than zero.\<close>

definition is_literal :: "jsval \<Rightarrow> int \<Rightarrow> bool" where [js_defs]:
  "is_literal v i = (v = JInt i)"

definition val_positive_safe :: "jsval \<Rightarrow> bool" where [js_defs]:
  "val_positive_safe v = (val_isSafeInteger v \<and> \<not> val_int v < 1)"

text \<open>\<open>Buffer.from(text, "base64url")\<close> and \<open>buffer.toString("base64url")\<close>, on the base64url alphabet.\<close>

definition b64url_alphabet :: string where
  "b64url_alphabet = ''ABCDEFGHIJKLMNOPQRSTUVWXYZabcdefghijklmnopqrstuvwxyz0123456789-_''"

definition b64url_val :: "char \<Rightarrow> nat" where
  "b64url_val c = (case findIndex (\<lambda>a. a = c) b64url_alphabet of Some n \<Rightarrow> n | None \<Rightarrow> 0)"

fun sextets_bytes :: "nat list \<Rightarrow> nat list" where
  "sextets_bytes (a # b # c # d # r) =
     (a * 4 + b div 16) # ((b mod 16) * 16 + c div 4) # ((c mod 4) * 64 + d) # sextets_bytes r"
| "sextets_bytes [a, b, c] = [a * 4 + b div 16, (b mod 16) * 16 + c div 4]"
| "sextets_bytes [a, b] = [a * 4 + b div 16]"
| "sextets_bytes _ = []"

fun bytes_sextets :: "nat list \<Rightarrow> nat list" where
  "bytes_sextets (x # y # z # r) =
     (x div 4) # ((x mod 4) * 16 + y div 16) # ((y mod 16) * 4 + z div 64) # (z mod 64) # bytes_sextets r"
| "bytes_sextets [x, y] = [x div 4, (x mod 4) * 16 + y div 16, (y mod 16) * 4]"
| "bytes_sextets [x] = [x div 4, (x mod 4) * 16]"
| "bytes_sextets [] = []"

definition b64url_decode :: "string \<Rightarrow> nat list" where
  "b64url_decode s = sextets_bytes (map b64url_val s)"

definition b64url_encode :: "nat list \<Rightarrow> string" where
  "b64url_encode bs = map (\<lambda>n. b64url_alphabet ! n) (bytes_sextets bs)"

section \<open>Types\<close>

datatype command_type = Resource_update | Resource_soft_delete

definition supportedCommandTypes :: "(string \<times> command_type) list" where [js_defs]:
  "supportedCommandTypes =
     [(''ps8.resource.update.v1'', Resource_update), (''ps8.resource.soft_delete.v1'', Resource_soft_delete)]"

fun type_name :: "command_type \<Rightarrow> string" where
  "type_name Resource_update = ''ps8.resource.update.v1''"
| "type_name Resource_soft_delete = ''ps8.resource.soft_delete.v1''"

record spike_command =
  c_commandId :: string
  c_type :: command_type
  c_resourceId :: string
  c_resourceIncarnationId :: string
  c_expectedRecordVersion :: int
  c_payload :: "string option"

record replica_binding =
  b_replicaId :: string
  b_replicaEpoch :: int

record replica_session = replica_binding +
  b_credential :: string

record command_envelope = replica_binding +
  e_localTransactionId :: string
  e_commands :: "spike_command list"

datatype protocol_error =
    Must_be_object string
  | Authority_forbidden "string list"
  | Unknown_fields string "string list"
  | Must_be_bounded string nat
  | Unsupported_protocol
  | Must_be_uuid string
  | Must_be_v4_uuid string
  | Must_be_positive_safe string
  | Bad_credential
  | Must_contain_one_command
  | Unsupported_command_type
  | Payload_not_accepted
  | Duplicate_command_id
  | Duplicate_resource_target
  | Response_mismatch
  | Identity_mismatch
  | Unknown_result_state
  | Unknown_result_code
  | Inconsistent_result
  | Invalid_result_field string
  | Omitted_results
  | Protocol_type_error

section \<open>Field checks\<close>

definition hexes :: "nat \<Rightarrow> (char \<Rightarrow> bool) list" where
  "hexes n = replicate n is_hex_lower"

abbreviation dash :: "char \<Rightarrow> bool" where
  "dash c \<equiv> c = CHR ''-''"

definition uuid_pattern :: "(char \<Rightarrow> bool) \<Rightarrow> (char \<Rightarrow> bool) list" where
  "uuid_pattern version = hexes 8 @ [dash] @ hexes 4 @ [dash] @ [version] @ hexes 3 @ [dash]
     @ [\<lambda>c. c \<in> set ''89ab''] @ hexes 3 @ [dash] @ hexes 12"

definition uuid :: "string \<Rightarrow> bool" where
  "uuid s = seq_match (uuid_pattern (\<lambda>c. CHR ''1'' \<le> c \<and> c \<le> CHR ''5'')) s"

definition commandUuid :: "string \<Rightarrow> bool" where
  "commandUuid s = seq_match (uuid_pattern (\<lambda>c. c = CHR ''4'')) s"

definition authorityFields :: "string list" where
  "authorityFields =
     [''actor'', ''actorId'', ''user'', ''userId'', ''representedUser'', ''representedUserId'',
      ''workspace'', ''workspaceId'', ''workspace_id'', ''journey'', ''journeyId'', ''journey_id'',
      ''party'', ''partyId'', ''party_id'', ''audience'', ''owner'', ''ownerId'', ''grant'', ''grants'']"

definition record_of :: "jsval \<Rightarrow> string \<Rightarrow> protocol_error + (string \<times> jsval) list" where
  "record_of v label = (if isRecord v then Inr (props_of v) else Inl (Must_be_object label))"

definition exactKeys :: "(string \<times> jsval) list \<Rightarrow> string list \<Rightarrow> string \<Rightarrow> protocol_error + unit" where
  "exactKeys ps allowed label =
     (let unknown = filter (\<lambda>k. k \<notin> set allowed) (map fst ps);
          authority = filter (\<lambda>k. k \<in> set authorityFields) unknown
      in if authority \<noteq> [] then Inl (Authority_forbidden (sort authority))
         else if unknown \<noteq> [] then Inl (Unknown_fields label (sort unknown))
         else Inr ())"

definition boundedString :: "jsval \<Rightarrow> string \<Rightarrow> nat \<Rightarrow> protocol_error + string" where
  "boundedString v label maximum =
     (if \<not> is_str v \<or> length (str_of v) < 1 \<or> length (str_of v) > maximum
      then Inl (Must_be_bounded label maximum) else Inr (str_of v))"

definition positive_safe :: "jsval \<Rightarrow> string \<Rightarrow> protocol_error + int" where
  "positive_safe v label =
     (if val_positive_safe v then Inr (val_int v) else Inl (Must_be_positive_safe label))"

section \<open>Readers\<close>

definition is_b64url :: "char \<Rightarrow> bool" where
  "is_b64url c = (c \<in> set b64url_alphabet)"

definition credential_pattern :: "string \<Rightarrow> bool" where
  "credential_pattern s =
     seq_match ([\<lambda>c. c = CHR ''r'', \<lambda>c. c = CHR ''2'', \<lambda>c. c = CHR ''_''] @ replicate 43 is_b64url) s"

definition session_keys :: "string list" where
  "session_keys = [''replicaId'', ''replicaEpoch'', ''credential'']"

definition parseReplicaSessionSecret :: "jsval \<Rightarrow> protocol_error + replica_session" where
  "parseReplicaSessionSecret v =
     rbind (record_of v ''Replica session'') (\<lambda>input.
     rbind (exactKeys input session_keys ''Replica session'') (\<lambda>_.
     rbind (boundedString (obj_get input ''replicaId'') ''replicaId'' 36) (\<lambda>raw.
     let rid = toLowerCase raw in
     rbind (guard (commandUuid rid) (Must_be_v4_uuid ''replicaId'')) (\<lambda>_.
     rbind (positive_safe (obj_get input ''replicaEpoch'') ''replicaEpoch'') (\<lambda>epoch.
     rbind (boundedString (obj_get input ''credential'') ''credential'' 64) (\<lambda>cred.
     rbind (guard (credential_pattern cred) Bad_credential) (\<lambda>_.
     let encoded = drop 3 cred; bytes = b64url_decode encoded in
     rbind (guard (\<not> (length bytes \<noteq> 32 \<or> b64url_encode bytes \<noteq> encoded)) Bad_credential) (\<lambda>_.
     Inr \<lparr>b_replicaId = rid, b_replicaEpoch = epoch, b_credential = cred\<rparr>))))))))"

definition command_keys :: "string list" where
  "command_keys = [''commandId'', ''type'', ''resourceId'', ''resourceIncarnationId'',
     ''expectedRecordVersion'', ''payload'']"

text \<open>The callback of \<open>input.commands.map\<close>, up to its checks against earlier commands.\<close>

definition parse_command :: "nat \<Rightarrow> jsval \<Rightarrow> protocol_error + spike_command" where
  "parse_command index raw =
     (let label = ''commands['' @ nat_str index @ '']'' in
     rbind (record_of raw label) (\<lambda>command.
     rbind (exactKeys command command_keys label) (\<lambda>_.
     rbind (boundedString (obj_get command ''commandId'') ''commandId'' 36) (\<lambda>cid.
     rbind (boundedString (obj_get command ''resourceId'') ''resourceId'' 36) (\<lambda>rid.
     rbind (boundedString (obj_get command ''resourceIncarnationId'') ''resourceIncarnationId'' 36) (\<lambda>iid.
     let commandId = toLowerCase cid; resourceId = toLowerCase rid;
         resourceIncarnationId = toLowerCase iid in
     rbind (guard (commandUuid commandId) (Must_be_v4_uuid ''commandId'')) (\<lambda>_.
     rbind (guard (uuid resourceId) (Must_be_uuid ''resourceId'')) (\<lambda>_.
     rbind (guard (uuid resourceIncarnationId) (Must_be_uuid ''resourceIncarnationId'')) (\<lambda>_.
     let t = obj_get command ''type'' in
     rbind (case (if is_str t then map_of supportedCommandTypes (str_of t) else None) of
              Some ty \<Rightarrow> Inr ty | None \<Rightarrow> Inl Unsupported_command_type) (\<lambda>ty.
     rbind (positive_safe (obj_get command ''expectedRecordVersion'') ''expectedRecordVersion'') (\<lambda>version.
     rbind (if ty = Resource_update
            then rbind (boundedString (obj_get command ''payload'') ''payload'' 512) (\<lambda>p. Inr (Some p))
            else if obj_get command ''payload'' \<noteq> JUndef then Inl Payload_not_accepted
            else Inr None) (\<lambda>payload.
     Inr \<lparr>c_commandId = commandId, c_type = ty, c_resourceId = resourceId,
          c_resourceIncarnationId = resourceIncarnationId, c_expectedRecordVersion = version,
          c_payload = payload\<rparr>))))))))))))"

fun parse_commands ::
  "nat \<Rightarrow> string set \<Rightarrow> string set \<Rightarrow> jsval list \<Rightarrow> protocol_error + spike_command list"
where
  "parse_commands index commandIds targets [] = Inr []"
| "parse_commands index commandIds targets (raw # rest) =
     rbind (parse_command index raw) (\<lambda>c.
     rbind (guard (c_commandId c \<notin> commandIds) Duplicate_command_id) (\<lambda>_.
     rbind (guard (c_resourceId c \<notin> targets) Duplicate_resource_target) (\<lambda>_.
     rbind (parse_commands (Suc index) (insert (c_commandId c) commandIds)
              (insert (c_resourceId c) targets) rest) (\<lambda>cs.
     Inr (c # cs)))))"

definition envelope_keys :: "string list" where
  "envelope_keys = [''spikeProtocol'', ''replicaId'', ''replicaEpoch'', ''localTransactionId'', ''commands'']"

definition parseCommandEnvelope :: "jsval \<Rightarrow> protocol_error + command_envelope" where
  "parseCommandEnvelope v =
     rbind (record_of v ''Command envelope'') (\<lambda>input.
     rbind (exactKeys input envelope_keys ''Command envelope'') (\<lambda>_.
     rbind (guard (is_literal (obj_get input ''spikeProtocol'') 1) Unsupported_protocol) (\<lambda>_.
     rbind (boundedString (obj_get input ''replicaId'') ''replicaId'' 36) (\<lambda>raw.
     let rid = toLowerCase raw in
     rbind (guard (uuid rid) (Must_be_uuid ''replicaId'')) (\<lambda>_.
     rbind (positive_safe (obj_get input ''replicaEpoch'') ''replicaEpoch'') (\<lambda>epoch.
     rbind (boundedString (obj_get input ''localTransactionId'') ''localTransactionId'' 128) (\<lambda>ltid.
     let cs = obj_get input ''commands'' in
     rbind (guard (\<not> (\<not> is_arr cs \<or> length (arr_of cs) \<noteq> 1)) Must_contain_one_command) (\<lambda>_.
     rbind (parse_commands 0 {} {} (arr_of cs)) (\<lambda>commands.
     Inr \<lparr>b_replicaId = rid, b_replicaEpoch = epoch, e_localTransactionId = ltid,
          e_commands = commands\<rparr>)))))))))"

section \<open>Digest\<close>

text \<open>\<open>JSON.stringify\<close> of a string: quotes, backslashes and control characters are escaped.\<close>

definition hex_char :: "nat \<Rightarrow> char" where
  "hex_char n = ''0123456789abcdef'' ! n"

definition json_char :: "char \<Rightarrow> string" where
  "json_char c =
     (if c = CHR 0x22 then [CHR 0x5C, CHR 0x22]
      else if c = CHR 0x5C then [CHR 0x5C, CHR 0x5C]
      else if c = CHR 0x08 then [CHR 0x5C, CHR ''b'']
      else if c = CHR 0x09 then [CHR 0x5C, CHR ''t'']
      else if c = CHR 0x0A then [CHR 0x5C, CHR ''n'']
      else if c = CHR 0x0C then [CHR 0x5C, CHR ''f'']
      else if c = CHR 0x0D then [CHR 0x5C, CHR ''r'']
      else if c < CHR 0x20
        then CHR 0x5C # ''u00'' @ [hex_char (of_char c div 16), hex_char (of_char c mod 16)]
      else [c])"

definition json_string :: "string \<Rightarrow> string" where
  "json_string s = CHR 0x22 # concat (map json_char s) @ [CHR 0x22]"

fun json_opt :: "string option \<Rightarrow> string" where
  "json_opt None = ''null''"
| "json_opt (Some s) = json_string s"

definition json_field :: "string \<Rightarrow> string \<Rightarrow> string" where
  "json_field k v = json_string k @ '':'' @ v"

definition normalized :: "spike_command \<Rightarrow> 'a replica_binding_scheme \<Rightarrow> string" where
  "normalized c b =
     ''{'' @ json_field ''replicaId'' (json_string (b_replicaId b))
     @ '','' @ json_field ''replicaEpoch'' (int_str (b_replicaEpoch b))
     @ '','' @ json_field ''commandId'' (json_string (c_commandId c))
     @ '','' @ json_field ''type'' (json_string (type_name (c_type c)))
     @ '','' @ json_field ''resourceId'' (json_string (c_resourceId c))
     @ '','' @ json_field ''resourceIncarnationId'' (json_string (c_resourceIncarnationId c))
     @ '','' @ json_field ''expectedRecordVersion'' (int_str (c_expectedRecordVersion c))
     @ '','' @ json_field ''payload'' (json_opt (c_payload c)) @ ''}''"

definition commandDigest ::
  "(string \<Rightarrow> string) \<Rightarrow> spike_command \<Rightarrow> 'a replica_binding_scheme \<Rightarrow> string"
where
  "commandDigest sha c b = sha (normalized c b)"

section \<open>Responses\<close>

definition result_keys :: "string list" where
  "result_keys = [''commandId'', ''resourceId'', ''digest'', ''state'', ''code'',
     ''previousVersion'', ''currentVersion'', ''attemptNumber'']"

definition result_codes :: "string list" where
  "result_codes = [''applied'', ''already_applied'', ''optimistic_conflict'', ''stale_incarnation'',
     ''command_denied'']"

definition expectedState :: "jsval \<Rightarrow> string" where
  "expectedState code =
     (if code = JStr ''optimistic_conflict'' \<or> code = JStr ''stale_incarnation'' then ''conflict''
      else if code = JStr ''command_denied'' then ''denied'' else ''applied'')"

definition string_or_throw :: "(jsnum \<Rightarrow> string) \<Rightarrow> jsval \<Rightarrow> protocol_error + string" where
  "string_or_throw num_str v =
     (case js_String num_str v of None \<Rightarrow> Inl Protocol_type_error | Some s \<Rightarrow> Inr s)"

text \<open>One result: it consumes its command from the map of those still expected.\<close>

definition parse_result ::
  "(string \<Rightarrow> string) \<Rightarrow> (jsnum \<Rightarrow> string) \<Rightarrow> 'a replica_binding_scheme \<Rightarrow> (string \<rightharpoonup> spike_command)
     \<Rightarrow> jsval \<Rightarrow> protocol_error + (string \<rightharpoonup> spike_command)"
where
  "parse_result sha num_str binding expected raw =
     rbind (record_of raw ''Command result'') (\<lambda>r.
     rbind (exactKeys r result_keys ''Command result'') (\<lambda>_.
     rbind (string_or_throw num_str (obj_get r ''commandId'')) (\<lambda>key.
     case expected key of
       None \<Rightarrow> Inl Identity_mismatch
     | Some command \<Rightarrow>
       rbind (guard (obj_get r ''resourceId'' = JStr (c_resourceId command)
                \<and> obj_get r ''digest'' = JStr (commandDigest sha command binding)) Identity_mismatch) (\<lambda>_.
       rbind (guard (obj_get r ''state'' \<in> {JStr ''applied'', JStr ''conflict'', JStr ''denied''})
                Unknown_result_state) (\<lambda>_.
       rbind (string_or_throw num_str (obj_get r ''code'')) (\<lambda>code.
       rbind (guard (code \<in> set result_codes) Unknown_result_code) (\<lambda>_.
       rbind (guard (obj_get r ''state'' = JStr (expectedState (obj_get r ''code''))) Inconsistent_result) (\<lambda>_.
       rbind (rmap (\<lambda>field. guard (val_positive_safe (obj_get r field)) (Invalid_result_field field))
                [''previousVersion'', ''currentVersion'', ''attemptNumber'']) (\<lambda>_.
       Inr (expected(c_commandId command := None))))))))))) "

fun parse_results ::
  "(string \<Rightarrow> string) \<Rightarrow> (jsnum \<Rightarrow> string) \<Rightarrow> 'a replica_binding_scheme \<Rightarrow> (string \<rightharpoonup> spike_command)
     \<Rightarrow> jsval list \<Rightarrow> protocol_error + (string \<rightharpoonup> spike_command)"
where
  "parse_results sha num_str binding expected [] = Inr expected"
| "parse_results sha num_str binding expected (raw # rest) =
     rbind (parse_result sha num_str binding expected raw) (\<lambda>expected'.
     parse_results sha num_str binding expected' rest)"

text \<open>The results are handed on as they were received.\<close>

definition parseCommandResponse ::
  "(string \<Rightarrow> string) \<Rightarrow> (jsnum \<Rightarrow> string) \<Rightarrow> jsval \<Rightarrow> spike_command list \<Rightarrow> 'a replica_binding_scheme
     \<Rightarrow> protocol_error + jsval list"
where
  "parseCommandResponse sha num_str v commands binding =
     rbind (record_of v ''Command response'') (\<lambda>input.
     rbind (exactKeys input [''spikeProtocol'', ''results''] ''Command response'') (\<lambda>_.
     let rs = obj_get input ''results'' in
     rbind (guard (is_literal (obj_get input ''spikeProtocol'') 1 \<and> is_arr rs
              \<and> length (arr_of rs) = length commands) Response_mismatch) (\<lambda>_.
     rbind (parse_results sha num_str binding
              (js_Map (map (\<lambda>c. (c_commandId c, c)) commands)) (arr_of rs)) (\<lambda>expected.
     rbind (guard (\<not> list_ex (\<lambda>c. expected (c_commandId c) \<noteq> None) commands) Omitted_results) (\<lambda>_.
     Inr (arr_of rs))))))"

end
