(* ===== verification/Command_Server.thy ===== *)
theory Command_Server
  imports Command_Protocol
begin

text \<open>
  The command server of the synchronisation spike,
  \<open>spikes/powersync/harness/src/command-server.ts\<close>, over the tables of
  \<open>spikes/powersync/postgres/00-source.sql\<close> that it reads and writes.

  A database transaction is a function from the database to a result and the database after its
  \<open>COMMIT\<close> or \<open>ROLLBACK\<close>: the server locks the replica row, then the resource rows, for the whole
  transaction. The one place where it lets other transactions commit in between, the
  \<open>afterAuthorization\<close> callback, is the argument \<open>after\<close>, an arbitrary function on the database.
  A thrown database error is \<open>Inl\<close>.

  Parameters: \<open>sha\<close> (SHA-256 in hexadecimal), \<open>hmac\<close> (the keyed hash of \<open>rotatedCredential\<close> in
  base64url) and \<open>pg_uuid\<close> (PostgreSQL's reading of a text as \<open>uuid\<close>, in canonical form).
  Random identifiers and bytes are arguments of the operations that draw them. Change event
  identifiers are random and read by nobody; they are left out. Times are microseconds;
  an interval of days is that many times 24 hours, as in a session in UTC.
\<close>

section \<open>Tables\<close>

datatype result_state = Applied | Conflicted | Denied

datatype result_code =
    Code_applied
  | Already_applied
  | Optimistic_conflict
  | Stale_incarnation
  | Command_denied

record resource_row =
  r_id :: string
  r_incarnation :: string
  r_payload :: "string option"
  r_version :: int
  r_deleted_at :: "int option"

record receipt_row =
  rc_user :: string
  rc_command :: string
  rc_replica :: string
  rc_epoch :: int
  rc_resource :: string
  rc_digest :: string
  rc_state :: result_state
  rc_code :: result_code
  rc_previous :: int
  rc_current :: int

record event_row =
  ev_user :: string
  ev_command :: string
  ev_resource :: string
  ev_ordinal :: nat
  ev_type :: command_type
  ev_version :: int

record graveyard_row =
  gy_resource :: string
  gy_incarnation :: string
  gy_final_version :: int
  gy_deleted_at :: int
  gy_sequence :: int

record retention_state =
  effective_now :: int
  retained_graveyard_floor :: int
  next_deletion_sequence :: int

record replica_row =
  rp_id :: string
  rp_user :: string
  rp_credential_digest :: string
  rp_epoch :: int
  rp_last_ack_at :: "int option"
  rp_acknowledged_sequence :: "int option"
  rp_disabled_at :: "int option"
  rp_previous_digest :: "string option"
  rp_staged_reset :: "string option"
  rp_last_reset :: "string option"

record challenge_row =
  ch_id :: string
  ch_replica :: string
  ch_epoch :: int
  ch_target :: int
  ch_issued_at :: int
  ch_expires_at :: int
  ch_acknowledged_at :: "int option"

record rate_window =
  rw_replica :: string
  rw_epoch :: int
  rw_started_at :: int
  rw_count :: int

record grant_row =
  g_resource :: string
  g_user :: string
  g_user_active :: bool
  g_workspace_active :: bool
  g_journey_active :: bool
  g_party_active :: bool

record database =
  db_users :: "string set"
  db_resources :: "resource_row list"
  db_receipts :: "receipt_row list"
  db_events :: "event_row list"
  db_graveyard :: "graveyard_row list"
  db_retention :: retention_state
  db_replicas :: "replica_row list"
  db_challenges :: "challenge_row list"
  db_rates :: "rate_window list"
  db_grants :: "grant_row list"

abbreviation ps8_now :: "database \<Rightarrow> int" where
  "ps8_now db \<equiv> effective_now (db_retention db)"

definition microseconds_per_day :: int where
  "microseconds_per_day = 24 * 60 * 60 * 1000000"

definition ps8_replica_reset_required :: "retention_state \<Rightarrow> int option \<Rightarrow> int option \<Rightarrow> bool" where
  "ps8_replica_reset_required st last_ack seq =
     (case last_ack of None \<Rightarrow> True | Some t \<Rightarrow>
       (case seq of None \<Rightarrow> True | Some n \<Rightarrow>
          effective_now st > t + 90 * microseconds_per_day \<or> n < retained_graveyard_floor st))"

section \<open>Request-scoped helpers\<close>

definition maxRetainedTestAttemptKeys :: nat where
  "maxRetainedTestAttemptKeys = 1024"

text \<open>The \<open>attempts\<close> map in insertion order; \<open>set\<close> on a present key keeps its place.\<close>

definition map_set :: "'k \<Rightarrow> 'v \<Rightarrow> ('k \<times> 'v) list \<Rightarrow> ('k \<times> 'v) list" where
  "map_set k v ps =
     (if k \<in> fst ` set ps then map (\<lambda>(a, b). if a = k then (a, v) else (a, b)) ps else ps @ [(k, v)])"

definition recordTestAttempt :: "(string \<times> nat) list \<Rightarrow> string \<Rightarrow> nat \<times> (string \<times> nat) list" where
  "recordTestAttempt attempts key =
     (let attempts1 =
            (if key \<notin> fst ` set attempts \<and> length attempts \<ge> maxRetainedTestAttemptKeys
             then (case attempts of [] \<Rightarrow> [] | (oldest, n) # rest \<Rightarrow>
                     if oldest \<noteq> '''' then rest else attempts)
             else attempts);
          next_number = (case map_of attempts1 key of Some n \<Rightarrow> n | None \<Rightarrow> 0) + 1
      in (next_number, map_set key next_number attempts1))"

text \<open>A \<open>Set\<close> in insertion order.\<close>

definition addBoundedTestKey :: "string list \<Rightarrow> string \<Rightarrow> string list" where
  "addBoundedTestKey target key =
     (let target1 =
            (if key \<notin> set target \<and> length target \<ge> maxRetainedTestAttemptKeys
             then (case target of [] \<Rightarrow> [] | oldest # rest \<Rightarrow> if oldest \<noteq> '''' then rest else target)
             else target)
      in if key \<in> set target1 then target1 else target1 @ [key])"

definition maxReplicasPerUser :: nat where
  "maxReplicasPerUser = 16"

definition maxConcurrentCommandRequests :: nat where
  "maxConcurrentCommandRequests = 4"

definition maxCommandRequestsPerMinute :: int where
  "maxCommandRequestsPerMinute = 64"

text \<open>
  The counter \<open>concurrentCommandRequests\<close> with the \<open>released\<close> flag of each release closure
  handed out so far; a closure is the index of its flag.
\<close>

record slots =
  concurrentCommandRequests :: int
  released :: "bool list"

definition acquireCommandSlot :: "slots \<Rightarrow> nat option \<times> slots" where
  "acquireCommandSlot s =
     (if concurrentCommandRequests s \<ge> int maxConcurrentCommandRequests then (None, s)
      else (Some (length (released s)),
            s\<lparr>concurrentCommandRequests := concurrentCommandRequests s + 1,
              released := released s @ [False]\<rparr>))"

definition releaseSlot :: "nat \<Rightarrow> slots \<Rightarrow> slots" where
  "releaseSlot h s =
     (if h < length (released s) \<and> \<not> released s ! h
      then s\<lparr>released := (released s)[h := True],
             concurrentCommandRequests := concurrentCommandRequests s - 1\<rparr>
      else s)"

section \<open>Replica authentication\<close>

text \<open>\<open>Buffer.from(text, "hex")\<close>: bytes up to the first pair that is not hexadecimal.\<close>

definition hex_digit :: "char \<Rightarrow> nat option" where
  "hex_digit c = findIndex (\<lambda>a. a = lower_char c) ''0123456789abcdef''"

fun hex_bytes :: "string \<Rightarrow> nat list" where
  "hex_bytes (a # b # s) =
     (case (hex_digit a, hex_digit b) of (Some x, Some y) \<Rightarrow> (x * 16 + y) # hex_bytes s | _ \<Rightarrow> [])"
| "hex_bytes _ = []"

definition credentialMatches :: "string \<Rightarrow> string \<Rightarrow> bool" where
  "credentialMatches stored candidate = (hex_bytes stored = hex_bytes candidate)"

definition rotatedCredential :: "(string \<Rightarrow> string) \<Rightarrow> string \<Rightarrow> string \<Rightarrow> int \<Rightarrow> string" where
  "rotatedCredential hmac rid resetRequestId targetEpoch =
     ''r2_'' @ hmac (rid @ '':'' @ resetRequestId @ '':'' @ int_str targetEpoch)"

definition version4Uuid :: "jsval \<Rightarrow> bool" where
  "version4Uuid v = (is_str v \<and> commandUuid (str_of v))"

text \<open>The header as received: absent, one string, or repeated.\<close>

definition credentialFrom :: "string list \<Rightarrow> string option" where
  "credentialFrom header =
     (case header of [v] \<Rightarrow> if length v \<ge> 32 \<and> length v \<le> 128 then Some v else None | _ \<Rightarrow> None)"

datatype lifecycle_error = Object_required | Unknown_field | Invalid_replica_error | Database_error

definition strictObject :: "jsval \<Rightarrow> string list \<Rightarrow> lifecycle_error + (string \<times> jsval) list" where
  "strictObject v keys =
     (if \<not> isRecord v then Inl Object_required
      else if list_ex (\<lambda>k. k \<notin> set keys) (map fst (props_of v)) then Inl Unknown_field
      else Inr (props_of v))"

definition parseBinding :: "(string \<times> jsval) list \<Rightarrow> lifecycle_error + replica_binding" where
  "parseBinding ps =
     (let rid = obj_get ps ''replicaId''; epoch = obj_get ps ''replicaEpoch'' in
      if \<not> is_str rid \<or> \<not> uuid (str_of rid) \<or> \<not> val_positive_safe epoch then Inl Invalid_replica_error
      else Inr \<lparr>b_replicaId = str_of rid, b_replicaEpoch = val_int epoch\<rparr>)"

definition find_replica :: "database \<Rightarrow> string \<Rightarrow> replica_row option" where
  "find_replica db rid = find (\<lambda>r. rp_id r = rid) (db_replicas db)"

definition replica_stale :: "database \<Rightarrow> replica_row \<Rightarrow> bool" where
  "replica_stale db row =
     ps8_replica_reset_required (db_retention db) (rp_last_ack_at row) (rp_acknowledged_sequence row)"

definition lockReplica ::
  "(string \<Rightarrow> string) \<Rightarrow> database \<Rightarrow> string \<Rightarrow> replica_binding \<Rightarrow> string \<Rightarrow> (replica_row \<times> bool) option"
where
  "lockReplica sha db userId binding credential =
     (case find_replica db (b_replicaId binding) of
        None \<Rightarrow> None
      | Some row \<Rightarrow>
          if rp_user row \<noteq> userId \<or> rp_disabled_at row \<noteq> None \<or> rp_epoch row \<noteq> b_replicaEpoch binding
             \<or> \<not> credentialMatches (rp_credential_digest row) (sha credential)
          then None else Some (row, replica_stale db row))"

section \<open>Rate window\<close>

datatype rate_outcome = Rate_accepted | Rate_invalid | Rate_stale | Rate_limited

definition one_minute :: int where
  "one_minute = 60 * 1000000"

definition find_rate :: "database \<Rightarrow> string \<Rightarrow> rate_window option" where
  "find_rate db rid = find (\<lambda>w. rw_replica w = rid) (db_rates db)"

definition window_expired :: "database \<Rightarrow> rate_window \<Rightarrow> int \<Rightarrow> bool" where
  "window_expired db w epoch = (rw_epoch w \<noteq> epoch \<or> ps8_now db \<ge> rw_started_at w + one_minute)"

definition consumeCommandRateWindow ::
  "(string \<Rightarrow> string) \<Rightarrow> database \<Rightarrow> string \<Rightarrow> replica_binding \<Rightarrow> string \<Rightarrow> rate_outcome \<times> database"
where
  "consumeCommandRateWindow sha db userId binding credential =
     (case lockReplica sha db userId binding credential of
        None \<Rightarrow> (Rate_invalid, db)
      | Some (row, stale) \<Rightarrow>
          if stale then (Rate_stale, db)
          else
            let rid = b_replicaId binding; epoch = b_replicaEpoch binding;
                fresh = \<lparr>rw_replica = rid, rw_epoch = epoch, rw_started_at = ps8_now db, rw_count = 1\<rparr>
            in case find_rate db rid of
                 None \<Rightarrow> (Rate_accepted, db\<lparr>db_rates := db_rates db @ [fresh]\<rparr>)
               | Some w \<Rightarrow>
                   let w' = (if window_expired db w epoch then fresh
                             else w\<lparr>rw_epoch := epoch, rw_count := rw_count w + 1\<rparr>)
                   in if window_expired db w epoch \<or> rw_count w < maxCommandRequestsPerMinute
                      then (Rate_accepted,
                            db\<lparr>db_rates := map (\<lambda>x. if rw_replica x = rid then w' else x) (db_rates db)\<rparr>)
                      else (Rate_limited, db))"

section \<open>Executing commands\<close>

record spike_result =
  sr_commandId :: string
  sr_resourceId :: string
  sr_digest :: string
  sr_state :: result_state
  sr_code :: result_code
  sr_previous :: int
  sr_current :: int
  sr_attempt :: nat

datatype exec_body = Exec_error string | Exec_results "spike_result list"

definition resultFromReceipt :: "receipt_row \<Rightarrow> nat \<Rightarrow> bool \<Rightarrow> spike_result" where
  "resultFromReceipt row attempt replay =
     \<lparr>sr_commandId = rc_command row, sr_resourceId = rc_resource row, sr_digest = rc_digest row,
      sr_state = rc_state row,
      sr_code = (if replay \<and> rc_code row = Code_applied then Already_applied else rc_code row),
      sr_previous = rc_previous row, sr_current = rc_current row, sr_attempt = attempt\<rparr>"

definition deniedResultFromDurableReceipt :: "receipt_row \<Rightarrow> nat \<Rightarrow> spike_result" where
  "deniedResultFromDurableReceipt row attempt =
     \<lparr>sr_commandId = rc_command row, sr_resourceId = rc_resource row, sr_digest = rc_digest row,
      sr_state = Denied, sr_code = Command_denied,
      sr_previous = rc_previous row, sr_current = rc_current row, sr_attempt = attempt\<rparr>"

definition grant_active :: "grant_row \<Rightarrow> bool" where
  "grant_active g = (g_user_active g \<and> g_workspace_active g \<and> g_journey_active g \<and> g_party_active g)"

definition granted_resources :: "database \<Rightarrow> string \<Rightarrow> string list \<Rightarrow> string set" where
  "granted_resources db userId resourceIds =
     set (map g_resource (filter (\<lambda>g. g_user g = userId \<and> g_resource g \<in> set resourceIds \<and> grant_active g)
            (db_grants db)))"

definition lockActiveGrants :: "database \<Rightarrow> string \<Rightarrow> string list \<Rightarrow> bool" where
  "lockActiveGrants db userId resourceIds =
     (card (granted_resources db userId resourceIds) = length resourceIds)"

definition find_receipt :: "database \<Rightarrow> string \<Rightarrow> string \<Rightarrow> receipt_row option" where
  "find_receipt db userId commandId =
     find (\<lambda>r. rc_user r = userId \<and> rc_command r = commandId) (db_receipts db)"

definition find_resource :: "database \<Rightarrow> string \<Rightarrow> resource_row option" where
  "find_resource db rid = find (\<lambda>r. r_id r = rid) (db_resources db)"

text \<open>The comparison of a stored receipt with the request that names it.\<close>

definition receipt_matches ::
  "(string \<Rightarrow> string) \<Rightarrow> replica_binding \<Rightarrow> spike_command \<Rightarrow> receipt_row \<Rightarrow> bool"
where
  "receipt_matches sha binding command receipt =
     (rc_replica receipt = b_replicaId binding \<and> rc_epoch receipt = b_replicaEpoch binding
      \<and> rc_resource receipt = c_resourceId command \<and> rc_digest receipt = commandDigest sha command binding)"

definition receipt_for ::
  "(string \<Rightarrow> string) \<Rightarrow> string \<Rightarrow> replica_binding \<Rightarrow> spike_command \<Rightarrow> result_state \<Rightarrow> result_code
     \<Rightarrow> int \<Rightarrow> int \<Rightarrow> receipt_row"
where
  "receipt_for sha userId binding c state code previous current =
     \<lparr>rc_user = userId, rc_command = c_commandId c, rc_replica = b_replicaId binding,
      rc_epoch = b_replicaEpoch binding, rc_resource = c_resourceId c,
      rc_digest = commandDigest sha c binding, rc_state = state, rc_code = code,
      rc_previous = previous, rc_current = current\<rparr>"

text \<open>\<open>INSERT\<close> under the primary key \<open>(user_id, command_id)\<close>; a duplicate is a database error.\<close>

definition insert_receipt :: "receipt_row \<Rightarrow> database \<Rightarrow> lifecycle_error + database" where
  "insert_receipt r db =
     (if find_receipt db (rc_user r) (rc_command r) \<noteq> None then Inl Database_error
      else Inr (db\<lparr>db_receipts := db_receipts db @ [r]\<rparr>))"

definition result_of :: "receipt_row \<Rightarrow> nat \<Rightarrow> spike_result" where
  "result_of r attempt = resultFromReceipt r attempt False"

text \<open>The branch without an active grant: only the first command is looked at.\<close>

definition deny_command ::
  "(string \<Rightarrow> string) \<Rightarrow> database \<Rightarrow> string \<Rightarrow> replica_binding \<Rightarrow> spike_command \<Rightarrow> nat
     \<Rightarrow> (nat \<times> exec_body) \<times> database"
where
  "deny_command sha db userId binding command attempt =
     (case find_receipt db userId (c_commandId command) of
        Some receipt \<Rightarrow>
          if receipt_matches sha binding command receipt
          then ((403, Exec_results [deniedResultFromDurableReceipt receipt attempt]), db)
          else ((409, Exec_error ''idempotency_conflict''), db)
      | None \<Rightarrow>
          let receipt = receipt_for sha userId binding command Denied Command_denied
                          (c_expectedRecordVersion command) (c_expectedRecordVersion command)
          in ((403, Exec_results [deniedResultFromDurableReceipt receipt attempt]),
              db\<lparr>db_receipts := db_receipts db @ [receipt]\<rparr>))"

text \<open>
  \<open>UPDATE resources\<close> with its triggers: a soft deletion allocates a deletion sequence and adds
  the graveyard row, whose primary key is the resource.
\<close>

definition update_resource :: "string \<Rightarrow> (resource_row \<Rightarrow> resource_row) \<Rightarrow> database \<Rightarrow> database" where
  "update_resource rid f db =
     db\<lparr>db_resources := map (\<lambda>r. if r_id r = rid then f r else r) (db_resources db)\<rparr>"

definition bury :: "resource_row \<Rightarrow> database \<Rightarrow> lifecycle_error + database" where
  "bury r db =
     (if r_id r \<in> gy_resource ` set (db_graveyard db) then Inl Database_error
      else
        let st = db_retention db in
        Inr (db\<lparr>db_retention := st\<lparr>next_deletion_sequence := next_deletion_sequence st + 1\<rparr>,
                db_graveyard := db_graveyard db @
                  [\<lparr>gy_resource = r_id r, gy_incarnation = r_incarnation r, gy_final_version = r_version r,
                    gy_deleted_at = ps8_now db, gy_sequence = next_deletion_sequence st\<rparr>]\<rparr>))"

definition apply_mutation :: "spike_command \<Rightarrow> database \<Rightarrow> lifecycle_error + database" where
  "apply_mutation c db =
     (let current = c_expectedRecordVersion c + 1 in
      case c_type c of
        Resource_update \<Rightarrow>
          Inr (update_resource (c_resourceId c) (\<lambda>r. r\<lparr>r_payload := c_payload c, r_version := current\<rparr>) db)
      | Resource_soft_delete \<Rightarrow>
          (case find_resource db (c_resourceId c) of
             None \<Rightarrow> Inr db
           | Some r \<Rightarrow>
               let r' = r\<lparr>r_deleted_at := Some (ps8_now db), r_version := current\<rparr>;
                   db1 = update_resource (c_resourceId c)
                           (\<lambda>x. x\<lparr>r_deleted_at := Some (ps8_now db), r_version := current\<rparr>) db
               in (case r_deleted_at r of
                     None \<Rightarrow> bury r' db1
                   | Some t \<Rightarrow> if t \<noteq> ps8_now db then Inl Database_error else Inr db1)))"

fun apply_commands ::
  "(string \<Rightarrow> string) \<Rightarrow> string \<Rightarrow> replica_binding \<Rightarrow> nat \<Rightarrow> nat \<Rightarrow> spike_command list \<Rightarrow> database
     \<Rightarrow> lifecycle_error + (spike_result list \<times> database)"
where
  "apply_commands sha userId binding attempt ordinal [] db = Inr ([], db)"
| "apply_commands sha userId binding attempt ordinal (c # cs) db =
     (let previous = c_expectedRecordVersion c; current = previous + 1;
          receipt = receipt_for sha userId binding c Applied Code_applied previous current in
      rbind (apply_mutation c db) (\<lambda>db1.
      let db2 = db1\<lparr>db_events := db_events db1 @
            [\<lparr>ev_user = userId, ev_command = c_commandId c, ev_resource = c_resourceId c,
              ev_ordinal = ordinal, ev_type = c_type c, ev_version = current\<rparr>]\<rparr> in
      rbind (insert_receipt receipt db2) (\<lambda>db3.
      rbind (apply_commands sha userId binding attempt (Suc ordinal) cs db3) (\<lambda>(results, db4).
      Inr (result_of receipt attempt # results, db4)))))"

fun record_conflicts ::
  "(string \<Rightarrow> string) \<Rightarrow> string \<Rightarrow> replica_binding \<Rightarrow> nat \<Rightarrow> result_code \<Rightarrow> (string \<rightharpoonup> resource_row)
     \<Rightarrow> spike_command list \<Rightarrow> database \<Rightarrow> lifecycle_error + (spike_result list \<times> database)"
where
  "record_conflicts sha userId binding attempt code resources [] db = Inr ([], db)"
| "record_conflicts sha userId binding attempt code resources (c # cs) db =
     (let current = r_version (the (resources (c_resourceId c)));
          receipt = receipt_for sha userId binding c Conflicted code (c_expectedRecordVersion c) current in
      rbind (insert_receipt receipt db) (\<lambda>db1.
      rbind (record_conflicts sha userId binding attempt code resources cs db1) (\<lambda>(results, db2).
      Inr (result_of receipt attempt # results, db2))))"

definition stale_incarnation :: "(string \<rightharpoonup> resource_row) \<Rightarrow> spike_command list \<Rightarrow> bool" where
  "stale_incarnation resources commands =
     list_ex (\<lambda>c. r_incarnation (the (resources (c_resourceId c))) \<noteq> c_resourceIncarnationId c) commands"

definition version_conflict :: "(string \<rightharpoonup> resource_row) \<Rightarrow> spike_command list \<Rightarrow> bool" where
  "version_conflict resources commands =
     list_ex (\<lambda>c. let r = the (resources (c_resourceId c)) in
        r_deleted_at r \<noteq> None \<or> r_version r \<noteq> c_expectedRecordVersion c) commands"

text \<open>From the resource locks to the end of the transaction; \<open>db\<close> is the database at that point.\<close>

definition execute_authorized ::
  "(string \<Rightarrow> string) \<Rightarrow> database \<Rightarrow> string \<Rightarrow> replica_binding \<Rightarrow> spike_command list \<Rightarrow> nat
     \<Rightarrow> (lifecycle_error + nat \<times> exec_body) \<times> database"
where
  "execute_authorized sha db userId binding commands attempt =
     (let resourceIds = sort (map c_resourceId commands);
          rows = filter (\<lambda>r. r_id r \<in> set resourceIds) (db_resources db);
          receipts = filter (\<lambda>r. rc_user r = userId \<and> rc_command r \<in> c_commandId ` set commands) (db_receipts db);
          byId = js_Map (map (\<lambda>r. (rc_command r, r)) receipts);
          resources = js_Map (map (\<lambda>r. (r_id r, r)) rows)
      in
      if length rows \<noteq> length resourceIds then (Inr (403, Exec_error ''command_denied''), db)
      else if receipts \<noteq> [] then
        if length receipts \<noteq> length commands then (Inr (409, Exec_error ''partial_idempotency_match''), db)
        else if list_ex (\<lambda>c. \<not> receipt_matches sha binding c (the (byId (c_commandId c)))) commands
        then (Inr (409, Exec_error ''idempotency_conflict''), db)
        else (Inr (200, Exec_results
                (map (\<lambda>c. resultFromReceipt (the (byId (c_commandId c))) attempt True) commands)), db)
      else
        let outcome =
          (if stale_incarnation resources commands
           then record_conflicts sha userId binding attempt Stale_incarnation resources commands db
           else if version_conflict resources commands
           then record_conflicts sha userId binding attempt Optimistic_conflict resources commands db
           else apply_commands sha userId binding attempt 0 commands db)
        in case outcome of
             Inl e \<Rightarrow> (Inl e, db)
           | Inr (results, db') \<Rightarrow> (Inr (200, Exec_results results), db'))"

definition executeCommands ::
  "(string \<Rightarrow> string) \<Rightarrow> (database \<Rightarrow> database) \<Rightarrow> database \<Rightarrow> string \<Rightarrow> replica_binding \<Rightarrow> string
     \<Rightarrow> spike_command list \<Rightarrow> nat \<Rightarrow> (lifecycle_error + nat \<times> exec_body) \<times> database"
where
  "executeCommands sha after db userId binding credential commands attempt =
     (case lockReplica sha db userId binding credential of
        None \<Rightarrow> (Inr (403, Exec_error ''invalid_replica''), db)
      | Some (row, _) \<Rightarrow>
          if replica_stale db row then (Inr (428, Exec_error ''replica_reset_required''), db)
          else if \<not> lockActiveGrants db userId (sort (map c_resourceId commands))
          then (case deny_command sha db userId binding (hd commands) attempt of
                  (outcome, db') \<Rightarrow> (Inr outcome, db'))
          else execute_authorized sha (after db) userId binding commands attempt)"

end
