(* ===== verification/Command_Execution.thy ===== *)
theory Command_Execution
  imports Command_Server
begin

text \<open>
  Lemmas about the execution of commands: a reference definition for the one-command requests
  that \<open>parseCommandEnvelope\<close> lets through, the equivalence of \<open>execute_authorized\<close> with it, and
  the invariant of the database it works on.
\<close>

section \<open>Single rows\<close>

lemma filter_key_unique:
  "distinct (map f xs) \<Longrightarrow>
   filter (\<lambda>x. f x = k) xs = (case find (\<lambda>x. f x = k) xs of None \<Rightarrow> [] | Some x \<Rightarrow> [x])"
proof (induction xs)
  case Nil
  then show ?case by simp
next
  case (Cons a xs)
  show ?case
  proof (cases "f a = k")
    case True
    then have "filter (\<lambda>x. f x = k) xs = []"
      using Cons.prems by (fastforce simp: filter_empty_conv image_iff)
    with True show ?thesis by simp
  next
    case False
    with Cons show ?thesis by simp
  qed
qed

lemma find_map_same:
  "(\<And>x. f (g x) = f x) \<Longrightarrow> find (\<lambda>x. f x = k) (map g xs) = map_option g (find (\<lambda>x. f x = k) xs)"
  by (induction xs) auto

lemma find_append: "find P (xs @ ys) = (case find P xs of None \<Rightarrow> find P ys | Some x \<Rightarrow> Some x)"
  by (induction xs) auto

section \<open>Reference for one command\<close>

definition receipt_key :: "receipt_row \<Rightarrow> string \<times> string" where
  "receipt_key r = (rc_user r, rc_command r)"

text \<open>The row a command leaves, and the receipt and event it adds when it is applied.\<close>

definition mutated :: "int \<Rightarrow> spike_command \<Rightarrow> resource_row \<Rightarrow> resource_row" where
  "mutated now c r =
     (case c_type c of
        Resource_update \<Rightarrow> r\<lparr>r_payload := c_payload c, r_version := c_expectedRecordVersion c + 1\<rparr>
      | Resource_soft_delete \<Rightarrow> r\<lparr>r_deleted_at := Some now, r_version := c_expectedRecordVersion c + 1\<rparr>)"

abbreviation applied_receipt ::
  "(string \<Rightarrow> string) \<Rightarrow> string \<Rightarrow> replica_binding \<Rightarrow> spike_command \<Rightarrow> receipt_row"
where
  "applied_receipt sha u b c \<equiv> receipt_for sha u b c Applied Code_applied
     (c_expectedRecordVersion c) (c_expectedRecordVersion c + 1)"

definition event_for :: "string \<Rightarrow> spike_command \<Rightarrow> event_row" where
  "event_for u c = \<lparr>ev_user = u, ev_command = c_commandId c, ev_resource = c_resourceId c,
     ev_ordinal = 0, ev_type = c_type c, ev_version = c_expectedRecordVersion c + 1\<rparr>"

definition conflict_code :: "resource_row \<Rightarrow> spike_command \<Rightarrow> result_code option" where
  "conflict_code r c =
     (if r_incarnation r \<noteq> c_resourceIncarnationId c then Some Stale_incarnation
      else if r_deleted_at r \<noteq> None \<or> r_version r \<noteq> c_expectedRecordVersion c then Some Optimistic_conflict
      else None)"

definition execute_one ::
  "(string \<Rightarrow> string) \<Rightarrow> database \<Rightarrow> string \<Rightarrow> replica_binding \<Rightarrow> spike_command \<Rightarrow> nat
     \<Rightarrow> (lifecycle_error + nat \<times> exec_body) \<times> database"
where
  "execute_one sha db u b c n =
     (case find_resource db (c_resourceId c) of
        None \<Rightarrow> (Inr (403, Exec_error ''command_denied''), db)
      | Some r \<Rightarrow>
        (case find_receipt db u (c_commandId c) of
           Some rc \<Rightarrow>
             if receipt_matches sha b c rc then (Inr (200, Exec_results [resultFromReceipt rc n True]), db)
             else (Inr (409, Exec_error ''idempotency_conflict''), db)
         | None \<Rightarrow>
           (case conflict_code r c of
              Some code \<Rightarrow>
                let rc = receipt_for sha u b c Conflicted code (c_expectedRecordVersion c) (r_version r)
                in (Inr (200, Exec_results [resultFromReceipt rc n False]),
                    db\<lparr>db_receipts := db_receipts db @ [rc]\<rparr>)
            | None \<Rightarrow>
                (case apply_mutation c db of
                   Inl e \<Rightarrow> (Inl e, db)
                 | Inr db1 \<Rightarrow>
                     (Inr (200, Exec_results [resultFromReceipt (applied_receipt sha u b c) n False]),
                      db1\<lparr>db_events := db_events db1 @ [event_for u c],
                          db_receipts := db_receipts db1 @ [applied_receipt sha u b c]\<rparr>)))))"

section \<open>What a mutation touches\<close>

lemma update_resource_fields [simp]:
  "db_receipts (update_resource k f db) = db_receipts db"
  "db_events (update_resource k f db) = db_events db"
  "db_replicas (update_resource k f db) = db_replicas db"
  "db_retention (update_resource k f db) = db_retention db"
  "db_graveyard (update_resource k f db) = db_graveyard db"
  "db_grants (update_resource k f db) = db_grants db"
  "db_users (update_resource k f db) = db_users db"
  "db_challenges (update_resource k f db) = db_challenges db"
  "db_rates (update_resource k f db) = db_rates db"
  "db_resources (update_resource k f db) = map (\<lambda>r. if r_id r = k then f r else r) (db_resources db)"
  by (simp_all add: update_resource_def)

lemma mutated_fields [simp]:
  "r_id (mutated t c r) = r_id r"
  "r_incarnation (mutated t c r) = r_incarnation r"
  "r_version (mutated t c r) = c_expectedRecordVersion c + 1"
  by (cases "c_type c"; simp add: mutated_def)+

lemma apply_mutation_Inr:
  assumes "apply_mutation c db = Inr db'"
  shows "db_resources db' =
      map (\<lambda>r. if r_id r = c_resourceId c then mutated (ps8_now db) c r else r) (db_resources db)"
    and "db_receipts db' = db_receipts db" "db_events db' = db_events db"
    and "db_replicas db' = db_replicas db" "db_grants db' = db_grants db" "db_users db' = db_users db"
    and "db_challenges db' = db_challenges db" "db_rates db' = db_rates db"
    and "ps8_now db' = ps8_now db"
    and "retained_graveyard_floor (db_retention db') = retained_graveyard_floor (db_retention db)"
    and "next_deletion_sequence (db_retention db) \<le> next_deletion_sequence (db_retention db')"
proof -
  show "db_resources db' =
      map (\<lambda>r. if r_id r = c_resourceId c then mutated (ps8_now db) c r else r) (db_resources db)"
  proof (cases "c_type c = Resource_soft_delete \<and> find_resource db (c_resourceId c) = None")
    case True
    then have "map (\<lambda>r. if r_id r = c_resourceId c then mutated (ps8_now db) c r else r) (db_resources db)
        = db_resources db"
      by (intro map_idI) (auto simp: find_resource_def find_None_iff)
    then show ?thesis
      using True assms by (simp add: apply_mutation_def)
  next
    case False
    then show ?thesis
      using assms
      by (cases "c_type c")
        (auto simp: apply_mutation_def Let_def bury_def mutated_def update_resource_def
          split: option.splits if_splits)
  qed
qed (use assms in \<open>cases "c_type c"; auto simp: apply_mutation_def Let_def bury_def
      split: option.splits if_splits\<close>)+

lemma update_resource_receipts [simp]:
  "find_receipt (db\<lparr>db_events := es\<rparr>) u k = find_receipt db u k"
  by (simp add: find_receipt_def)

lemma find_receipt_mutated: "apply_mutation c db = Inr db' \<Longrightarrow> find_receipt db' u k = find_receipt db u k"
  by (simp add: find_receipt_def apply_mutation_Inr)

section \<open>Equivalence\<close>

definition keys_ok :: "database \<Rightarrow> bool" where
  "keys_ok db = (distinct (map r_id (db_resources db)) \<and> distinct (map receipt_key (db_receipts db)))"

lemma receipts_of_one:
  assumes "keys_ok db"
  shows "filter (\<lambda>r. rc_user r = u \<and> rc_command r \<in> c_commandId ` set [c]) (db_receipts db)
     = (case find_receipt db u (c_commandId c) of None \<Rightarrow> [] | Some rc \<Rightarrow> [rc])"
  using filter_key_unique [of receipt_key "db_receipts db" "(u, c_commandId c)"] assms
  by (simp add: keys_ok_def receipt_key_def find_receipt_def)

lemma rows_of_one:
  assumes "keys_ok db"
  shows "filter (\<lambda>r. r_id r \<in> set (sort (map c_resourceId [c]))) (db_resources db)
     = (case find_resource db (c_resourceId c) of None \<Rightarrow> [] | Some r \<Rightarrow> [r])"
  using filter_key_unique [of r_id "db_resources db" "c_resourceId c"] assms
  by (simp add: keys_ok_def find_resource_def)

lemma execute_authorized_one:
  assumes "keys_ok db"
  shows "execute_authorized sha db u b [c] n = execute_one sha db u b c n"
proof (cases "find_resource db (c_resourceId c)")
  case None
  then show ?thesis
    using rows_of_one [OF assms, of c]
    by (simp add: execute_authorized_def execute_one_def)
next
  case (Some r)
  have r: "r_id r = c_resourceId c"
    using Some by (auto simp: find_resource_def dest: find_SomeD)
  show ?thesis
  proof (cases "find_receipt db u (c_commandId c)")
    case None
    then show ?thesis
      using rows_of_one [OF assms, of c] receipts_of_one [OF assms, of u c] Some r
      by (auto simp: execute_authorized_def execute_one_def js_Map_def Let_def stale_incarnation_def
          version_conflict_def conflict_code_def insert_receipt_def result_of_def receipt_for_def
          find_receipt_mutated event_for_def split: sum.splits)
  next
    case (Some rc)
    have "rc_command rc = c_commandId c"
      using Some by (auto simp: find_receipt_def dest: find_SomeD)
    then show ?thesis
      using rows_of_one [OF assms, of c] receipts_of_one [OF assms, of u c]
        Some \<open>find_resource db (c_resourceId c) = Some r\<close> r
      by (simp add: execute_authorized_def execute_one_def js_Map_def Let_def)
  qed
qed

end
