(* ===== verification/Replica_Lifecycle.thy ===== *)
theory Replica_Lifecycle
  imports Command_Server
begin

text \<open>
  The replica endpoints and the command endpoint of
  \<open>spikes/powersync/harness/src/command-server.ts\<close>: registration, checkpoint challenge and
  acknowledgement, credential rotation by reset and its acknowledgement, classification, and the
  handler that puts slots, rate window, fault injection and execution together.

  A response is a status with a body. A request body is \<open>Inl\<close> when reading or parsing it threw.
\<close>

section \<open>Requests and responses\<close>

datatype body =
    Error_body string
  | Invalid_command protocol_error
  | Unreadable_command
  | Results_body "spike_result list"
  | Session_body replica_session
  | Challenge_body string int int
  | Ack_body
  | Reset_ack_body
  | Preserve_body bool

type_synonym response = "nat \<times> body"

fun exec_to_body :: "exec_body \<Rightarrow> body" where
  "exec_to_body (Exec_error e) = Error_body e"
| "exec_to_body (Exec_results rs) = Results_body rs"

definition invalid_replica :: response where
  "invalid_replica = (403, Error_body ''invalid_replica'')"

section \<open>Endpoint transactions\<close>

definition registerReplica ::
  "(string \<Rightarrow> string) \<Rightarrow> string \<Rightarrow> nat list \<Rightarrow> database \<Rightarrow> string \<Rightarrow> (lifecycle_error + response) \<times> database"
where
  "registerReplica sha freshId freshBytes db userId =
     (if length (filter (\<lambda>r. rp_user r = userId) (db_replicas db)) \<ge> maxReplicasPerUser
      then (Inr (429, Error_body ''replica_limit_reached''), db)
      else if userId \<notin> db_users db \<or> find_replica db freshId \<noteq> None then (Inl Database_error, db)
      else
        let credential = ''r2_'' @ b64url_encode freshBytes in
        (Inr (201, Session_body \<lparr>b_replicaId = freshId, b_replicaEpoch = 1, b_credential = credential\<rparr>),
         db\<lparr>db_replicas := db_replicas db @
           [\<lparr>rp_id = freshId, rp_user = userId, rp_credential_digest = sha credential, rp_epoch = 1,
             rp_last_ack_at = None, rp_acknowledged_sequence = None, rp_disabled_at = None,
             rp_previous_digest = None, rp_staged_reset = None, rp_last_reset = None\<rparr>]\<rparr>))"

text \<open>A \<open>timestamptz\<close> read into a \<open>Date\<close> keeps milliseconds.\<close>

definition date_of :: "int \<Rightarrow> int" where
  "date_of t = t div 1000 * 1000"

definition challengeReplica ::
  "(string \<Rightarrow> string) \<Rightarrow> string \<Rightarrow> database \<Rightarrow> string \<Rightarrow> replica_binding \<Rightarrow> string
     \<Rightarrow> (lifecycle_error + response) \<times> database"
where
  "challengeReplica sha freshId db userId binding credential =
     (case lockReplica sha db userId binding credential of
        None \<Rightarrow> (Inr invalid_replica, db)
      | Some _ \<Rightarrow>
          let issued = date_of (ps8_now db); expires = issued + 5 * one_minute;
              target = next_deletion_sequence (db_retention db);
              others = filter (\<lambda>c. ch_replica c \<noteq> b_replicaId binding) (db_challenges db) in
          if freshId \<in> ch_id ` set others then (Inl Database_error, db)
          else
            (Inr (201, Challenge_body freshId target expires),
             db\<lparr>db_challenges := others @
                 [\<lparr>ch_id = freshId, ch_replica = b_replicaId binding, ch_epoch = b_replicaEpoch binding,
                   ch_target = target, ch_issued_at = issued, ch_expires_at = expires,
                   ch_acknowledged_at = None\<rparr>]\<rparr>))"

definition challenge_text :: "string \<Rightarrow> bool" where
  "challenge_text s = (length s = 36 \<and> list_all (\<lambda>c. is_hex_lower c \<or> c = CHR ''-'') s)"

definition challenge_open :: "database \<Rightarrow> replica_binding \<Rightarrow> string \<Rightarrow> challenge_row \<Rightarrow> bool" where
  "challenge_open db binding cid c =
     (ch_id c = cid \<and> ch_replica c = b_replicaId binding \<and> ch_epoch c = b_replicaEpoch binding
      \<and> ch_acknowledged_at c = None \<and> ps8_now db \<le> ch_expires_at c
      \<and> ch_target c \<ge> retained_graveyard_floor (db_retention db))"

definition update_replica :: "string \<Rightarrow> (replica_row \<Rightarrow> replica_row) \<Rightarrow> database \<Rightarrow> database" where
  "update_replica rid f db =
     db\<lparr>db_replicas := map (\<lambda>r. if rp_id r = rid then f r else r) (db_replicas db)\<rparr>"

definition ackReplica ::
  "(string \<Rightarrow> string) \<Rightarrow> (string \<Rightarrow> string option) \<Rightarrow> database \<Rightarrow> string \<Rightarrow> replica_binding \<Rightarrow> string \<Rightarrow> jsval
     \<Rightarrow> (lifecycle_error + response) \<times> database"
where
  "ackReplica sha pg_uuid db userId binding credential challengeId =
     (if lockReplica sha db userId binding credential = None \<or> \<not> is_str challengeId
         \<or> \<not> challenge_text (str_of challengeId)
      then (Inr invalid_replica, db)
      else case pg_uuid (str_of challengeId) of
        None \<Rightarrow> (Inl Database_error, db)
      | Some cid \<Rightarrow>
          (case find (challenge_open db binding cid) (db_challenges db) of
             None \<Rightarrow> (Inr (409, Error_body ''checkpoint_ack_rejected''), db)
           | Some row \<Rightarrow>
               (Inr (200, Ack_body),
                update_replica (b_replicaId binding)
                  (\<lambda>r. r\<lparr>rp_last_ack_at := Some (ps8_now db), rp_acknowledged_sequence := Some (ch_target row)\<rparr>)
                  (db\<lparr>db_challenges := map (\<lambda>c. if challenge_open db binding cid c
                        then c\<lparr>ch_acknowledged_at := Some (ps8_now db)\<rparr> else c) (db_challenges db)\<rparr>))))"

definition session_for :: "replica_binding \<Rightarrow> int \<Rightarrow> string \<Rightarrow> replica_session" where
  "session_for binding epoch credential =
     \<lparr>b_replicaId = b_replicaId binding, b_replicaEpoch = epoch, b_credential = credential\<rparr>"

text \<open>The reset was already performed for this request and the client retries it with its old credential.\<close>

definition reset_replayed ::
  "(string \<Rightarrow> string) \<Rightarrow> replica_row \<Rightarrow> int \<Rightarrow> string \<Rightarrow> string \<Rightarrow> string \<Rightarrow> bool"
where
  "reset_replayed sha row targetEpoch resetRequestId credential nextCredential =
     (rp_epoch row = targetEpoch \<and> rp_staged_reset row = Some resetRequestId
      \<and> (case rp_previous_digest row of None \<Rightarrow> False | Some d \<Rightarrow>
           d \<noteq> '''' \<and> credentialMatches d (sha credential))
      \<and> credentialMatches (rp_credential_digest row) (sha nextCredential))"

definition resetReplica ::
  "(string \<Rightarrow> string) \<Rightarrow> (string \<Rightarrow> string) \<Rightarrow> database \<Rightarrow> string \<Rightarrow> replica_binding \<Rightarrow> string \<Rightarrow> string
     \<Rightarrow> response \<times> database"
where
  "resetReplica sha hmac db userId binding credential resetRequestId =
     (case find_replica db (b_replicaId binding) of
        None \<Rightarrow> (invalid_replica, db)
      | Some row \<Rightarrow>
          if rp_user row \<noteq> userId \<or> rp_disabled_at row \<noteq> None then (invalid_replica, db)
          else
            let targetEpoch = b_replicaEpoch binding + 1;
                nextCredential = rotatedCredential hmac (b_replicaId binding) resetRequestId targetEpoch;
                session = (200, Session_body (session_for binding targetEpoch nextCredential))
            in
            if reset_replayed sha row targetEpoch resetRequestId credential nextCredential then (session, db)
            else if rp_epoch row \<noteq> b_replicaEpoch binding
                    \<or> \<not> credentialMatches (rp_credential_digest row) (sha credential)
            then (invalid_replica, db)
            else if \<not> replica_stale db row then ((409, Error_body ''replica_not_stale''), db)
            else
              (session,
               (update_replica (b_replicaId binding)
                 (\<lambda>r. r\<lparr>rp_epoch := targetEpoch, rp_previous_digest := Some (rp_credential_digest r),
                       rp_credential_digest := sha nextCredential,
                       rp_staged_reset := Some resetRequestId, rp_last_ack_at := None,
                       rp_acknowledged_sequence := None\<rparr>) db)
               \<lparr>db_rates := filter (\<lambda>w. rw_replica w \<noteq> b_replicaId binding) (db_rates db)\<rparr>))"

definition resetAckReplica ::
  "(string \<Rightarrow> string) \<Rightarrow> database \<Rightarrow> string \<Rightarrow> replica_binding \<Rightarrow> string \<Rightarrow> string \<Rightarrow> response \<times> database"
where
  "resetAckReplica sha db userId binding credential resetRequestId =
     (case lockReplica sha db userId binding credential of
        None \<Rightarrow> (invalid_replica, db)
      | Some (row, _) \<Rightarrow>
          if rp_last_reset row = Some resetRequestId \<and> rp_previous_digest row = None
          then ((200, Reset_ack_body), db)
          else if rp_staged_reset row \<noteq> Some resetRequestId \<or> rp_previous_digest row = None
          then (invalid_replica, db)
          else ((200, Reset_ack_body),
                update_replica (b_replicaId binding)
                  (\<lambda>r. r\<lparr>rp_previous_digest := None, rp_staged_reset := None,
                        rp_last_reset := Some resetRequestId\<rparr>) db))"

definition classifyReplica ::
  "(string \<Rightarrow> string) \<Rightarrow> (string \<Rightarrow> string option) \<Rightarrow> database \<Rightarrow> string \<Rightarrow> replica_binding \<Rightarrow> string
     \<Rightarrow> jsval \<Rightarrow> jsval \<Rightarrow> lifecycle_error + response"
where
  "classifyReplica sha pg_uuid db userId binding credential resourceId incarnationId =
     (if lockReplica sha db userId binding credential = None \<or> \<not> is_str resourceId \<or> \<not> is_str incarnationId
      then Inr invalid_replica
      else case (pg_uuid (str_of resourceId), pg_uuid (str_of incarnationId)) of
        (Some rid, Some iid) \<Rightarrow>
          Inr (200, Preserve_body
            (list_ex (\<lambda>r. r_id r = rid \<and> r_incarnation r = iid
                \<and> list_ex (\<lambda>g. g_resource g = r_id r \<and> g_user g = userId \<and> grant_active g) (db_grants db))
              (db_resources db)))
      | _ \<Rightarrow> Inl Database_error)"

section \<open>The lifecycle handler\<close>

datatype read_error = Body_too_large | Body_missing | Body_malformed

record request =
  rq_method :: string
  rq_pathname :: string
  rq_credential :: "string list"
  rq_fault :: string
  rq_fault_secret :: string
  rq_body :: "read_error + jsval"
  rq_fresh_id :: string
  rq_fresh_bytes :: "nat list"

definition allowed_fields :: "string \<Rightarrow> string list" where
  "allowed_fields pathname =
     (if pathname = ''/spike/replicas/challenge'' then [''replicaId'', ''replicaEpoch'']
      else if pathname = ''/spike/replicas/ack'' then [''replicaId'', ''replicaEpoch'', ''challengeId'']
      else if pathname = ''/spike/replicas/reset'' then [''replicaId'', ''replicaEpoch'', ''resetRequestId'']
      else if pathname = ''/spike/replicas/reset/ack'' then [''replicaId'', ''replicaEpoch'', ''resetRequestId'']
      else if pathname = ''/spike/replicas/classify''
        then [''replicaId'', ''replicaEpoch'', ''resourceId'', ''resourceIncarnationId'']
      else [])"

definition invalid_request :: response where
  "invalid_request = (400, Error_body ''invalid_replica_request'')"

definition caught :: "(lifecycle_error + response) \<times> database \<Rightarrow> response \<times> database" where
  "caught r = (case r of (Inl _, db) \<Rightarrow> (invalid_request, db) | (Inr resp, db) \<Rightarrow> (resp, db))"

record server =
  sv_db :: database
  sv_attempts :: "(string \<times> nat) list"
  sv_dropped :: "string list"
  sv_dropped_resets :: "string list"
  sv_slots :: slots

text \<open>
  \<open>None\<close> as the response stands for a destroyed connection; the outer \<open>None\<close> for a path the
  lifecycle handler does not serve.
\<close>

definition lifecycleRequest ::
  "(string \<Rightarrow> string) \<Rightarrow> (string \<Rightarrow> string) \<Rightarrow> (string \<Rightarrow> string option) \<Rightarrow> string \<Rightarrow> server \<Rightarrow> request \<Rightarrow> string
     \<Rightarrow> (response option \<times> server) option"
where
  "lifecycleRequest sha hmac pg_uuid faultSecret sv rq userId =
     (let path = rq_pathname rq; db = sv_db sv;
          answer = (\<lambda>(resp, db'). Some (Some resp, sv\<lparr>sv_db := db'\<rparr>)) in
      if take 15 path \<noteq> ''/spike/replicas'' then None
      else if rq_method rq \<noteq> ''POST'' then answer ((405, Error_body ''method_not_allowed''), db)
      else if path = ''/spike/replicas/register'' then
        (case rq_body rq of
           Inl _ \<Rightarrow> answer (invalid_request, db)
         | Inr v \<Rightarrow>
             (case strictObject v [] of
                Inl _ \<Rightarrow> answer (invalid_request, db)
              | Inr _ \<Rightarrow> answer (caught (registerReplica sha (rq_fresh_id rq) (rq_fresh_bytes rq) db userId))))
      else case credentialFrom (rq_credential rq) of
        None \<Rightarrow> answer (invalid_replica, db)
      | Some credential \<Rightarrow>
        if allowed_fields path = [] then answer ((404, Error_body ''not_found''), db)
        else
          (case rbind (case rq_body rq of Inl _ \<Rightarrow> Inl Database_error | Inr v \<Rightarrow> Inr v) (\<lambda>v.
                rbind (strictObject v (allowed_fields path)) (\<lambda>ps.
                rbind (parseBinding ps) (\<lambda>b. Inr (ps, b)))) of
             Inl _ \<Rightarrow> answer (invalid_request, db)
           | Inr (ps, binding) \<Rightarrow>
               if path = ''/spike/replicas/challenge''
               then answer (caught (challengeReplica sha (rq_fresh_id rq) db userId binding credential))
               else if path = ''/spike/replicas/ack''
               then answer (caught (ackReplica sha pg_uuid db userId binding credential (obj_get ps ''challengeId'')))
               else if path = ''/spike/replicas/reset''
               then
                 if \<not> version4Uuid (obj_get ps ''resetRequestId'') then answer (invalid_replica, db)
                 else
                   (let reset = str_of (obj_get ps ''resetRequestId'') in
                    case resetReplica sha hmac db userId binding credential reset of
                      (resp, db') \<Rightarrow>
                        if fst resp = 200 \<and> rq_fault rq = ''reset-post-commit-drop''
                           \<and> rq_fault_secret rq = faultSecret \<and> reset \<notin> set (sv_dropped_resets sv)
                        then Some (None, sv\<lparr>sv_db := db',
                               sv_dropped_resets := addBoundedTestKey (sv_dropped_resets sv) reset\<rparr>)
                        else answer (resp, db'))
               else if path = ''/spike/replicas/reset/ack''
               then
                 if \<not> version4Uuid (obj_get ps ''resetRequestId'') then answer (invalid_replica, db)
                 else answer (resetAckReplica sha db userId binding credential (str_of (obj_get ps ''resetRequestId'')))
               else answer (caught (classifyReplica sha pg_uuid db userId binding credential
                      (obj_get ps ''resourceId'') (obj_get ps ''resourceIncarnationId''), db))))"

section \<open>The command handler\<close>

definition attempt_key :: "string \<Rightarrow> command_envelope \<Rightarrow> string" where
  "attempt_key userId e =
     userId @ '':'' @ b_replicaId e @ '':'' @ int_str (b_replicaEpoch e) @ '':'' @ c_commandId (hd (e_commands e))"

definition envelope_binding :: "command_envelope \<Rightarrow> replica_binding" where
  "envelope_binding e = \<lparr>b_replicaId = b_replicaId e, b_replicaEpoch = b_replicaEpoch e\<rparr>"

text \<open>
  The body of the inner \<open>try\<close>, with the slot held. \<open>after\<close> is what other transactions commit while
  an authorization barrier is open; a barrier after the commit only delays the dropped response.
\<close>

definition run_command ::
  "(string \<Rightarrow> string) \<Rightarrow> (database \<Rightarrow> database) \<Rightarrow> string \<Rightarrow> server \<Rightarrow> request \<Rightarrow> string \<Rightarrow> string \<Rightarrow> command_envelope
     \<Rightarrow> response option \<times> server"
where
  "run_command sha after faultSecret sv rq userId credential e =
     (let binding = envelope_binding e; fault = rq_fault rq;
          authorizedFault = (rq_fault_secret rq = faultSecret);
          (rate, db1) = (if fault = ''pre-commit-hold'' \<and> authorizedFault then (Rate_accepted, sv_db sv)
                         else consumeCommandRateWindow sha (sv_db sv) userId binding credential);
          sv1 = sv\<lparr>sv_db := db1\<rparr>
      in case rate of
           Rate_invalid \<Rightarrow> (Some invalid_replica, sv1)
         | Rate_stale \<Rightarrow> (Some (428, Error_body ''replica_reset_required''), sv1)
         | Rate_limited \<Rightarrow> (Some (429, Error_body ''command_rate_limited''), sv1)
         | Rate_accepted \<Rightarrow>
             let key = attempt_key userId e;
                 (attempt, attempts') = recordTestAttempt (sv_attempts sv) key;
                 sv2 = sv1\<lparr>sv_attempts := attempts'\<rparr>
             in
             if fault = ''pre-commit-500'' \<and> authorizedFault
             then (Some (500, Error_body ''injected_pre_commit_failure''), sv2)
             else if fault = ''pre-commit-hold'' \<and> authorizedFault
             then (Some (409, Error_body ''injected_pre_commit_hold''), sv2)
             else
               (case executeCommands sha (if fault = ''authorization-barrier'' \<and> authorizedFault then after else id)
                       db1 userId binding credential (e_commands e) attempt of
                  (Inl _, db2) \<Rightarrow> (Some (500, Error_body ''internal_error''), sv2\<lparr>sv_db := db2\<rparr>)
                | (Inr (status, b), db2) \<Rightarrow>
                    if status = 200 \<and> (fault = ''post-commit-drop'' \<or> fault = ''post-commit-drop-barrier'')
                       \<and> authorizedFault \<and> key \<notin> set (sv_dropped sv)
                    then (None, sv2\<lparr>sv_db := db2, sv_dropped := addBoundedTestKey (sv_dropped sv) key\<rparr>)
                    else (Some (status, exec_to_body b), sv2\<lparr>sv_db := db2\<rparr>)))"

definition commandRequest ::
  "(string \<Rightarrow> string) \<Rightarrow> (database \<Rightarrow> database) \<Rightarrow> string \<Rightarrow> server \<Rightarrow> request \<Rightarrow> string
     \<Rightarrow> response option \<times> server"
where
  "commandRequest sha after faultSecret sv rq userId =
     (if rq_method rq \<noteq> ''POST'' \<or> rq_pathname rq \<noteq> ''/spike/commands''
      then (Some (404, Error_body ''not_found''), sv)
      else case credentialFrom (rq_credential rq) of
        None \<Rightarrow> (Some invalid_replica, sv)
      | Some credential \<Rightarrow>
        (case rq_body rq of
           Inl _ \<Rightarrow> (Some (400, Unreadable_command), sv)
         | Inr v \<Rightarrow>
           (case parseCommandEnvelope v of
              Inl e \<Rightarrow> (Some (400, Invalid_command e), sv)
            | Inr e \<Rightarrow>
                (case acquireCommandSlot (sv_slots sv) of
                   (None, s) \<Rightarrow> (Some (503, Error_body ''command_concurrency_backpressure''), sv)
                 | (Some h, s) \<Rightarrow>
                     (case run_command sha after faultSecret (sv\<lparr>sv_slots := s\<rparr>) rq userId credential e of
                        (resp, sv') \<Rightarrow> (resp, sv'\<lparr>sv_slots := releaseSlot h (sv_slots sv')\<rparr>))))))"

text \<open>An authenticated request under \<open>/spike/\<close> that is no test endpoint.\<close>

definition serve ::
  "(string \<Rightarrow> string) \<Rightarrow> (string \<Rightarrow> string) \<Rightarrow> (string \<Rightarrow> string option) \<Rightarrow> (database \<Rightarrow> database) \<Rightarrow> string
     \<Rightarrow> server \<Rightarrow> request \<Rightarrow> string \<Rightarrow> response option \<times> server"
where
  "serve sha hmac pg_uuid after faultSecret sv rq userId =
     (case lifecycleRequest sha hmac pg_uuid faultSecret sv rq userId of
        Some r \<Rightarrow> r
      | None \<Rightarrow> commandRequest sha after faultSecret sv rq userId)"

end
