(* ===== verification/Server_Invariant.thy ===== *)
theory Server_Invariant
  imports Command_Execution Replica_Lifecycle
begin

text \<open>
  The invariant of the command server's database, the steps its transactions and its environment
  can take, and the proof that the receipts form a durable log
  (an interpretation of \<open>receipt_store\<close>).
\<close>

section \<open>Invariant\<close>

definition receipt_ok :: "receipt_row \<Rightarrow> bool" where
  "receipt_ok r = (case rc_code r of
       Code_applied \<Rightarrow> rc_state r = Applied \<and> rc_current r = rc_previous r + 1
     | Already_applied \<Rightarrow> False
     | Optimistic_conflict \<Rightarrow> rc_state r = Conflicted
     | Stale_incarnation \<Rightarrow> rc_state r = Conflicted
     | Command_denied \<Rightarrow> rc_state r = Denied)"

definition event_sig :: "event_row \<Rightarrow> (string \<times> string) \<times> string \<times> int" where
  "event_sig e = ((ev_user e, ev_command e), ev_resource e, ev_version e)"

definition receipt_sig :: "receipt_row \<Rightarrow> (string \<times> string) \<times> string \<times> int" where
  "receipt_sig r = (receipt_key r, rc_resource r, rc_current r)"

text \<open>The change events are the applied receipts, one for one and in order.\<close>

definition log_ok :: "database \<Rightarrow> bool" where
  "log_ok db = (list_all receipt_ok (db_receipts db)
     \<and> map event_sig (db_events db) = map receipt_sig (filter (\<lambda>r. rc_code r = Code_applied) (db_receipts db)))"

definition replica_ok :: "replica_row \<Rightarrow> bool" where
  "replica_ok r = ((rp_last_ack_at r = None) = (rp_acknowledged_sequence r = None)
     \<and> (rp_previous_digest r = None) = (rp_staged_reset r = None) \<and> 1 \<le> rp_epoch r)"

definition replicas_ok :: "database \<Rightarrow> bool" where
  "replicas_ok db = (distinct (map rp_id (db_replicas db)) \<and> list_all replica_ok (db_replicas db)
     \<and> (\<forall>u. length (filter (\<lambda>r. rp_user r = u) (db_replicas db)) \<le> maxReplicasPerUser))"

definition rates_ok :: "database \<Rightarrow> bool" where
  "rates_ok db = (distinct (map rw_replica (db_rates db))
     \<and> list_all (\<lambda>w. 1 \<le> rw_count w \<and> rw_count w \<le> maxCommandRequestsPerMinute) (db_rates db))"

definition db_inv :: "database \<Rightarrow> bool" where
  "db_inv db = (keys_ok db \<and> log_ok db \<and> replicas_ok db \<and> rates_ok db)"

definition db_init :: "database \<Rightarrow> bool" where
  "db_init db = (distinct (map r_id (db_resources db)) \<and> db_receipts db = [] \<and> db_events db = []
     \<and> db_replicas db = [] \<and> db_rates db = [])"

lemma init_inv: "db_init db \<Longrightarrow> db_inv db"
  by (simp add: db_init_def db_inv_def keys_ok_def log_ok_def replicas_ok_def rates_ok_def)

section \<open>Steps\<close>

text \<open>
  One transaction of the server, or a change from outside: grants rebuilt, users added, the clock
  and the retention state moved on, resources inserted, cleared or purged.
\<close>

inductive db_step ::
  "(string \<Rightarrow> string) \<Rightarrow> (string \<Rightarrow> string) \<Rightarrow> (string \<Rightarrow> string option) \<Rightarrow> database \<Rightarrow> database \<Rightarrow> bool"
  for sha hmac pg_uuid
where
  deny: "deny_command sha db u b c n = (r, db') \<Longrightarrow> db_step sha hmac pg_uuid db db'"
| execute: "execute_authorized sha db u b [c] n = (r, db') \<Longrightarrow> db_step sha hmac pg_uuid db db'"
| rate: "consumeCommandRateWindow sha db u b cred = (r, db') \<Longrightarrow> db_step sha hmac pg_uuid db db'"
| rate_reset: "db_step sha hmac pg_uuid db (db\<lparr>db_rates := filter (\<lambda>w. rw_replica w \<noteq> rid) (db_rates db)\<rparr>)"
| register: "registerReplica sha i bs db u = (r, db') \<Longrightarrow> db_step sha hmac pg_uuid db db'"
| challenge: "challengeReplica sha i db u b cred = (r, db') \<Longrightarrow> db_step sha hmac pg_uuid db db'"
| ack: "ackReplica sha pg_uuid db u b cred v = (r, db') \<Longrightarrow> db_step sha hmac pg_uuid db db'"
| reset: "1 \<le> b_replicaEpoch b \<Longrightarrow> resetReplica sha hmac db u b cred req = (r, db') \<Longrightarrow>
    db_step sha hmac pg_uuid db db'"
| reset_ack: "resetAckReplica sha db u b cred req = (r, db') \<Longrightarrow> db_step sha hmac pg_uuid db db'"
| environment: "distinct (map r_id rs) \<Longrightarrow>
    db_step sha hmac pg_uuid db
      (db\<lparr>db_grants := gs, db_users := us, db_retention := st, db_graveyard := gy, db_resources := rs\<rparr>)"

inductive_cases db_stepE: "db_step sha hmac pg_uuid db db'"

section \<open>Preservation\<close>

lemma find_receipt_key:
  "find_receipt db u k = None \<longleftrightarrow> (u, k) \<notin> receipt_key ` set (db_receipts db)"
  by (auto simp: find_receipt_def find_None_iff receipt_key_def image_iff)

lemma receipt_for_key [simp]: "receipt_key (receipt_for sha u b c st code p q) = (u, c_commandId c)"
  by (simp add: receipt_key_def receipt_for_def)

lemma receipt_for_sig: "receipt_sig (applied_receipt sha u b c) = event_sig (event_for u c)"
  by (simp add: receipt_sig_def receipt_key_def receipt_for_def event_sig_def event_for_def)

text \<open>Adding a receipt that is not an applied one, under a new key.\<close>

lemma add_receipt_inv:
  assumes "db_inv db" "find_receipt db (rc_user r) (rc_command r) = None"
    and "receipt_ok r" "rc_code r \<noteq> Code_applied"
  shows "db_inv (db\<lparr>db_receipts := db_receipts db @ [r]\<rparr>)"
  using assms
  by (auto simp: db_inv_def keys_ok_def log_ok_def replicas_ok_def rates_ok_def find_receipt_key
      receipt_key_def)

lemma apply_one_inv:
  assumes "db_inv db" "find_receipt db u (c_commandId c) = None" "apply_mutation c db = Inr db1"
  shows "db_inv (db1\<lparr>db_events := db_events db1 @ [event_for u c],
     db_receipts := db_receipts db1 @ [applied_receipt sha u b c]\<rparr>)"
proof -
  note same = apply_mutation_Inr [OF assms(3)]
  have "map r_id (db_resources db1) = map r_id (db_resources db)"
    unfolding same(1) by (induction "db_resources db") simp_all
  then have "keys_ok (db1\<lparr>db_events := db_events db1 @ [event_for u c],
     db_receipts := db_receipts db1 @ [applied_receipt sha u b c]\<rparr>)"
    using assms(1,2) by (auto simp: db_inv_def keys_ok_def same(2) find_receipt_key)
  moreover have "receipt_ok (applied_receipt sha u b c)" "rc_code (applied_receipt sha u b c) = Code_applied"
    by (simp_all add: receipt_ok_def receipt_for_def)
  ultimately show ?thesis
    using assms(1) by (auto simp: db_inv_def log_ok_def replicas_ok_def rates_ok_def same receipt_for_sig)
qed

lemma deny_inv: "deny_command sha db u b c n = (r, db') \<Longrightarrow> db_inv db \<Longrightarrow> db_inv db'"
proof (cases "find_receipt db u (c_commandId c)")
  case None
  assume "deny_command sha db u b c n = (r, db')" "db_inv db"
  moreover have "db_inv (db\<lparr>db_receipts := db_receipts db @
      [receipt_for sha u b c Denied Command_denied (c_expectedRecordVersion c) (c_expectedRecordVersion c)]\<rparr>)"
    using None \<open>db_inv db\<close> by (intro add_receipt_inv) (auto simp: receipt_for_def receipt_ok_def)
  ultimately show ?thesis
    using None by (auto simp: deny_command_def Let_def)
next
  case (Some rc)
  assume "deny_command sha db u b c n = (r, db')" "db_inv db"
  then show ?thesis
    using Some by (auto simp: deny_command_def split: if_splits)
qed

lemma conflict_code_cases: "conflict_code r c = Some code \<Longrightarrow> code = Stale_incarnation \<or> code = Optimistic_conflict"
  by (auto simp: conflict_code_def split: if_splits)

lemma execute_one_inv:
  assumes "execute_one sha db u b c n = (r, db')" "db_inv db"
  shows "db_inv db'"
proof (cases "find_receipt db u (c_commandId c)")
  case (Some rc)
  then show ?thesis
    using assms by (auto simp: execute_one_def split: option.splits if_splits)
next
  case None
  have conflict: "db_inv (db\<lparr>db_receipts := db_receipts db @ [receipt_for sha u b c Conflicted code p q]\<rparr>)"
    if "code = Stale_incarnation \<or> code = Optimistic_conflict" for code p q
    using None that assms(2) by (intro add_receipt_inv) (auto simp: receipt_for_def receipt_ok_def)
  show ?thesis
    using None assms conflict apply_one_inv [OF assms(2) None]
    by (auto simp: execute_one_def Let_def dest: conflict_code_cases split: option.splits sum.splits)
qed

lemma execute_authorized_inv:
  "execute_authorized sha db u b [c] n = (r, db') \<Longrightarrow> db_inv db \<Longrightarrow> db_inv db'"
  using execute_authorized_one execute_one_inv by (auto simp: db_inv_def)

lemma rates_inv:
  assumes "db_inv db" "rates_ok (db\<lparr>db_rates := ws\<rparr>)"
  shows "db_inv (db\<lparr>db_rates := ws\<rparr>)"
  using assms by (auto simp: db_inv_def keys_ok_def log_ok_def replicas_ok_def)

lemma rate_inv:
  assumes "consumeCommandRateWindow sha db u b cred = (r, db')" "db_inv db"
  shows "db_inv db'"
proof -
  let ?fresh = "\<lparr>rw_replica = b_replicaId b, rw_epoch = b_replicaEpoch b, rw_started_at = ps8_now db, rw_count = 1\<rparr>"
  have ok: "rates_ok db"
    using assms(2) by (simp add: db_inv_def)
  have add: "rates_ok (db\<lparr>db_rates := db_rates db @ [?fresh]\<rparr>)" if "find_rate db (b_replicaId b) = None"
    using that ok
    by (auto simp: rates_ok_def find_rate_def find_None_iff maxCommandRequestsPerMinute_def)
  have upd: "rates_ok (db\<lparr>db_rates := map (\<lambda>x. if rw_replica x = b_replicaId b then w' else x) (db_rates db)\<rparr>)"
    if "rw_replica w' = b_replicaId b" "1 \<le> rw_count w'" "rw_count w' \<le> maxCommandRequestsPerMinute" for w'
  proof -
    have "map rw_replica (map (\<lambda>x. if rw_replica x = b_replicaId b then w' else x) (db_rates db))
        = map rw_replica (db_rates db)"
      using that(1) by (intro map_replace) simp
    then show ?thesis
      using ok that(2,3) unfolding rates_ok_def
      by (auto simp: list_all_iff simp del: map_map map_eq_conv)
  qed
  show ?thesis
  proof (cases "find_rate db (b_replicaId b)")
    case None
    then show ?thesis
      using assms rates_inv [OF assms(2) add [OF None]]
      by (auto simp: consumeCommandRateWindow_def Let_def split: option.splits if_splits)
  next
    case (Some w)
    have w: "rw_replica w = b_replicaId b" "1 \<le> rw_count w" "rw_count w \<le> maxCommandRequestsPerMinute"
      using Some ok by (auto simp: find_rate_def rates_ok_def list_all_iff dest!: find_SomeD)
    then show ?thesis
      using assms Some rates_inv [OF assms(2) upd [of ?fresh]]
        rates_inv [OF assms(2) upd [of "w\<lparr>rw_epoch := b_replicaEpoch b, rw_count := rw_count w + 1\<rparr>"]]
      by (auto simp: consumeCommandRateWindow_def Let_def maxCommandRequestsPerMinute_def
          split: option.splits if_splits)
  qed
qed

lemma replicas_inv:
  assumes "db_inv db" "replicas_ok (db\<lparr>db_replicas := rs\<rparr>)"
  shows "db_inv (db\<lparr>db_replicas := rs\<rparr>)"
  using assms by (auto simp: db_inv_def keys_ok_def log_ok_def rates_ok_def)

lemma register_inv:
  assumes "registerReplica sha i bs db u = (r, db')" "db_inv db"
  shows "db_inv db'"
proof -
  let ?row = "\<lparr>rp_id = i, rp_user = u, rp_credential_digest = sha (''r2_'' @ b64url_encode bs), rp_epoch = 1,
      rp_last_ack_at = None, rp_acknowledged_sequence = None, rp_disabled_at = None,
      rp_previous_digest = None, rp_staged_reset = None, rp_last_reset = None\<rparr>"
  have "replicas_ok (db\<lparr>db_replicas := db_replicas db @ [?row]\<rparr>)"
    if "\<not> length (filter (\<lambda>r. rp_user r = u) (db_replicas db)) \<ge> maxReplicasPerUser" "find_replica db i = None"
    using assms(2) that
    by (auto simp: db_inv_def replicas_ok_def replica_ok_def find_replica_def find_None_iff)
  then show ?thesis
    using assms replicas_inv [OF assms(2)] by (auto simp: registerReplica_def Let_def split: if_splits)
qed

text \<open>An update of the replica rows that keeps their identity and their owner.\<close>

lemma update_replica_inv:
  assumes "db_inv db" "\<And>r. replica_ok r \<Longrightarrow> rp_id r = k \<Longrightarrow> replica_ok (f r)"
    and "\<And>r. rp_id (f r) = rp_id r" "\<And>r. rp_user (f r) = rp_user r"
  shows "db_inv (update_replica k f db)"
proof -
  let ?g = "\<lambda>r. if rp_id r = k then f r else r"
  have "map rp_id (map ?g xs) = map rp_id xs" for xs
    by (simp add: assms(3))
  moreover have "length (filter (\<lambda>r. rp_user r = u) (map ?g xs)) = length (filter (\<lambda>r. rp_user r = u) xs)" for u xs
    by (induction xs) (auto simp: assms(4))
  moreover have "list_all replica_ok (map ?g (db_replicas db))"
    using assms(1,2) by (auto simp: db_inv_def replicas_ok_def list_all_iff)
  ultimately have "replicas_ok (db\<lparr>db_replicas := map ?g (db_replicas db)\<rparr>)"
    using assms(1) by (simp add: db_inv_def replicas_ok_def del: map_map map_eq_conv)
  then show ?thesis
    unfolding update_replica_def by (rule replicas_inv [OF assms(1)])
qed

lemma challenges_inv: "db_inv db \<Longrightarrow> db_inv (db\<lparr>db_challenges := cs\<rparr>)"
  by (auto simp: db_inv_def keys_ok_def log_ok_def replicas_ok_def rates_ok_def)

lemma challenge_inv:
  "challengeReplica sha i db u b cred = (r, db') \<Longrightarrow> db_inv db \<Longrightarrow> db_inv db'"
  by (auto simp: challengeReplica_def Let_def challenges_inv split: option.splits if_splits)

lemma ack_inv:
  assumes "ackReplica sha pg_uuid db u b cred v = (r, db')" "db_inv db"
  shows "db_inv db'"
  using assms(1) update_replica_inv [OF challenges_inv [OF assms(2)]] assms(2)
  by (auto simp: ackReplica_def replica_ok_def split: option.splits if_splits)

lemma reset_inv:
  assumes "resetReplica sha hmac db u b cred req = (r, db')" "db_inv db" "1 \<le> b_replicaEpoch b"
  shows "db_inv db'"
proof -
  let ?f = "\<lambda>r. r\<lparr>rp_epoch := b_replicaEpoch b + 1, rp_previous_digest := Some (rp_credential_digest r),
      rp_credential_digest := sha (rotatedCredential hmac (b_replicaId b) req (b_replicaEpoch b + 1)),
      rp_staged_reset := Some req, rp_last_ack_at := None, rp_acknowledged_sequence := None\<rparr>"
  have "db_inv (update_replica (b_replicaId b) ?f db)"
    using assms(3) by (intro update_replica_inv assms(2)) (auto simp: replica_ok_def)
  moreover have "rates_ok (d\<lparr>db_rates := filter P (db_rates db)\<rparr>)" for P d
    using assms(2) by (auto simp: db_inv_def rates_ok_def list_all_iff distinct_map_filter)
  ultimately have "db_inv ((update_replica (b_replicaId b) ?f db)
      \<lparr>db_rates := filter (\<lambda>w. rw_replica w \<noteq> b_replicaId b) (db_rates db)\<rparr>)"
    by (intro rates_inv)
  then show ?thesis
    using assms(1,2) by (auto simp: resetReplica_def Let_def split: option.splits if_splits)
qed

lemma reset_ack_inv:
  assumes "resetAckReplica sha db u b cred req = (r, db')" "db_inv db"
  shows "db_inv db'"
  using assms(1) update_replica_inv [OF assms(2)] assms(2)
  by (auto simp: resetAckReplica_def replica_ok_def split: option.splits if_splits)

lemma environment_inv:
  "db_inv db \<Longrightarrow> distinct (map r_id rs) \<Longrightarrow>
   db_inv (db\<lparr>db_grants := gs, db_users := us, db_retention := st, db_graveyard := gy, db_resources := rs\<rparr>)"
  by (auto simp: db_inv_def keys_ok_def log_ok_def replicas_ok_def rates_ok_def)

lemma rate_reset_inv: "db_inv db \<Longrightarrow> db_inv (db\<lparr>db_rates := filter P (db_rates db)\<rparr>)"
  by (rule rates_inv) (auto simp: db_inv_def rates_ok_def list_all_iff distinct_map_filter)

lemma db_step_inv: "db_step sha hmac pg_uuid db db' \<Longrightarrow> db_inv db \<Longrightarrow> db_inv db'"
  by (induction rule: db_step.induct)
    (blast intro: deny_inv execute_authorized_inv rate_inv rate_reset_inv register_inv challenge_inv
      ack_inv reset_inv reset_ack_inv environment_inv)+

section \<open>The receipts are a durable log\<close>

lemma execute_one_receipts:
  "execute_one sha db u b c n = (r, db') \<Longrightarrow> \<exists>new. db_receipts db' = db_receipts db @ new"
  using apply_mutation_Inr(2)
  by (auto simp: execute_one_def Let_def split: option.splits if_splits sum.splits)

lemma receipts_grow:
  assumes "db_step sha hmac pg_uuid db db'" "db_inv db"
  shows "\<exists>new. db_receipts db' = db_receipts db @ new"
  using assms
proof (cases rule: db_step.cases)
  case (execute u b c n r)
  then show ?thesis
    using assms(2) execute_authorized_one [of db] execute_one_receipts by (auto simp: db_inv_def)
qed (auto simp: deny_command_def consumeCommandRateWindow_def registerReplica_def challengeReplica_def
    ackReplica_def resetReplica_def resetAckReplica_def update_replica_def Let_def
    split: option.splits if_splits)

interpretation receipts: receipt_store db_init "db_step sha hmac pg_uuid" db_inv db_receipts receipt_key
  for sha hmac pg_uuid
proof unfold_locales
  show "db_init s \<Longrightarrow> db_inv s" for s
    by (rule init_inv)
  show "db_step sha hmac pg_uuid s t \<Longrightarrow> db_inv s \<Longrightarrow> db_inv t" for s t
    by (rule db_step_inv)
  show "db_step sha hmac pg_uuid s t \<Longrightarrow> db_inv s \<Longrightarrow> \<exists>new. db_receipts t = db_receipts s @ new" for s t
    by (rule receipts_grow)
  show "db_inv s \<Longrightarrow> distinct (map receipt_key (db_receipts s))" for s
    by (simp add: db_inv_def keys_ok_def)
qed

lemma find_receipt_stable:
  assumes "(db_step sha hmac pg_uuid)\<^sup>*\<^sup>* db db'" "db_inv db" "find_receipt db u k = Some r"
  shows "find_receipt db' u k = Some r"
  using receipts.receipt_stable [OF assms(1,2), of "(u, k)" r] assms(3)
  by (simp add: find_receipt_def receipt_key_def)

end
