(* ===== verification/Command_Protocol_Lemmas.thy ===== *)
theory Command_Protocol_Lemmas
  imports Command_Protocol
begin

text \<open>
  Facts behind the protocol's properties: decimal and JSON printing are uniquely readable,
  base64url decodes what it encodes, and the shapes the readers accept.
\<close>

section \<open>Unique readability of the digest's input\<close>

text \<open>Reading one escaped character back.\<close>

definition hex_value :: "char \<Rightarrow> nat" where
  "hex_value c = (case findIndex (\<lambda>a. a = c) ''0123456789abcdef'' of Some n \<Rightarrow> n | None \<Rightarrow> 0)"

fun unescape :: "string \<Rightarrow> (char \<times> string)" where
  "unescape (a # b # s) =
     (if a \<noteq> CHR 0x5C then (a, b # s)
      else if b = CHR ''b'' then (CHR 0x08, s)
      else if b = CHR ''t'' then (CHR 0x09, s)
      else if b = CHR ''n'' then (CHR 0x0A, s)
      else if b = CHR ''f'' then (CHR 0x0C, s)
      else if b = CHR ''r'' then (CHR 0x0D, s)
      else if b = CHR ''u'' then (char_of (hex_value (s ! 2) * 16 + hex_value (s ! 3)), drop 4 s)
      else (b, s))"
| "unescape [a] = (a, [])"
| "unescape [] = (CHR 0x00, [])"

lemma hex_value_hex_char: "n < 16 \<Longrightarrow> hex_value (hex_char n) = n"
  unfolding hex_value_def hex_char_def by (subst findIndex_nth) simp_all

lemma unescape_json_char: "unescape (json_char c @ x) = (c, x)"
proof (cases "c < CHR 0x20")
  case True
  then have "of_char c < (32 :: nat)"
    by (simp add: less_char_def)
  then have "(of_char c :: nat) div 16 < 16" "(of_char c :: nat) mod 16 < 16"
    by auto
  then have *: "char_of (hex_value (hex_char (of_char c div 16)) * 16
      + hex_value (hex_char (of_char c mod 16)) :: nat) = c"
    by (simp add: hex_value_hex_char)
  show ?thesis
    using True * by (simp add: json_char_def)
next
  case False
  then show ?thesis
    by (cases x) (auto simp: json_char_def)
qed

lemma json_char_inj: "json_char c @ x = json_char d @ y \<longleftrightarrow> c = d \<and> x = y"
  by (metis unescape_json_char prod.inject)

lemma json_char_start: "json_char c @ x \<noteq> CHR 0x22 # y"
  by (auto simp: json_char_def)

lemma json_chars_inj:
  "concat (map json_char s) @ CHR 0x22 # u = concat (map json_char t) @ CHR 0x22 # v
     \<longleftrightarrow> s = t \<and> u = v"
proof (induction s arbitrary: t)
  case Nil
  then show ?case
    by (cases t) (auto simp: json_char_start [symmetric])
next
  case (Cons c s)
  then show ?case
    by (cases t) (auto simp: json_char_start json_char_inj)
qed

lemma json_string_append_inj [simp]:
  "json_string s @ u = json_string t @ v \<longleftrightarrow> s = t \<and> u = v"
  by (simp add: json_string_def json_chars_inj)

lemma json_opt_append_inj: "json_opt p @ ''}'' = json_opt q @ ''}'' \<longleftrightarrow> p = q"
proof -
  have "json_string s @ u \<noteq> CHR ''n'' # x" "CHR ''n'' # x \<noteq> json_string s @ u" for s u x
    by (simp_all add: json_string_def)
  from this(1) [of _ "''}''"] this(2) [of _ _ "''}''"] show ?thesis
    using json_string_append_inj [of _ "''}''" _ "''}''"] by (cases p; cases q) auto
qed

lemma type_name_inj [simp]: "type_name s = type_name t \<longleftrightarrow> s = t"
  by (cases s; cases t) simp_all

lemma normalized_inj:
  "normalized c b = normalized c' b' \<longleftrightarrow>
     c = c' \<and> b_replicaId b = b_replicaId b' \<and> b_replicaEpoch b = b_replicaEpoch b'"
proof -
  have *: "normalized c b = normalized c' b' \<longleftrightarrow>
     (b_replicaId b = b_replicaId b' \<and> b_replicaEpoch b = b_replicaEpoch b'
      \<and> c_commandId c = c_commandId c' \<and> c_type c = c_type c' \<and> c_resourceId c = c_resourceId c'
      \<and> c_resourceIncarnationId c = c_resourceIncarnationId c'
      \<and> c_expectedRecordVersion c = c_expectedRecordVersion c' \<and> c_payload c = c_payload c')"
    using json_opt_append_inj [of "c_payload c" "c_payload c'"]
    by (simp add: normalized_def json_field_def)
  show ?thesis
    unfolding * by (auto intro: spike_command.equality)
qed

section \<open>base64url\<close>

lemma distinct_alphabet: "distinct b64url_alphabet"
  by (simp add: b64url_alphabet_def)

lemma length_alphabet: "length b64url_alphabet = 64"
  by (simp add: b64url_alphabet_def)

lemma b64url_val_nth: "n < 64 \<Longrightarrow> b64url_val (b64url_alphabet ! n) = n"
  unfolding b64url_val_def
  by (subst findIndex_nth) (simp_all add: distinct_alphabet length_alphabet)

lemma b64url_val_less: "b64url_val c < 64"
  using findIndex_Some [of "\<lambda>a. a = c" b64url_alphabet]
  by (auto simp: b64url_val_def length_alphabet split: option.splits)

lemma sextets_bytes_less:
  "\<forall>n \<in> set xs. n < 64 \<Longrightarrow> \<forall>b \<in> set (sextets_bytes xs). b < 256"
  by (induction xs rule: sextets_bytes.induct) auto

lemma b64url_decode_less: "\<forall>b \<in> set (b64url_decode s). b < 256"
  unfolding b64url_decode_def by (rule sextets_bytes_less) (auto intro: b64url_val_less)

lemma bytes_sextets_less:
  "\<forall>b \<in> set bs. b < 256 \<Longrightarrow> \<forall>n \<in> set (bytes_sextets bs). n < 64"
  by (induction bs rule: bytes_sextets.induct) auto

lemma mixed_radix:
  fixes m r k :: nat
  assumes "r < k"
  shows "(m * k + r) div k = m" "(m * k + r) mod k = r"
  using assms by simp_all

lemma byte_parts:
  fixes y :: nat
  assumes "y < 256"
  shows "y div 16 < 16" "y div 64 < 4"
  using assms by (simp_all add: less_mult_imp_div_less)

lemma sextets_of_bytes:
  "\<forall>b \<in> set bs. b < 256 \<Longrightarrow> sextets_bytes (bytes_sextets bs) = bs"
proof (induction bs rule: bytes_sextets.induct)
  case (1 x y z r)
  then show ?case
    using mixed_radix [of "y div 16" 16 "x mod 4"] mixed_radix [of "z div 64" 4 "y mod 16"]
      byte_parts [of y] byte_parts [of z] by simp
next
  case (2 x y)
  then show ?case
    using mixed_radix [of "y div 16" 16 "x mod 4"] byte_parts [of y] by simp
qed simp_all

lemma b64url_decode_encode: "\<forall>b \<in> set bs. b < 256 \<Longrightarrow> b64url_decode (b64url_encode bs) = bs"
proof -
  assume bs: "\<forall>b \<in> set bs. b < 256"
  have "map (b64url_val \<circ> (\<lambda>n. b64url_alphabet ! n)) (bytes_sextets bs) = bytes_sextets bs"
    using bytes_sextets_less [OF bs] by (simp add: map_idI b64url_val_nth)
  then show ?thesis
    by (simp add: b64url_decode_def b64url_encode_def sextets_of_bytes [OF bs] comp_def)
qed

lemma length_bytes_sextets: "length (bytes_sextets bs) = (4 * length bs + 2) div 3"
  by (induction bs rule: bytes_sextets.induct) auto

lemma seq_match_replicate: "seq_match (replicate n P) s \<longleftrightarrow> length s = n \<and> (\<forall>c \<in> set s. P c)"
  by (fastforce simp: seq_match_def list_all2_conv_all_nth in_set_conv_nth)

lemma credential_pattern_iff:
  "credential_pattern s \<longleftrightarrow> (\<exists>t. s = ''r2_'' @ t \<and> length t = 43 \<and> set t \<subseteq> set b64url_alphabet)"
proof -
  have "credential_pattern s \<longleftrightarrow> (\<exists>t. s = ''r2_'' @ t \<and> seq_match (replicate 43 is_b64url) t)"
    unfolding credential_pattern_def seq_match_def by (auto simp: list_all2_Cons1)
  then show ?thesis
    by (auto simp: seq_match_replicate is_b64url_def)
qed

lemma b64url_encode_shape:
  assumes "\<forall>b \<in> set bs. b < 256"
  shows "length (b64url_encode bs) = (4 * length bs + 2) div 3"
    and "set (b64url_encode bs) \<subseteq> set b64url_alphabet"
  using bytes_sextets_less [OF assms]
  by (auto simp: b64url_encode_def length_bytes_sextets length_alphabet intro: nth_mem)

text \<open>What \<open>parseReplicaSessionSecret\<close> asks of a credential: the tag and 32 encoded bytes.\<close>

definition wf_credential :: "string \<Rightarrow> bool" where
  "wf_credential s = (\<exists>bs. length bs = 32 \<and> (\<forall>b \<in> set bs. b < 256) \<and> s = ''r2_'' @ b64url_encode bs)"

lemma credential_iff:
  "credential_pattern s \<and> length (b64url_decode (drop 3 s)) = 32
     \<and> b64url_encode (b64url_decode (drop 3 s)) = drop 3 s \<longleftrightarrow> wf_credential s"
proof
  assume *: "credential_pattern s \<and> length (b64url_decode (drop 3 s)) = 32
     \<and> b64url_encode (b64url_decode (drop 3 s)) = drop 3 s"
  then have "s = ''r2_'' @ drop 3 s"
    by (auto simp: credential_pattern_iff)
  with * show "wf_credential s"
    unfolding wf_credential_def using b64url_decode_less by metis
next
  assume "wf_credential s"
  then obtain bs where "length bs = 32" "\<forall>b \<in> set bs. b < 256" "s = ''r2_'' @ b64url_encode bs"
    by (auto simp: wf_credential_def)
  then show "credential_pattern s \<and> length (b64url_decode (drop 3 s)) = 32
     \<and> b64url_encode (b64url_decode (drop 3 s)) = drop 3 s"
    using b64url_encode_shape by (simp add: credential_pattern_iff b64url_decode_encode)
qed

lemma wf_credential_length: "wf_credential s \<Longrightarrow> length s = 46"
  using b64url_encode_shape(1) by (auto simp: wf_credential_def)

section \<open>Identifiers\<close>

lemma seq_match_all:
  "seq_match ps s \<Longrightarrow> (\<And>p c. p \<in> set ps \<Longrightarrow> p c \<Longrightarrow> Q c) \<Longrightarrow> c \<in> set s \<Longrightarrow> Q c"
  unfolding seq_match_def by (induction ps s rule: list_all2_induct) auto

lemma seq_match_length: "seq_match ps s \<Longrightarrow> length s = length ps"
  unfolding seq_match_def by (simp add: list_all2_lengthD)

lemma lower_hex: "is_hex_lower c \<or> c = CHR ''-'' \<Longrightarrow> lower_char c = c"
  by (auto simp: is_hex_lower_def is_digit_def lower_char_def less_eq_char_def)

lemma uuid_pattern_chars:
  assumes "seq_match (uuid_pattern ver) s" "\<And>c. ver c \<Longrightarrow> is_hex_lower c" "c \<in> set s"
  shows "is_hex_lower c \<or> c = CHR ''-''"
  using assms(1) _ assms(3)
proof (rule seq_match_all)
  fix p c
  assume "p \<in> set (uuid_pattern ver)" "p c"
  then show "is_hex_lower c \<or> c = CHR ''-''"
    using assms(2)
    by (auto simp: uuid_pattern_def hexes_def is_hex_lower_def is_digit_def less_eq_char_def split: if_splits)
qed

lemma uuid_pattern_shape:
  assumes "seq_match (uuid_pattern ver) s" "\<And>c. ver c \<Longrightarrow> is_hex_lower c"
  shows "length s = 36" "toLowerCase s = s"
proof -
  show "length s = 36"
    using seq_match_length [OF assms(1)] by (simp add: uuid_pattern_def hexes_def)
  show "toLowerCase s = s"
    using uuid_pattern_chars [OF assms] by (simp add: toLowerCase_def map_idI lower_hex)
qed

lemma version_digits:
  "c = CHR ''4'' \<Longrightarrow> is_hex_lower c" "CHR ''1'' \<le> c \<and> c \<le> CHR ''5'' \<Longrightarrow> is_hex_lower c"
  by (auto simp: is_hex_lower_def is_digit_def less_eq_char_def)

lemma uuid_shape:
  assumes "uuid s"
  shows "length s = 36" "toLowerCase s = s"
  by (rule uuid_pattern_shape [OF assms [unfolded uuid_def]],
      simp add: is_hex_lower_def is_digit_def less_eq_char_def)+

lemma commandUuid_shape:
  assumes "commandUuid s"
  shows "length s = 36" "toLowerCase s = s"
  by (rule uuid_pattern_shape [OF assms [unfolded commandUuid_def]],
      simp add: is_hex_lower_def is_digit_def less_eq_char_def)+

lemma length_toLowerCase [simp]: "length (toLowerCase s) = length s"
  by (simp add: toLowerCase_def)

end
