(* ===== verification/Command_Protocol_Properties.thy ===== *)
theory Command_Protocol_Properties
  imports Command_Protocol_Lemmas
begin

text \<open>
  Properties of the protocol readers: what they accept is exactly the well-formed sessions and
  envelopes, authority never enters through a field, digests bind a command to its replica, and
  an accepted response answers each command of the request once.
\<close>

section \<open>When a check passes\<close>

lemma record_of_Inr [res_iff]: "record_of v l = Inr ps \<longleftrightarrow> v = JObj ps"
  by (cases v) (auto simp: record_of_def)

lemma exactKeys_Inr [res_iff]: "exactKeys ps a l = Inr u \<longleftrightarrow> fst ` set ps \<subseteq> set a"
  by (auto simp: exactKeys_def Let_def filter_empty_conv)

lemma exactKeys_authority:
  assumes "k \<in> set authorityFields" "k \<in> fst ` set ps"
    and "\<And>a. a \<in> set authorityFields \<Longrightarrow> a \<notin> set allowed"
  shows "exactKeys ps allowed l =
     Inl (Authority_forbidden (sort (filter (\<lambda>a. a \<in> set authorityFields) (map fst ps))))"
proof -
  have eq: "filter (\<lambda>a. a \<in> set authorityFields) (filter (\<lambda>a. a \<notin> set allowed) xs)
      = filter (\<lambda>a. a \<in> set authorityFields) xs" for xs
    unfolding filter_filter by (rule filter_cong) (auto dest: assms(3))
  have "filter (\<lambda>a. a \<in> set authorityFields) (map fst ps) \<noteq> []"
    using assms(1,2) unfolding filter_empty_conv by auto
  then show ?thesis
    unfolding exactKeys_def Let_def eq by simp
qed

lemma boundedString_Inr [res_iff]:
  "boundedString v l m = Inr s \<longleftrightarrow> v = JStr s \<and> s \<noteq> [] \<and> length s \<le> m"
  by (cases v) (auto simp: boundedString_def)

lemma positive_safe_Inr [res_iff]:
  "positive_safe v l = Inr i \<longleftrightarrow> val_positive_safe v \<and> i = val_int v"
  by (auto simp: positive_safe_def)

lemma val_positive_safe_JInt [simp]: "val_positive_safe (JInt i) \<longleftrightarrow> 1 \<le> i \<and> i \<le> max_safe"
  by (auto simp: val_positive_safe_def max_safe_def)

lemma val_positive_safe_bounds:
  assumes "val_positive_safe v"
  shows "1 \<le> val_int v" "val_int v \<le> max_safe"
proof -
  obtain n where n: "v = JNum n" "num_isSafeInteger n" "\<not> num_int n < 1"
    using assms by (cases v) (auto simp: val_positive_safe_def)
  then have "num_val n = Some (of_int (num_int n))"
    by (auto simp: num_isSafeInteger_def intro: num_isInteger_Some)
  then have "\<bar>rat_of_int (num_int n)\<bar> \<le> rat_of_int max_safe"
    using n(2) by (simp add: num_isSafeInteger_def)
  then have "\<bar>num_int n\<bar> \<le> max_safe"
    by (metis of_int_abs of_int_le_iff)
  with n show "1 \<le> val_int v" "val_int v \<le> max_safe"
    by simp_all
qed

section \<open>Replica sessions\<close>

definition wf_session :: "replica_session \<Rightarrow> bool" where
  "wf_session s = (commandUuid (b_replicaId s) \<and> 1 \<le> b_replicaEpoch s \<and> b_replicaEpoch s \<le> max_safe
     \<and> wf_credential (b_credential s))"

definition session_js :: "replica_session \<Rightarrow> jsval" where
  "session_js s = JObj [(''replicaId'', JStr (b_replicaId s)), (''replicaEpoch'', JInt (b_replicaEpoch s)),
     (''credential'', JStr (b_credential s))]"

lemma parse_session_wf: "parseReplicaSessionSecret v = Inr s \<Longrightarrow> wf_session s"
  by (auto simp: parseReplicaSessionSecret_def res_iff wf_session_def Let_def val_positive_safe_bounds
      credential_iff [symmetric])

lemma parse_session_js: "wf_session s \<Longrightarrow> parseReplicaSessionSecret (session_js s) = Inr s"
  using commandUuid_shape [of "b_replicaId s"] wf_credential_length [of "b_credential s"]
    credential_iff [of "b_credential s"]
  by (auto simp: parseReplicaSessionSecret_def wf_session_def session_js_def res_iff Let_def
      session_keys_def obj_get_def intro!: exI [of _ "props_of (session_js s)"])

section \<open>Envelopes\<close>

definition wf_command :: "spike_command \<Rightarrow> bool" where
  "wf_command c = (commandUuid (c_commandId c) \<and> uuid (c_resourceId c) \<and> uuid (c_resourceIncarnationId c)
     \<and> 1 \<le> c_expectedRecordVersion c \<and> c_expectedRecordVersion c \<le> max_safe
     \<and> (case c_payload c of
          None \<Rightarrow> c_type c = Resource_soft_delete
        | Some p \<Rightarrow> c_type c = Resource_update \<and> p \<noteq> [] \<and> length p \<le> 512))"

definition command_js :: "spike_command \<Rightarrow> jsval" where
  "command_js c = JObj ([(''commandId'', JStr (c_commandId c)), (''type'', JStr (type_name (c_type c))),
     (''resourceId'', JStr (c_resourceId c)),
     (''resourceIncarnationId'', JStr (c_resourceIncarnationId c)),
     (''expectedRecordVersion'', JInt (c_expectedRecordVersion c))]
     @ (case c_payload c of None \<Rightarrow> [] | Some p \<Rightarrow> [(''payload'', JStr p)]))"

definition wf_envelope :: "command_envelope \<Rightarrow> bool" where
  "wf_envelope e = (uuid (b_replicaId e) \<and> 1 \<le> b_replicaEpoch e \<and> b_replicaEpoch e \<le> max_safe
     \<and> e_localTransactionId e \<noteq> [] \<and> length (e_localTransactionId e) \<le> 128
     \<and> length (e_commands e) = 1 \<and> (\<forall>c \<in> set (e_commands e). wf_command c))"

definition envelope_js :: "command_envelope \<Rightarrow> jsval" where
  "envelope_js e = JObj [(''spikeProtocol'', JInt 1), (''replicaId'', JStr (b_replicaId e)),
     (''replicaEpoch'', JInt (b_replicaEpoch e)),
     (''localTransactionId'', JStr (e_localTransactionId e)),
     (''commands'', JArr (map command_js (e_commands e)))]"

lemma parse_command_wf: "parse_command i v = Inr c \<Longrightarrow> wf_command c"
  by (auto simp: parse_command_def res_iff wf_command_def Let_def val_positive_safe_bounds
      supportedCommandTypes_def split: if_splits option.splits)

lemma parse_command_js:
  assumes "wf_command c"
  shows "parse_command i (command_js c) = Inr c"
proof -
  have bounds: "length (c_commandId c) = 36" "length (c_resourceId c) = 36"
      "length (c_resourceIncarnationId c) = 36" "toLowerCase (c_commandId c) = c_commandId c"
      "toLowerCase (c_resourceId c) = c_resourceId c"
      "toLowerCase (c_resourceIncarnationId c) = c_resourceIncarnationId c"
    using assms commandUuid_shape uuid_shape by (auto simp: wf_command_def)
  then have "c_commandId c \<noteq> []" "c_resourceId c \<noteq> []" "c_resourceIncarnationId c \<noteq> []"
    by auto
  note bounds = bounds this
  show ?thesis
  proof (cases "c_payload c")
    case None
    then show ?thesis
      using assms bounds
      by (simp add: parse_command_def command_js_def wf_command_def record_of_def exactKeys_def
          Let_def command_keys_def boundedString_def obj_get_def proto_get_def proto_functions_def
          positive_safe_def supportedCommandTypes_def)
  next
    case (Some p)
    then show ?thesis
      using assms bounds
      by (simp add: parse_command_def command_js_def wf_command_def record_of_def exactKeys_def
          Let_def command_keys_def boundedString_def obj_get_def positive_safe_def
          supportedCommandTypes_def)
  qed
qed

lemma parse_commands_wf:
  "parse_commands i ids ts vs = Inr cs \<Longrightarrow> length cs = length vs \<and> (\<forall>c \<in> set cs. wf_command c)"
  by (induction i ids ts vs arbitrary: cs rule: parse_commands.induct)
    (fastforce simp: res_iff dest: parse_command_wf)+

lemma parse_envelope_wf: "parseCommandEnvelope v = Inr e \<Longrightarrow> wf_envelope e"
  by (auto simp: parseCommandEnvelope_def res_iff wf_envelope_def Let_def val_positive_safe_bounds
      dest!: parse_commands_wf)

lemma parse_envelope_js:
  assumes "wf_envelope e"
  shows "parseCommandEnvelope (envelope_js e) = Inr e"
proof -
  obtain c where c: "e_commands e = [c]" "wf_command c"
    using assms by (auto simp: wf_envelope_def length_Suc_conv)
  have "length (b_replicaId e) = 36" "toLowerCase (b_replicaId e) = b_replicaId e"
    using assms uuid_shape by (auto simp: wf_envelope_def)
  moreover from this(1) have "b_replicaId e \<noteq> []"
    by auto
  ultimately show ?thesis
    using assms c
    by (simp add: parseCommandEnvelope_def envelope_js_def wf_envelope_def record_of_def exactKeys_def
        Let_def envelope_keys_def boundedString_def obj_get_def positive_safe_def is_literal_def
        parse_command_js)
qed
section \<open>Responses\<close>

text \<open>The result \<open>r\<close> answers the command \<open>c\<close>.\<close>

definition answers ::
  "(string \<Rightarrow> string) \<Rightarrow> (jsnum \<Rightarrow> string) \<Rightarrow> 'a replica_binding_scheme \<Rightarrow> jsval \<Rightarrow> spike_command \<Rightarrow> bool"
where
  "answers sha num_str b r c = (isRecord r
     \<and> js_String num_str (obj_get (props_of r) ''commandId'') = Some (c_commandId c)
     \<and> obj_get (props_of r) ''resourceId'' = JStr (c_resourceId c)
     \<and> obj_get (props_of r) ''digest'' = JStr (commandDigest sha c b)
     \<and> obj_get (props_of r) ''state'' = JStr (expectedState (obj_get (props_of r) ''code''))
     \<and> list_all (\<lambda>f. val_positive_safe (obj_get (props_of r) f))
         [''previousVersion'', ''currentVersion'', ''attemptNumber''])"

lemma parse_result_Inr:
  assumes "parse_result sha num_str b expected r = Inr expected'"
    and "\<And>k c. expected k = Some c \<Longrightarrow> c_commandId c = k"
  obtains c where "expected (c_commandId c) = Some c" "answers sha num_str b r c"
    "expected' = expected(c_commandId c := None)"
proof -
  obtain ps key c where parts: "r = JObj ps" "js_String num_str (obj_get ps ''commandId'') = Some key"
      "expected key = Some c" "obj_get ps ''resourceId'' = JStr (c_resourceId c)"
      "obj_get ps ''digest'' = JStr (commandDigest sha c b)"
      "obj_get ps ''state'' = JStr (expectedState (obj_get ps ''code''))"
      "list_all (\<lambda>f. val_positive_safe (obj_get ps f)) [''previousVersion'', ''currentVersion'', ''attemptNumber'']"
      "expected' = expected(c_commandId c := None)"
    using assms(1)
    by (auto simp: parse_result_def rbind_Inr_iff record_of_Inr string_or_throw_def
        split: option.splits)
  with assms(2) [OF parts(3)] that show ?thesis
    by (auto simp: answers_def)
qed

lemma parse_results_Inr:
  assumes "parse_results sha num_str b expected rs = Inr expected'"
    and "\<And>k c. expected k = Some c \<Longrightarrow> c_commandId c = k"
  shows "\<exists>cs. list_all2 (answers sha num_str b) rs cs \<and> distinct (map c_commandId cs)
     \<and> (\<forall>c \<in> set cs. expected (c_commandId c) = Some c)
     \<and> (\<forall>k. expected' k = (if k \<in> c_commandId ` set cs then None else expected k))"
  using assms
proof (induction rs arbitrary: expected)
  case Nil
  then show ?case by simp
next
  case (Cons r rs)
  obtain ex1 where one: "parse_result sha num_str b expected r = Inr ex1"
      and rest: "parse_results sha num_str b ex1 rs = Inr expected'"
    using Cons.prems(1) by (auto simp: rbind_Inr_iff)
  obtain c where c: "expected (c_commandId c) = Some c" "answers sha num_str b r c"
      "ex1 = expected(c_commandId c := None)"
    by (rule parse_result_Inr [OF one Cons.prems(2)])
  have "\<And>k d. ex1 k = Some d \<Longrightarrow> c_commandId d = k"
    using Cons.prems(2) by (auto simp: c(3) split: if_splits)
  from Cons.IH [OF rest this] obtain cs where cs: "list_all2 (answers sha num_str b) rs cs"
      "distinct (map c_commandId cs)" "\<forall>d \<in> set cs. ex1 (c_commandId d) = Some d"
      "\<forall>k. expected' k = (if k \<in> c_commandId ` set cs then None else ex1 k)"
    by blast
  have fresh: "c_commandId d \<noteq> c_commandId c \<and> expected (c_commandId d) = Some d" if "d \<in> set cs" for d
    using cs(3) that by (auto simp: c(3) split: if_splits)
  have "c_commandId c \<notin> c_commandId ` set cs"
    using fresh by (metis imageE)
  then show ?case
    using c cs fresh by (intro exI [of _ "c # cs"]) (auto simp: c(3))
qed

lemma sub_list_all:
  assumes "distinct (map f xs)" "set xs \<subseteq> set ys" "length xs = length ys"
  shows "mset xs = mset ys"
proof -
  have dx: "distinct xs"
    using assms(1) by (simp add: distinct_map)
  have "card (set xs) = length ys"
    using dx assms(3) by (simp add: distinct_card)
  moreover have "card (set xs) \<le> card (set ys)" "card (set ys) \<le> length ys"
    using assms(2) by (simp_all add: card_mono card_length)
  ultimately have "set xs = set ys" and "distinct ys"
    using assms(2) by (simp_all add: card_subset_eq card_distinct)
  with dx show ?thesis
    by (metis set_eq_iff_mset_eq_distinct)
qed

lemma requested_commands:
  "js_Map (map (\<lambda>c. (c_commandId c, c)) cs) k = Some c \<Longrightarrow> c \<in> set cs \<and> c_commandId c = k"
  unfolding js_Map_def by (auto dest: map_of_SomeD)

lemma parse_results_complete:
  assumes "parse_results sha num_str b (js_Map (map (\<lambda>c. (c_commandId c, c)) commands)) rs = Inr expected"
    and "length rs = length commands"
  shows "\<exists>cs. mset cs = mset commands \<and> distinct (map c_commandId cs)
      \<and> list_all2 (answers sha num_str b) rs cs \<and> (\<forall>c \<in> set commands. expected (c_commandId c) = None)"
proof -
  let ?m = "js_Map (map (\<lambda>c. (c_commandId c, c)) commands)"
  obtain cs where cs: "list_all2 (answers sha num_str b) rs cs" "distinct (map c_commandId cs)"
      "\<forall>c \<in> set cs. ?m (c_commandId c) = Some c"
      "\<forall>k. expected k = (if k \<in> c_commandId ` set cs then None else ?m k)"
    using parse_results_Inr [OF assms(1)] requested_commands by blast
  have "set cs \<subseteq> set commands"
    using cs(3) requested_commands by fastforce
  then have m: "mset cs = mset commands"
    using cs(2) assms(2) list_all2_lengthD [OF cs(1)] by (auto intro: sub_list_all)
  then have "set cs = set commands"
    by (rule mset_eq_setD)
  then show ?thesis
    using cs m by (intro exI [of _ cs]) auto
qed

section \<open>Properties\<close>

text \<open>C30. \<open>parseCommandEnvelope\<close> returns exactly the well-formed envelopes: lower-case identifiers of
  the right UUID versions, positive safe integers, bounded strings, one command, a payload on
  updates and only there. Writing such an envelope out and reading it again gives it back.\<close>
theorem parseCommandEnvelope_exact:
  "((\<exists>v. parseCommandEnvelope v = Inr e) \<longleftrightarrow> wf_envelope e)
   \<and> (parseCommandEnvelope (envelope_js e) = Inr e \<longleftrightarrow> wf_envelope e)"
  using parse_envelope_wf parse_envelope_js by blast

text \<open>\<open>parseReplicaSessionSecret\<close> returns exactly the well-formed sessions: a version-4 replica
  identifier in lower case, a positive safe epoch and a credential that is \<open>r2_\<close> followed by the
  unpadded base64url form of exactly 32 bytes; it reads back what such a session prints to.\<close>
theorem parseReplicaSessionSecret_exact:
  "((\<exists>v. parseReplicaSessionSecret v = Inr s) \<longleftrightarrow> wf_session s)
   \<and> (parseReplicaSessionSecret (session_js s) = Inr s \<longleftrightarrow> wf_session s)"
  using parse_session_wf parse_session_js by blast

text \<open>No client can name its own authority: an envelope with an actor, user, workspace, journey,
  party, audience, owner or grant field is refused with exactly those fields listed, and one
  whose commands carry such a field is refused too.\<close>
theorem authority_fields_rejected:
  assumes "k \<in> set authorityFields"
    and "k \<in> fst ` set ps
       \<or> (\<exists>vs qs. obj_get ps ''commands'' = JArr vs \<and> JObj qs \<in> set vs \<and> k \<in> fst ` set qs)"
  shows "(\<exists>e. parseCommandEnvelope (JObj ps) = Inl e)
     \<and> (k \<in> fst ` set ps \<longrightarrow> parseCommandEnvelope (JObj ps) =
          Inl (Authority_forbidden (sort (filter (\<lambda>a. a \<in> set authorityFields) (map fst ps)))))"
proof -
  have disjoint: "a \<notin> set envelope_keys" "a \<notin> set command_keys" if "a \<in> set authorityFields" for a
    using that by (auto simp: authorityFields_def envelope_keys_def command_keys_def)
  have top: "parseCommandEnvelope (JObj ps) =
      Inl (Authority_forbidden (sort (filter (\<lambda>a. a \<in> set authorityFields) (map fst ps))))"
    if "k \<in> fst ` set ps"
    using exactKeys_authority [OF assms(1) that disjoint(1)]
    by (simp add: parseCommandEnvelope_def record_of_def)
  have cmd: "parse_command i (JObj qs) \<noteq> Inr c" if "k \<in> fst ` set qs" for i qs c
    using that disjoint(2) [OF assms(1)] by (auto simp: parse_command_def Let_def res_iff)
  have "parse_commands i ids ts vs \<noteq> Inr cs" if "JObj qs \<in> set vs" "k \<in> fst ` set qs" for i ids ts vs qs cs
    using that(1) cmd [OF that(2)]
    by (induction i ids ts vs arbitrary: cs rule: parse_commands.induct) (auto simp: rbind_Inr_iff)
  then have "parseCommandEnvelope (JObj ps) \<noteq> Inr e"
    if "obj_get ps ''commands'' = JArr vs" "JObj qs \<in> set vs" "k \<in> fst ` set qs" for vs qs e
    using that by (auto simp: parseCommandEnvelope_def Let_def res_iff)
  with top assms(2) show ?thesis
    by (metis sumE)
qed

theorem authority_fields_rejected_witness:
  "parseCommandEnvelope (JObj [(''spikeProtocol'', JInt 1), (''userId'', JStr ''u1''), (''actor'', JNull)])
     = Inl (Authority_forbidden [''actor'', ''userId''])"
proof -
  let ?ps = "[(''spikeProtocol'', JInt 1), (''userId'', JStr ''u1''), (''actor'', JNull)]"
  have "parseCommandEnvelope (JObj ?ps) =
      Inl (Authority_forbidden (sort (filter (\<lambda>a. a \<in> set authorityFields) (map fst ?ps))))"
    by (rule authority_fields_rejected [THEN conjunct2, THEN mp, of "''userId''"])
      (simp_all add: authorityFields_def)
  then show ?thesis
    by (simp add: authorityFields_def)
qed

text \<open>C31. The text that \<open>commandDigest\<close> hashes determines the command and the replica binding: two
  commands of two replicas or epochs have the same digest input only if every field agrees, so a
  digest cannot be carried over to another command, target, version, payload, replica or epoch
  without a collision of the hash.\<close>
theorem digest_input_injective:
  "normalized c b = normalized c' b' \<longleftrightarrow>
     c = c' \<and> b_replicaId b = b_replicaId b' \<and> b_replicaEpoch b = b_replicaEpoch b'"
  by (rule normalized_inj)

text \<open>C32. An accepted response answers every command of the request exactly once, in some order: the
  commands have distinct identifiers, each result carries its command's resource and digest, its
  state is the one its code stands for, and its versions and attempt number are positive. The
  final check for omitted results never fires.\<close>
theorem parseCommandResponse_one_to_one:
  "parseCommandResponse sha num_str v commands b \<noteq> Inl Omitted_results
   \<and> (\<forall>rs. parseCommandResponse sha num_str v commands b = Inr rs \<longrightarrow>
        (\<exists>cs. mset cs = mset commands \<and> distinct (map c_commandId cs)
           \<and> list_all2 (answers sha num_str b) rs cs))"
proof (intro conjI allI impI)
  show "parseCommandResponse sha num_str v commands b \<noteq> Inl Omitted_results"
  proof
    assume *: "parseCommandResponse sha num_str v commands b = Inl Omitted_results"
    have neq: "record_of w l \<noteq> Inl Omitted_results" "exactKeys ps ks l \<noteq> Inl Omitted_results" for w l ps ks
      by (simp_all add: record_of_def exactKeys_def Let_def)
    have result_neq: "parse_result sha num_str b m r \<noteq> Inl Omitted_results" for m r
      by (auto simp: parse_result_def rbind_Inl_iff neq string_or_throw_def split: option.splits)
    then have results_neq: "parse_results sha num_str b m rs \<noteq> Inl Omitted_results" for m rs
      by (induction rs arbitrary: m) (auto simp: rbind_Inl_iff)
    from * show False
      by (auto simp: parseCommandResponse_def Let_def rbind_Inl_iff neq results_neq list_ex_iff
          dest!: parse_results_complete)
  qed
next
  fix rs
  assume "parseCommandResponse sha num_str v commands b = Inr rs"
  then show "\<exists>cs. mset cs = mset commands \<and> distinct (map c_commandId cs)
      \<and> list_all2 (answers sha num_str b) rs cs"
    by (auto simp: parseCommandResponse_def Let_def rbind_Inr_iff dest!: parse_results_complete)
qed

definition demo_command :: spike_command where
  "demo_command = \<lparr>c_commandId = ''11111111-1111-4111-8111-111111111111'', c_type = Resource_update,
     c_resourceId = ''22222222-2222-4222-8222-222222222222'',
     c_resourceIncarnationId = ''33333333-3333-4333-8333-333333333333'',
     c_expectedRecordVersion = 1, c_payload = Some ''x''\<rparr>"

definition demo_binding :: replica_binding where
  "demo_binding = \<lparr>b_replicaId = ''44444444-4444-4444-8444-444444444444'', b_replicaEpoch = 1\<rparr>"

definition demo_response :: "jsval \<Rightarrow> jsval" where
  "demo_response code = JObj [(''spikeProtocol'', JInt 1), (''results'', JArr [JObj
     [(''commandId'', JStr (c_commandId demo_command)), (''resourceId'', JStr (c_resourceId demo_command)),
      (''digest'', JStr ''d''), (''state'', JStr ''applied''), (''code'', code),
      (''previousVersion'', JInt 1), (''currentVersion'', JInt 2), (''attemptNumber'', JInt 1)]])]"

abbreviation demo_parse :: "jsval \<Rightarrow> protocol_error + jsval list" where
  "demo_parse v \<equiv> parseCommandResponse (\<lambda>_. ''d'') (\<lambda>_. '''') v [demo_command] demo_binding"

lemma demo_response_accepted:
  assumes "js_String (\<lambda>_. '''') code = Some s" "s \<in> set result_codes" "expectedState code = ''applied''"
  shows "demo_parse (demo_response code) = Inr (arr_of (obj_get (props_of (demo_response code)) ''results''))"
  using assms
  by (simp add: parseCommandResponse_def demo_response_def record_of_def exactKeys_def Let_def
      obj_get_def is_literal_def parse_result_def result_keys_def string_or_throw_def js_Map_def
      commandDigest_def max_safe_def)

theorem parseCommandResponse_one_to_one_witness:
  "\<exists>rs cs. demo_parse (demo_response (JStr ''applied'')) = Inr rs \<and> mset cs = {#demo_command#}
     \<and> list_all2 (answers (\<lambda>_. ''d'') (\<lambda>_. '''') demo_binding) rs cs"
proof -
  have ok: "demo_parse (demo_response (JStr ''applied''))
      = Inr (arr_of (obj_get (props_of (demo_response (JStr ''applied''))) ''results''))"
    by (rule demo_response_accepted [where s = "''applied''"]) (simp_all add: result_codes_def expectedState_def)
  show ?thesis
    using parseCommandResponse_one_to_one [of "\<lambda>_. ''d''" "\<lambda>_. ''''" "demo_response (JStr ''applied'')"
        "[demo_command]" demo_binding] ok by fastforce
qed

text \<open>C33. \<open>parseCommandResponse\<close> tests the code through \<open>String(...)\<close> and then compares the raw value: a
  result whose code is the one-element array \<open>["command_denied"]\<close> and whose state is \<open>applied\<close>
  passes every check, while the same result with the plain string is refused as inconsistent.\<close>
theorem wrapped_denial_accepted_as_applied:
  "(\<exists>rs. demo_parse (demo_response (JArr [JStr ''command_denied''])) = Inr rs)
   \<and> demo_parse (demo_response (JStr ''command_denied'')) = Inl Inconsistent_result"
proof
  show "\<exists>rs. demo_parse (demo_response (JArr [JStr ''command_denied''])) = Inr rs"
    by (subst demo_response_accepted [where s = "''command_denied''"]) (simp_all add: result_codes_def expectedState_def)
  show "demo_parse (demo_response (JStr ''command_denied'')) = Inl Inconsistent_result"
    by (simp add: parseCommandResponse_def demo_response_def record_of_def exactKeys_def Let_def
        obj_get_def is_literal_def parse_result_def result_keys_def string_or_throw_def js_Map_def
        commandDigest_def result_codes_def expectedState_def)
qed

end
