(* ===== verification/Server_Properties.thy ===== *)
theory Server_Properties
  imports Server_Invariant Command_Protocol_Properties
begin

text \<open>
  Every request the server answers is a sequence of the database steps of \<open>Server_Invariant\<close>;
  the properties of the command server follow from that and from the durable receipts.
\<close>

section \<open>Requests are database steps\<close>

abbreviation db_steps ::
  "(string \<Rightarrow> string) \<Rightarrow> (string \<Rightarrow> string) \<Rightarrow> (string \<Rightarrow> string option) \<Rightarrow> database \<Rightarrow> database \<Rightarrow> bool"
where
  "db_steps sha hmac pg_uuid \<equiv> (db_step sha hmac pg_uuid)\<^sup>*\<^sup>*"

lemma execute_steps:
  assumes "executeCommands sha after db u b cred [c] n = (r, db')"
    and "db_steps sha hmac pg_uuid db (after db)"
  shows "db_steps sha hmac pg_uuid db db'"
  using assms
  by (auto simp: executeCommands_def split: option.splits if_splits prod.splits
      intro: db_step.deny r_into_rtranclp db_step.execute rtranclp.rtrancl_into_rtrancl)

lemma caught_Inr: "caught (r, db) = (resp, db') \<Longrightarrow> db' = db"
  by (auto simp: caught_def split: sum.splits)

lemma caught_snd: "snd (caught r) = snd r"
  by (auto simp: caught_def split: sum.splits prod.splits)

lemma parseBinding_epoch: "parseBinding ps = Inr b \<Longrightarrow> 1 \<le> b_replicaEpoch b"
  by (auto simp: parseBinding_def Let_def val_positive_safe_bounds split: if_splits)

lemma endpoint_steps:
  "db_steps sha hmac pg_uuid db (snd (registerReplica sha i bs db u))"
  "db_steps sha hmac pg_uuid db (snd (challengeReplica sha i db u b cred))"
  "db_steps sha hmac pg_uuid db (snd (ackReplica sha pg_uuid db u b cred v))"
  "1 \<le> b_replicaEpoch b \<Longrightarrow> db_steps sha hmac pg_uuid db (snd (resetReplica sha hmac db u b cred req))"
  "db_steps sha hmac pg_uuid db (snd (resetAckReplica sha db u b cred req))"
  "db_steps sha hmac pg_uuid db (snd (consumeCommandRateWindow sha db u b cred))"
  by (rule r_into_rtranclp, metis prod.collapse db_step.register db_step.challenge db_step.ack
      db_step.reset db_step.reset_ack db_step.rate)+

lemma endpoint_stepsD:
  "caught (registerReplica sha i bs db u) = (x, d) \<Longrightarrow> db_steps sha hmac pg_uuid db d"
  "caught (challengeReplica sha i db u b cred) = (x, d) \<Longrightarrow> db_steps sha hmac pg_uuid db d"
  "caught (ackReplica sha pg_uuid db u b cred v) = (x, d) \<Longrightarrow> db_steps sha hmac pg_uuid db d"
  "caught (cl, db) = (x, d) \<Longrightarrow> db_steps sha hmac pg_uuid db d"
  "resetAckReplica sha db u b cred req = (x, d) \<Longrightarrow> db_steps sha hmac pg_uuid db d"
  "resetReplica sha hmac db u b cred req = (x, d) \<Longrightarrow> 1 \<le> b_replicaEpoch b \<Longrightarrow> db_steps sha hmac pg_uuid db d"
  using endpoint_steps caught_snd by (metis snd_conv rtranclp.rtrancl_refl)+

lemma lifecycle_steps:
  assumes "lifecycleRequest sha hmac pg_uuid secret sv rq u = Some (r, sv')"
  shows "db_steps sha hmac pg_uuid (sv_db sv) (sv_db sv')"
  using assms unfolding lifecycleRequest_def Let_def
  by (auto split: if_splits sum.splits option.splits prod.splits simp: rbind_Inr_iff
      dest: endpoint_stepsD parseBinding_epoch)

lemma run_command_steps:
  assumes "run_command sha after secret sv rq u cred e = (r, sv')" "e_commands e = [c]"
    and "\<And>d. db_steps sha hmac pg_uuid d (after d)"
  shows "db_steps sha hmac pg_uuid (sv_db sv) (sv_db sv')"
proof -
  define held where "held = (rq_fault rq = ''pre-commit-hold'' \<and> rq_fault_secret rq = secret)"
  obtain rate d1 where rate: "(if held then (Rate_accepted, sv_db sv)
      else consumeCommandRateWindow sha (sv_db sv) u (envelope_binding e) cred) = (rate, d1)"
    by fastforce
  have d1: "db_steps sha hmac pg_uuid (sv_db sv) d1"
    using rate endpoint_steps(6) [of sha hmac pg_uuid "sv_db sv" u "envelope_binding e" cred]
    by (auto split: if_splits)
  have exec: "db_steps sha hmac pg_uuid (sv_db sv) d2"
    if "executeCommands sha a d1 u (envelope_binding e) cred [c] n = (x, d2)" "a = after \<or> a = id" for a n x d2
    using execute_steps [OF that(1), of hmac pg_uuid] that(2) assms(3) d1 by auto
  show ?thesis
    using assms(1,2) rate d1
    by (auto simp: run_command_def Let_def held_def dest: exec
        split: prod.splits if_splits rate_outcome.splits sum.splits)
qed

lemma serve_steps:
  assumes "serve sha hmac pg_uuid after secret sv rq u = (r, sv')"
    and "\<And>d. db_steps sha hmac pg_uuid d (after d)"
  shows "db_steps sha hmac pg_uuid (sv_db sv) (sv_db sv')"
proof (cases "lifecycleRequest sha hmac pg_uuid secret sv rq u")
  case (Some p)
  then show ?thesis
    using assms(1) by (auto simp: serve_def intro: lifecycle_steps)
next
  case None
  have "db_steps sha hmac pg_uuid (sv_db sv) (sv_db sv2)"
    if "parseCommandEnvelope v = Inr e" "run_command sha after secret (sv\<lparr>sv_slots := s\<rparr>) rq u cred e = (x, sv2)"
    for v e s cred x sv2
  proof -
    have "\<exists>c. e_commands e = [c]"
      using parse_envelope_wf [OF that(1)] by (auto simp: wf_envelope_def length_Suc_conv)
    then show ?thesis
      using run_command_steps [OF that(2) _ assms(2)] by auto
  qed
  then show ?thesis
    using None assms(1)
    by (auto simp: serve_def commandRequest_def split: if_splits option.splits sum.splits prod.splits)
qed

section \<open>Bounded bookkeeping\<close>

definition attempts_ok :: "(string \<times> nat) list \<Rightarrow> bool" where
  "attempts_ok xs = (length xs \<le> maxRetainedTestAttemptKeys \<and> distinct (map fst xs) \<and> '''' \<notin> fst ` set xs)"

definition bounded_keys_ok :: "string list \<Rightarrow> bool" where
  "bounded_keys_ok xs = (length xs \<le> maxRetainedTestAttemptKeys \<and> distinct xs \<and> '''' \<notin> set xs)"

lemma map_set_keys:
  "map fst (map_set k v xs) = (if k \<in> fst ` set xs then map fst xs else map fst xs @ [k])"
  by (auto simp: map_set_def)

lemma map_set_ok:
  assumes "distinct (map fst xs)" "'''' \<notin> fst ` set xs" "k \<noteq> ''''"
    and "k \<in> fst ` set xs \<and> length xs \<le> maxRetainedTestAttemptKeys \<or> length xs < maxRetainedTestAttemptKeys"
  shows "attempts_ok (map_set k v xs)"
proof -
  have "length (map_set k v xs) = length (map fst (map_set k v xs))"
    by simp
  also have "\<dots> \<le> maxRetainedTestAttemptKeys"
    unfolding map_set_keys using assms(4) by auto
  finally have "length (map_set k v xs) \<le> maxRetainedTestAttemptKeys" .
  moreover have "distinct (map fst (map_set k v xs))" "'''' \<notin> set (map fst (map_set k v xs))"
    unfolding map_set_keys using assms(1-3) by auto
  ultimately show ?thesis
    by (simp add: attempts_ok_def)
qed

lemma recordTestAttempt_ok:
  assumes "attempts_ok xs" "k \<noteq> ''''"
  shows "attempts_ok (snd (recordTestAttempt xs k))"
proof -
  define ys where "ys = (if k \<notin> fst ` set xs \<and> length xs \<ge> maxRetainedTestAttemptKeys
     then (case xs of [] \<Rightarrow> [] | (a, n) # rest \<Rightarrow> if a \<noteq> '''' then rest else xs) else xs)"
  have "snd (recordTestAttempt xs k) = map_set k (fst (recordTestAttempt xs k)) ys"
    by (simp add: recordTestAttempt_def Let_def ys_def)
  moreover have "distinct (map fst ys) \<and> '''' \<notin> fst ` set ys
     \<and> (k \<in> fst ` set ys \<and> length ys \<le> maxRetainedTestAttemptKeys \<or> length ys < maxRetainedTestAttemptKeys)"
    using assms(1)
    by (cases xs) (auto simp: ys_def attempts_ok_def maxRetainedTestAttemptKeys_def split: prod.splits)
  ultimately show ?thesis
    using assms(2) map_set_ok by metis
qed

lemma addBoundedTestKey_ok:
  "bounded_keys_ok xs \<Longrightarrow> k \<noteq> '''' \<Longrightarrow> bounded_keys_ok (addBoundedTestKey xs k)"
  by (cases xs) (auto simp: addBoundedTestKey_def bounded_keys_ok_def maxRetainedTestAttemptKeys_def Let_def)

definition slots_ok :: "slots \<Rightarrow> bool" where
  "slots_ok s = (concurrentCommandRequests s = int (length (filter Not (released s)))
     \<and> concurrentCommandRequests s \<le> int maxConcurrentCommandRequests)"

lemma filter_Not_update:
  "h < length xs \<Longrightarrow> \<not> xs ! h \<Longrightarrow> length (filter Not xs) = Suc (length (filter Not (xs[h := True])))"
  by (induction xs arbitrary: h) (auto simp: less_Suc_eq_0_disj)

lemma acquire_ok: "slots_ok s \<Longrightarrow> slots_ok (snd (acquireCommandSlot s))"
  by (auto simp: slots_ok_def acquireCommandSlot_def maxConcurrentCommandRequests_def)

lemma release_ok: "slots_ok s \<Longrightarrow> slots_ok (releaseSlot h s)"
  using filter_Not_update [of h "released s"] by (auto simp: slots_ok_def releaseSlot_def)

inductive slot_step :: "slots \<Rightarrow> slots \<Rightarrow> bool" where
  slot_acquire: "slot_step s (snd (acquireCommandSlot s))"
| slot_release: "slot_step s (releaseSlot h s)"

interpretation slot_system: invariant_system
  "\<lambda>s. s = \<lparr>concurrentCommandRequests = 0, released = []\<rparr>" slot_step slots_ok
proof unfold_locales
  show "slots_ok s" if "s = \<lparr>concurrentCommandRequests = 0, released = []\<rparr>" for s
    using that by (simp add: slots_ok_def maxConcurrentCommandRequests_def)
  show "slots_ok t" if "slot_step s t" "slots_ok s" for s t
    using that by (cases rule: slot_step.cases) (auto intro: acquire_ok release_ok)
qed

section \<open>Execution outcomes\<close>

lemma execute_reduce:
  assumes "lockReplica sha db u b cred = Some (row, False)" "lockActiveGrants db u [c_resourceId c]"
  shows "executeCommands sha after db u b cred [c] n = execute_authorized sha (after db) u b [c] n"
proof -
  have "\<not> replica_stale db row"
    using assms(1) by (auto simp: lockReplica_def split: option.splits if_splits)
  then show ?thesis
    using assms by (simp add: executeCommands_def)
qed

lemma execute_one_receipt:
  assumes "execute_one sha db u b c n = (Inr (200, Exec_results rs), db')"
  obtains rc replay where "find_receipt db' u (c_commandId c) = Some rc" "receipt_matches sha b c rc"
    "rs = [resultFromReceipt rc n replay]"
proof (cases "find_receipt db u (c_commandId c)")
  case (Some rc)
  then show ?thesis
    using assms that by (auto simp: execute_one_def split: option.splits if_splits)
next
  case None
  have new: "find_receipt (d\<lparr>db_receipts := db_receipts d @ [receipt_for sha u b c st code p q]\<rparr>) u (c_commandId c)
      = Some (receipt_for sha u b c st code p q)" if "find_receipt d u (c_commandId c) = None" for d st code p q
    using that by (simp add: find_receipt_def find_append receipt_for_def)
  have matches: "receipt_matches sha b c (receipt_for sha u b c st code p q)" for st code p q
    by (simp add: receipt_matches_def receipt_for_def)
  have mutated: "find_receipt (d\<lparr>db_events := es\<rparr>) u (c_commandId c) = None"
    if "apply_mutation c db = Inr d" for d es
    using None find_receipt_mutated [OF that] by simp
  have applied: "find_receipt (d\<lparr>db_events := es, db_receipts := db_receipts d @ [receipt_for sha u b c st code p q]\<rparr>)
      u (c_commandId c) = Some (receipt_for sha u b c st code p q)"
    if "apply_mutation c db = Inr d" for d es st code p q
    using new [OF mutated [OF that, of es], of st code p q] by simp
  show ?thesis
    using assms None that new [OF None] matches applied
    by (auto simp: execute_one_def Let_def split: option.splits sum.splits)
qed

lemma keys_okD: "db_inv db \<Longrightarrow> keys_ok db"
  by (simp add: db_inv_def)

text \<open>What a retry answers: the recorded outcome, with \<open>applied\<close> reported as \<open>already_applied\<close>.\<close>

definition as_replay :: "nat \<Rightarrow> spike_result \<Rightarrow> spike_result" where
  "as_replay m r = r\<lparr>sr_code := (if sr_code r = Code_applied then Already_applied else sr_code r), sr_attempt := m\<rparr>"

lemma as_replay_result: "resultFromReceipt rc m True = as_replay m (resultFromReceipt rc n replay)"
  by (auto simp: as_replay_def resultFromReceipt_def)

section \<open>A database to try things on\<close>

definition demo_resource :: resource_row where
  "demo_resource = \<lparr>r_id = c_resourceId demo_command, r_incarnation = c_resourceIncarnationId demo_command,
     r_payload = None, r_version = 1, r_deleted_at = None\<rparr>"

definition demo_replica :: replica_row where
  "demo_replica = \<lparr>rp_id = b_replicaId demo_binding, rp_user = ''alice'', rp_credential_digest = ''aa'',
     rp_epoch = 1, rp_last_ack_at = Some 0, rp_acknowledged_sequence = Some 1, rp_disabled_at = None,
     rp_previous_digest = None, rp_staged_reset = None, rp_last_reset = None\<rparr>"

definition demo_db :: database where
  "demo_db = \<lparr>db_users = {''alice''}, db_resources = [demo_resource], db_receipts = [], db_events = [],
     db_graveyard = [],
     db_retention = \<lparr>effective_now = 0, retained_graveyard_floor = 1, next_deletion_sequence = 1\<rparr>,
     db_replicas = [demo_replica], db_challenges = [], db_rates = [],
     db_grants = [\<lparr>g_resource = c_resourceId demo_command, g_user = ''alice'', g_user_active = True,
       g_workspace_active = True, g_journey_active = True, g_party_active = True\<rparr>]\<rparr>"

definition demo_sha :: "string \<Rightarrow> string" where
  "demo_sha s = s"

lemma demo_db_inv: "db_inv demo_db"
  by (simp add: db_inv_def keys_ok_def log_ok_def replicas_ok_def rates_ok_def demo_db_def demo_replica_def
      replica_ok_def maxReplicasPerUser_def)

lemma demo_lock: "lockReplica demo_sha demo_db ''alice'' demo_binding ''aa'' = Some (demo_replica, False)"
  by (simp add: lockReplica_def find_replica_def demo_db_def demo_replica_def demo_binding_def
      demo_sha_def credentialMatches_def replica_stale_def ps8_replica_reset_required_def microseconds_per_day_def)

lemma demo_grant: "lockActiveGrants demo_db ''alice'' [c_resourceId demo_command]"
  by (simp add: lockActiveGrants_def granted_resources_def demo_db_def grant_active_def)

lemma demo_find: "find_resource demo_db (c_resourceId demo_command) = Some demo_resource"
  "find_receipt demo_db u k = None"
  by (simp_all add: find_resource_def find_receipt_def demo_db_def demo_resource_def)

section \<open>Properties\<close>



text \<open>C10. Exactly once. In every database reached from an empty one by any interleaving of the server's
  transactions with changes of grants, users, time, retention and resources, a command of a user
  has one change event if its receipt says applied and none otherwise, however often it was sent.\<close>
theorem commands_take_effect_once:
  assumes "db_init db0" "(db_step sha hmac pg_uuid)\<^sup>*\<^sup>* db0 db"
  shows "length (filter (\<lambda>e. ev_user e = u \<and> ev_command e = k) (db_events db)) =
      (if (\<exists>r. find_receipt db u k = Some r \<and> rc_code r = Code_applied) then 1 else 0)
     \<and> length (filter (\<lambda>r. rc_user r = u \<and> rc_command r = k) (db_receipts db)) \<le> 1"
proof -
  have inv: "db_inv db"
    by (rule receipts.inv_reachable [OF assms])
  have "filter (\<lambda>r. receipt_key r = (u, k)) (db_receipts db)
      = (case find_receipt db u k of None \<Rightarrow> [] | Some r \<Rightarrow> [r])"
    using inv filter_key_unique [of receipt_key "db_receipts db" "(u, k)"]
    by (simp add: db_inv_def keys_ok_def find_receipt_def receipt_key_def)
  then have one: "filter (\<lambda>r. rc_user r = u \<and> rc_command r = k) (db_receipts db)
      = (case find_receipt db u k of None \<Rightarrow> [] | Some r \<Rightarrow> [r])"
    by (simp add: receipt_key_def)
  have "length (filter (\<lambda>e. ev_user e = u \<and> ev_command e = k) (db_events db))
      = length (filter (\<lambda>s. fst s = (u, k)) (map event_sig (db_events db)))"
    by (simp add: filter_map comp_def event_sig_def)
  also have "\<dots> = length (filter (\<lambda>s. fst s = (u, k))
      (map receipt_sig (filter (\<lambda>r. rc_code r = Code_applied) (db_receipts db))))"
    using inv by (simp add: db_inv_def log_ok_def)
  also have "\<dots> = length (filter (\<lambda>r. rc_code r = Code_applied)
      (filter (\<lambda>r. rc_user r = u \<and> rc_command r = k) (db_receipts db)))"
    by (simp add: filter_map comp_def receipt_sig_def receipt_key_def conj_commute)
  finally show ?thesis
    unfolding one by (auto split: option.splits)
qed

definition empty_demo :: database where
  "empty_demo = demo_db\<lparr>db_replicas := []\<rparr>"

definition demo_after :: "database \<Rightarrow> database" where
  "demo_after db = db\<lparr>db_resources := [mutated 0 demo_command demo_resource],
     db_events := [event_for ''alice'' demo_command],
     db_receipts := [applied_receipt demo_sha ''alice'' demo_binding demo_command]\<rparr>"

lemma demo_execute:
  assumes "db = demo_db \<or> db = empty_demo"
  shows "execute_authorized demo_sha db ''alice'' demo_binding [demo_command] n =
     (Inr (200, Exec_results [resultFromReceipt (applied_receipt demo_sha ''alice'' demo_binding demo_command) n False]),
      demo_after db)"
proof -
  have keys: "keys_ok db" and found: "find_resource db (c_resourceId demo_command) = Some demo_resource"
      "find_receipt db ''alice'' (c_commandId demo_command) = None"
    using assms
    by (auto simp: keys_ok_def find_resource_def find_receipt_def demo_db_def empty_demo_def demo_resource_def)
  have "conflict_code demo_resource demo_command = None"
    by (simp add: conflict_code_def demo_resource_def demo_command_def)
  moreover have "apply_mutation demo_command db = Inr (db\<lparr>db_resources := [mutated 0 demo_command demo_resource]\<rparr>)"
    using assms
    by (auto simp: apply_mutation_def update_resource_def mutated_def demo_db_def empty_demo_def
        demo_resource_def demo_command_def)
  ultimately show ?thesis
    using found assms
    by (auto simp: execute_authorized_one [OF keys] execute_one_def demo_after_def demo_db_def empty_demo_def)
qed

theorem commands_take_effect_once_witness:
  "length (filter (\<lambda>e. ev_user e = ''alice'' \<and> ev_command e = c_commandId demo_command)
     (db_events (demo_after empty_demo))) = 1"
proof -
  have init: "db_init empty_demo"
    by (simp add: db_init_def empty_demo_def demo_db_def)
  have "(db_step demo_sha demo_sha Some)\<^sup>*\<^sup>* empty_demo (demo_after empty_demo)"
    by (rule r_into_rtranclp, rule db_step.execute, rule demo_execute) simp
  from commands_take_effect_once [OF init this, of "''alice''" "c_commandId demo_command"] show ?thesis
    by (simp add: demo_after_def find_receipt_def receipt_for_def)
qed



text \<open>C12. A command on an authorized, unanswered request is applied exactly when the resource still has
  the incarnation it names, is not deleted and has the expected version. Applying it sets the
  version to the expected one plus one, touches that resource alone, and adds one event and one
  receipt. Otherwise the conflict is recorded and no resource and no event changes.\<close>
theorem execute_outcome:
  assumes "db_inv db" "lockReplica sha db u b cred = Some (row, False)"
    and "lockActiveGrants db u [c_resourceId c]" "find_resource db (c_resourceId c) = Some r"
    and "find_receipt db u (c_commandId c) = None" "r_id r \<notin> gy_resource ` set (db_graveyard db)"
  shows "\<exists>res db'. executeCommands sha id db u b cred [c] n = (Inr (200, Exec_results [res]), db')
     \<and> (if r_incarnation r = c_resourceIncarnationId c \<and> r_deleted_at r = None
           \<and> r_version r = c_expectedRecordVersion c
        then sr_code res = Code_applied \<and> sr_current res = r_version r + 1
           \<and> db_resources db' = map (\<lambda>x. if r_id x = c_resourceId c then mutated (ps8_now db) c x else x)
                                  (db_resources db)
           \<and> db_events db' = db_events db @ [event_for u c]
           \<and> db_receipts db' = db_receipts db @ [applied_receipt sha u b c]
        else sr_code res = (if r_incarnation r \<noteq> c_resourceIncarnationId c then Stale_incarnation
                            else Optimistic_conflict)
           \<and> sr_current res = r_version r
           \<and> db_resources db' = db_resources db \<and> db_events db' = db_events db
           \<and> length (db_receipts db') = Suc (length (db_receipts db)))"
proof -
  have exec: "executeCommands sha id db u b cred [c] n = execute_one sha db u b c n"
    using execute_reduce [OF assms(2,3), of id n] execute_authorized_one [OF keys_okD [OF assms(1)]] by simp
  show ?thesis
  proof (cases "conflict_code r c")
    case None
    then have match: "r_incarnation r = c_resourceIncarnationId c \<and> r_deleted_at r = None
        \<and> r_version r = c_expectedRecordVersion c"
      by (auto simp: conflict_code_def split: if_splits)
    have "\<exists>db1. apply_mutation c db = Inr db1"
      using assms(4,6) match by (cases "c_type c") (auto simp: apply_mutation_def bury_def Let_def)
    then obtain db1 where m: "apply_mutation c db = Inr db1" ..
    show ?thesis
      unfolding exec
      using assms(4,5) None match m apply_mutation_Inr [OF m]
      by (auto simp: execute_one_def resultFromReceipt_def receipt_for_def)
  next
    case (Some code)
    then show ?thesis
      unfolding exec
      using assms(4,5)
      by (auto simp: execute_one_def conflict_code_def resultFromReceipt_def receipt_for_def Let_def
          split: if_splits)
  qed
qed

theorem execute_outcome_witness:
  "\<exists>res db'. executeCommands demo_sha id demo_db ''alice'' demo_binding ''aa'' [demo_command] 1
       = (Inr (200, Exec_results [res]), db') \<and> sr_code res = Code_applied \<and> sr_current res = 2"
proof -
  have "r_id demo_resource \<notin> gy_resource ` set (db_graveyard demo_db)"
    by (simp add: demo_db_def)
  from execute_outcome [OF demo_db_inv demo_lock demo_grant demo_find this, of 1] show ?thesis
    by (auto simp: demo_resource_def demo_command_def)
qed

text \<open>C13. Without an active grant on the target nothing is executed: no resource, event, replica or
  graveyard row changes, the answer is a denial or an identity conflict, and even a receipt of an
  earlier success is answered as denied while it stays as it was.\<close>
theorem no_grant_no_effect:
  assumes "\<not> lockActiveGrants db u (sort (map c_resourceId (c # cs)))"
    and "executeCommands sha after db u b cred (c # cs) n = (r, db')"
  shows "db_resources db' = db_resources db \<and> db_events db' = db_events db
     \<and> db_graveyard db' = db_graveyard db \<and> db_replicas db' = db_replicas db
     \<and> (\<forall>rc. find_receipt db u (c_commandId c) = Some rc \<longrightarrow> db' = db)
     \<and> (\<exists>status body. r = Inr (status, body) \<and> status \<noteq> 200
          \<and> (\<forall>rs. body = Exec_results rs \<longrightarrow> (\<forall>x \<in> set rs. sr_state x = Denied \<and> sr_code x = Command_denied)))"
  using assms
  by (auto simp: executeCommands_def deny_command_def Let_def deniedResultFromDurableReceipt_def
      split: option.splits if_splits)

theorem no_grant_no_effect_witness:
  "db_resources (snd (executeCommands demo_sha id (demo_db\<lparr>db_grants := []\<rparr>) ''alice'' demo_binding ''aa''
     [demo_command] 1)) = [demo_resource]"
proof -
  have "\<not> lockActiveGrants (demo_db\<lparr>db_grants := []\<rparr>) ''alice'' (sort (map c_resourceId [demo_command]))"
    by (simp add: lockActiveGrants_def granted_resources_def)
  from no_grant_no_effect [OF this surjective_pairing] show ?thesis
    by (simp add: demo_db_def)
qed

lemma find_update_replica:
  assumes "\<And>r. rp_id (f r) = rp_id r"
  shows "find_replica (update_replica k f db) k = map_option f (find_replica db k)"
proof -
  have "find_replica (update_replica k f db) k
      = map_option (\<lambda>r. if rp_id r = k then f r else r) (find_replica db k)"
    unfolding find_replica_def update_replica_def
    by (simp add: find_map_same [where g = "\<lambda>r. if rp_id r = k then f r else r"] assms)
  then show ?thesis
    by (cases "find_replica db k") (auto simp: find_replica_def dest: find_SomeD)
qed

lemma find_replica_rates [simp]: "find_replica (db\<lparr>db_rates := ws\<rparr>) k = find_replica db k"
  by (simp add: find_replica_def)

text \<open>The two ways a reset answers 200.\<close>

lemma resetReplica_200:
  assumes "resetReplica sha hmac db u b cred req = ((200, Session_body s), db1)"
  obtains row next_cred where "find_replica db (b_replicaId b) = Some row" "rp_user row = u" "rp_disabled_at row = None"
    "next_cred = rotatedCredential hmac (b_replicaId b) req (b_replicaEpoch b + 1)"
    "s = session_for b (b_replicaEpoch b + 1) next_cred"
    "reset_replayed sha row (b_replicaEpoch b + 1) req cred next_cred \<and> db1 = db
     \<or> credentialMatches (rp_credential_digest row) (sha cred)
       \<and> find_replica db1 (b_replicaId b) = Some (row\<lparr>rp_epoch := b_replicaEpoch b + 1,
           rp_previous_digest := Some (rp_credential_digest row), rp_credential_digest := sha next_cred,
           rp_staged_reset := Some req, rp_last_ack_at := None, rp_acknowledged_sequence := None\<rparr>)"
  using assms
  by (auto simp: resetReplica_def Let_def find_update_replica invalid_replica_def
      split: option.splits if_splits)

text \<open>C29. A reset can be retried after a lost response: the same request with the old credential answers
  the same session again and changes nothing. The new session authenticates with the rotated
  credential at the next epoch, and the old epoch is dead with any credential.\<close>
theorem reset_retry_is_idempotent:
  assumes "resetReplica sha hmac db u b cred req = ((200, Session_body s), db1)"
    and "\<And>row. find_replica db (b_replicaId b) = Some row \<Longrightarrow> rp_credential_digest row \<noteq> ''''"
  shows "resetReplica sha hmac db1 u b cred req = ((200, Session_body s), db1)
     \<and> (\<exists>row stale. lockReplica sha db1 u (replica_binding.truncate s) (b_credential s) = Some (row, stale))
     \<and> (\<forall>cred'. lockReplica sha db1 u b cred' = None)"
proof -
  obtain row next_cred where row: "find_replica db (b_replicaId b) = Some row" "rp_user row = u" "rp_disabled_at row = None"
    and s: "next_cred = rotatedCredential hmac (b_replicaId b) req (b_replicaEpoch b + 1)"
      "s = session_for b (b_replicaEpoch b + 1) next_cred"
    and how: "reset_replayed sha row (b_replicaEpoch b + 1) req cred next_cred \<and> db1 = db
     \<or> credentialMatches (rp_credential_digest row) (sha cred)
       \<and> find_replica db1 (b_replicaId b) = Some (row\<lparr>rp_epoch := b_replicaEpoch b + 1,
           rp_previous_digest := Some (rp_credential_digest row), rp_credential_digest := sha next_cred,
           rp_staged_reset := Some req, rp_last_ack_at := None, rp_acknowledged_sequence := None\<rparr>)"
    by (rule resetReplica_200 [OF assms(1)])
  have "\<exists>row'. find_replica db1 (b_replicaId b) = Some row' \<and> rp_user row' = u \<and> rp_disabled_at row' = None
      \<and> reset_replayed sha row' (b_replicaEpoch b + 1) req cred next_cred"
    using how row assms(2) [OF row(1)] by (auto simp: reset_replayed_def credentialMatches_def)
  then obtain row' where row': "find_replica db1 (b_replicaId b) = Some row'" "rp_user row' = u"
      "rp_disabled_at row' = None" "reset_replayed sha row' (b_replicaEpoch b + 1) req cred next_cred"
    by blast
  then show ?thesis
    by (auto simp: resetReplica_def Let_def s lockReplica_def session_for_def replica_binding.truncate_def
        reset_replayed_def)
qed

definition stale_demo :: database where
  "stale_demo = demo_db\<lparr>db_replicas := [demo_replica\<lparr>rp_last_ack_at := None, rp_acknowledged_sequence := None\<rparr>]\<rparr>"

theorem reset_retry_is_idempotent_witness:
  "\<exists>s db1. resetReplica demo_sha demo_sha stale_demo ''alice'' demo_binding ''aa'' ''req'' = ((200, Session_body s), db1)
     \<and> resetReplica demo_sha demo_sha db1 ''alice'' demo_binding ''aa'' ''req'' = ((200, Session_body s), db1)"
proof -
  have "\<exists>s db1. resetReplica demo_sha demo_sha stale_demo ''alice'' demo_binding ''aa'' ''req'' = ((200, Session_body s), db1)"
    by (simp add: resetReplica_def stale_demo_def demo_db_def demo_replica_def demo_binding_def find_replica_def
        reset_replayed_def credentialMatches_def demo_sha_def replica_stale_def ps8_replica_reset_required_def Let_def)
  then obtain s db1 where "resetReplica demo_sha demo_sha stale_demo ''alice'' demo_binding ''aa'' ''req''
      = ((200, Session_body s), db1)"
    by blast
  moreover from reset_retry_is_idempotent [OF this]
  have "resetReplica demo_sha demo_sha db1 ''alice'' demo_binding ''aa'' ''req'' = ((200, Session_body s), db1)"
    by (auto simp: stale_demo_def demo_db_def demo_replica_def demo_binding_def find_replica_def)
  ultimately show ?thesis
    by blast
qed

text \<open>\<open>n\<close> requests of one replica against the rate window while the clock stands still.\<close>

fun consume_run ::
  "(string \<Rightarrow> string) \<Rightarrow> database \<Rightarrow> string \<Rightarrow> replica_binding \<Rightarrow> string \<Rightarrow> nat \<Rightarrow> rate_outcome list"
where
  "consume_run sha db u b cred 0 = []"
| "consume_run sha db u b cred (Suc n) =
     (case consumeCommandRateWindow sha db u b cred of (r, db') \<Rightarrow> r # consume_run sha db' u b cred n)"

lemma lockReplica_rates [simp]: "lockReplica sha (db\<lparr>db_rates := ws\<rparr>) u b cred = lockReplica sha db u b cred"
  by (simp add: lockReplica_def replica_stale_def split: option.split)

lemma consume_run_open:
  assumes "lockReplica sha db u b cred = Some (row, False)" "find_rate db (b_replicaId b) = Some w"
    and "rw_epoch w = b_replicaEpoch b" "rw_started_at w = ps8_now db" "rw_count w = 64 - int k"
  shows "consume_run sha db u b cred n = replicate (min n k) Rate_accepted @ replicate (n - k) Rate_limited"
  using assms
proof (induction n arbitrary: db w k)
  case 0
  then show ?case by simp
next
  case (Suc n)
  have open': "\<not> window_expired db w (b_replicaEpoch b)"
    using Suc.prems(3,4) by (simp add: window_expired_def one_minute_def)
  show ?case
  proof (cases k)
    case 0
    then have "consumeCommandRateWindow sha db u b cred = (Rate_limited, db)"
      using Suc.prems open'
      by (simp add: consumeCommandRateWindow_def maxCommandRequestsPerMinute_def Let_def)
    then show ?thesis
      using Suc.IH [OF Suc.prems(1-4), of 0] Suc.prems(5) 0 by simp
  next
    case (Suc k')
    let ?w = "w\<lparr>rw_epoch := b_replicaEpoch b, rw_count := rw_count w + 1\<rparr>"
    let ?db = "db\<lparr>db_rates := map (\<lambda>x. if rw_replica x = b_replicaId b then ?w else x) (db_rates db)\<rparr>"
    have "rw_replica w = b_replicaId b"
      using Suc.prems(2) by (auto simp: find_rate_def dest: find_SomeD)
    then have "find_rate ?db (b_replicaId b) = Some ?w"
      using Suc.prems(2)
        find_map_same [of rw_replica "\<lambda>x. if rw_replica x = b_replicaId b then ?w else x" "b_replicaId b" "db_rates db"]
      by (simp add: find_rate_def)
    moreover have "consumeCommandRateWindow sha db u b cred = (Rate_accepted, ?db)"
      using Suc.prems open' Suc
      by (simp add: consumeCommandRateWindow_def maxCommandRequestsPerMinute_def Let_def)
    ultimately show ?thesis
      using Suc.IH [of ?db ?w k'] Suc.prems Suc by simp
  qed
qed

text \<open>The rate window admits exactly 64 requests: of any number of requests a replica sends while its
  window is open, starting without one, the first 64 are accepted and all others are limited.\<close>
theorem rate_window_admits_64:
  assumes "lockReplica sha db u b cred = Some (row, False)" "find_rate db (b_replicaId b) = None"
  shows "consume_run sha db u b cred n
     = replicate (min n 64) Rate_accepted @ replicate (n - 64) Rate_limited"
proof (cases n)
  case 0
  then show ?thesis by simp
next
  case (Suc m)
  let ?w = "\<lparr>rw_replica = b_replicaId b, rw_epoch = b_replicaEpoch b, rw_started_at = ps8_now db, rw_count = 1\<rparr>"
  let ?db = "db\<lparr>db_rates := db_rates db @ [?w]\<rparr>"
  have "consumeCommandRateWindow sha db u b cred = (Rate_accepted, ?db)"
    using assms by (simp add: consumeCommandRateWindow_def Let_def)
  moreover have "find_rate ?db (b_replicaId b) = Some ?w"
    using assms(2) by (simp add: find_rate_def find_append)
  then have "consume_run sha ?db u b cred m = replicate (min m 63) Rate_accepted @ replicate (m - 63) Rate_limited"
    using consume_run_open [of sha ?db u b cred row ?w 63] assms(1) by simp
  ultimately show ?thesis
    using Suc by simp
qed

theorem rate_window_admits_64_witness:
  "consume_run demo_sha demo_db ''alice'' demo_binding ''aa'' 66
     = replicate 64 Rate_accepted @ [Rate_limited, Rate_limited]"
  using rate_window_admits_64 [OF demo_lock, of 66]
  by (simp add: find_rate_def demo_db_def numeral_2_eq_2)

text \<open>Whatever order requests acquire and release command slots in, and however often a release is
  called, the counter equals the number of slots held and never leaves the range from 0 to 4.\<close>
theorem command_slots_bounded:
  assumes "slot_step\<^sup>*\<^sup>* \<lparr>concurrentCommandRequests = 0, released = []\<rparr> s"
  shows "concurrentCommandRequests s = int (length (filter Not (released s)))
     \<and> 0 \<le> concurrentCommandRequests s \<and> concurrentCommandRequests s \<le> 4"
  using slot_system.inv_reachable [OF refl assms] by (simp add: slots_ok_def maxConcurrentCommandRequests_def)

theorem command_slots_bounded_witness:
  "concurrentCommandRequests (releaseSlot 0 (releaseSlot 0
     (snd (acquireCommandSlot \<lparr>concurrentCommandRequests = 0, released = []\<rparr>)))) = 0"
proof -
  let ?start = "\<lparr>concurrentCommandRequests = 0, released = []\<rparr>"
  let ?s = "releaseSlot 0 (releaseSlot 0 (snd (acquireCommandSlot ?start)))"
  have "slot_step\<^sup>*\<^sup>* ?start ?s"
    by (meson slot_acquire slot_release rtranclp.rtrancl_into_rtrancl rtranclp.rtrancl_refl)
  from command_slots_bounded [OF this] show ?thesis
    by (simp add: releaseSlot_def acquireCommandSlot_def maxConcurrentCommandRequests_def)
qed

end
