(* ===== verification/Validator.thy ===== *)
theory Validator
  imports Text
begin

text \<open>
  The contract validator of the API client, \<open>packages/api-client/src/validator.ts\<close>. A schema is
  a dynamic value like any other. The recursion follows \<open>$ref\<close> into the table of component
  schemas and may not end, so \<open>validate\<close> takes fuel and \<open>None\<close> means it ran out; the fuel that is
  enough for the generated contract is settled in \<open>Contract_Schemas\<close>.

  The environment holds the component schemas, the meaning of \<open>new RegExp(p).test(s)\<close> (\<open>None\<close>
  where the constructor throws), whether \<open>Date.parse\<close> is finite, and the printing of numbers.
\<close>

section \<open>Dates\<close>

definition digits_val :: "string \<Rightarrow> int" where
  "digits_val s = foldl (\<lambda>acc c. acc * 10 + (of_char c - 48)) 0 s"

text \<open>The day number of ECMAScript's \<open>DayFromYear\<close>, the first day of each month, and \<open>Date.UTC\<close>.\<close>

definition DayFromYear :: "int \<Rightarrow> int" where
  "DayFromYear y = 365 * (y - 1970) + (y - 1969) div 4 - (y - 1901) div 100 + (y - 1601) div 400"

definition leap :: "int \<Rightarrow> bool" where
  "leap y = (y mod 4 = 0 \<and> (y mod 100 \<noteq> 0 \<or> y mod 400 = 0))"

definition month_start :: "bool \<Rightarrow> int \<Rightarrow> int" where
  "month_start l m = [0, 31, 59, 90, 120, 151, 181, 212, 243, 273, 304, 334, 365] ! nat m
     + (if l \<and> m \<ge> 2 then 1 else 0)"

definition date_UTC_day :: "int \<Rightarrow> int \<Rightarrow> int \<Rightarrow> int" where
  "date_UTC_day year month day =
     (let yr = (if 0 \<le> year \<and> year \<le> 99 then 1900 + year else year);
          ym = yr + month div 12; mn = month mod 12
      in DayFromYear ym + month_start (leap ym) mn + day - 1)"

text \<open>\<open>getUTCFullYear\<close>, \<open>getUTCMonth\<close> and \<open>getUTCDate\<close> of a day, as equations on the day number.\<close>

definition utc_year_is :: "int \<Rightarrow> int \<Rightarrow> bool" where
  "utc_year_is day y = (DayFromYear y \<le> day \<and> day < DayFromYear (y + 1))"

definition utc_month_is :: "int \<Rightarrow> int \<Rightarrow> int \<Rightarrow> bool" where
  "utc_month_is day y m = (0 \<le> m \<and> m \<le> 11 \<and> month_start (leap y) m \<le> day - DayFromYear y
     \<and> day - DayFromYear y < month_start (leap y) (m + 1))"

definition utc_date_is :: "int \<Rightarrow> int \<Rightarrow> int \<Rightarrow> int \<Rightarrow> bool" where
  "utc_date_is day y m d = (day - DayFromYear y - month_start (leap y) m + 1 = d)"

definition date_pattern :: "string \<Rightarrow> bool" where
  "date_pattern s = seq_match (replicate 4 is_digit @ [\<lambda>c. c = CHR ''-''] @ replicate 2 is_digit
     @ [\<lambda>c. c = CHR ''-''] @ replicate 2 is_digit) s"

definition validDate :: "string \<Rightarrow> bool" where
  "validDate s =
     (if \<not> date_pattern s then False
      else
        let year = digits_val (take 4 s); month = digits_val (take 2 (drop 5 s));
            day = digits_val (drop 8 s); date = date_UTC_day year (month - 1) day
        in utc_year_is date year \<and> utc_month_is date year (month - 1) \<and> utc_date_is date year (month - 1) day)"

section \<open>Formats\<close>

definition is_hex :: "char \<Rightarrow> bool" where
  "is_hex c = (is_hex_lower c \<or> (CHR ''A'' \<le> c \<and> c \<le> CHR ''F''))"

definition any_uuid :: "string \<Rightarrow> bool" where
  "any_uuid s = seq_match (replicate 8 is_hex @ [\<lambda>c. c = CHR ''-''] @ replicate 4 is_hex @ [\<lambda>c. c = CHR ''-'']
     @ replicate 4 is_hex @ [\<lambda>c. c = CHR ''-''] @ replicate 4 is_hex @ [\<lambda>c. c = CHR ''-'']
     @ replicate 12 is_hex) s"

definition clock_pattern :: "(char \<Rightarrow> bool) list" where
  "clock_pattern = replicate 2 is_digit @ [\<lambda>c. c = CHR '':''] @ replicate 2 is_digit"

text \<open>The optional fraction and the zone that end a date-time.\<close>

definition drop_fraction :: "string \<Rightarrow> string" where
  "drop_fraction s =
     (case s of
        c # r \<Rightarrow> if c = CHR ''.'' \<and> takeWhile is_digit r \<noteq> [] then dropWhile is_digit r else s
      | [] \<Rightarrow> s)"

definition validDateTime :: "(string \<Rightarrow> bool) \<Rightarrow> string \<Rightarrow> bool" where
  "validDateTime dp s =
     (let day = take 10 s; t = drop 10 s; clock = take 8 (drop 1 t); zone = drop_fraction (drop 9 t) in
      date_pattern day \<and> length t \<ge> 9 \<and> hd t = CHR ''T''
      \<and> seq_match (clock_pattern @ [\<lambda>c. c = CHR '':''] @ replicate 2 is_digit) clock
      \<and> (zone = ''Z'' \<or> seq_match ([\<lambda>c. c = CHR ''+'' \<or> c = CHR ''-''] @ clock_pattern) zone)
      \<and> validDate day
      \<and> digits_val (take 2 clock) \<le> 23 \<and> digits_val (take 2 (drop 3 clock)) \<le> 59
      \<and> digits_val (drop 6 clock) \<le> 59
      \<and> (zone \<noteq> ''Z'' \<longrightarrow> digits_val (take 2 (drop 1 zone)) \<le> 23 \<and> digits_val (drop 4 zone) \<le> 59)
      \<and> dp s)"

definition validEmail :: "string \<Rightarrow> bool" where
  "validEmail s =
     (let name = takeWhile (\<lambda>c. c \<noteq> CHR ''@'') s; rest = dropWhile (\<lambda>c. c \<noteq> CHR ''@'') s; host = tl rest in
      name \<noteq> [] \<and> rest \<noteq> [] \<and> CHR ''@'' \<notin> set host \<and> list_all (\<lambda>c. \<not> js_space c) s
      \<and> list_ex (\<lambda>i. 0 < i \<and> i + 1 < length host \<and> host ! i = CHR ''.'') [0..<length host]
      \<and> length s \<le> 320)"

definition validFormat :: "(string \<Rightarrow> bool) \<Rightarrow> string \<Rightarrow> string \<Rightarrow> bool" where
  "validFormat dp format s =
     (if format = ''uuid'' then any_uuid s
      else if format = ''date'' then validDate s
      else if format = ''date-time'' then validDateTime dp s
      else if format = ''email'' then validEmail s
      else False)"

section \<open>Validation\<close>

datatype validation_mode = Request | Response

datatype validation_exn = SchemaValidationError string | Other_exception

type_synonym validation = "(validation_exn + unit) option"

record validator_env =
  ve_schemas :: "(string \<times> jsval) list"
  ve_pattern :: "string \<Rightarrow> string \<Rightarrow> bool option"
  ve_date_parse :: "string \<Rightarrow> bool"
  ve_num_str :: "jsnum \<Rightarrow> string"

abbreviation schema_error :: "string \<Rightarrow> validation" where
  "schema_error pointer \<equiv> Some (Inl (SchemaValidationError pointer))"

abbreviation schema_ok :: validation where
  "schema_ok \<equiv> Some (Inr ())"

definition check :: "bool \<Rightarrow> string \<Rightarrow> validation \<Rightarrow> validation" where
  "check b pointer k = (if b then k else schema_error pointer)"

text \<open>Statements in sequence: stop at the first that throws or does not end.\<close>

definition andThen :: "validation \<Rightarrow> validation \<Rightarrow> validation" where
  "andThen m k = (case m of Some (Inr _) \<Rightarrow> k | _ \<Rightarrow> m)"

fun each :: "('a \<Rightarrow> validation) \<Rightarrow> 'a list \<Rightarrow> validation" where
  "each f [] = schema_ok"
| "each f (x # xs) = andThen (f x) (each f xs)"

text \<open>The loop over \<open>anyOf\<close>: the first candidate that does not throw a validation error decides.\<close>

fun any_candidate :: "('a \<Rightarrow> validation) \<Rightarrow> string \<Rightarrow> 'a list \<Rightarrow> validation" where
  "any_candidate f pointer [] = schema_error pointer"
| "any_candidate f pointer (x # xs) =
     (case f x of
        Some (Inl (SchemaValidationError _)) \<Rightarrow> any_candidate f pointer xs
      | r \<Rightarrow> r)"

definition asSchema :: "jsval \<Rightarrow> string \<Rightarrow> ((string \<times> jsval) list \<Rightarrow> validation) \<Rightarrow> validation" where
  "asSchema v pointer k = (if isRecord v then k (props_of v) else schema_error pointer)"

text \<open>\<open>Object.is\<close>: two objects of different origin are never the same.\<close>

fun object_is :: "jsval \<Rightarrow> jsval \<Rightarrow> bool" where
  "object_is (JArr vs) w = False"
| "object_is (JObj ps) w = False"
| "object_is JFun w = False"
| "object_is v w = (v = w)"

fun is_num :: "jsval \<Rightarrow> bool" where
  "is_num (JNum n) = True"
| "is_num _ = False"

fun num_of :: "jsval \<Rightarrow> jsnum" where
  "num_of (JNum n) = n"
| "num_of _ = NaN"

definition validateNumber :: "(string \<times> jsval) list \<Rightarrow> jsnum \<Rightarrow> string \<Rightarrow> validation" where
  "validateNumber schema n pointer =
     (let lo = obj_get schema ''minimum''; hi = obj_get schema ''maximum'' in
      check (\<not> (is_num lo \<and> num_lt n (num_of lo))) pointer
      (check (\<not> (is_num hi \<and> num_lt (num_of hi) n)) pointer schema_ok))"

definition validateString :: "validator_env \<Rightarrow> (string \<times> jsval) list \<Rightarrow> jsval \<Rightarrow> string \<Rightarrow> validation" where
  "validateString env schema v pointer =
     (let s = str_of v; codePoints = of_int_num (int (length s));
          lo = obj_get schema ''minLength''; hi = obj_get schema ''maxLength'';
          pattern = obj_get schema ''pattern''; format = obj_get schema ''format'' in
      check (is_str v) pointer
      (check (\<not> (is_num lo \<and> num_lt codePoints (num_of lo))) pointer
      (check (\<not> (is_num hi \<and> num_lt (num_of hi) codePoints)) pointer
      (andThen (if is_str pattern then
                  (case ve_pattern env (str_of pattern) s of
                     None \<Rightarrow> Some (Inl Other_exception)
                   | Some matches \<Rightarrow> check matches pointer schema_ok)
                else schema_ok)
      (check (\<not> (is_str format \<and> \<not> validFormat (ve_date_parse env) (str_of format) s)) pointer schema_ok)))))"

definition check_required ::
  "validator_env \<Rightarrow> (string \<times> jsval) list \<Rightarrow> string \<Rightarrow> jsval list \<Rightarrow> validation"
where
  "check_required env ps pointer =
     each (\<lambda>key. if is_str key \<and> obj_in (str_of key) ps then schema_ok
                 else case js_String (ve_num_str env) key of
                        None \<Rightarrow> Some (Inl Other_exception)
                      | Some s \<Rightarrow> schema_error (pointer @ ''/'' @ s))"

text \<open>\<open>rec\<close> is the validator with the fuel that is left.\<close>

definition validateObject ::
  "validator_env \<Rightarrow> ((string \<times> jsval) list \<Rightarrow> jsval \<Rightarrow> validation_mode \<Rightarrow> string \<Rightarrow> validation)
     \<Rightarrow> (string \<times> jsval) list \<Rightarrow> jsval \<Rightarrow> validation_mode \<Rightarrow> string \<Rightarrow> validation"
where
  "validateObject env rec schema v mode pointer =
     (let properties = props_of (obj_get schema ''properties'');
          required = arr_of (obj_get schema ''required'');
          extra = obj_get schema ''additionalProperties'' in
      check (isRecord v) pointer
      (andThen (check_required env (props_of v) pointer required)
      (each (\<lambda>(key, w).
               let propertySchema = obj_get properties key; here = pointer @ ''/'' @ key in
               if truthy propertySchema then asSchema propertySchema here (\<lambda>s. rec s w mode here)
               else if truthy extra \<and> (isRecord extra \<or> is_arr extra)
               then asSchema extra here (\<lambda>s. rec s w mode here)
               else check (\<not> (mode = Request \<and> extra = JBool False)) here schema_ok)
         (props_of v))))"

definition ref_prefix :: string where
  "ref_prefix = ''#/components/schemas/''"

primrec validate ::
  "validator_env \<Rightarrow> nat \<Rightarrow> (string \<times> jsval) list \<Rightarrow> jsval \<Rightarrow> validation_mode \<Rightarrow> string \<Rightarrow> validation"
where
  "validate env 0 schema v mode pointer = None"
| "validate env (Suc n) schema v mode pointer =
     (let ref = obj_get schema ''$ref''; anyOf = obj_get schema ''anyOf'';
          kind = obj_get schema ''type'' in
      if is_str ref then
        if take (length ref_prefix) (str_of ref) \<noteq> ref_prefix then schema_error pointer
        else
          let target = obj_get (ve_schemas env) (drop (length ref_prefix) (str_of ref)) in
          check (truthy target) pointer (asSchema target pointer (\<lambda>s. validate env n s v mode pointer))
      else if is_arr anyOf then
        any_candidate (\<lambda>c. asSchema c pointer (\<lambda>s. validate env n s v mode pointer)) pointer (arr_of anyOf)
      else
        check (\<not> (obj_in ''const'' schema \<and> \<not> object_is v (obj_get schema ''const''))) pointer
        (check (\<not> (is_arr (obj_get schema ''enum'')
                  \<and> \<not> list_ex (\<lambda>c. object_is c v) (arr_of (obj_get schema ''enum'')))) pointer
        (if kind = JStr ''null'' then check (v = JNull) pointer schema_ok
         else if kind = JStr ''boolean'' then check (is_bool v) pointer schema_ok
         else if kind = JStr ''integer''
         then check (val_isSafeInteger v) pointer (validateNumber schema (num_of v) pointer)
         else if kind = JStr ''number''
         then check (is_num v \<and> num_isFinite (num_of v)) pointer (validateNumber schema (num_of v) pointer)
         else if kind = JStr ''string'' then validateString env schema v pointer
         else if kind = JStr ''array''
         then check (is_arr v \<and> truthy (obj_get schema ''items'')) pointer
                (each (\<lambda>(i, item).
                         let here = pointer @ ''/'' @ nat_str i in
                         asSchema (obj_get schema ''items'') here (\<lambda>s. validate env n s item mode here))
                   (enumerate 0 (arr_of v)))
         else if kind = JStr ''object'' then validateObject env (validate env n) schema v mode pointer
         else schema_error pointer)))"

definition assertValidSchema ::
  "validator_env \<Rightarrow> nat \<Rightarrow> jsval \<Rightarrow> jsval \<Rightarrow> validation_mode \<Rightarrow> validation"
where
  "assertValidSchema env n schema v mode = asSchema schema ''$'' (\<lambda>s. validate env n s v mode ''$'')"

section \<open>Fuel\<close>

lemma andThen_None: "andThen m k = None \<longleftrightarrow> m = None \<or> (m = schema_ok \<and> k = None)"
  by (auto simp: andThen_def split: option.splits sum.splits)

lemma each_not_None: "(\<And>x. x \<in> set xs \<Longrightarrow> f x \<noteq> None) \<Longrightarrow> each f xs \<noteq> None"
  by (induction xs) (auto simp: andThen_None)

lemma any_candidate_not_None: "(\<And>x. x \<in> set xs \<Longrightarrow> f x \<noteq> None) \<Longrightarrow> any_candidate f p xs \<noteq> None"
  by (induction xs) (auto split: option.splits sum.splits validation_exn.splits)

lemma check_not_None: "k \<noteq> None \<Longrightarrow> check b p k \<noteq> None"
  by (simp add: check_def)

lemma andThen_not_None: "m \<noteq> None \<Longrightarrow> k \<noteq> None \<Longrightarrow> andThen m k \<noteq> None"
  by (simp add: andThen_None)

lemma leaf_not_None:
  "validateNumber s n p \<noteq> None" "validateString env s v p \<noteq> None" "check_required env ps p ks \<noteq> None"
proof -
  show "validateNumber s n p \<noteq> None"
    unfolding validateNumber_def Let_def by (intro check_not_None) simp
  have "(if is_str pat then (case ve_pattern env (str_of pat) t of None \<Rightarrow> Some (Inl Other_exception)
      | Some matches \<Rightarrow> check matches p schema_ok) else schema_ok) \<noteq> None" for pat t
    by (simp add: check_def split: option.split)
  then show "validateString env s v p \<noteq> None"
    unfolding validateString_def Let_def by (intro check_not_None andThen_not_None) simp_all
  show "check_required env ps p ks \<noteq> None"
    unfolding check_required_def by (rule each_not_None) (simp split: option.split)
qed

text \<open>
  The schemas one call may recurse into, whatever the value: the reference's target, the
  candidates of \<open>anyOf\<close>, or the items and properties (an undeclared property \<open>__proto__\<close> reads the
  empty object).
\<close>

definition visited :: "validator_env \<Rightarrow> (string \<times> jsval) list \<Rightarrow> jsval list" where
  "visited env schema =
     (let ref = obj_get schema ''$ref''; anyOf = obj_get schema ''anyOf'' in
      if is_str ref then [obj_get (ve_schemas env) (drop (length ref_prefix) (str_of ref))]
      else if is_arr anyOf then arr_of anyOf
      else if obj_get schema ''type'' = JStr ''array'' then [obj_get schema ''items'']
      else if obj_get schema ''type'' = JStr ''object''
      then obj_get schema ''additionalProperties'' # JObj []
           # map snd (props_of (obj_get schema ''properties''))
      else [])"

text \<open>\<open>n\<close> bounds the height of the schema with its references followed.\<close>

primrec height_ok :: "validator_env \<Rightarrow> nat \<Rightarrow> (string \<times> jsval) list \<Rightarrow> bool" where
  "height_ok env 0 schema = False"
| "height_ok env (Suc n) schema =
     list_all (\<lambda>c. isRecord c \<longrightarrow> height_ok env n (props_of c)) (visited env schema)"

lemma height_ok_visited: "height_ok env (Suc n) s \<Longrightarrow> JObj ps \<in> set (visited env s) \<Longrightarrow> height_ok env n ps"
  by (auto simp: list_all_iff)

lemma obj_get_cases: "obj_get ps k \<in> set (map snd ps) \<or> obj_get ps k \<in> {JUndef, JFun, JObj []}"
  by (auto simp: obj_get_def proto_get_def dest: map_of_SomeD split: option.splits intro: rev_image_eqI)

lemma asSchema_not_None: "(\<And>ps. v = JObj ps \<Longrightarrow> k ps \<noteq> None) \<Longrightarrow> asSchema v p k \<noteq> None"
  by (cases v) (auto simp: asSchema_def)

lemma if_not_None: "(b \<Longrightarrow> x \<noteq> None) \<Longrightarrow> (\<not> b \<Longrightarrow> y \<noteq> None) \<Longrightarrow> (if b then x else y) \<noteq> None"
  by simp

lemma validateObject_not_None:
  assumes "\<And>ps w p. JObj ps \<in> set (map snd (props_of (obj_get schema ''properties''))) \<union>
      {JObj [], obj_get schema ''additionalProperties''} \<Longrightarrow> rec ps w mode p \<noteq> None"
  shows "validateObject env rec schema v mode p \<noteq> None"
proof -
  have declared: "asSchema (obj_get (props_of (obj_get schema ''properties'')) key) here (\<lambda>s. rec s w mode here) \<noteq> None"
    for key here w
  proof (rule asSchema_not_None)
    fix ps
    assume "obj_get (props_of (obj_get schema ''properties'')) key = JObj ps"
    then show "rec ps w mode here \<noteq> None"
      using obj_get_cases [of "props_of (obj_get schema ''properties'')" key] assms [of ps] by auto
  qed
  have extra: "asSchema (obj_get schema ''additionalProperties'') here (\<lambda>s. rec s w mode here) \<noteq> None" for here w
    by (rule asSchema_not_None) (simp add: assms)
  show ?thesis
    unfolding validateObject_def Let_def case_prod_unfold
    by (intro check_not_None andThen_not_None leaf_not_None each_not_None if_not_None declared extra) simp
qed

lemma validate_enough_fuel:
  "height_ok env n schema \<Longrightarrow> validate env n schema v mode p \<noteq> None"
proof (induction n arbitrary: schema v p)
  case 0
  then show ?case by simp
next
  case (Suc n)
  have rec: "validate env n ps w mode q \<noteq> None" if "JObj ps \<in> set (visited env schema)" for ps w q
    using Suc.IH height_ok_visited [OF Suc.prems that] by blast
  show ?case
  proof (cases "is_str (obj_get schema ''$ref'') \<or> is_arr (obj_get schema ''anyOf'')")
    case True
    have ref: "asSchema (obj_get (ve_schemas env) (drop (length ref_prefix) (str_of (obj_get schema ''$ref'')))) p
        (\<lambda>s. validate env n s v mode p) \<noteq> None" if "is_str (obj_get schema ''$ref'')"
      by (rule asSchema_not_None, rule rec) (use that in \<open>simp add: visited_def\<close>)
    have alt: "asSchema c p (\<lambda>s. validate env n s v mode p) \<noteq> None"
      if "\<not> is_str (obj_get schema ''$ref'')" "is_arr (obj_get schema ''anyOf'')"
        "c \<in> set (arr_of (obj_get schema ''anyOf''))" for c
      by (rule asSchema_not_None, rule rec) (use that in \<open>simp add: visited_def\<close>)
    show ?thesis
      using True unfolding validate.simps Let_def
      by (intro if_not_None check_not_None any_candidate_not_None ref alt) simp_all
  next
    case False
    have obj: "validateObject env (validate env n) schema v mode p \<noteq> None"
      if "obj_get schema ''type'' = JStr ''object''"
      by (rule validateObject_not_None, rule rec) (use False that in \<open>auto simp: visited_def\<close>)
    have items: "asSchema (obj_get schema ''items'') q (\<lambda>s. validate env n s w mode q) \<noteq> None"
      if "obj_get schema ''type'' = JStr ''array''" for q w
      by (rule asSchema_not_None, rule rec) (use False that in \<open>simp add: visited_def\<close>)
    show ?thesis
      using False unfolding validate.simps Let_def case_prod_unfold
      by (intro if_not_None check_not_None each_not_None leaf_not_None obj items) simp_all
  qed
qed

text \<open>More fuel never changes a result: the combinators are monotone in the flat order.\<close>

definition below :: "validation \<Rightarrow> validation \<Rightarrow> bool" where
  "below a b = (a = None \<or> a = b)"

lemma below_refl [simp]: "below a a"
  by (simp add: below_def)

lemma below_check: "below k k' \<Longrightarrow> below (check b p k) (check b p k')"
  by (simp add: check_def)

lemma below_if: "below x x' \<Longrightarrow> below y y' \<Longrightarrow> below (if b then x else y) (if b then x' else y')"
  by simp

lemma below_andThen: "below m m' \<Longrightarrow> below k k' \<Longrightarrow> below (andThen m k) (andThen m' k')"
  by (auto simp: below_def andThen_def split: option.splits sum.splits)

lemma below_asSchema: "(\<And>s. below (k s) (k' s)) \<Longrightarrow> below (asSchema v p k) (asSchema v p k')"
  by (simp add: asSchema_def)

lemma below_each: "(\<And>x. below (f x) (g x)) \<Longrightarrow> below (each f xs) (each g xs)"
  by (induction xs) (simp_all add: below_andThen)

lemma below_any: "(\<And>x. below (f x) (g x)) \<Longrightarrow> below (any_candidate f p xs) (any_candidate g p xs)"
proof (induction xs)
  case Nil
  then show ?case by simp
next
  case (Cons x xs)
  then have "below (f x) (g x)" "below (any_candidate f p xs) (any_candidate g p xs)"
    by simp_all
  then show ?case
    by (cases "f x"; cases "g x")
      (auto simp: below_def split: sum.splits validation_exn.splits)
qed

lemmas below_intros = below_refl below_check below_if below_andThen below_asSchema below_each below_any

lemma below_validateObject:
  "(\<And>s w p. below (f s w mode p) (g s w mode p)) \<Longrightarrow>
   below (validateObject env f schema v mode p) (validateObject env g schema v mode p)"
  unfolding validateObject_def Let_def case_prod_unfold by (intro below_intros)

lemma below_step:
  assumes "\<And>s w q. below (validate env n s w mode q) (validate env m s w mode q)"
  shows "below (validate env (Suc n) schema v mode p) (validate env (Suc m) schema v mode p)"
  unfolding validate.simps Let_def case_prod_unfold
  by (intro below_intros below_validateObject assms)

lemma below_Suc: "below (validate env n schema v mode p) (validate env (Suc n) schema v mode p)"
proof (induction n arbitrary: schema v p)
  case 0
  then show ?case by (simp add: below_def)
next
  case (Suc n)
  show ?case
    by (rule below_step) (rule Suc.IH)
qed

lemma validate_more_fuel:
  assumes "validate env n schema v mode p = Some r" "n \<le> m"
  shows "validate env m schema v mode p = Some r"
  using assms(2)
proof (induction m rule: dec_induct)
  case base
  then show ?case by (rule assms(1))
next
  case (step k)
  then show ?case
    using below_Suc [of env k schema v mode p] by (simp add: below_def)
qed

end
