(* ===== verification/Contract_Schemas.thy ===== *)
theory Contract_Schemas
  imports Validator
begin

text \<open>
  The component schemas of the contract, as \<open>packages/api-client/generated/client.ts\<close> lists them, and
  the bound on their height: no chain of references, candidates, items and properties is longer
  than seven, so seven units of fuel are enough for every value.
\<close>

section \<open>Schemas\<close>

definition schema_CapabilitiesResponse :: jsval where
  "schema_CapabilitiesResponse =
    JObj [
      (''additionalProperties'', JBool False),
      (''properties'', JObj [
        (''capabilities'', JObj [
          (''items'', JObj [(''$ref'', JStr ''#/components/schemas/Capability'')]),
          (''title'', JStr ''Capabilities''),
          (''type'', JStr ''array'')]),
        (''schema_version'', JObj [
          (''const'', JStr ''1''),
          (''title'', JStr ''Schema Version''),
          (''type'', JStr ''string'')])]),
      (''required'', JArr [JStr ''schema_version'', JStr ''capabilities'']),
      (''title'', JStr ''CapabilitiesResponse''),
      (''type'', JStr ''object'')]"

definition schema_Capability :: jsval where
  "schema_Capability =
    JObj [
      (''additionalProperties'', JBool False),
      (''properties'', JObj [
        (''key'', JObj [(''title'', JStr ''Key''), (''type'', JStr ''string'')]),
        (''status'', JObj [
          (''enum'', JArr [JStr ''available'', JStr ''unavailable'']),
          (''title'', JStr ''Status''),
          (''type'', JStr ''string'')])]),
      (''required'', JArr [JStr ''key'', JStr ''status'']),
      (''title'', JStr ''Capability''),
      (''type'', JStr ''object'')]"

definition schema_CommandEntityVersion :: jsval where
  "schema_CommandEntityVersion =
    JObj [
      (''additionalProperties'', JBool False),
      (''properties'', JObj [
        (''entity_id'', JObj [
          (''format'', JStr ''uuid''),
          (''title'', JStr ''Entity Id''),
          (''type'', JStr ''string'')]),
        (''entity_type'', JObj [
          (''const'', JStr ''journey''),
          (''title'', JStr ''Entity Type''),
          (''type'', JStr ''string'')]),
        (''record_version'', JObj [
          (''minimum'', JInt 1),
          (''title'', JStr ''Record Version''),
          (''type'', JStr ''integer'')])]),
      (''required'', JArr [JStr ''entity_type'', JStr ''entity_id'', JStr ''record_version'']),
      (''title'', JStr ''CommandEntityVersion''),
      (''type'', JStr ''object'')]"

definition schema_CommandVersionSupport :: jsval where
  "schema_CommandVersionSupport =
    JObj [
      (''additionalProperties'', JBool False),
      (''properties'', JObj [
        (''command_type'', JObj [
          (''maxLength'', JInt 120),
          (''minLength'', JInt 1),
          (''pattern'', JStr ''^[a-z][a-z0-9_.-]*$''),
          (''title'', JStr ''Command Type''),
          (''type'', JStr ''string'')]),
        (''current'', JObj [(''minimum'', JInt 1), (''title'', JStr ''Current''), (''type'', JStr ''integer'')]),
        (''maximum_supported'', JObj [
          (''minimum'', JInt 1),
          (''title'', JStr ''Maximum Supported''),
          (''type'', JStr ''integer'')]),
        (''minimum_supported'', JObj [
          (''minimum'', JInt 1),
          (''title'', JStr ''Minimum Supported''),
          (''type'', JStr ''integer'')])]),
      (''required'', JArr [
        JStr ''current'',
        JStr ''minimum_supported'',
        JStr ''maximum_supported'',
        JStr ''command_type'']),
      (''title'', JStr ''CommandVersionSupport''),
      (''type'', JStr ''object'')]"

definition schema_ContractDiscoveryResponse :: jsval where
  "schema_ContractDiscoveryResponse =
    JObj [
      (''additionalProperties'', JBool False),
      (''properties'', JObj [
        (''api'', JObj [(''$ref'', JStr ''#/components/schemas/SupportedVersionRange'')]),
        (''commands'', JObj [
          (''items'', JObj [(''$ref'', JStr ''#/components/schemas/CommandVersionSupport'')]),
          (''title'', JStr ''Commands''),
          (''type'', JStr ''array'')]),
        (''schema_version'', JObj [
          (''const'', JStr ''1''),
          (''title'', JStr ''Schema Version''),
          (''type'', JStr ''string'')])]),
      (''required'', JArr [JStr ''schema_version'', JStr ''api'', JStr ''commands'']),
      (''title'', JStr ''ContractDiscoveryResponse''),
      (''type'', JStr ''object'')]"

definition schema_ErrorBody :: jsval where
  "schema_ErrorBody =
    JObj [
      (''additionalProperties'', JBool False),
      (''properties'', JObj [
        (''code'', JObj [(''title'', JStr ''Code''), (''type'', JStr ''string'')]),
        (''details'', JObj [
          (''additionalProperties'', JBool True),
          (''title'', JStr ''Details''),
          (''type'', JStr ''object'')]),
        (''message'', JObj [(''title'', JStr ''Message''), (''type'', JStr ''string'')]),
        (''request_id'', JObj [(''title'', JStr ''Request Id''), (''type'', JStr ''string'')])]),
      (''required'', JArr [JStr ''code'', JStr ''message'', JStr ''details'', JStr ''request_id'']),
      (''title'', JStr ''ErrorBody''),
      (''type'', JStr ''object'')]"

definition schema_ErrorResponse :: jsval where
  "schema_ErrorResponse =
    JObj [
      (''additionalProperties'', JBool False),
      (''properties'', JObj [(''error'', JObj [(''$ref'', JStr ''#/components/schemas/ErrorBody'')])]),
      (''required'', JArr [JStr ''error'']),
      (''title'', JStr ''ErrorResponse''),
      (''type'', JStr ''object'')]"

definition schema_JourneyCreate :: jsval where
  "schema_JourneyCreate =
    JObj [
      (''additionalProperties'', JBool False),
      (''properties'', JObj [
        (''end_date'', JObj [
          (''anyOf'', JArr [
            JObj [(''format'', JStr ''date''), (''type'', JStr ''string'')],
            JObj [(''type'', JStr ''null'')]]),
          (''title'', JStr ''End Date'')]),
        (''id'', JObj [
          (''anyOf'', JArr [
            JObj [(''format'', JStr ''uuid''), (''type'', JStr ''string'')],
            JObj [(''type'', JStr ''null'')]]),
          (''title'', JStr ''Id'')]),
        (''name'', JObj [
          (''maxLength'', JInt 200),
          (''minLength'', JInt 1),
          (''title'', JStr ''Name''),
          (''type'', JStr ''string'')]),
        (''start_date'', JObj [
          (''anyOf'', JArr [
            JObj [(''format'', JStr ''date''), (''type'', JStr ''string'')],
            JObj [(''type'', JStr ''null'')]]),
          (''title'', JStr ''Start Date'')])]),
      (''required'', JArr [JStr ''name'']),
      (''title'', JStr ''JourneyCreate''),
      (''type'', JStr ''object'')]"

definition schema_JourneyListResponse :: jsval where
  "schema_JourneyListResponse =
    JObj [
      (''additionalProperties'', JBool False),
      (''properties'', JObj [
        (''items'', JObj [
          (''items'', JObj [(''$ref'', JStr ''#/components/schemas/JourneyResponse'')]),
          (''title'', JStr ''Items''),
          (''type'', JStr ''array'')])]),
      (''required'', JArr [JStr ''items'']),
      (''title'', JStr ''JourneyListResponse''),
      (''type'', JStr ''object'')]"

definition schema_JourneyResponse :: jsval where
  "schema_JourneyResponse =
    JObj [
      (''additionalProperties'', JBool False),
      (''properties'', JObj [
        (''created_at'', JObj [
          (''format'', JStr ''date-time''),
          (''title'', JStr ''Created At''),
          (''type'', JStr ''string'')]),
        (''end_date'', JObj [
          (''anyOf'', JArr [
            JObj [(''format'', JStr ''date''), (''type'', JStr ''string'')],
            JObj [(''type'', JStr ''null'')]]),
          (''title'', JStr ''End Date'')]),
        (''id'', JObj [(''format'', JStr ''uuid''), (''title'', JStr ''Id''), (''type'', JStr ''string'')]),
        (''name'', JObj [(''title'', JStr ''Name''), (''type'', JStr ''string'')]),
        (''record_version'', JObj [(''title'', JStr ''Record Version''), (''type'', JStr ''integer'')]),
        (''start_date'', JObj [
          (''anyOf'', JArr [
            JObj [(''format'', JStr ''date''), (''type'', JStr ''string'')],
            JObj [(''type'', JStr ''null'')]]),
          (''title'', JStr ''Start Date'')]),
        (''status'', JObj [
          (''enum'', JArr [JStr ''planning'', JStr ''active'', JStr ''completed'', JStr ''archived'']),
          (''title'', JStr ''Status''),
          (''type'', JStr ''string'')]),
        (''updated_at'', JObj [
          (''format'', JStr ''date-time''),
          (''title'', JStr ''Updated At''),
          (''type'', JStr ''string'')])]),
      (''required'', JArr [
        JStr ''id'',
        JStr ''name'',
        JStr ''start_date'',
        JStr ''end_date'',
        JStr ''status'',
        JStr ''record_version'',
        JStr ''created_at'',
        JStr ''updated_at'']),
      (''title'', JStr ''JourneyResponse''),
      (''type'', JStr ''object'')]"

definition schema_JourneyUpdate :: jsval where
  "schema_JourneyUpdate =
    JObj [
      (''additionalProperties'', JBool False),
      (''properties'', JObj [
        (''end_date'', JObj [
          (''anyOf'', JArr [
            JObj [(''format'', JStr ''date''), (''type'', JStr ''string'')],
            JObj [(''type'', JStr ''null'')]]),
          (''title'', JStr ''End Date'')]),
        (''expected_record_version'', JObj [
          (''minimum'', JInt 1),
          (''title'', JStr ''Expected Record Version''),
          (''type'', JStr ''integer'')]),
        (''name'', JObj [
          (''maxLength'', JInt 200),
          (''minLength'', JInt 1),
          (''title'', JStr ''Name''),
          (''type'', JStr ''string'')]),
        (''start_date'', JObj [
          (''anyOf'', JArr [
            JObj [(''format'', JStr ''date''), (''type'', JStr ''string'')],
            JObj [(''type'', JStr ''null'')]]),
          (''title'', JStr ''Start Date'')]),
        (''status'', JObj [
          (''enum'', JArr [JStr ''planning'', JStr ''active'', JStr ''completed'', JStr ''archived'']),
          (''title'', JStr ''Status''),
          (''type'', JStr ''string'')])]),
      (''required'', JArr [JStr ''name'', JStr ''expected_record_version'', JStr ''status'']),
      (''title'', JStr ''JourneyUpdate''),
      (''type'', JStr ''object'')]"

definition schema_JourneyUpdateCommand :: jsval where
  "schema_JourneyUpdateCommand =
    JObj [
      (''additionalProperties'', JBool False),
      (''properties'', JObj [
        (''command_id'', JObj [
          (''format'', JStr ''uuid''),
          (''title'', JStr ''Command Id''),
          (''type'', JStr ''string'')]),
        (''command_type'', JObj [
          (''const'', JStr ''journey.update''),
          (''title'', JStr ''Command Type''),
          (''type'', JStr ''string'')]),
        (''command_version'', JObj [
          (''minimum'', JInt 1),
          (''title'', JStr ''Command Version''),
          (''type'', JStr ''integer'')]),
        (''payload'', JObj [(''$ref'', JStr ''#/components/schemas/JourneyUpdateCommandPayload'')])]),
      (''required'', JArr [JStr ''command_id'', JStr ''command_type'', JStr ''command_version'', JStr ''payload'']),
      (''title'', JStr ''JourneyUpdateCommand''),
      (''type'', JStr ''object'')]"

definition schema_JourneyUpdateCommandPayload :: jsval where
  "schema_JourneyUpdateCommandPayload =
    JObj [
      (''additionalProperties'', JBool False),
      (''properties'', JObj [
        (''end_date'', JObj [
          (''anyOf'', JArr [
            JObj [(''format'', JStr ''date''), (''type'', JStr ''string'')],
            JObj [(''type'', JStr ''null'')]]),
          (''title'', JStr ''End Date'')]),
        (''expected_record_version'', JObj [
          (''minimum'', JInt 1),
          (''title'', JStr ''Expected Record Version''),
          (''type'', JStr ''integer'')]),
        (''journey_id'', JObj [
          (''format'', JStr ''uuid''),
          (''title'', JStr ''Journey Id''),
          (''type'', JStr ''string'')]),
        (''name'', JObj [
          (''maxLength'', JInt 200),
          (''minLength'', JInt 1),
          (''title'', JStr ''Name''),
          (''type'', JStr ''string'')]),
        (''start_date'', JObj [
          (''anyOf'', JArr [
            JObj [(''format'', JStr ''date''), (''type'', JStr ''string'')],
            JObj [(''type'', JStr ''null'')]]),
          (''title'', JStr ''Start Date'')]),
        (''status'', JObj [
          (''enum'', JArr [JStr ''planning'', JStr ''active'', JStr ''completed'', JStr ''archived'']),
          (''title'', JStr ''Status''),
          (''type'', JStr ''string'')])]),
      (''required'', JArr [JStr ''name'', JStr ''expected_record_version'', JStr ''status'', JStr ''journey_id'']),
      (''title'', JStr ''JourneyUpdateCommandPayload''),
      (''type'', JStr ''object'')]"

definition schema_JourneyUpdateCommandResponse :: jsval where
  "schema_JourneyUpdateCommandResponse =
    JObj [
      (''additionalProperties'', JBool False),
      (''properties'', JObj [
        (''change_set_id'', JObj [
          (''format'', JStr ''uuid''),
          (''title'', JStr ''Change Set Id''),
          (''type'', JStr ''string'')]),
        (''command_id'', JObj [
          (''format'', JStr ''uuid''),
          (''title'', JStr ''Command Id''),
          (''type'', JStr ''string'')]),
        (''command_type'', JObj [
          (''const'', JStr ''journey.update''),
          (''title'', JStr ''Command Type''),
          (''type'', JStr ''string'')]),
        (''command_version'', JObj [(''title'', JStr ''Command Version''), (''type'', JStr ''integer'')]),
        (''outcome'', JObj [
          (''const'', JStr ''applied''),
          (''title'', JStr ''Outcome''),
          (''type'', JStr ''string'')]),
        (''replayed'', JObj [(''title'', JStr ''Replayed''), (''type'', JStr ''boolean'')]),
        (''result'', JObj [(''$ref'', JStr ''#/components/schemas/CommandEntityVersion'')])]),
      (''required'', JArr [
        JStr ''command_id'',
        JStr ''command_type'',
        JStr ''command_version'',
        JStr ''outcome'',
        JStr ''replayed'',
        JStr ''change_set_id'',
        JStr ''result'']),
      (''title'', JStr ''JourneyUpdateCommandResponse''),
      (''type'', JStr ''object'')]"

definition schema_LiveResponse :: jsval where
  "schema_LiveResponse =
    JObj [
      (''additionalProperties'', JBool False),
      (''properties'', JObj [
        (''status'', JObj [
          (''const'', JStr ''live''),
          (''title'', JStr ''Status''),
          (''type'', JStr ''string'')])]),
      (''required'', JArr [JStr ''status'']),
      (''title'', JStr ''LiveResponse''),
      (''type'', JStr ''object'')]"

definition schema_LoginRequest :: jsval where
  "schema_LoginRequest =
    JObj [
      (''additionalProperties'', JBool False),
      (''properties'', JObj [
        (''email'', JObj [
          (''format'', JStr ''email''),
          (''title'', JStr ''Email''),
          (''type'', JStr ''string'')]),
        (''password'', JObj [
          (''maxLength'', JInt 256),
          (''minLength'', JInt 1),
          (''title'', JStr ''Password''),
          (''type'', JStr ''string'')])]),
      (''required'', JArr [JStr ''email'', JStr ''password'']),
      (''title'', JStr ''LoginRequest''),
      (''type'', JStr ''object'')]"

definition schema_LogoutResponse :: jsval where
  "schema_LogoutResponse =
    JObj [
      (''additionalProperties'', JBool False),
      (''properties'', JObj [
        (''authenticated'', JObj [
          (''const'', JBool False),
          (''title'', JStr ''Authenticated''),
          (''type'', JStr ''boolean'')])]),
      (''required'', JArr [JStr ''authenticated'']),
      (''title'', JStr ''LogoutResponse''),
      (''type'', JStr ''object'')]"

definition schema_PackingCreate :: jsval where
  "schema_PackingCreate =
    JObj [
      (''additionalProperties'', JBool False),
      (''properties'', JObj [
        (''category'', JObj [
          (''enum'', JArr [
            JStr ''documents'',
            JStr ''clothing'',
            JStr ''toiletries'',
            JStr ''electronics'',
            JStr ''other'']),
          (''title'', JStr ''Category''),
          (''type'', JStr ''string'')]),
        (''essential'', JObj [
          (''default'', JBool False),
          (''title'', JStr ''Essential''),
          (''type'', JStr ''boolean'')]),
        (''id'', JObj [
          (''anyOf'', JArr [
            JObj [(''format'', JStr ''uuid''), (''type'', JStr ''string'')],
            JObj [(''type'', JStr ''null'')]]),
          (''title'', JStr ''Id'')]),
        (''label'', JObj [
          (''maxLength'', JInt 200),
          (''minLength'', JInt 1),
          (''title'', JStr ''Label''),
          (''type'', JStr ''string'')]),
        (''quantity'', JObj [
          (''maximum'', JInt 99),
          (''minimum'', JInt 1),
          (''title'', JStr ''Quantity''),
          (''type'', JStr ''integer'')])]),
      (''required'', JArr [JStr ''label'', JStr ''category'', JStr ''quantity'']),
      (''title'', JStr ''PackingCreate''),
      (''type'', JStr ''object'')]"

definition schema_PackingListResponse :: jsval where
  "schema_PackingListResponse =
    JObj [
      (''additionalProperties'', JBool False),
      (''properties'', JObj [
        (''items'', JObj [
          (''items'', JObj [(''$ref'', JStr ''#/components/schemas/PackingResponse'')]),
          (''title'', JStr ''Items''),
          (''type'', JStr ''array'')])]),
      (''required'', JArr [JStr ''items'']),
      (''title'', JStr ''PackingListResponse''),
      (''type'', JStr ''object'')]"

definition schema_PackingProgressUpdate :: jsval where
  "schema_PackingProgressUpdate =
    JObj [
      (''additionalProperties'', JBool False),
      (''properties'', JObj [
        (''expected_record_version'', JObj [
          (''minimum'', JInt 1),
          (''title'', JStr ''Expected Record Version''),
          (''type'', JStr ''integer'')]),
        (''packed_quantity'', JObj [
          (''maximum'', JInt 99),
          (''minimum'', JInt 0),
          (''title'', JStr ''Packed Quantity''),
          (''type'', JStr ''integer'')])]),
      (''required'', JArr [JStr ''expected_record_version'', JStr ''packed_quantity'']),
      (''title'', JStr ''PackingProgressUpdate''),
      (''type'', JStr ''object'')]"

definition schema_PackingResponse :: jsval where
  "schema_PackingResponse =
    JObj [
      (''additionalProperties'', JBool False),
      (''properties'', JObj [
        (''category'', JObj [
          (''enum'', JArr [
            JStr ''documents'',
            JStr ''clothing'',
            JStr ''toiletries'',
            JStr ''electronics'',
            JStr ''other'']),
          (''title'', JStr ''Category''),
          (''type'', JStr ''string'')]),
        (''created_at'', JObj [
          (''format'', JStr ''date-time''),
          (''title'', JStr ''Created At''),
          (''type'', JStr ''string'')]),
        (''essential'', JObj [
          (''default'', JBool False),
          (''title'', JStr ''Essential''),
          (''type'', JStr ''boolean'')]),
        (''id'', JObj [(''format'', JStr ''uuid''), (''title'', JStr ''Id''), (''type'', JStr ''string'')]),
        (''journey_id'', JObj [
          (''format'', JStr ''uuid''),
          (''title'', JStr ''Journey Id''),
          (''type'', JStr ''string'')]),
        (''label'', JObj [
          (''maxLength'', JInt 200),
          (''minLength'', JInt 1),
          (''title'', JStr ''Label''),
          (''type'', JStr ''string'')]),
        (''packed_quantity'', JObj [(''title'', JStr ''Packed Quantity''), (''type'', JStr ''integer'')]),
        (''quantity'', JObj [
          (''maximum'', JInt 99),
          (''minimum'', JInt 1),
          (''title'', JStr ''Quantity''),
          (''type'', JStr ''integer'')]),
        (''record_version'', JObj [(''title'', JStr ''Record Version''), (''type'', JStr ''integer'')]),
        (''updated_at'', JObj [
          (''format'', JStr ''date-time''),
          (''title'', JStr ''Updated At''),
          (''type'', JStr ''string'')])]),
      (''required'', JArr [
        JStr ''label'',
        JStr ''category'',
        JStr ''quantity'',
        JStr ''id'',
        JStr ''journey_id'',
        JStr ''packed_quantity'',
        JStr ''record_version'',
        JStr ''created_at'',
        JStr ''updated_at'']),
      (''title'', JStr ''PackingResponse''),
      (''type'', JStr ''object'')]"

definition schema_PackingUpdate :: jsval where
  "schema_PackingUpdate =
    JObj [
      (''additionalProperties'', JBool False),
      (''properties'', JObj [
        (''category'', JObj [
          (''enum'', JArr [
            JStr ''documents'',
            JStr ''clothing'',
            JStr ''toiletries'',
            JStr ''electronics'',
            JStr ''other'']),
          (''title'', JStr ''Category''),
          (''type'', JStr ''string'')]),
        (''essential'', JObj [
          (''default'', JBool False),
          (''title'', JStr ''Essential''),
          (''type'', JStr ''boolean'')]),
        (''expected_record_version'', JObj [
          (''minimum'', JInt 1),
          (''title'', JStr ''Expected Record Version''),
          (''type'', JStr ''integer'')]),
        (''label'', JObj [
          (''maxLength'', JInt 200),
          (''minLength'', JInt 1),
          (''title'', JStr ''Label''),
          (''type'', JStr ''string'')]),
        (''quantity'', JObj [
          (''maximum'', JInt 99),
          (''minimum'', JInt 1),
          (''title'', JStr ''Quantity''),
          (''type'', JStr ''integer'')])]),
      (''required'', JArr [JStr ''label'', JStr ''category'', JStr ''quantity'', JStr ''expected_record_version'']),
      (''title'', JStr ''PackingUpdate''),
      (''type'', JStr ''object'')]"

definition schema_ReadinessChecks :: jsval where
  "schema_ReadinessChecks =
    JObj [
      (''additionalProperties'', JBool False),
      (''properties'', JObj [
        (''api'', JObj [(''const'', JStr ''ready''), (''title'', JStr ''Api''), (''type'', JStr ''string'')]),
        (''database'', JObj [
          (''enum'', JArr [JStr ''ready'', JStr ''unavailable'']),
          (''title'', JStr ''Database''),
          (''type'', JStr ''string'')])]),
      (''required'', JArr [JStr ''api'', JStr ''database'']),
      (''title'', JStr ''ReadinessChecks''),
      (''type'', JStr ''object'')]"

definition schema_ReadyResponse :: jsval where
  "schema_ReadyResponse =
    JObj [
      (''additionalProperties'', JBool False),
      (''properties'', JObj [
        (''checks'', JObj [(''$ref'', JStr ''#/components/schemas/ReadinessChecks'')]),
        (''status'', JObj [
          (''enum'', JArr [JStr ''ready'', JStr ''not_ready'']),
          (''title'', JStr ''Status''),
          (''type'', JStr ''string'')])]),
      (''required'', JArr [JStr ''status'', JStr ''checks'']),
      (''title'', JStr ''ReadyResponse''),
      (''type'', JStr ''object'')]"

definition schema_RegisterRequest :: jsval where
  "schema_RegisterRequest =
    JObj [
      (''additionalProperties'', JBool False),
      (''properties'', JObj [
        (''display_name'', JObj [
          (''maxLength'', JInt 120),
          (''minLength'', JInt 1),
          (''title'', JStr ''Display Name''),
          (''type'', JStr ''string'')]),
        (''email'', JObj [
          (''format'', JStr ''email''),
          (''title'', JStr ''Email''),
          (''type'', JStr ''string'')]),
        (''password'', JObj [
          (''maxLength'', JInt 256),
          (''minLength'', JInt 12),
          (''title'', JStr ''Password''),
          (''type'', JStr ''string'')])]),
      (''required'', JArr [JStr ''email'', JStr ''password'', JStr ''display_name'']),
      (''title'', JStr ''RegisterRequest''),
      (''type'', JStr ''object'')]"

definition schema_SegmentCreate :: jsval where
  "schema_SegmentCreate =
    JObj [
      (''additionalProperties'', JBool False),
      (''properties'', JObj [
        (''destination_name'', JObj [
          (''anyOf'', JArr [
            JObj [(''maxLength'', JInt 200), (''type'', JStr ''string'')],
            JObj [(''type'', JStr ''null'')]]),
          (''title'', JStr ''Destination Name'')]),
        (''end_date'', JObj [
          (''anyOf'', JArr [
            JObj [(''format'', JStr ''date''), (''type'', JStr ''string'')],
            JObj [(''type'', JStr ''null'')]]),
          (''title'', JStr ''End Date'')]),
        (''id'', JObj [
          (''anyOf'', JArr [
            JObj [(''format'', JStr ''uuid''), (''type'', JStr ''string'')],
            JObj [(''type'', JStr ''null'')]]),
          (''title'', JStr ''Id'')]),
        (''kind'', JObj [
          (''enum'', JArr [JStr ''stay'', JStr ''move'']),
          (''title'', JStr ''Kind''),
          (''type'', JStr ''string'')]),
        (''notes'', JObj [
          (''default'', JStr ''''),
          (''maxLength'', JInt 5000),
          (''title'', JStr ''Notes''),
          (''type'', JStr ''string'')]),
        (''origin_name'', JObj [
          (''anyOf'', JArr [
            JObj [(''maxLength'', JInt 200), (''type'', JStr ''string'')],
            JObj [(''type'', JStr ''null'')]]),
          (''title'', JStr ''Origin Name'')]),
        (''place_name'', JObj [
          (''anyOf'', JArr [
            JObj [(''maxLength'', JInt 200), (''type'', JStr ''string'')],
            JObj [(''type'', JStr ''null'')]]),
          (''title'', JStr ''Place Name'')]),
        (''start_date'', JObj [
          (''anyOf'', JArr [
            JObj [(''format'', JStr ''date''), (''type'', JStr ''string'')],
            JObj [(''type'', JStr ''null'')]]),
          (''title'', JStr ''Start Date'')]),
        (''transport_mode'', JObj [
          (''default'', JStr ''''),
          (''maxLength'', JInt 100),
          (''title'', JStr ''Transport Mode''),
          (''type'', JStr ''string'')])]),
      (''required'', JArr [JStr ''kind'']),
      (''title'', JStr ''SegmentCreate''),
      (''type'', JStr ''object'')]"

definition schema_SegmentListResponse :: jsval where
  "schema_SegmentListResponse =
    JObj [
      (''additionalProperties'', JBool False),
      (''properties'', JObj [
        (''items'', JObj [
          (''items'', JObj [(''$ref'', JStr ''#/components/schemas/SegmentResponse'')]),
          (''title'', JStr ''Items''),
          (''type'', JStr ''array'')])]),
      (''required'', JArr [JStr ''items'']),
      (''title'', JStr ''SegmentListResponse''),
      (''type'', JStr ''object'')]"

definition schema_SegmentReorder :: jsval where
  "schema_SegmentReorder =
    JObj [
      (''additionalProperties'', JBool False),
      (''properties'', JObj [
        (''expected_record_version'', JObj [
          (''minimum'', JInt 1),
          (''title'', JStr ''Expected Record Version''),
          (''type'', JStr ''integer'')]),
        (''new_position'', JObj [
          (''minimum'', JInt 0),
          (''title'', JStr ''New Position''),
          (''type'', JStr ''integer'')])]),
      (''required'', JArr [JStr ''expected_record_version'', JStr ''new_position'']),
      (''title'', JStr ''SegmentReorder''),
      (''type'', JStr ''object'')]"

definition schema_SegmentResponse :: jsval where
  "schema_SegmentResponse =
    JObj [
      (''additionalProperties'', JBool False),
      (''properties'', JObj [
        (''created_at'', JObj [
          (''format'', JStr ''date-time''),
          (''title'', JStr ''Created At''),
          (''type'', JStr ''string'')]),
        (''destination_name'', JObj [
          (''anyOf'', JArr [
            JObj [(''maxLength'', JInt 200), (''type'', JStr ''string'')],
            JObj [(''type'', JStr ''null'')]]),
          (''title'', JStr ''Destination Name'')]),
        (''end_date'', JObj [
          (''anyOf'', JArr [
            JObj [(''format'', JStr ''date''), (''type'', JStr ''string'')],
            JObj [(''type'', JStr ''null'')]]),
          (''title'', JStr ''End Date'')]),
        (''id'', JObj [(''format'', JStr ''uuid''), (''title'', JStr ''Id''), (''type'', JStr ''string'')]),
        (''journey_id'', JObj [
          (''format'', JStr ''uuid''),
          (''title'', JStr ''Journey Id''),
          (''type'', JStr ''string'')]),
        (''kind'', JObj [
          (''enum'', JArr [JStr ''stay'', JStr ''move'']),
          (''title'', JStr ''Kind''),
          (''type'', JStr ''string'')]),
        (''notes'', JObj [
          (''default'', JStr ''''),
          (''maxLength'', JInt 5000),
          (''title'', JStr ''Notes''),
          (''type'', JStr ''string'')]),
        (''origin_name'', JObj [
          (''anyOf'', JArr [
            JObj [(''maxLength'', JInt 200), (''type'', JStr ''string'')],
            JObj [(''type'', JStr ''null'')]]),
          (''title'', JStr ''Origin Name'')]),
        (''place_name'', JObj [
          (''anyOf'', JArr [
            JObj [(''maxLength'', JInt 200), (''type'', JStr ''string'')],
            JObj [(''type'', JStr ''null'')]]),
          (''title'', JStr ''Place Name'')]),
        (''position'', JObj [(''title'', JStr ''Position''), (''type'', JStr ''integer'')]),
        (''record_version'', JObj [(''title'', JStr ''Record Version''), (''type'', JStr ''integer'')]),
        (''start_date'', JObj [
          (''anyOf'', JArr [
            JObj [(''format'', JStr ''date''), (''type'', JStr ''string'')],
            JObj [(''type'', JStr ''null'')]]),
          (''title'', JStr ''Start Date'')]),
        (''transport_mode'', JObj [
          (''default'', JStr ''''),
          (''maxLength'', JInt 100),
          (''title'', JStr ''Transport Mode''),
          (''type'', JStr ''string'')]),
        (''updated_at'', JObj [
          (''format'', JStr ''date-time''),
          (''title'', JStr ''Updated At''),
          (''type'', JStr ''string'')])]),
      (''required'', JArr [
        JStr ''kind'',
        JStr ''id'',
        JStr ''journey_id'',
        JStr ''position'',
        JStr ''record_version'',
        JStr ''created_at'',
        JStr ''updated_at'']),
      (''title'', JStr ''SegmentResponse''),
      (''type'', JStr ''object'')]"

definition schema_SegmentUpdate :: jsval where
  "schema_SegmentUpdate =
    JObj [
      (''additionalProperties'', JBool False),
      (''properties'', JObj [
        (''destination_name'', JObj [
          (''anyOf'', JArr [
            JObj [(''maxLength'', JInt 200), (''type'', JStr ''string'')],
            JObj [(''type'', JStr ''null'')]]),
          (''title'', JStr ''Destination Name'')]),
        (''end_date'', JObj [
          (''anyOf'', JArr [
            JObj [(''format'', JStr ''date''), (''type'', JStr ''string'')],
            JObj [(''type'', JStr ''null'')]]),
          (''title'', JStr ''End Date'')]),
        (''expected_record_version'', JObj [
          (''minimum'', JInt 1),
          (''title'', JStr ''Expected Record Version''),
          (''type'', JStr ''integer'')]),
        (''kind'', JObj [
          (''enum'', JArr [JStr ''stay'', JStr ''move'']),
          (''title'', JStr ''Kind''),
          (''type'', JStr ''string'')]),
        (''notes'', JObj [
          (''default'', JStr ''''),
          (''maxLength'', JInt 5000),
          (''title'', JStr ''Notes''),
          (''type'', JStr ''string'')]),
        (''origin_name'', JObj [
          (''anyOf'', JArr [
            JObj [(''maxLength'', JInt 200), (''type'', JStr ''string'')],
            JObj [(''type'', JStr ''null'')]]),
          (''title'', JStr ''Origin Name'')]),
        (''place_name'', JObj [
          (''anyOf'', JArr [
            JObj [(''maxLength'', JInt 200), (''type'', JStr ''string'')],
            JObj [(''type'', JStr ''null'')]]),
          (''title'', JStr ''Place Name'')]),
        (''start_date'', JObj [
          (''anyOf'', JArr [
            JObj [(''format'', JStr ''date''), (''type'', JStr ''string'')],
            JObj [(''type'', JStr ''null'')]]),
          (''title'', JStr ''Start Date'')]),
        (''transport_mode'', JObj [
          (''default'', JStr ''''),
          (''maxLength'', JInt 100),
          (''title'', JStr ''Transport Mode''),
          (''type'', JStr ''string'')])]),
      (''required'', JArr [JStr ''kind'', JStr ''expected_record_version'']),
      (''title'', JStr ''SegmentUpdate''),
      (''type'', JStr ''object'')]"

definition schema_SessionResponse :: jsval where
  "schema_SessionResponse =
    JObj [
      (''additionalProperties'', JBool False),
      (''properties'', JObj [
        (''authenticated'', JObj [
          (''const'', JBool True),
          (''title'', JStr ''Authenticated''),
          (''type'', JStr ''boolean'')]),
        (''user'', JObj [(''$ref'', JStr ''#/components/schemas/UserResponse'')])]),
      (''required'', JArr [JStr ''authenticated'', JStr ''user'']),
      (''title'', JStr ''SessionResponse''),
      (''type'', JStr ''object'')]"

definition schema_SupportedVersionRange :: jsval where
  "schema_SupportedVersionRange =
    JObj [
      (''additionalProperties'', JBool False),
      (''properties'', JObj [
        (''current'', JObj [(''minimum'', JInt 1), (''title'', JStr ''Current''), (''type'', JStr ''integer'')]),
        (''maximum_supported'', JObj [
          (''minimum'', JInt 1),
          (''title'', JStr ''Maximum Supported''),
          (''type'', JStr ''integer'')]),
        (''minimum_supported'', JObj [
          (''minimum'', JInt 1),
          (''title'', JStr ''Minimum Supported''),
          (''type'', JStr ''integer'')])]),
      (''required'', JArr [JStr ''current'', JStr ''minimum_supported'', JStr ''maximum_supported'']),
      (''title'', JStr ''SupportedVersionRange''),
      (''type'', JStr ''object'')]"

definition schema_UserResponse :: jsval where
  "schema_UserResponse =
    JObj [
      (''additionalProperties'', JBool False),
      (''properties'', JObj [
        (''display_name'', JObj [(''title'', JStr ''Display Name''), (''type'', JStr ''string'')]),
        (''email'', JObj [
          (''format'', JStr ''email''),
          (''title'', JStr ''Email''),
          (''type'', JStr ''string'')]),
        (''id'', JObj [(''format'', JStr ''uuid''), (''title'', JStr ''Id''), (''type'', JStr ''string'')]),
        (''workspace_id'', JObj [
          (''format'', JStr ''uuid''),
          (''title'', JStr ''Workspace Id''),
          (''type'', JStr ''string'')])]),
      (''required'', JArr [JStr ''id'', JStr ''email'', JStr ''display_name'', JStr ''workspace_id'']),
      (''title'', JStr ''UserResponse''),
      (''type'', JStr ''object'')]"

definition schema_VersionResponse :: jsval where
  "schema_VersionResponse =
    JObj [
      (''additionalProperties'', JBool False),
      (''properties'', JObj [
        (''api_version'', JObj [
          (''const'', JStr ''1''),
          (''title'', JStr ''Api Version''),
          (''type'', JStr ''string'')]),
        (''application'', JObj [
          (''const'', JStr ''Trax OS''),
          (''title'', JStr ''Application''),
          (''type'', JStr ''string'')]),
        (''version'', JObj [
          (''pattern'', JStr (''^'' @ [CHR 0x5C] @ ''d+'' @ [CHR 0x5C] @ ''.'' @ [CHR 0x5C] @ ''d+'' @ [CHR 0x5C] @ ''.'' @ [CHR 0x5C] @ ''d+$'')),
          (''title'', JStr ''Version''),
          (''type'', JStr ''string'')])]),
      (''required'', JArr [JStr ''application'', JStr ''version'', JStr ''api_version'']),
      (''title'', JStr ''VersionResponse''),
      (''type'', JStr ''object'')]"

definition componentSchemas :: "(string \<times> jsval) list" where
  "componentSchemas = [
    (''CapabilitiesResponse'', schema_CapabilitiesResponse),
    (''Capability'', schema_Capability),
    (''CommandEntityVersion'', schema_CommandEntityVersion),
    (''CommandVersionSupport'', schema_CommandVersionSupport),
    (''ContractDiscoveryResponse'', schema_ContractDiscoveryResponse),
    (''ErrorBody'', schema_ErrorBody),
    (''ErrorResponse'', schema_ErrorResponse),
    (''JourneyCreate'', schema_JourneyCreate),
    (''JourneyListResponse'', schema_JourneyListResponse),
    (''JourneyResponse'', schema_JourneyResponse),
    (''JourneyUpdate'', schema_JourneyUpdate),
    (''JourneyUpdateCommand'', schema_JourneyUpdateCommand),
    (''JourneyUpdateCommandPayload'', schema_JourneyUpdateCommandPayload),
    (''JourneyUpdateCommandResponse'', schema_JourneyUpdateCommandResponse),
    (''LiveResponse'', schema_LiveResponse),
    (''LoginRequest'', schema_LoginRequest),
    (''LogoutResponse'', schema_LogoutResponse),
    (''PackingCreate'', schema_PackingCreate),
    (''PackingListResponse'', schema_PackingListResponse),
    (''PackingProgressUpdate'', schema_PackingProgressUpdate),
    (''PackingResponse'', schema_PackingResponse),
    (''PackingUpdate'', schema_PackingUpdate),
    (''ReadinessChecks'', schema_ReadinessChecks),
    (''ReadyResponse'', schema_ReadyResponse),
    (''RegisterRequest'', schema_RegisterRequest),
    (''SegmentCreate'', schema_SegmentCreate),
    (''SegmentListResponse'', schema_SegmentListResponse),
    (''SegmentReorder'', schema_SegmentReorder),
    (''SegmentResponse'', schema_SegmentResponse),
    (''SegmentUpdate'', schema_SegmentUpdate),
    (''SessionResponse'', schema_SessionResponse),
    (''SupportedVersionRange'', schema_SupportedVersionRange),
    (''UserResponse'', schema_UserResponse),
    (''VersionResponse'', schema_VersionResponse)]"

section \<open>Heights\<close>

lemma component_lookup:
  "obj_get componentSchemas ''CapabilitiesResponse'' = schema_CapabilitiesResponse"
  "obj_get componentSchemas ''Capability'' = schema_Capability"
  "obj_get componentSchemas ''CommandEntityVersion'' = schema_CommandEntityVersion"
  "obj_get componentSchemas ''CommandVersionSupport'' = schema_CommandVersionSupport"
  "obj_get componentSchemas ''ContractDiscoveryResponse'' = schema_ContractDiscoveryResponse"
  "obj_get componentSchemas ''ErrorBody'' = schema_ErrorBody"
  "obj_get componentSchemas ''ErrorResponse'' = schema_ErrorResponse"
  "obj_get componentSchemas ''JourneyCreate'' = schema_JourneyCreate"
  "obj_get componentSchemas ''JourneyListResponse'' = schema_JourneyListResponse"
  "obj_get componentSchemas ''JourneyResponse'' = schema_JourneyResponse"
  "obj_get componentSchemas ''JourneyUpdate'' = schema_JourneyUpdate"
  "obj_get componentSchemas ''JourneyUpdateCommand'' = schema_JourneyUpdateCommand"
  "obj_get componentSchemas ''JourneyUpdateCommandPayload'' = schema_JourneyUpdateCommandPayload"
  "obj_get componentSchemas ''JourneyUpdateCommandResponse'' = schema_JourneyUpdateCommandResponse"
  "obj_get componentSchemas ''LiveResponse'' = schema_LiveResponse"
  "obj_get componentSchemas ''LoginRequest'' = schema_LoginRequest"
  "obj_get componentSchemas ''LogoutResponse'' = schema_LogoutResponse"
  "obj_get componentSchemas ''PackingCreate'' = schema_PackingCreate"
  "obj_get componentSchemas ''PackingListResponse'' = schema_PackingListResponse"
  "obj_get componentSchemas ''PackingProgressUpdate'' = schema_PackingProgressUpdate"
  "obj_get componentSchemas ''PackingResponse'' = schema_PackingResponse"
  "obj_get componentSchemas ''PackingUpdate'' = schema_PackingUpdate"
  "obj_get componentSchemas ''ReadinessChecks'' = schema_ReadinessChecks"
  "obj_get componentSchemas ''ReadyResponse'' = schema_ReadyResponse"
  "obj_get componentSchemas ''RegisterRequest'' = schema_RegisterRequest"
  "obj_get componentSchemas ''SegmentCreate'' = schema_SegmentCreate"
  "obj_get componentSchemas ''SegmentListResponse'' = schema_SegmentListResponse"
  "obj_get componentSchemas ''SegmentReorder'' = schema_SegmentReorder"
  "obj_get componentSchemas ''SegmentResponse'' = schema_SegmentResponse"
  "obj_get componentSchemas ''SegmentUpdate'' = schema_SegmentUpdate"
  "obj_get componentSchemas ''SessionResponse'' = schema_SessionResponse"
  "obj_get componentSchemas ''SupportedVersionRange'' = schema_SupportedVersionRange"
  "obj_get componentSchemas ''UserResponse'' = schema_UserResponse"
  "obj_get componentSchemas ''VersionResponse'' = schema_VersionResponse"
  by (simp_all add: componentSchemas_def obj_get_def)

definition height_val :: "validator_env \<Rightarrow> nat \<Rightarrow> jsval \<Rightarrow> bool" where
  "height_val env n v = (isRecord v \<longrightarrow> height_ok env n (props_of v))"

lemma height_val_simps:
  "height_val env n (JObj ps) = height_ok env n ps"
  "height_val env n JUndef" "height_val env n (JBool b)" "height_val env n (JStr s)" "height_val env n JFun"
  by (simp_all add: height_val_def)

lemma height_ok_Suc: "height_ok env (Suc n) s = list_all (height_val env n) (visited env s)"
  by (simp add: height_val_def [abs_def])

lemmas height_simps = height_ok_Suc height_val_simps visited_def obj_get_Nil obj_get_Cons proto_get_def
  proto_functions_def ref_prefix_def component_lookup

lemma height_Capability: "ve_schemas env = componentSchemas \<Longrightarrow> height_val env (Suc (Suc n)) schema_Capability"
  by (simp add: schema_Capability_def height_simps del: height_ok.simps)

lemma height_CapabilitiesResponse: "ve_schemas env = componentSchemas \<Longrightarrow> height_val env (Suc (Suc (Suc (Suc (Suc n))))) schema_CapabilitiesResponse"
  by (simp add: schema_CapabilitiesResponse_def height_simps height_Capability del: height_ok.simps)

lemma height_CommandEntityVersion: "ve_schemas env = componentSchemas \<Longrightarrow> height_val env (Suc (Suc n)) schema_CommandEntityVersion"
  by (simp add: schema_CommandEntityVersion_def height_simps del: height_ok.simps)

lemma height_CommandVersionSupport: "ve_schemas env = componentSchemas \<Longrightarrow> height_val env (Suc (Suc n)) schema_CommandVersionSupport"
  by (simp add: schema_CommandVersionSupport_def height_simps del: height_ok.simps)

lemma height_SupportedVersionRange: "ve_schemas env = componentSchemas \<Longrightarrow> height_val env (Suc (Suc n)) schema_SupportedVersionRange"
  by (simp add: schema_SupportedVersionRange_def height_simps del: height_ok.simps)

lemma height_ContractDiscoveryResponse: "ve_schemas env = componentSchemas \<Longrightarrow> height_val env (Suc (Suc (Suc (Suc (Suc n))))) schema_ContractDiscoveryResponse"
  by (simp add: schema_ContractDiscoveryResponse_def height_simps height_CommandVersionSupport height_SupportedVersionRange del: height_ok.simps)

lemma height_ErrorBody: "ve_schemas env = componentSchemas \<Longrightarrow> height_val env (Suc (Suc (Suc n))) schema_ErrorBody"
  by (simp add: schema_ErrorBody_def height_simps del: height_ok.simps)

lemma height_ErrorResponse: "ve_schemas env = componentSchemas \<Longrightarrow> height_val env (Suc (Suc (Suc (Suc (Suc n))))) schema_ErrorResponse"
  by (simp add: schema_ErrorResponse_def height_simps height_ErrorBody del: height_ok.simps)

lemma height_JourneyCreate: "ve_schemas env = componentSchemas \<Longrightarrow> height_val env (Suc (Suc (Suc n))) schema_JourneyCreate"
  by (simp add: schema_JourneyCreate_def height_simps del: height_ok.simps)

lemma height_JourneyResponse: "ve_schemas env = componentSchemas \<Longrightarrow> height_val env (Suc (Suc (Suc n))) schema_JourneyResponse"
  by (simp add: schema_JourneyResponse_def height_simps del: height_ok.simps)

lemma height_JourneyListResponse: "ve_schemas env = componentSchemas \<Longrightarrow> height_val env (Suc (Suc (Suc (Suc (Suc (Suc n)))))) schema_JourneyListResponse"
  by (simp add: schema_JourneyListResponse_def height_simps height_JourneyResponse del: height_ok.simps)

lemma height_JourneyUpdate: "ve_schemas env = componentSchemas \<Longrightarrow> height_val env (Suc (Suc (Suc n))) schema_JourneyUpdate"
  by (simp add: schema_JourneyUpdate_def height_simps del: height_ok.simps)

lemma height_JourneyUpdateCommandPayload: "ve_schemas env = componentSchemas \<Longrightarrow> height_val env (Suc (Suc (Suc n))) schema_JourneyUpdateCommandPayload"
  by (simp add: schema_JourneyUpdateCommandPayload_def height_simps del: height_ok.simps)

lemma height_JourneyUpdateCommand: "ve_schemas env = componentSchemas \<Longrightarrow> height_val env (Suc (Suc (Suc (Suc (Suc n))))) schema_JourneyUpdateCommand"
  by (simp add: schema_JourneyUpdateCommand_def height_simps height_JourneyUpdateCommandPayload del: height_ok.simps)

lemma height_JourneyUpdateCommandResponse: "ve_schemas env = componentSchemas \<Longrightarrow> height_val env (Suc (Suc (Suc (Suc n)))) schema_JourneyUpdateCommandResponse"
  by (simp add: schema_JourneyUpdateCommandResponse_def height_simps height_CommandEntityVersion del: height_ok.simps)

lemma height_LiveResponse: "ve_schemas env = componentSchemas \<Longrightarrow> height_val env (Suc (Suc n)) schema_LiveResponse"
  by (simp add: schema_LiveResponse_def height_simps del: height_ok.simps)

lemma height_LoginRequest: "ve_schemas env = componentSchemas \<Longrightarrow> height_val env (Suc (Suc n)) schema_LoginRequest"
  by (simp add: schema_LoginRequest_def height_simps del: height_ok.simps)

lemma height_LogoutResponse: "ve_schemas env = componentSchemas \<Longrightarrow> height_val env (Suc (Suc n)) schema_LogoutResponse"
  by (simp add: schema_LogoutResponse_def height_simps del: height_ok.simps)

lemma height_PackingCreate: "ve_schemas env = componentSchemas \<Longrightarrow> height_val env (Suc (Suc (Suc n))) schema_PackingCreate"
  by (simp add: schema_PackingCreate_def height_simps del: height_ok.simps)

lemma height_PackingResponse: "ve_schemas env = componentSchemas \<Longrightarrow> height_val env (Suc (Suc n)) schema_PackingResponse"
  by (simp add: schema_PackingResponse_def height_simps del: height_ok.simps)

lemma height_PackingListResponse: "ve_schemas env = componentSchemas \<Longrightarrow> height_val env (Suc (Suc (Suc (Suc (Suc n))))) schema_PackingListResponse"
  by (simp add: schema_PackingListResponse_def height_simps height_PackingResponse del: height_ok.simps)

lemma height_PackingProgressUpdate: "ve_schemas env = componentSchemas \<Longrightarrow> height_val env (Suc (Suc n)) schema_PackingProgressUpdate"
  by (simp add: schema_PackingProgressUpdate_def height_simps del: height_ok.simps)

lemma height_PackingUpdate: "ve_schemas env = componentSchemas \<Longrightarrow> height_val env (Suc (Suc n)) schema_PackingUpdate"
  by (simp add: schema_PackingUpdate_def height_simps del: height_ok.simps)

lemma height_ReadinessChecks: "ve_schemas env = componentSchemas \<Longrightarrow> height_val env (Suc (Suc n)) schema_ReadinessChecks"
  by (simp add: schema_ReadinessChecks_def height_simps del: height_ok.simps)

lemma height_ReadyResponse: "ve_schemas env = componentSchemas \<Longrightarrow> height_val env (Suc (Suc (Suc (Suc n)))) schema_ReadyResponse"
  by (simp add: schema_ReadyResponse_def height_simps height_ReadinessChecks del: height_ok.simps)

lemma height_RegisterRequest: "ve_schemas env = componentSchemas \<Longrightarrow> height_val env (Suc (Suc n)) schema_RegisterRequest"
  by (simp add: schema_RegisterRequest_def height_simps del: height_ok.simps)

lemma height_SegmentCreate: "ve_schemas env = componentSchemas \<Longrightarrow> height_val env (Suc (Suc (Suc n))) schema_SegmentCreate"
  by (simp add: schema_SegmentCreate_def height_simps del: height_ok.simps)

lemma height_SegmentResponse: "ve_schemas env = componentSchemas \<Longrightarrow> height_val env (Suc (Suc (Suc n))) schema_SegmentResponse"
  by (simp add: schema_SegmentResponse_def height_simps del: height_ok.simps)

lemma height_SegmentListResponse: "ve_schemas env = componentSchemas \<Longrightarrow> height_val env (Suc (Suc (Suc (Suc (Suc (Suc n)))))) schema_SegmentListResponse"
  by (simp add: schema_SegmentListResponse_def height_simps height_SegmentResponse del: height_ok.simps)

lemma height_SegmentReorder: "ve_schemas env = componentSchemas \<Longrightarrow> height_val env (Suc (Suc n)) schema_SegmentReorder"
  by (simp add: schema_SegmentReorder_def height_simps del: height_ok.simps)

lemma height_SegmentUpdate: "ve_schemas env = componentSchemas \<Longrightarrow> height_val env (Suc (Suc (Suc n))) schema_SegmentUpdate"
  by (simp add: schema_SegmentUpdate_def height_simps del: height_ok.simps)

lemma height_UserResponse: "ve_schemas env = componentSchemas \<Longrightarrow> height_val env (Suc (Suc n)) schema_UserResponse"
  by (simp add: schema_UserResponse_def height_simps del: height_ok.simps)

lemma height_SessionResponse: "ve_schemas env = componentSchemas \<Longrightarrow> height_val env (Suc (Suc (Suc (Suc n)))) schema_SessionResponse"
  by (simp add: schema_SessionResponse_def height_simps height_UserResponse del: height_ok.simps)

lemma height_VersionResponse: "ve_schemas env = componentSchemas \<Longrightarrow> height_val env (Suc (Suc n)) schema_VersionResponse"
  by (simp add: schema_VersionResponse_def height_simps del: height_ok.simps)

end
