(* ===== verification/Contract_Operations.thy ===== *)
theory Contract_Operations
  imports Contract_Schemas
begin

text \<open>
  The operation table of the contract, as \<open>packages/api-client/generated/client.ts\<close> lists it; a body or
  response schema of \<open>null\<close> is \<open>JNull\<close>.
\<close>

record runtime_operation =
  op_bodySchema :: jsval
  op_canonicalErrorStatuses :: "string list"
  op_commandType :: "string option"
  op_csrf :: bool
  op_method :: string
  op_path :: string
  op_pathSchemas :: "(string \<times> jsval) list"
  op_responses :: "(string \<times> jsval) list"

definition op_contract_discovery_api_contract_get :: runtime_operation where
  "op_contract_discovery_api_contract_get =
    \<lparr>op_bodySchema = JNull,
     op_canonicalErrorStatuses = [''401'', ''403'', ''404'', ''409'', ''422'', ''500''],
     op_commandType = None,
     op_csrf = False,
     op_method = ''GET'',
     op_path = ''/api/contract'',
     op_pathSchemas = [],
     op_responses = [
       (''200'', JObj [(''$ref'', JStr ''#/components/schemas/ContractDiscoveryResponse'')]),
       (''401'', JObj [(''$ref'', JStr ''#/components/schemas/ErrorResponse'')]),
       (''403'', JObj [(''$ref'', JStr ''#/components/schemas/ErrorResponse'')]),
       (''404'', JObj [(''$ref'', JStr ''#/components/schemas/ErrorResponse'')]),
       (''409'', JObj [(''$ref'', JStr ''#/components/schemas/ErrorResponse'')]),
       (''422'', JObj [(''$ref'', JStr ''#/components/schemas/ErrorResponse'')]),
       (''500'', JObj [(''$ref'', JStr ''#/components/schemas/ErrorResponse'')])]\<rparr>"

definition op_login_route_api_v1_auth_login_post :: runtime_operation where
  "op_login_route_api_v1_auth_login_post =
    \<lparr>op_bodySchema = JObj [(''$ref'', JStr ''#/components/schemas/LoginRequest'')],
     op_canonicalErrorStatuses = [''401'', ''403'', ''404'', ''409'', ''422'', ''500''],
     op_commandType = None,
     op_csrf = False,
     op_method = ''POST'',
     op_path = ''/api/v1/auth/login'',
     op_pathSchemas = [],
     op_responses = [
       (''200'', JObj [(''$ref'', JStr ''#/components/schemas/SessionResponse'')]),
       (''401'', JObj [(''$ref'', JStr ''#/components/schemas/ErrorResponse'')]),
       (''403'', JObj [(''$ref'', JStr ''#/components/schemas/ErrorResponse'')]),
       (''404'', JObj [(''$ref'', JStr ''#/components/schemas/ErrorResponse'')]),
       (''409'', JObj [(''$ref'', JStr ''#/components/schemas/ErrorResponse'')]),
       (''422'', JObj [(''$ref'', JStr ''#/components/schemas/ErrorResponse'')]),
       (''500'', JObj [(''$ref'', JStr ''#/components/schemas/ErrorResponse'')])]\<rparr>"

definition op_logout_route_api_v1_auth_logout_post :: runtime_operation where
  "op_logout_route_api_v1_auth_logout_post =
    \<lparr>op_bodySchema = JNull,
     op_canonicalErrorStatuses = [''401'', ''403'', ''404'', ''409'', ''422'', ''500''],
     op_commandType = None,
     op_csrf = True,
     op_method = ''POST'',
     op_path = ''/api/v1/auth/logout'',
     op_pathSchemas = [],
     op_responses = [
       (''200'', JObj [(''$ref'', JStr ''#/components/schemas/LogoutResponse'')]),
       (''401'', JObj [(''$ref'', JStr ''#/components/schemas/ErrorResponse'')]),
       (''403'', JObj [(''$ref'', JStr ''#/components/schemas/ErrorResponse'')]),
       (''404'', JObj [(''$ref'', JStr ''#/components/schemas/ErrorResponse'')]),
       (''409'', JObj [(''$ref'', JStr ''#/components/schemas/ErrorResponse'')]),
       (''422'', JObj [(''$ref'', JStr ''#/components/schemas/ErrorResponse'')]),
       (''500'', JObj [(''$ref'', JStr ''#/components/schemas/ErrorResponse'')])]\<rparr>"

definition op_register_route_api_v1_auth_register_post :: runtime_operation where
  "op_register_route_api_v1_auth_register_post =
    \<lparr>op_bodySchema = JObj [(''$ref'', JStr ''#/components/schemas/RegisterRequest'')],
     op_canonicalErrorStatuses = [''401'', ''403'', ''404'', ''409'', ''422'', ''500''],
     op_commandType = None,
     op_csrf = False,
     op_method = ''POST'',
     op_path = ''/api/v1/auth/register'',
     op_pathSchemas = [],
     op_responses = [
       (''201'', JObj [(''$ref'', JStr ''#/components/schemas/SessionResponse'')]),
       (''401'', JObj [(''$ref'', JStr ''#/components/schemas/ErrorResponse'')]),
       (''403'', JObj [(''$ref'', JStr ''#/components/schemas/ErrorResponse'')]),
       (''404'', JObj [(''$ref'', JStr ''#/components/schemas/ErrorResponse'')]),
       (''409'', JObj [(''$ref'', JStr ''#/components/schemas/ErrorResponse'')]),
       (''422'', JObj [(''$ref'', JStr ''#/components/schemas/ErrorResponse'')]),
       (''500'', JObj [(''$ref'', JStr ''#/components/schemas/ErrorResponse'')])]\<rparr>"

definition op_session_route_api_v1_auth_session_get :: runtime_operation where
  "op_session_route_api_v1_auth_session_get =
    \<lparr>op_bodySchema = JNull,
     op_canonicalErrorStatuses = [''401'', ''403'', ''404'', ''409'', ''422'', ''500''],
     op_commandType = None,
     op_csrf = False,
     op_method = ''GET'',
     op_path = ''/api/v1/auth/session'',
     op_pathSchemas = [],
     op_responses = [
       (''200'', JObj [(''$ref'', JStr ''#/components/schemas/SessionResponse'')]),
       (''401'', JObj [(''$ref'', JStr ''#/components/schemas/ErrorResponse'')]),
       (''403'', JObj [(''$ref'', JStr ''#/components/schemas/ErrorResponse'')]),
       (''404'', JObj [(''$ref'', JStr ''#/components/schemas/ErrorResponse'')]),
       (''409'', JObj [(''$ref'', JStr ''#/components/schemas/ErrorResponse'')]),
       (''422'', JObj [(''$ref'', JStr ''#/components/schemas/ErrorResponse'')]),
       (''500'', JObj [(''$ref'', JStr ''#/components/schemas/ErrorResponse'')])]\<rparr>"

definition op_capabilities_api_v1_capabilities_get :: runtime_operation where
  "op_capabilities_api_v1_capabilities_get =
    \<lparr>op_bodySchema = JNull,
     op_canonicalErrorStatuses = [''401'', ''403'', ''404'', ''409'', ''422'', ''500''],
     op_commandType = None,
     op_csrf = False,
     op_method = ''GET'',
     op_path = ''/api/v1/capabilities'',
     op_pathSchemas = [],
     op_responses = [
       (''200'', JObj [(''$ref'', JStr ''#/components/schemas/CapabilitiesResponse'')]),
       (''401'', JObj [(''$ref'', JStr ''#/components/schemas/ErrorResponse'')]),
       (''403'', JObj [(''$ref'', JStr ''#/components/schemas/ErrorResponse'')]),
       (''404'', JObj [(''$ref'', JStr ''#/components/schemas/ErrorResponse'')]),
       (''409'', JObj [(''$ref'', JStr ''#/components/schemas/ErrorResponse'')]),
       (''422'', JObj [(''$ref'', JStr ''#/components/schemas/ErrorResponse'')]),
       (''500'', JObj [(''$ref'', JStr ''#/components/schemas/ErrorResponse'')])]\<rparr>"

definition op_canonical_update_journey_api_v1_commands_journey_update_post :: runtime_operation where
  "op_canonical_update_journey_api_v1_commands_journey_update_post =
    \<lparr>op_bodySchema = JObj [(''$ref'', JStr ''#/components/schemas/JourneyUpdateCommand'')],
     op_canonicalErrorStatuses = [''401'', ''403'', ''404'', ''409'', ''422'', ''500''],
     op_commandType = Some ''journey.update'',
     op_csrf = True,
     op_method = ''POST'',
     op_path = ''/api/v1/commands/journey.update'',
     op_pathSchemas = [],
     op_responses = [
       (''200'', JObj [(''$ref'', JStr ''#/components/schemas/JourneyUpdateCommandResponse'')]),
       (''401'', JObj [(''$ref'', JStr ''#/components/schemas/ErrorResponse'')]),
       (''403'', JObj [(''$ref'', JStr ''#/components/schemas/ErrorResponse'')]),
       (''404'', JObj [(''$ref'', JStr ''#/components/schemas/ErrorResponse'')]),
       (''409'', JObj [(''$ref'', JStr ''#/components/schemas/ErrorResponse'')]),
       (''422'', JObj [(''$ref'', JStr ''#/components/schemas/ErrorResponse'')]),
       (''500'', JObj [(''$ref'', JStr ''#/components/schemas/ErrorResponse'')])]\<rparr>"

definition op_list_journeys_api_v1_journeys_get :: runtime_operation where
  "op_list_journeys_api_v1_journeys_get =
    \<lparr>op_bodySchema = JNull,
     op_canonicalErrorStatuses = [''401'', ''403'', ''404'', ''409'', ''422'', ''500''],
     op_commandType = None,
     op_csrf = False,
     op_method = ''GET'',
     op_path = ''/api/v1/journeys'',
     op_pathSchemas = [],
     op_responses = [
       (''200'', JObj [(''$ref'', JStr ''#/components/schemas/JourneyListResponse'')]),
       (''401'', JObj [(''$ref'', JStr ''#/components/schemas/ErrorResponse'')]),
       (''403'', JObj [(''$ref'', JStr ''#/components/schemas/ErrorResponse'')]),
       (''404'', JObj [(''$ref'', JStr ''#/components/schemas/ErrorResponse'')]),
       (''409'', JObj [(''$ref'', JStr ''#/components/schemas/ErrorResponse'')]),
       (''422'', JObj [(''$ref'', JStr ''#/components/schemas/ErrorResponse'')]),
       (''500'', JObj [(''$ref'', JStr ''#/components/schemas/ErrorResponse'')])]\<rparr>"

definition op_create_journey_api_v1_journeys_post :: runtime_operation where
  "op_create_journey_api_v1_journeys_post =
    \<lparr>op_bodySchema = JObj [(''$ref'', JStr ''#/components/schemas/JourneyCreate'')],
     op_canonicalErrorStatuses = [''401'', ''403'', ''404'', ''409'', ''422'', ''500''],
     op_commandType = None,
     op_csrf = True,
     op_method = ''POST'',
     op_path = ''/api/v1/journeys'',
     op_pathSchemas = [],
     op_responses = [
       (''201'', JObj [(''$ref'', JStr ''#/components/schemas/JourneyResponse'')]),
       (''401'', JObj [(''$ref'', JStr ''#/components/schemas/ErrorResponse'')]),
       (''403'', JObj [(''$ref'', JStr ''#/components/schemas/ErrorResponse'')]),
       (''404'', JObj [(''$ref'', JStr ''#/components/schemas/ErrorResponse'')]),
       (''409'', JObj [(''$ref'', JStr ''#/components/schemas/ErrorResponse'')]),
       (''422'', JObj [(''$ref'', JStr ''#/components/schemas/ErrorResponse'')]),
       (''500'', JObj [(''$ref'', JStr ''#/components/schemas/ErrorResponse'')])]\<rparr>"

definition op_delete_journey_api_v1_journeys__journey_id__delete :: runtime_operation where
  "op_delete_journey_api_v1_journeys__journey_id__delete =
    \<lparr>op_bodySchema = JNull,
     op_canonicalErrorStatuses = [''401'', ''403'', ''404'', ''409'', ''422'', ''500''],
     op_commandType = None,
     op_csrf = True,
     op_method = ''DELETE'',
     op_path = ''/api/v1/journeys/{journey_id}'',
     op_pathSchemas = [
       (''journey_id'', JObj [
         (''format'', JStr ''uuid''),
         (''title'', JStr ''Journey Id''),
         (''type'', JStr ''string'')])],
     op_responses = [
       (''204'', JNull),
       (''401'', JObj [(''$ref'', JStr ''#/components/schemas/ErrorResponse'')]),
       (''403'', JObj [(''$ref'', JStr ''#/components/schemas/ErrorResponse'')]),
       (''404'', JObj [(''$ref'', JStr ''#/components/schemas/ErrorResponse'')]),
       (''409'', JObj [(''$ref'', JStr ''#/components/schemas/ErrorResponse'')]),
       (''422'', JObj [(''$ref'', JStr ''#/components/schemas/ErrorResponse'')]),
       (''500'', JObj [(''$ref'', JStr ''#/components/schemas/ErrorResponse'')])]\<rparr>"

definition op_get_journey_api_v1_journeys__journey_id__get :: runtime_operation where
  "op_get_journey_api_v1_journeys__journey_id__get =
    \<lparr>op_bodySchema = JNull,
     op_canonicalErrorStatuses = [''401'', ''403'', ''404'', ''409'', ''422'', ''500''],
     op_commandType = None,
     op_csrf = False,
     op_method = ''GET'',
     op_path = ''/api/v1/journeys/{journey_id}'',
     op_pathSchemas = [
       (''journey_id'', JObj [
         (''format'', JStr ''uuid''),
         (''title'', JStr ''Journey Id''),
         (''type'', JStr ''string'')])],
     op_responses = [
       (''200'', JObj [(''$ref'', JStr ''#/components/schemas/JourneyResponse'')]),
       (''401'', JObj [(''$ref'', JStr ''#/components/schemas/ErrorResponse'')]),
       (''403'', JObj [(''$ref'', JStr ''#/components/schemas/ErrorResponse'')]),
       (''404'', JObj [(''$ref'', JStr ''#/components/schemas/ErrorResponse'')]),
       (''409'', JObj [(''$ref'', JStr ''#/components/schemas/ErrorResponse'')]),
       (''422'', JObj [(''$ref'', JStr ''#/components/schemas/ErrorResponse'')]),
       (''500'', JObj [(''$ref'', JStr ''#/components/schemas/ErrorResponse'')])]\<rparr>"

definition op_update_journey_api_v1_journeys__journey_id__put :: runtime_operation where
  "op_update_journey_api_v1_journeys__journey_id__put =
    \<lparr>op_bodySchema = JObj [(''$ref'', JStr ''#/components/schemas/JourneyUpdate'')],
     op_canonicalErrorStatuses = [''401'', ''403'', ''404'', ''409'', ''422'', ''500''],
     op_commandType = None,
     op_csrf = True,
     op_method = ''PUT'',
     op_path = ''/api/v1/journeys/{journey_id}'',
     op_pathSchemas = [
       (''journey_id'', JObj [
         (''format'', JStr ''uuid''),
         (''title'', JStr ''Journey Id''),
         (''type'', JStr ''string'')])],
     op_responses = [
       (''200'', JObj [(''$ref'', JStr ''#/components/schemas/JourneyResponse'')]),
       (''401'', JObj [(''$ref'', JStr ''#/components/schemas/ErrorResponse'')]),
       (''403'', JObj [(''$ref'', JStr ''#/components/schemas/ErrorResponse'')]),
       (''404'', JObj [(''$ref'', JStr ''#/components/schemas/ErrorResponse'')]),
       (''409'', JObj [(''$ref'', JStr ''#/components/schemas/ErrorResponse'')]),
       (''422'', JObj [(''$ref'', JStr ''#/components/schemas/ErrorResponse'')]),
       (''500'', JObj [(''$ref'', JStr ''#/components/schemas/ErrorResponse'')])]\<rparr>"

definition op_list_packing_api_v1_journeys__journey_id__packing_get :: runtime_operation where
  "op_list_packing_api_v1_journeys__journey_id__packing_get =
    \<lparr>op_bodySchema = JNull,
     op_canonicalErrorStatuses = [''401'', ''403'', ''404'', ''409'', ''422'', ''500''],
     op_commandType = None,
     op_csrf = False,
     op_method = ''GET'',
     op_path = ''/api/v1/journeys/{journey_id}/packing'',
     op_pathSchemas = [
       (''journey_id'', JObj [
         (''format'', JStr ''uuid''),
         (''title'', JStr ''Journey Id''),
         (''type'', JStr ''string'')])],
     op_responses = [
       (''200'', JObj [(''$ref'', JStr ''#/components/schemas/PackingListResponse'')]),
       (''401'', JObj [(''$ref'', JStr ''#/components/schemas/ErrorResponse'')]),
       (''403'', JObj [(''$ref'', JStr ''#/components/schemas/ErrorResponse'')]),
       (''404'', JObj [(''$ref'', JStr ''#/components/schemas/ErrorResponse'')]),
       (''409'', JObj [(''$ref'', JStr ''#/components/schemas/ErrorResponse'')]),
       (''422'', JObj [(''$ref'', JStr ''#/components/schemas/ErrorResponse'')]),
       (''500'', JObj [(''$ref'', JStr ''#/components/schemas/ErrorResponse'')])]\<rparr>"

definition op_create_packing_api_v1_journeys__journey_id__packing_post :: runtime_operation where
  "op_create_packing_api_v1_journeys__journey_id__packing_post =
    \<lparr>op_bodySchema = JObj [(''$ref'', JStr ''#/components/schemas/PackingCreate'')],
     op_canonicalErrorStatuses = [''401'', ''403'', ''404'', ''409'', ''422'', ''500''],
     op_commandType = None,
     op_csrf = True,
     op_method = ''POST'',
     op_path = ''/api/v1/journeys/{journey_id}/packing'',
     op_pathSchemas = [
       (''journey_id'', JObj [
         (''format'', JStr ''uuid''),
         (''title'', JStr ''Journey Id''),
         (''type'', JStr ''string'')])],
     op_responses = [
       (''201'', JObj [(''$ref'', JStr ''#/components/schemas/PackingResponse'')]),
       (''401'', JObj [(''$ref'', JStr ''#/components/schemas/ErrorResponse'')]),
       (''403'', JObj [(''$ref'', JStr ''#/components/schemas/ErrorResponse'')]),
       (''404'', JObj [(''$ref'', JStr ''#/components/schemas/ErrorResponse'')]),
       (''409'', JObj [(''$ref'', JStr ''#/components/schemas/ErrorResponse'')]),
       (''422'', JObj [(''$ref'', JStr ''#/components/schemas/ErrorResponse'')]),
       (''500'', JObj [(''$ref'', JStr ''#/components/schemas/ErrorResponse'')])]\<rparr>"

definition op_delete_packing_api_v1_journeys__journey_id__packing__item_id__delete :: runtime_operation where
  "op_delete_packing_api_v1_journeys__journey_id__packing__item_id__delete =
    \<lparr>op_bodySchema = JNull,
     op_canonicalErrorStatuses = [''401'', ''403'', ''404'', ''409'', ''422'', ''500''],
     op_commandType = None,
     op_csrf = True,
     op_method = ''DELETE'',
     op_path = ''/api/v1/journeys/{journey_id}/packing/{item_id}'',
     op_pathSchemas = [
       (''journey_id'', JObj [
         (''format'', JStr ''uuid''),
         (''title'', JStr ''Journey Id''),
         (''type'', JStr ''string'')]),
       (''item_id'', JObj [
         (''format'', JStr ''uuid''),
         (''title'', JStr ''Item Id''),
         (''type'', JStr ''string'')])],
     op_responses = [
       (''204'', JNull),
       (''401'', JObj [(''$ref'', JStr ''#/components/schemas/ErrorResponse'')]),
       (''403'', JObj [(''$ref'', JStr ''#/components/schemas/ErrorResponse'')]),
       (''404'', JObj [(''$ref'', JStr ''#/components/schemas/ErrorResponse'')]),
       (''409'', JObj [(''$ref'', JStr ''#/components/schemas/ErrorResponse'')]),
       (''422'', JObj [(''$ref'', JStr ''#/components/schemas/ErrorResponse'')]),
       (''500'', JObj [(''$ref'', JStr ''#/components/schemas/ErrorResponse'')])]\<rparr>"

definition op_update_packing_api_v1_journeys__journey_id__packing__item_id__put :: runtime_operation where
  "op_update_packing_api_v1_journeys__journey_id__packing__item_id__put =
    \<lparr>op_bodySchema = JObj [(''$ref'', JStr ''#/components/schemas/PackingUpdate'')],
     op_canonicalErrorStatuses = [''401'', ''403'', ''404'', ''409'', ''422'', ''500''],
     op_commandType = None,
     op_csrf = True,
     op_method = ''PUT'',
     op_path = ''/api/v1/journeys/{journey_id}/packing/{item_id}'',
     op_pathSchemas = [
       (''journey_id'', JObj [
         (''format'', JStr ''uuid''),
         (''title'', JStr ''Journey Id''),
         (''type'', JStr ''string'')]),
       (''item_id'', JObj [
         (''format'', JStr ''uuid''),
         (''title'', JStr ''Item Id''),
         (''type'', JStr ''string'')])],
     op_responses = [
       (''200'', JObj [(''$ref'', JStr ''#/components/schemas/PackingResponse'')]),
       (''401'', JObj [(''$ref'', JStr ''#/components/schemas/ErrorResponse'')]),
       (''403'', JObj [(''$ref'', JStr ''#/components/schemas/ErrorResponse'')]),
       (''404'', JObj [(''$ref'', JStr ''#/components/schemas/ErrorResponse'')]),
       (''409'', JObj [(''$ref'', JStr ''#/components/schemas/ErrorResponse'')]),
       (''422'', JObj [(''$ref'', JStr ''#/components/schemas/ErrorResponse'')]),
       (''500'', JObj [(''$ref'', JStr ''#/components/schemas/ErrorResponse'')])]\<rparr>"

definition op_update_packing_progress_api_v1_journeys__journey_id__packing__item_id__progress_put :: runtime_operation where
  "op_update_packing_progress_api_v1_journeys__journey_id__packing__item_id__progress_put =
    \<lparr>op_bodySchema = JObj [(''$ref'', JStr ''#/components/schemas/PackingProgressUpdate'')],
     op_canonicalErrorStatuses = [''401'', ''403'', ''404'', ''409'', ''422'', ''500''],
     op_commandType = None,
     op_csrf = True,
     op_method = ''PUT'',
     op_path = ''/api/v1/journeys/{journey_id}/packing/{item_id}/progress'',
     op_pathSchemas = [
       (''journey_id'', JObj [
         (''format'', JStr ''uuid''),
         (''title'', JStr ''Journey Id''),
         (''type'', JStr ''string'')]),
       (''item_id'', JObj [
         (''format'', JStr ''uuid''),
         (''title'', JStr ''Item Id''),
         (''type'', JStr ''string'')])],
     op_responses = [
       (''200'', JObj [(''$ref'', JStr ''#/components/schemas/PackingResponse'')]),
       (''401'', JObj [(''$ref'', JStr ''#/components/schemas/ErrorResponse'')]),
       (''403'', JObj [(''$ref'', JStr ''#/components/schemas/ErrorResponse'')]),
       (''404'', JObj [(''$ref'', JStr ''#/components/schemas/ErrorResponse'')]),
       (''409'', JObj [(''$ref'', JStr ''#/components/schemas/ErrorResponse'')]),
       (''422'', JObj [(''$ref'', JStr ''#/components/schemas/ErrorResponse'')]),
       (''500'', JObj [(''$ref'', JStr ''#/components/schemas/ErrorResponse'')])]\<rparr>"

definition op_list_segments_api_v1_journeys__journey_id__segments_get :: runtime_operation where
  "op_list_segments_api_v1_journeys__journey_id__segments_get =
    \<lparr>op_bodySchema = JNull,
     op_canonicalErrorStatuses = [''401'', ''403'', ''404'', ''409'', ''422'', ''500''],
     op_commandType = None,
     op_csrf = False,
     op_method = ''GET'',
     op_path = ''/api/v1/journeys/{journey_id}/segments'',
     op_pathSchemas = [
       (''journey_id'', JObj [
         (''format'', JStr ''uuid''),
         (''title'', JStr ''Journey Id''),
         (''type'', JStr ''string'')])],
     op_responses = [
       (''200'', JObj [(''$ref'', JStr ''#/components/schemas/SegmentListResponse'')]),
       (''401'', JObj [(''$ref'', JStr ''#/components/schemas/ErrorResponse'')]),
       (''403'', JObj [(''$ref'', JStr ''#/components/schemas/ErrorResponse'')]),
       (''404'', JObj [(''$ref'', JStr ''#/components/schemas/ErrorResponse'')]),
       (''409'', JObj [(''$ref'', JStr ''#/components/schemas/ErrorResponse'')]),
       (''422'', JObj [(''$ref'', JStr ''#/components/schemas/ErrorResponse'')]),
       (''500'', JObj [(''$ref'', JStr ''#/components/schemas/ErrorResponse'')])]\<rparr>"

definition op_create_segment_api_v1_journeys__journey_id__segments_post :: runtime_operation where
  "op_create_segment_api_v1_journeys__journey_id__segments_post =
    \<lparr>op_bodySchema = JObj [(''$ref'', JStr ''#/components/schemas/SegmentCreate'')],
     op_canonicalErrorStatuses = [''401'', ''403'', ''404'', ''409'', ''422'', ''500''],
     op_commandType = None,
     op_csrf = True,
     op_method = ''POST'',
     op_path = ''/api/v1/journeys/{journey_id}/segments'',
     op_pathSchemas = [
       (''journey_id'', JObj [
         (''format'', JStr ''uuid''),
         (''title'', JStr ''Journey Id''),
         (''type'', JStr ''string'')])],
     op_responses = [
       (''201'', JObj [(''$ref'', JStr ''#/components/schemas/SegmentResponse'')]),
       (''401'', JObj [(''$ref'', JStr ''#/components/schemas/ErrorResponse'')]),
       (''403'', JObj [(''$ref'', JStr ''#/components/schemas/ErrorResponse'')]),
       (''404'', JObj [(''$ref'', JStr ''#/components/schemas/ErrorResponse'')]),
       (''409'', JObj [(''$ref'', JStr ''#/components/schemas/ErrorResponse'')]),
       (''422'', JObj [(''$ref'', JStr ''#/components/schemas/ErrorResponse'')]),
       (''500'', JObj [(''$ref'', JStr ''#/components/schemas/ErrorResponse'')])]\<rparr>"

definition op_delete_segment_api_v1_journeys__journey_id__segments__segment_id__delete :: runtime_operation where
  "op_delete_segment_api_v1_journeys__journey_id__segments__segment_id__delete =
    \<lparr>op_bodySchema = JNull,
     op_canonicalErrorStatuses = [''401'', ''403'', ''404'', ''409'', ''422'', ''500''],
     op_commandType = None,
     op_csrf = True,
     op_method = ''DELETE'',
     op_path = ''/api/v1/journeys/{journey_id}/segments/{segment_id}'',
     op_pathSchemas = [
       (''journey_id'', JObj [
         (''format'', JStr ''uuid''),
         (''title'', JStr ''Journey Id''),
         (''type'', JStr ''string'')]),
       (''segment_id'', JObj [
         (''format'', JStr ''uuid''),
         (''title'', JStr ''Segment Id''),
         (''type'', JStr ''string'')])],
     op_responses = [
       (''204'', JNull),
       (''401'', JObj [(''$ref'', JStr ''#/components/schemas/ErrorResponse'')]),
       (''403'', JObj [(''$ref'', JStr ''#/components/schemas/ErrorResponse'')]),
       (''404'', JObj [(''$ref'', JStr ''#/components/schemas/ErrorResponse'')]),
       (''409'', JObj [(''$ref'', JStr ''#/components/schemas/ErrorResponse'')]),
       (''422'', JObj [(''$ref'', JStr ''#/components/schemas/ErrorResponse'')]),
       (''500'', JObj [(''$ref'', JStr ''#/components/schemas/ErrorResponse'')])]\<rparr>"

definition op_update_segment_api_v1_journeys__journey_id__segments__segment_id__put :: runtime_operation where
  "op_update_segment_api_v1_journeys__journey_id__segments__segment_id__put =
    \<lparr>op_bodySchema = JObj [(''$ref'', JStr ''#/components/schemas/SegmentUpdate'')],
     op_canonicalErrorStatuses = [''401'', ''403'', ''404'', ''409'', ''422'', ''500''],
     op_commandType = None,
     op_csrf = True,
     op_method = ''PUT'',
     op_path = ''/api/v1/journeys/{journey_id}/segments/{segment_id}'',
     op_pathSchemas = [
       (''journey_id'', JObj [
         (''format'', JStr ''uuid''),
         (''title'', JStr ''Journey Id''),
         (''type'', JStr ''string'')]),
       (''segment_id'', JObj [
         (''format'', JStr ''uuid''),
         (''title'', JStr ''Segment Id''),
         (''type'', JStr ''string'')])],
     op_responses = [
       (''200'', JObj [(''$ref'', JStr ''#/components/schemas/SegmentResponse'')]),
       (''401'', JObj [(''$ref'', JStr ''#/components/schemas/ErrorResponse'')]),
       (''403'', JObj [(''$ref'', JStr ''#/components/schemas/ErrorResponse'')]),
       (''404'', JObj [(''$ref'', JStr ''#/components/schemas/ErrorResponse'')]),
       (''409'', JObj [(''$ref'', JStr ''#/components/schemas/ErrorResponse'')]),
       (''422'', JObj [(''$ref'', JStr ''#/components/schemas/ErrorResponse'')]),
       (''500'', JObj [(''$ref'', JStr ''#/components/schemas/ErrorResponse'')])]\<rparr>"

definition op_reorder_segment_api_v1_journeys__journey_id__segments__segment_id__reorder_post :: runtime_operation where
  "op_reorder_segment_api_v1_journeys__journey_id__segments__segment_id__reorder_post =
    \<lparr>op_bodySchema = JObj [(''$ref'', JStr ''#/components/schemas/SegmentReorder'')],
     op_canonicalErrorStatuses = [''401'', ''403'', ''404'', ''409'', ''422'', ''500''],
     op_commandType = None,
     op_csrf = True,
     op_method = ''POST'',
     op_path = ''/api/v1/journeys/{journey_id}/segments/{segment_id}/reorder'',
     op_pathSchemas = [
       (''journey_id'', JObj [
         (''format'', JStr ''uuid''),
         (''title'', JStr ''Journey Id''),
         (''type'', JStr ''string'')]),
       (''segment_id'', JObj [
         (''format'', JStr ''uuid''),
         (''title'', JStr ''Segment Id''),
         (''type'', JStr ''string'')])],
     op_responses = [
       (''200'', JObj [(''$ref'', JStr ''#/components/schemas/SegmentResponse'')]),
       (''401'', JObj [(''$ref'', JStr ''#/components/schemas/ErrorResponse'')]),
       (''403'', JObj [(''$ref'', JStr ''#/components/schemas/ErrorResponse'')]),
       (''404'', JObj [(''$ref'', JStr ''#/components/schemas/ErrorResponse'')]),
       (''409'', JObj [(''$ref'', JStr ''#/components/schemas/ErrorResponse'')]),
       (''422'', JObj [(''$ref'', JStr ''#/components/schemas/ErrorResponse'')]),
       (''500'', JObj [(''$ref'', JStr ''#/components/schemas/ErrorResponse'')])]\<rparr>"

definition op_version_api_v1_version_get :: runtime_operation where
  "op_version_api_v1_version_get =
    \<lparr>op_bodySchema = JNull,
     op_canonicalErrorStatuses = [''401'', ''403'', ''404'', ''409'', ''422'', ''500''],
     op_commandType = None,
     op_csrf = False,
     op_method = ''GET'',
     op_path = ''/api/v1/version'',
     op_pathSchemas = [],
     op_responses = [
       (''200'', JObj [(''$ref'', JStr ''#/components/schemas/VersionResponse'')]),
       (''401'', JObj [(''$ref'', JStr ''#/components/schemas/ErrorResponse'')]),
       (''403'', JObj [(''$ref'', JStr ''#/components/schemas/ErrorResponse'')]),
       (''404'', JObj [(''$ref'', JStr ''#/components/schemas/ErrorResponse'')]),
       (''409'', JObj [(''$ref'', JStr ''#/components/schemas/ErrorResponse'')]),
       (''422'', JObj [(''$ref'', JStr ''#/components/schemas/ErrorResponse'')]),
       (''500'', JObj [(''$ref'', JStr ''#/components/schemas/ErrorResponse'')])]\<rparr>"

definition op_live_health_live_get :: runtime_operation where
  "op_live_health_live_get =
    \<lparr>op_bodySchema = JNull,
     op_canonicalErrorStatuses = [''500''],
     op_commandType = None,
     op_csrf = False,
     op_method = ''GET'',
     op_path = ''/health/live'',
     op_pathSchemas = [],
     op_responses = [
       (''200'', JObj [(''$ref'', JStr ''#/components/schemas/LiveResponse'')]),
       (''500'', JObj [(''$ref'', JStr ''#/components/schemas/ErrorResponse'')])]\<rparr>"

definition op_ready_health_ready_get :: runtime_operation where
  "op_ready_health_ready_get =
    \<lparr>op_bodySchema = JNull,
     op_canonicalErrorStatuses = [''500''],
     op_commandType = None,
     op_csrf = False,
     op_method = ''GET'',
     op_path = ''/health/ready'',
     op_pathSchemas = [],
     op_responses = [
       (''200'', JObj [(''$ref'', JStr ''#/components/schemas/ReadyResponse'')]),
       (''500'', JObj [(''$ref'', JStr ''#/components/schemas/ErrorResponse'')]),
       (''503'', JObj [(''$ref'', JStr ''#/components/schemas/ReadyResponse'')])]\<rparr>"

definition operationMetadata :: "(string \<times> runtime_operation) list" where
  "operationMetadata = [
    (''contract_discovery_api_contract_get'',
      op_contract_discovery_api_contract_get),
    (''login_route_api_v1_auth_login_post'',
      op_login_route_api_v1_auth_login_post),
    (''logout_route_api_v1_auth_logout_post'',
      op_logout_route_api_v1_auth_logout_post),
    (''register_route_api_v1_auth_register_post'',
      op_register_route_api_v1_auth_register_post),
    (''session_route_api_v1_auth_session_get'',
      op_session_route_api_v1_auth_session_get),
    (''capabilities_api_v1_capabilities_get'',
      op_capabilities_api_v1_capabilities_get),
    (''canonical_update_journey_api_v1_commands_journey_update_post'',
      op_canonical_update_journey_api_v1_commands_journey_update_post),
    (''list_journeys_api_v1_journeys_get'',
      op_list_journeys_api_v1_journeys_get),
    (''create_journey_api_v1_journeys_post'',
      op_create_journey_api_v1_journeys_post),
    (''delete_journey_api_v1_journeys__journey_id__delete'',
      op_delete_journey_api_v1_journeys__journey_id__delete),
    (''get_journey_api_v1_journeys__journey_id__get'',
      op_get_journey_api_v1_journeys__journey_id__get),
    (''update_journey_api_v1_journeys__journey_id__put'',
      op_update_journey_api_v1_journeys__journey_id__put),
    (''list_packing_api_v1_journeys__journey_id__packing_get'',
      op_list_packing_api_v1_journeys__journey_id__packing_get),
    (''create_packing_api_v1_journeys__journey_id__packing_post'',
      op_create_packing_api_v1_journeys__journey_id__packing_post),
    (''delete_packing_api_v1_journeys__journey_id__packing__item_id__delete'',
      op_delete_packing_api_v1_journeys__journey_id__packing__item_id__delete),
    (''update_packing_api_v1_journeys__journey_id__packing__item_id__put'',
      op_update_packing_api_v1_journeys__journey_id__packing__item_id__put),
    (''update_packing_progress_api_v1_journeys__journey_id__packing__item_id__progress_put'',
      op_update_packing_progress_api_v1_journeys__journey_id__packing__item_id__progress_put),
    (''list_segments_api_v1_journeys__journey_id__segments_get'',
      op_list_segments_api_v1_journeys__journey_id__segments_get),
    (''create_segment_api_v1_journeys__journey_id__segments_post'',
      op_create_segment_api_v1_journeys__journey_id__segments_post),
    (''delete_segment_api_v1_journeys__journey_id__segments__segment_id__delete'',
      op_delete_segment_api_v1_journeys__journey_id__segments__segment_id__delete),
    (''update_segment_api_v1_journeys__journey_id__segments__segment_id__put'',
      op_update_segment_api_v1_journeys__journey_id__segments__segment_id__put),
    (''reorder_segment_api_v1_journeys__journey_id__segments__segment_id__reorder_post'',
      op_reorder_segment_api_v1_journeys__journey_id__segments__segment_id__reorder_post),
    (''version_api_v1_version_get'',
      op_version_api_v1_version_get),
    (''live_health_live_get'',
      op_live_health_live_get),
    (''ready_health_ready_get'',
      op_ready_health_ready_get)]"

end
