(* ===== verification/Contract_Dates.thy ===== *)
theory Contract_Dates
  imports Validator
begin

text \<open>
  \<open>validDate\<close> goes through \<open>Date.UTC\<close> and back; here it is shown to accept exactly the days of the
  Gregorian calendar from the year 100 on.
\<close>

definition days_in_month :: "int \<Rightarrow> int \<Rightarrow> int" where
  "days_in_month y m =
     (if m \<in> {4, 6, 9, 11} then 30 else if m = 2 then (if leap y then 29 else 28) else 31)"

lemma div_step:
  fixes x k :: int
  assumes "0 < k"
  shows "(x + 1) div k = x div k + (if (x + 1) mod k = 0 then 1 else 0)"
proof -
  define q r where "q = x div k" and "r = x mod k"
  have x: "x + 1 = (r + 1) + q * k" and r: "0 \<le> r" "r < k"
    using assms by (simp_all add: q_def r_def)
  have d: "(x + 1) div k = (r + 1) div k + q" and m: "(x + 1) mod k = (r + 1) mod k"
    unfolding x using assms by simp_all
  show ?thesis
  proof (cases "r + 1 = k")
    case True
    then show ?thesis
      using d m assms by (simp add: q_def)
  next
    case False
    then have "(r + 1) div k = 0" "(r + 1) mod k = r + 1"
      using r by (simp_all add: div_pos_pos_trivial)
    then show ?thesis
      using d m r by (simp add: q_def)
  qed
qed

lemma mod_shift: "k dvd c \<Longrightarrow> (y - c) mod k = y mod k" for y c k :: int
  by (metis diff_zero dvd_imp_mod_0 mod_diff_right_eq)

lemma div_year_step:
  fixes y a k :: int
  assumes "0 < k" "k dvd a"
  shows "(y + 1 - (a + 1)) div k = (y - (a + 1)) div k + (if y mod k = 0 then 1 else 0)"
  using div_step [OF assms(1), of "y - (a + 1)"] mod_shift [OF assms(2), of y] by (simp add: algebra_simps)

lemma leap_sum:
  fixes y a b c :: int
  assumes "r \<Longrightarrow> q" "q \<Longrightarrow> p"
  shows "365 * (y + 1 - 1970) + (a + (if p then 1 else 0)) - (b + (if q then 1 else 0)) + (c + (if r then 1 else 0))
     = 365 * (y - 1970) + a - b + c + (if p \<and> (\<not> q \<or> r) then 366 else 365)"
  using assms by (cases p; cases q; cases r) simp_all

lemma DayFromYear_step: "DayFromYear (y + 1) = DayFromYear y + (if leap y then 366 else 365)"
proof -
  have four: "(y + 1 - 1969) div 4 = (y - 1969) div 4 + (if y mod 4 = 0 then 1 else 0)"
    using div_year_step [of 4 1968 y] by simp
  have hundred: "(y + 1 - 1901) div 100 = (y - 1901) div 100 + (if y mod 100 = 0 then 1 else 0)"
    using div_year_step [of 100 1900 y] by simp
  have cycle: "(y + 1 - 1601) div 400 = (y - 1601) div 400 + (if y mod 400 = 0 then 1 else 0)"
    using div_year_step [of 400 1600 y] by simp
  have "y mod 400 = 0 \<Longrightarrow> y mod 100 = 0" "y mod 100 = 0 \<Longrightarrow> y mod 4 = 0"
    using dvd_trans [of 100 400 y] dvd_trans [of 4 100 y] by (simp_all add: mod_eq_0_iff_dvd)
  then show ?thesis
    unfolding DayFromYear_def leap_def four hundred cycle by (rule leap_sum)
qed

lemma DayFromYear_mono: "DayFromYear y + 365 * int n \<le> DayFromYear (y + int n)"
proof (induction n)
  case 0
  then show ?case by simp
next
  case (Suc n)
  then show ?case
    using DayFromYear_step [of "y + int n"] by (simp add: algebra_simps split: if_splits)
qed

lemma month_length:
  assumes "1 \<le> m" "m \<le> 12"
  shows "month_start (leap y) m - month_start (leap y) (m - 1) = days_in_month y m"
    and "0 \<le> month_start (leap y) (m - 1)"
    and "month_start (leap y) m \<le> (if leap y then 366 else 365)"
proof -
  have "m \<in> {1, 2, 3, 4, 5, 6, 7, 8, 9, 10, 11, 12}"
    using assms by (simp only: insert_iff empty_iff) presburger
  then show "month_start (leap y) m - month_start (leap y) (m - 1) = days_in_month y m"
    and "0 \<le> month_start (leap y) (m - 1)"
    and "month_start (leap y) m \<le> (if leap y then 366 else 365)"
    by (elim insertE emptyE; simp add: month_start_def days_in_month_def)+
qed

lemma date_check_iff:
  assumes "0 \<le> y" "0 \<le> m" "0 \<le> d"
  shows "(let date = date_UTC_day y (m - 1) d in
      utc_year_is date y \<and> utc_month_is date y (m - 1) \<and> utc_date_is date y (m - 1) d)
     \<longleftrightarrow> 100 \<le> y \<and> 1 \<le> m \<and> m \<le> 12 \<and> 1 \<le> d \<and> d \<le> days_in_month y m"
proof (cases "1 \<le> m \<and> m \<le> 12")
  case False
  then show ?thesis
    by (auto simp: utc_month_is_def Let_def)
next
  case m: True
  then have carry: "(m - 1) div 12 = 0" "(m - 1) mod 12 = m - 1"
    by (simp_all add: div_pos_pos_trivial)
  note len = month_length [of m y]
  show ?thesis
  proof (cases "100 \<le> y")
    case True
    then have date: "date_UTC_day y (m - 1) d = DayFromYear y + month_start (leap y) (m - 1) + d - 1"
      by (simp add: date_UTC_day_def Let_def carry)
    show ?thesis
      unfolding date Let_def utc_year_is_def utc_month_is_def utc_date_is_def
      using True m len DayFromYear_step [of y] by auto
  next
    case False
    then have date: "date_UTC_day y (m - 1) d
        = DayFromYear (1900 + y) + month_start (leap (1900 + y)) (m - 1) + d - 1"
      using assms(1) by (simp add: date_UTC_day_def Let_def carry)
    have "DayFromYear (y + 1) + 365 * int 1899 \<le> DayFromYear (1900 + y)"
      using DayFromYear_mono [of "y + 1" 1899] by (simp add: algebra_simps)
    moreover have "0 \<le> month_start (leap (1900 + y)) (m - 1)"
      by (rule month_length) (use m in simp_all)
    ultimately have "DayFromYear (y + 1) \<le> date_UTC_day y (m - 1) d"
      unfolding date using assms(3) by simp
    then show ?thesis
      using False by (auto simp: Let_def utc_year_is_def)
  qed
qed

lemma digits_val_nonneg: "list_all is_digit s \<Longrightarrow> 0 \<le> digits_val s"
proof -
  have "list_all is_digit t \<Longrightarrow> 0 \<le> acc \<Longrightarrow> 0 \<le> foldl (\<lambda>acc c. acc * 10 + (of_char c - 48 :: int)) acc t" for acc t
  proof (induction t arbitrary: acc)
    case Nil
    then show ?case by simp
  next
    case (Cons c t)
    then have "(48 :: nat) \<le> of_char c"
      by (simp add: is_digit_def less_eq_char_def)
    then have "(48 :: int) \<le> of_char c"
      by (metis of_nat_le_iff of_nat_numeral of_nat_of_char)
    with Cons show ?case by simp
  qed
  then show "list_all is_digit s \<Longrightarrow> 0 \<le> digits_val s"
    by (simp add: digits_val_def)
qed

lemma date_pattern_parts:
  assumes "date_pattern s"
  shows "list_all is_digit (take 4 s)" "list_all is_digit (take 2 (drop 5 s))" "list_all is_digit (drop 8 s)"
proof -
  obtain a b c d e f g h where "s = [a, b, c, d, CHR ''-'', e, f, CHR ''-'', g, h]"
      "is_digit a" "is_digit b" "is_digit c" "is_digit d" "is_digit e" "is_digit f" "is_digit g" "is_digit h"
    using assms unfolding date_pattern_def seq_match_def
    by (auto simp: numeral_eq_Suc list_all2_Cons1)
  then show "list_all is_digit (take 4 s)" "list_all is_digit (take 2 (drop 5 s))" "list_all is_digit (drop 8 s)"
    by simp_all
qed

text \<open>C35. \<open>validDate\<close> accepts a text exactly when it has the shape \<open>YYYY-MM-DD\<close> and names a day that
  exists in the Gregorian calendar (leap years included) in the year 100 or later.\<close>
theorem validDate_is_calendar:
  "validDate s \<longleftrightarrow> date_pattern s
     \<and> 100 \<le> digits_val (take 4 s)
     \<and> 1 \<le> digits_val (take 2 (drop 5 s)) \<and> digits_val (take 2 (drop 5 s)) \<le> 12
     \<and> 1 \<le> digits_val (drop 8 s)
     \<and> digits_val (drop 8 s) \<le> days_in_month (digits_val (take 4 s)) (digits_val (take 2 (drop 5 s)))"
proof (cases "date_pattern s")
  case False
  then show ?thesis
    by (simp add: validDate_def)
next
  case True
  from date_check_iff [OF digits_val_nonneg [OF date_pattern_parts(1) [OF True]]
      digits_val_nonneg [OF date_pattern_parts(2) [OF True]]
      digits_val_nonneg [OF date_pattern_parts(3) [OF True]]]
  show ?thesis
    using True by (simp add: validDate_def Let_def)
qed

end
