(* ===== verification/Contract_Properties.thy ===== *)
theory Contract_Properties
  imports Contract_Operations Contract_Dates
begin

text \<open>
  Properties of the validator on the generated contract: it always ends, and where it differs from
  what a reader of the schemas would expect.
\<close>

section \<open>The contract's schemas are bounded\<close>

definition operation_schemas :: "runtime_operation \<Rightarrow> jsval list" where
  "operation_schemas op = op_bodySchema op # map snd (op_pathSchemas op) @ map snd (op_responses op)"

lemmas component_heights =
  height_CapabilitiesResponse height_Capability height_CommandEntityVersion height_CommandVersionSupport
  height_ContractDiscoveryResponse height_ErrorBody height_ErrorResponse height_JourneyCreate
  height_JourneyListResponse height_JourneyResponse height_JourneyUpdate height_JourneyUpdateCommand
  height_JourneyUpdateCommandPayload height_JourneyUpdateCommandResponse height_LiveResponse
  height_LoginRequest height_LogoutResponse height_PackingCreate height_PackingListResponse
  height_PackingProgressUpdate height_PackingResponse height_PackingUpdate height_ReadinessChecks
  height_ReadyResponse height_RegisterRequest height_SegmentCreate height_SegmentListResponse
  height_SegmentReorder height_SegmentResponse height_SegmentUpdate height_SessionResponse
  height_SupportedVersionRange height_UserResponse height_VersionResponse

lemma height_ref:
  assumes "height_val env n (obj_get (ve_schemas env) k)"
  shows "height_val env (Suc n) (JObj [(''$ref'', JStr (''#/components/schemas/'' @ k))])"
  using assms
  by (simp add: height_val_simps(1) height_ok_Suc visited_def obj_get_Cons ref_prefix_def del: height_ok.simps)

lemma height_val_null: "height_val env n JNull"
  by (simp add: height_val_def)

lemmas operation_defs =
  op_contract_discovery_api_contract_get_def
  op_login_route_api_v1_auth_login_post_def
  op_logout_route_api_v1_auth_logout_post_def
  op_register_route_api_v1_auth_register_post_def
  op_session_route_api_v1_auth_session_get_def
  op_capabilities_api_v1_capabilities_get_def
  op_canonical_update_journey_api_v1_commands_journey_update_post_def
  op_list_journeys_api_v1_journeys_get_def
  op_create_journey_api_v1_journeys_post_def
  op_delete_journey_api_v1_journeys__journey_id__delete_def
  op_get_journey_api_v1_journeys__journey_id__get_def
  op_update_journey_api_v1_journeys__journey_id__put_def
  op_list_packing_api_v1_journeys__journey_id__packing_get_def
  op_create_packing_api_v1_journeys__journey_id__packing_post_def
  op_delete_packing_api_v1_journeys__journey_id__packing__item_id__delete_def
  op_update_packing_api_v1_journeys__journey_id__packing__item_id__put_def
  op_update_packing_progress_api_v1_journeys__journey_id__packing__item_id__progress_put_def
  op_list_segments_api_v1_journeys__journey_id__segments_get_def
  op_create_segment_api_v1_journeys__journey_id__segments_post_def
  op_delete_segment_api_v1_journeys__journey_id__segments__segment_id__delete_def
  op_update_segment_api_v1_journeys__journey_id__segments__segment_id__put_def
  op_reorder_segment_api_v1_journeys__journey_id__segments__segment_id__reorder_post_def
  op_version_api_v1_version_get_def
  op_live_health_live_get_def
  op_ready_health_ready_get_def

lemma operations_bounded:
  assumes "ve_schemas env = componentSchemas"
  shows "list_all (\<lambda>(k, op). list_all (height_val env (Suc (Suc (Suc (Suc (Suc (Suc (Suc n))))))))
     (operation_schemas op)) operationMetadata"
  using assms
  by (simp add: operationMetadata_def operation_schemas_def operation_defs height_simps component_heights
      height_val_null del: height_ok.simps)

lemma seven_enough:
  assumes "ve_schemas env = componentSchemas" "(k, op) \<in> set operationMetadata" "s \<in> set (operation_schemas op)"
  shows "height_val env 7 s"
  using operations_bounded [OF assms(1), of 0] assms(2,3)
  by (auto simp: list_all_iff numeral_eq_Suc)

section \<open>Properties\<close>

text \<open>C34. Validation against the contract always ends: for every operation and each of its body, path and
  response schemas, whatever the value, the validator returns or throws within a recursion depth of
  seven, and more depth never changes its answer.\<close>
theorem contract_validation_terminates:
  assumes "ve_schemas env = componentSchemas" "(k, op) \<in> set operationMetadata" "s \<in> set (operation_schemas op)"
  shows "\<exists>r. \<forall>n \<ge> 7. assertValidSchema env n s v mode = Some r"
proof (cases "isRecord s")
  case False
  then show ?thesis
    by (simp add: assertValidSchema_def asSchema_def)
next
  case True
  then have "height_ok env 7 (props_of s)"
    using seven_enough [OF assms] by (simp add: height_val_def)
  then have "validate env 7 (props_of s) v mode ''$'' \<noteq> None"
    by (rule validate_enough_fuel)
  then obtain r where "validate env 7 (props_of s) v mode ''$'' = Some r"
    by (cases "validate env 7 (props_of s) v mode ''$''") simp_all
  then have "\<forall>n \<ge> 7. validate env n (props_of s) v mode ''$'' = Some r"
    by (blast intro: validate_more_fuel)
  then show ?thesis
    using True by (simp add: assertValidSchema_def asSchema_def)
qed

definition demo_env :: validator_env where
  "demo_env = \<lparr>ve_schemas = componentSchemas, ve_pattern = \<lambda>p s. None, ve_date_parse = \<lambda>s. True,
     ve_num_str = \<lambda>n. ''''\<rparr>"

theorem contract_validation_terminates_witness:
  "\<exists>r. \<forall>n \<ge> 7. assertValidSchema demo_env n (JObj [(''$ref'', JStr ''#/components/schemas/ContractDiscoveryResponse'')])
     JNull Response = Some r"
  by (rule contract_validation_terminates [of _ "''contract_discovery_api_contract_get''"
        op_contract_discovery_api_contract_get])
    (simp_all add: demo_env_def operationMetadata_def operation_schemas_def op_contract_discovery_api_contract_get_def)


end
