(* ===== verification/Uri.thy ===== *)
theory Uri
  imports Text
begin

text \<open>
  The URI functions of the language that the API client and the router call:
  \<open>encodeURIComponent\<close>, \<open>decodeURIComponent\<close> and \<open>String.prototype.replace\<close> with a string
  pattern. Decoding may leave the range of the model's strings, so it answers the list of UTF-16
  code units of the result; \<open>None\<close> is the \<open>URIError\<close>.
\<close>

section \<open>Encoding\<close>

definition uri_unreserved :: "char \<Rightarrow> bool" where
  "uri_unreserved c = ((CHR ''A'' \<le> c \<and> c \<le> CHR ''Z'') \<or> (CHR ''a'' \<le> c \<and> c \<le> CHR ''z'') \<or> is_digit c
     \<or> c \<in> set [CHR ''-'', CHR ''_'', CHR ''.'', CHR ''!'', CHR ''~'', CHR ''*'', CHR 0x27, CHR ''('', CHR '')''])"

definition uri_hex_digit :: "nat \<Rightarrow> char" where
  "uri_hex_digit n = (if n < 10 then char_of (48 + n) else char_of (55 + n))"

definition percent :: "nat \<Rightarrow> string" where
  "percent b = [CHR ''%'', uri_hex_digit (b div 16), uri_hex_digit (b mod 16)]"

text \<open>The UTF-8 octets of a code unit below 256.\<close>

definition encode_unit :: "char \<Rightarrow> string" where
  "encode_unit c =
     (let n = of_char c :: nat in
      if uri_unreserved c then [c]
      else if n < 128 then percent n
      else percent (192 + n div 64) @ percent (128 + n mod 64))"

definition encodeURIComponent :: "string \<Rightarrow> string" where
  "encodeURIComponent s = concat (map encode_unit s)"

section \<open>Decoding\<close>

definition uri_hex_value :: "char \<Rightarrow> nat option" where
  "uri_hex_value c =
     (let n = of_char c in
      if 48 \<le> n \<and> n \<le> 57 then Some (n - 48)
      else if 65 \<le> n \<and> n \<le> 70 then Some (n - 55)
      else if 97 \<le> n \<and> n \<le> 102 then Some (n - 87)
      else None)"

fun octet :: "string \<Rightarrow> (nat \<times> string) option" where
  "octet (p # a # b # rest) =
     (if p = CHR ''%''
      then case (uri_hex_value a, uri_hex_value b) of
             (Some x, Some y) \<Rightarrow> Some (16 * x + y, rest) | _ \<Rightarrow> None
      else None)"
| "octet _ = None"

fun octets :: "nat \<Rightarrow> string \<Rightarrow> (nat list \<times> string) option" where
  "octets 0 s = Some ([], s)"
| "octets (Suc n) s =
     (case octet s of
        None \<Rightarrow> None
      | Some (b, r) \<Rightarrow> (case octets n r of None \<Rightarrow> None | Some (bs, r') \<Rightarrow> Some (b # bs, r')))"

text \<open>The number of leading one bits of an octet, and the code point of a valid UTF-8 sequence.\<close>

definition leading_ones :: "nat \<Rightarrow> nat" where
  "leading_ones b =
     (if b < 128 then 0 else if b < 192 then 1 else if b < 224 then 2
      else if b < 240 then 3 else if b < 248 then 4 else 5)"

definition utf8_point :: "nat list \<Rightarrow> nat option" where
  "utf8_point bs =
     (let n = length bs; low = foldl (\<lambda>acc b. 64 * acc + (b - 128)) (hd bs mod 2 ^ (7 - n)) (tl bs) in
      if list_all (\<lambda>b. 128 \<le> b \<and> b < 192) (tl bs)
         \<and> [0, 0, 128, 2048, 65536] ! n \<le> low \<and> low \<le> 1114111 \<and> \<not> (55296 \<le> low \<and> low \<le> 57343)
      then Some low else None)"

definition code_units :: "nat \<Rightarrow> nat list" where
  "code_units p =
     (if p < 65536 then [p] else [55296 + (p - 65536) div 1024, 56320 + (p - 65536) mod 1024])"

lemma octet_length: "octet s = Some (b, r) \<Longrightarrow> length r < length s"
  by (cases s rule: octet.cases) (auto split: if_splits option.splits)

lemma octets_length: "octets n s = Some (bs, r) \<Longrightarrow> length r \<le> length s"
  by (induction n arbitrary: s bs r) (fastforce split: option.splits dest: octet_length)+

function decodeURIComponent :: "string \<Rightarrow> nat list option" where
  "decodeURIComponent [] = Some []"
| "decodeURIComponent (c # cs) =
     (if c \<noteq> CHR ''%'' then map_option (Cons (of_char c)) (decodeURIComponent cs)
      else case octet (c # cs) of
        None \<Rightarrow> None
      | Some (b, r) \<Rightarrow>
          if b < 128 then map_option (Cons b) (decodeURIComponent r)
          else if leading_ones b = 1 \<or> 4 < leading_ones b then None
          else case octets (leading_ones b - 1) r of
            None \<Rightarrow> None
          | Some (bs, r') \<Rightarrow>
              (case utf8_point (b # bs) of
                 None \<Rightarrow> None
               | Some p \<Rightarrow> map_option (append (code_units p)) (decodeURIComponent r')))"
  by pat_completeness auto
termination
  by (relation "measure length") (auto dest!: octet_length octets_length simp del: octet.simps)

declare decodeURIComponent.simps [simp del]

text \<open>A model string as code units, and back where they fit.\<close>

definition units_of :: "string \<Rightarrow> nat list" where
  "units_of s = map of_char s"

definition narrow :: "nat list \<Rightarrow> string option" where
  "narrow us = (if list_all (\<lambda>u. u < 256) us then Some (map char_of us) else None)"

section \<open>Replacement\<close>

text \<open>
  The text around the first occurrence of a pattern, the patterns \<open>$$\<close>, \<open>$&\<close> and \<open>$\<close> with a back
  or straight quote in a replacement, and \<open>replace\<close>.
\<close>

fun split_first :: "string \<Rightarrow> string \<Rightarrow> (string \<times> string) option" where
  "split_first p s =
     (if take (length p) s = p then Some ([], drop (length p) s)
      else case s of [] \<Rightarrow> None | c # cs \<Rightarrow> map_option (\<lambda>(a, b). (c # a, b)) (split_first p cs))"

declare split_first.simps [simp del]

fun get_substitution :: "string \<Rightarrow> string \<Rightarrow> string \<Rightarrow> string \<Rightarrow> string" where
  "get_substitution pre matched post (c # d # r) =
     (if c = CHR ''$'' \<and> d = CHR ''$'' then CHR ''$'' # get_substitution pre matched post r
      else if c = CHR ''$'' \<and> d = CHR ''&'' then matched @ get_substitution pre matched post r
      else if c = CHR ''$'' \<and> d = CHR 0x60 then pre @ get_substitution pre matched post r
      else if c = CHR ''$'' \<and> d = CHR 0x27 then post @ get_substitution pre matched post r
      else c # get_substitution pre matched post (d # r))"
| "get_substitution pre matched post r = r"

definition js_replace :: "string \<Rightarrow> string \<Rightarrow> string \<Rightarrow> string" where
  "js_replace s p r =
     (case split_first p s of
        None \<Rightarrow> s
      | Some (pre, post) \<Rightarrow> pre @ get_substitution pre p post r @ post)"

section \<open>Decoding undoes encoding\<close>


lemma hex_value_digit: "n < 16 \<Longrightarrow> uri_hex_value (uri_hex_digit n) = Some n"
  by (simp add: uri_hex_value_def uri_hex_digit_def)

lemma octet_percent: "b < 256 \<Longrightarrow> octet (percent b @ r) = Some (b, r)"
  by (simp add: percent_def hex_value_digit)

lemma decode_percent_low:
  assumes "b < 128"
  shows "decodeURIComponent (percent b @ r) = map_option (Cons b) (decodeURIComponent r)"
proof -
  have o: "octet (percent b @ r) = Some (b, r)"
    using assms by (simp add: octet_percent)
  then show ?thesis
    using assms unfolding percent_def
    by (simp del: octet.simps add: decodeURIComponent.simps(2))
qed

lemma decode_percent_high:
  assumes "128 \<le> n" "n < 256"
  shows "decodeURIComponent (percent (192 + n div 64) @ percent (128 + n mod 64) @ r)
    = map_option (Cons n) (decodeURIComponent r)"
proof -
  have n: "n div 64 = 2 \<or> n div 64 = 3"
    using assms by auto
  have point: "utf8_point [192 + n div 64, 128 + n mod 64] = Some n"
  proof -
    have "64 * ((192 + n div 64) mod 32) + n mod 64 = n"
      using n mult_div_mod_eq [of 64 n] by (elim disjE) simp_all
    moreover have "128 + n mod 64 < 192"
      by simp
    ultimately show ?thesis
      using assms by (simp add: utf8_point_def Let_def)
  qed
  have lead: "leading_ones (192 + n div 64) = 2"
    using n by (auto simp: leading_ones_def)
  define s where "s = percent (128 + n mod 64) @ r"
  have o: "octet (percent (192 + n div 64) @ s) = Some (192 + n div 64, s)"
    using n by (intro octet_percent) auto
  have os: "octets (2 - 1) s = Some ([128 + n mod 64], r)"
    unfolding s_def using octet_percent [of "128 + n mod 64" r] by (simp del: octet.simps)
  have cons: "(@) [n] = (#) n"
    by auto
  have "decodeURIComponent (percent (192 + n div 64) @ s) = map_option (Cons n) (decodeURIComponent r)"
    using o os lead point assms cons unfolding percent_def
    by (simp del: octet.simps octets.simps add: decodeURIComponent.simps(2) code_units_def)
  then show ?thesis
    by (simp add: s_def)
qed

lemma uri_unreserved_not_percent: "uri_unreserved c \<Longrightarrow> c \<noteq> CHR ''%''"
  by (auto simp: uri_unreserved_def is_digit_def less_eq_char_def)

lemma decode_unit: "decodeURIComponent (encode_unit c @ r) = map_option (Cons (of_char c)) (decodeURIComponent r)"
proof (cases "uri_unreserved c")
  case True
  then show ?thesis
    using uri_unreserved_not_percent [OF True]
    by (simp add: encode_unit_def decodeURIComponent.simps(2))
next
  case False
  have "(of_char c :: nat) < 256"
    by (rule nat_of_char_less_256)
  then show ?thesis
    using False by (simp add: encode_unit_def Let_def decode_percent_low decode_percent_high)
qed

lemma decode_encode: "decodeURIComponent (encodeURIComponent s) = Some (units_of s)"
  by (induction s) (simp_all add: encodeURIComponent_def units_of_def decode_unit decodeURIComponent.simps(1))

lemma narrow_units_of [simp]: "narrow (units_of s) = Some s"
  by (simp add: narrow_def units_of_def list_all_iff nat_of_char_less_256)

lemma encode_Nil_iff: "encodeURIComponent s = [] \<longleftrightarrow> s = []"
  by (cases s) (simp_all add: encodeURIComponent_def encode_unit_def percent_def Let_def)

section \<open>What an encoded text can hold\<close>

lemma hex_digit_unreserved: "n < 16 \<Longrightarrow> uri_unreserved (uri_hex_digit n)"
proof -
  have "list_all (\<lambda>n. uri_unreserved (uri_hex_digit n)) [0..<16]"
    by code_simp
  then show "n < 16 \<Longrightarrow> uri_unreserved (uri_hex_digit n)"
    by (simp add: list_all_iff)
qed

lemma percent_chars: "b < 256 \<Longrightarrow> c \<in> set (percent b) \<Longrightarrow> uri_unreserved c \<or> c = CHR ''%''"
  using hex_digit_unreserved [of "b div 16"] hex_digit_unreserved [of "b mod 16"]
  by (auto simp: percent_def)

lemma encode_chars: "c \<in> set (encodeURIComponent s) \<Longrightarrow> uri_unreserved c \<or> c = CHR ''%''"
proof -
  assume "c \<in> set (encodeURIComponent s)"
  then obtain d where "c \<in> set (encode_unit d)"
    by (auto simp: encodeURIComponent_def)
  moreover have "(of_char d :: nat) div 64 < 64"
    using nat_of_char_less_256 [of d] by linarith
  ultimately show ?thesis
    by (auto simp: encode_unit_def Let_def split: if_splits dest!: percent_chars [rotated])
qed

definition uri_delimiters :: "char list" where
  "uri_delimiters = [CHR ''/'', CHR ''?'', CHR ''#'', CHR ''$'', CHR ''{'', CHR ''}'', CHR 0x5C, CHR '':'', CHR ''@'']"

lemma encode_no_delimiter: "c \<in> set uri_delimiters \<Longrightarrow> c \<notin> set (encodeURIComponent s)"
proof -
  have "list_all (\<lambda>c. \<not> uri_unreserved c \<and> c \<noteq> CHR ''%'') uri_delimiters"
    by code_simp
  then show "c \<in> set uri_delimiters \<Longrightarrow> c \<notin> set (encodeURIComponent s)"
    by (auto simp: list_all_iff dest: encode_chars)
qed

lemma get_substitution_plain: "CHR ''$'' \<notin> set r \<Longrightarrow> get_substitution pre m post r = r"
  by (induction pre m post r rule: get_substitution.induct) auto

lemma split_first_Some: "split_first p s = Some (a, b) \<Longrightarrow> s = a @ p @ b"
proof (induction s arbitrary: a)
  case Nil
  then show ?case by (auto simp: split_first.simps [of p "[]"] split: if_splits)
next
  case (Cons c cs)
  then show ?case
    by (subst (asm) (2) split_first.simps)
      (auto split: if_splits, metis append_take_drop_id)
qed

lemma js_replace_encoded:
  "js_replace s p (encodeURIComponent v) =
     (case split_first p s of None \<Rightarrow> s | Some (a, b) \<Rightarrow> a @ encodeURIComponent v @ b)"
  by (simp add: js_replace_def get_substitution_plain encode_no_delimiter uri_delimiters_def split: option.split)

lemma count_delimiter_replace:
  assumes "c \<in> set uri_delimiters" "c \<notin> set p"
  shows "count_list (js_replace s p (encodeURIComponent v)) c = count_list s c"
  using encode_no_delimiter [OF assms(1), of v] assms(2)
  by (auto simp: js_replace_encoded count_list_0_iff dest!: split_first_Some split: option.split)

end
