(* ===== verification/Api_Client.thy ===== *)
theory Api_Client
  imports Uri Negotiation Contract_Properties
begin

text \<open>
  The API client, \<open>packages/api-client/src/client.ts\<close>: checking an input against the contract,
  building the request, reading the response, and the negotiation that every request but the
  discovery waits for.

  The network is a function on a world \<open>'w\<close>: a request changes the world and gives a response, or
  none when \<open>fetch\<close> rejects. A response carries what \<open>text()\<close> and \<open>json()\<close> resolve to, with \<open>None\<close>
  where they reject. The body of a request is the value that \<open>JSON.stringify\<close> prints. A method
  returns a value or throws; \<open>None\<close> means the validator ran out of fuel, which seven units rule out.
\<close>

section \<open>Errors\<close>

datatype error_kind = Api_kind | Contract_kind | Network_kind | Negotiation_kind

text \<open>Code, message and request identifier come from a response, so they are dynamic values.\<close>

record api_client_error =
  ae_kind :: error_kind
  ae_code :: jsval
  ae_message :: jsval
  ae_operationId :: "string option"
  ae_status :: "nat option"
  ae_requestId :: jsval

datatype client_exn = ApiClientError api_client_error | Uncaught

type_synonym 'a attempt = "(client_exn + 'a) option"

definition abind :: "'a attempt \<Rightarrow> ('a \<Rightarrow> 'b attempt) \<Rightarrow> 'b attempt" where
  "abind m f = (case m of None \<Rightarrow> None | Some (Inl e) \<Rightarrow> Some (Inl e) | Some (Inr x) \<Rightarrow> f x)"

definition api_error ::
  "error_kind \<Rightarrow> string \<Rightarrow> string \<Rightarrow> string option \<Rightarrow> nat option \<Rightarrow> client_exn"
where
  "api_error kind code message operationId status =
     ApiClientError \<lparr>ae_kind = kind, ae_code = JStr code, ae_message = JStr message,
       ae_operationId = operationId, ae_status = status, ae_requestId = JUndef\<rparr>"

definition invalidRequest :: "string \<Rightarrow> client_exn" where
  "invalidRequest operationId =
     api_error Contract_kind ''invalid_request''
       ''The API request does not match the canonical contract.'' (Some operationId) None"

definition invalidResponse :: "string \<Rightarrow> nat \<Rightarrow> bool \<Rightarrow> client_exn" where
  "invalidResponse operationId status success =
     api_error Contract_kind (if success then ''invalid_response'' else ''invalid_error_response'')
       (if success then ''The Trax OS API returned an invalid response.''
        else ''The Trax OS API returned an invalid error response.'')
       (Some operationId) (Some status)"

section \<open>Building a request\<close>

record http_request =
  hr_url :: string
  hr_method :: string
  hr_credentials :: string
  hr_headers :: "(string \<times> string) list"
  hr_body :: "jsval option"

definition validateRequest ::
  "validator_env \<Rightarrow> nat \<Rightarrow> jsval \<Rightarrow> jsval \<Rightarrow> string \<Rightarrow> unit attempt"
where
  "validateRequest env n schema v operationId =
     (case assertValidSchema env n schema v Request of
        None \<Rightarrow> None
      | Some (Inr _) \<Rightarrow> Some (Inr ())
      | Some (Inl (SchemaValidationError _)) \<Rightarrow> Some (Inl (invalidRequest operationId))
      | Some (Inl Other_exception) \<Rightarrow> Some (Inl Uncaught))"

text \<open>The loop over the path parameters.\<close>

fun substitute_path ::
  "validator_env \<Rightarrow> nat \<Rightarrow> string \<Rightarrow> (string \<times> jsval) list \<Rightarrow> (string \<times> jsval) list \<Rightarrow> string \<Rightarrow> string attempt"
where
  "substitute_path env n operationId supplied [] path = Some (Inr path)"
| "substitute_path env n operationId supplied ((name, schema) # rest) path =
     abind (validateRequest env n schema (obj_get supplied name) operationId) (\<lambda>_.
     case js_String (ve_num_str env) (obj_get supplied name) of
       None \<Rightarrow> Some (Inl Uncaught)
     | Some v \<Rightarrow>
         substitute_path env n operationId supplied rest
           (js_replace path (''{'' @ name @ ''}'') (encodeURIComponent v)))"

definition request_path ::
  "validator_env \<Rightarrow> nat \<Rightarrow> string \<Rightarrow> runtime_operation \<Rightarrow> (string \<times> jsval) list \<Rightarrow> string attempt"
where
  "request_path env n operationId operation input =
     (let schemas = op_pathSchemas operation; path = obj_get input ''path''; supplied = props_of path in
      if schemas = [] then Some (Inr (op_path operation))
      else if \<not> isRecord path then Some (Inl (invalidRequest operationId))
      else if length supplied \<noteq> length schemas \<or> list_ex (\<lambda>(k, _). \<not> obj_in k schemas) supplied
      then Some (Inl (invalidRequest operationId))
      else substitute_path env n operationId supplied schemas (op_path operation))"

text \<open>The relation \<open>===\<close> of two numbers.\<close>

definition num_eq :: "jsnum \<Rightarrow> jsnum \<Rightarrow> bool" where
  "num_eq m n = (m \<noteq> NaN \<and> n \<noteq> NaN \<and> (m = n \<or> (num_val m = Some 0 \<and> num_val n = Some 0)))"

definition check_command ::
  "string \<Rightarrow> runtime_operation \<Rightarrow> negotiated_contract option \<Rightarrow> (string \<times> jsval) list \<Rightarrow> unit attempt"
where
  "check_command operationId operation negotiated input =
     (case op_commandType operation of
        None \<Rightarrow> Some (Inr ())
      | Some commandType \<Rightarrow>
          let body = obj_get input ''body'' in
          (case negotiated of
             None \<Rightarrow> Some (Inl (invalidRequest operationId))
           | Some contract \<Rightarrow>
               if \<not> isRecord body then Some (Inl (invalidRequest operationId))
               else
                 let version = obj_get (props_of body) ''command_version'' in
                 (case map_of (commandVersions contract) commandType of
                    None \<Rightarrow> Some (Inl (api_error Negotiation_kind ''unsupported_command''
                      ''The command does not use the negotiated version.'' (Some operationId) None))
                  | Some selected \<Rightarrow>
                      if obj_get (props_of body) ''command_type'' \<noteq> JStr commandType
                         \<or> \<not> (is_num version \<and> num_eq (num_of version) selected)
                      then Some (Inl (api_error Negotiation_kind ''command_version_mismatch''
                        ''The command does not use the negotiated version.'' (Some operationId) None))
                      else Some (Inr ()))))"

text \<open>
  What \<open>Headers.set\<close> stores of a value given by its code units: it strips white space and refuses
  code units beyond 255 and the characters that end a header.
\<close>

definition http_space :: "char \<Rightarrow> bool" where
  "http_space c = (c \<in> set [CHR 0x09, CHR 0x0A, CHR 0x0D, CHR 0x20])"

definition header_value :: "nat list \<Rightarrow> string option" where
  "header_value units =
     (case narrow units of
        None \<Rightarrow> None
      | Some s \<Rightarrow>
          let t = rev (dropWhile http_space (rev (dropWhile http_space s))) in
          if list_ex (\<lambda>c. c \<in> set [CHR 0x00, CHR 0x0A, CHR 0x0D]) t then None else Some t)"

definition request_headers :: "runtime_operation \<Rightarrow> nat list \<Rightarrow> (string \<times> string) list attempt" where
  "request_headers operation token =
     (let base = (''Accept'', ''application/json'')
            # (if truthy (op_bodySchema operation) then [(''Content-Type'', ''application/json'')] else []) in
      if op_csrf operation
      then case header_value token of
             None \<Rightarrow> Some (Inl Uncaught)
           | Some v \<Rightarrow> Some (Inr (base @ [(''X-CSRF-Token'', v)]))
      else Some (Inr base))"

text \<open>The part of \<open>execute\<close> before the request is sent.\<close>

definition prepare ::
  "validator_env \<Rightarrow> nat \<Rightarrow> string \<Rightarrow> nat list \<Rightarrow> string \<Rightarrow> runtime_operation
     \<Rightarrow> negotiated_contract option \<Rightarrow> jsval \<Rightarrow> http_request attempt"
where
  "prepare env n baseUrl token operationId operation negotiated candidateInput =
     (let input = props_of candidateInput; hasBody = truthy (op_bodySchema operation);
          allowed = (if op_pathSchemas operation \<noteq> [] then [''path''] else []) @ (if hasBody then [''body''] else []) in
      if \<not> isRecord candidateInput then Some (Inl (invalidRequest operationId))
      else if list_ex (\<lambda>(k, _). k \<notin> set allowed) input then Some (Inl (invalidRequest operationId))
      else
        abind (request_path env n operationId operation input) (\<lambda>path.
        abind (if hasBody
               then if \<not> obj_in ''body'' input then Some (Inl (invalidRequest operationId))
                    else validateRequest env n (op_bodySchema operation) (obj_get input ''body'') operationId
               else Some (Inr ())) (\<lambda>_.
        abind (check_command operationId operation negotiated input) (\<lambda>_.
        abind (request_headers operation token) (\<lambda>headers.
        Some (Inr \<lparr>hr_url = baseUrl @ path, hr_method = op_method operation, hr_credentials = ''same-origin'',
          hr_headers = headers, hr_body = (if hasBody then Some (obj_get input ''body'') else None)\<rparr>))))))"

section \<open>Reading a response\<close>

record http_response =
  re_status :: nat
  re_contentType :: "string option"
  re_text :: "string option"
  re_json :: "jsval option"

definition re_ok :: "http_response \<Rightarrow> bool" where
  "re_ok r = (200 \<le> re_status r \<and> re_status r \<le> 299)"

definition isJsonContentType :: "string option \<Rightarrow> bool" where
  "isJsonContentType v =
     (case v of
        None \<Rightarrow> False
      | Some s \<Rightarrow> toLowerCase (js_trim (takeWhile (\<lambda>c. c \<noteq> CHR '';'') s)) = ''application/json'')"

text \<open>The read \<open>v.k\<close>, which throws on \<open>undefined\<close> and \<open>null\<close>; the names read are no built-in ones.\<close>

fun member :: "jsval \<Rightarrow> string \<Rightarrow> jsval option" where
  "member JUndef k = None"
| "member JNull k = None"
| "member (JObj ps) k = Some (obj_get ps k)"
| "member _ k = Some JUndef"

definition canonical_error :: "string \<Rightarrow> nat \<Rightarrow> jsval \<Rightarrow> client_exn" where
  "canonical_error operationId status payload =
     (case member payload ''error'' of
        None \<Rightarrow> Uncaught
      | Some body \<Rightarrow>
          (case (member body ''code'', member body ''message'', member body ''request_id'') of
             (Some code, Some message, Some requestId) \<Rightarrow>
               ApiClientError \<lparr>ae_kind = Api_kind, ae_code = code, ae_message = message,
                 ae_operationId = Some operationId, ae_status = Some status, ae_requestId = requestId\<rparr>
           | _ \<Rightarrow> Uncaught))"

text \<open>The part of \<open>execute\<close> after the response has arrived.\<close>

definition handle_response ::
  "validator_env \<Rightarrow> nat \<Rightarrow> string \<Rightarrow> runtime_operation \<Rightarrow> http_response \<Rightarrow> jsval attempt"
where
  "handle_response env n operationId operation response =
     (let status = re_status response; schema = obj_get (op_responses operation) (nat_str status) in
      if schema = JUndef
      then Some (Inl (api_error Contract_kind ''unexpected_status''
             ''The Trax OS API returned an undeclared status.'' (Some operationId) (Some status)))
      else if schema = JNull
      then case re_text response of
             None \<Rightarrow> Some (Inl Uncaught)
           | Some body \<Rightarrow>
               if length body \<noteq> 0 then Some (Inl (invalidResponse operationId status (re_ok response)))
               else Some (Inr JNull)
      else if \<not> isJsonContentType (re_contentType response)
      then Some (Inl (api_error Contract_kind ''unexpected_content_type''
             ''The Trax OS API returned an undeclared content type.'' (Some operationId) (Some status)))
      else case re_json response of
        None \<Rightarrow> Some (Inl (invalidResponse operationId status (re_ok response)))
      | Some payload \<Rightarrow>
          (case assertValidSchema env n schema payload Response of
             None \<Rightarrow> None
           | Some (Inl (SchemaValidationError _)) \<Rightarrow> Some (Inl (invalidResponse operationId status (re_ok response)))
           | Some (Inl Other_exception) \<Rightarrow> Some (Inl Uncaught)
           | Some (Inr _) \<Rightarrow>
               if re_ok response then Some (Inr payload)
               else if nat_str status \<in> set (op_canonicalErrorStatuses operation)
               then Some (Inl (canonical_error operationId status payload))
               else Some (Inl (api_error Api_kind ''http_error''
                 ''The Trax OS API returned a declared non-success response.'' (Some operationId) (Some status)))))"

section \<open>The client\<close>

text \<open>
  The options of the constructor: \<open>cl_fetch\<close> is \<open>fetch\<close>, and \<open>cl_csrf\<close> the token provider, as code
  units.
\<close>

record 'w api_client =
  cl_env :: validator_env
  cl_baseUrl :: string
  cl_fetch :: "'w \<Rightarrow> http_request \<Rightarrow> 'w \<times> http_response option"
  cl_csrf :: "'w \<Rightarrow> nat list"

definition execute ::
  "'w api_client \<Rightarrow> nat \<Rightarrow> 'w \<Rightarrow> string \<Rightarrow> jsval \<Rightarrow> negotiated_contract option \<Rightarrow> 'w \<times> jsval attempt"
where
  "execute cl n w operationId input negotiated =
     (case map_of operationMetadata operationId of
        None \<Rightarrow> (w, Some (Inl (api_error Contract_kind ''unknown_operation'' ''Unknown API operation.'' None None)))
      | Some operation \<Rightarrow>
          (case prepare (cl_env cl) n (cl_baseUrl cl) (cl_csrf cl w) operationId operation negotiated input of
             None \<Rightarrow> (w, None)
           | Some (Inl e) \<Rightarrow> (w, Some (Inl e))
           | Some (Inr request) \<Rightarrow>
               (case cl_fetch cl w request of
                  (w', None) \<Rightarrow> (w', Some (Inl (api_error Network_kind ''network_error''
                    ''The Trax OS API could not be reached.'' (Some operationId) None)))
                | (w', Some response) \<Rightarrow> (w', handle_response (cl_env cl) n operationId operation response))))"

definition CONTRACT_OPERATION :: string where
  "CONTRACT_OPERATION = ''contract_discovery_api_contract_get''"

text \<open>The payload of the discovery, read as \<open>negotiateContract\<close> reads it.\<close>

definition range_from :: "jsval \<Rightarrow> server_range" where
  "range_from v = (let ps = props_of v in
     \<lparr>minimum_supported = num_of (obj_get ps ''minimum_supported''),
      maximum_supported = num_of (obj_get ps ''maximum_supported''), current = num_of (obj_get ps ''current'')\<rparr>)"

definition command_from :: "jsval \<Rightarrow> command_support" where
  "command_from v = (let ps = props_of v in
     \<lparr>minimum_supported = num_of (obj_get ps ''minimum_supported''),
      maximum_supported = num_of (obj_get ps ''maximum_supported''), current = num_of (obj_get ps ''current''),
      command_type = str_of (obj_get ps ''command_type'')\<rparr>)"

definition discovery_from :: "jsval \<Rightarrow> contract_discovery" where
  "discovery_from v = (let ps = props_of v in
     \<lparr>schema_version = str_of (obj_get ps ''schema_version''), api_range = range_from (obj_get ps ''api''),
      command_ranges = map command_from (arr_of (obj_get ps ''commands''))\<rparr>)"

fun failure_code :: "negotiation_code \<Rightarrow> string" where
  "failure_code Invalid_contract_metadata = ''invalid_contract_metadata''"
| "failure_code Client_too_old = ''client_too_old''"
| "failure_code Client_too_new = ''client_too_new''"
| "failure_code Unsupported_command = ''unsupported_command''"
| "failure_code Command_version_no_overlap = ''command_version_no_overlap''"

fun messageFor :: "negotiation_code \<Rightarrow> string" where
  "messageFor Invalid_contract_metadata = ''The server returned invalid contract metadata.''"
| "messageFor Client_too_old = ''This client is older than the server'' @ [CHR 0x27] @ ''s supported API range.''"
| "messageFor Client_too_new = ''This client is newer than the server'' @ [CHR 0x27] @ ''s supported API range.''"
| "messageFor Unsupported_command = ''The server does not advertise a required command.''"
| "messageFor Command_version_no_overlap = ''The client and server command versions do not overlap.''"

text \<open>The \<open>catch\<close> clause of \<open>bootstrap\<close> on the exceptions of \<open>execute\<close>.\<close>

definition bootstrap_exn :: "client_exn \<Rightarrow> client_exn" where
  "bootstrap_exn e =
     (case e of
        ApiClientError a \<Rightarrow>
          if ae_kind a = Contract_kind
          then api_error Negotiation_kind ''invalid_contract_metadata''
                 ''The server returned invalid contract metadata.'' None None
          else e
      | Uncaught \<Rightarrow> Uncaught)"

definition bootstrap :: "'w api_client \<Rightarrow> nat \<Rightarrow> 'w \<Rightarrow> 'w \<times> negotiated_contract attempt" where
  "bootstrap cl n w =
     (case execute cl n w CONTRACT_OPERATION (JObj []) None of
        (w', None) \<Rightarrow> (w', None)
      | (w', Some (Inl e)) \<Rightarrow> (w', Some (Inl (bootstrap_exn e)))
      | (w', Some (Inr metadata)) \<Rightarrow>
          (w', Some (case negotiateContract (discovery_from metadata) of
             Inl code \<Rightarrow> Inl (api_error Negotiation_kind (failure_code code) (messageFor code) None None)
           | Inr contract \<Rightarrow> Inr contract)))"

text \<open>
  The methods when calls do not overlap: the cached promise is the contract it resolved to, and a
  rejected one has been forgotten by its \<open>catch\<close> handler before the next call.
\<close>

definition ensure_contract ::
  "'w api_client \<Rightarrow> nat \<Rightarrow> 'w \<times> negotiated_contract option
     \<Rightarrow> ('w \<times> negotiated_contract option) \<times> negotiated_contract attempt"
where
  "ensure_contract cl n s =
     (case s of
        (w, Some contract) \<Rightarrow> (s, Some (Inr contract))
      | (w, None) \<Rightarrow>
          (case bootstrap cl n w of
             (w', Some (Inr contract)) \<Rightarrow> ((w', Some contract), Some (Inr contract))
           | (w', r) \<Rightarrow> ((w', None), r)))"

definition trax_request ::
  "'w api_client \<Rightarrow> nat \<Rightarrow> 'w \<times> negotiated_contract option \<Rightarrow> string \<Rightarrow> jsval
     \<Rightarrow> ('w \<times> negotiated_contract option) \<times> jsval attempt"
where
  "trax_request cl n s operationId input =
     (if operationId = CONTRACT_OPERATION
      then (case execute cl n (fst s) operationId input None of (w', r) \<Rightarrow> ((w', snd s), r))
      else case ensure_contract cl n s of
        (s', None) \<Rightarrow> (s', None)
      | (s', Some (Inl e)) \<Rightarrow> (s', Some (Inl e))
      | (s', Some (Inr contract)) \<Rightarrow>
          (case execute cl n (fst s') operationId input (Some contract) of (w', r) \<Rightarrow> ((w', snd s'), r)))"

definition commandVersion ::
  "'w api_client \<Rightarrow> nat \<Rightarrow> 'w \<times> negotiated_contract option \<Rightarrow> string
     \<Rightarrow> ('w \<times> negotiated_contract option) \<times> jsnum attempt"
where
  "commandVersion cl n s commandType =
     (case ensure_contract cl n s of
        (s', m) \<Rightarrow>
          (s', abind m (\<lambda>contract.
             case map_of (commandVersions contract) commandType of
               None \<Rightarrow> Some (Inl (api_error Negotiation_kind ''unsupported_command''
                 ''The command is not supported by this client and server.'' None None))
             | Some version \<Rightarrow> Some (Inr version))))"

definition negotiatedApiVersion ::
  "'w api_client \<Rightarrow> nat \<Rightarrow> 'w \<times> negotiated_contract option
     \<Rightarrow> ('w \<times> negotiated_contract option) \<times> jsnum attempt"
where
  "negotiatedApiVersion cl n s =
     (case ensure_contract cl n s of (s', m) \<Rightarrow> (s', abind m (\<lambda>contract. Some (Inr (apiVersion contract)))))"

text \<open>
  The base URL of the constructor. \<open>resolve\<close> is \<open>new URL(value, "https://trax.invalid/")\<close>: origin,
  user name and password, or none when it throws.
\<close>

definition validBaseUrl :: "(string \<Rightarrow> (string \<times> string \<times> string) option) \<Rightarrow> string \<Rightarrow> string option" where
  "validBaseUrl resolve v =
     (if CHR ''?'' \<in> set v \<or> CHR ''#'' \<in> set v \<or> CHR 0x5C \<in> set v
         \<or> list_ex (\<lambda>c. c \<le> CHR 0x20 \<or> c = CHR 0x7F) v \<or> (v \<noteq> [] \<and> hd v \<noteq> CHR ''/'')
      then None
      else case resolve (if v = [] then ''/'' else v) of
        None \<Rightarrow> None
      | Some (origin, username, password) \<Rightarrow>
          if origin \<noteq> ''https://trax.invalid'' \<or> username \<noteq> [] \<or> password \<noteq> [] then None
          else Some (if v \<noteq> [] \<and> last v = CHR ''/'' then butlast v else v))"

text \<open>\<open>cookie.split("; ")\<close>, and the token of the cookie \<open>trax_csrf\<close>; no document means no cookie.\<close>

function cookies :: "string \<Rightarrow> string list" where
  "cookies s = (case split_first ''; '' s of None \<Rightarrow> [s] | Some (a, b) \<Rightarrow> a # cookies b)"
  by pat_completeness auto
termination
  by (relation "measure length") (auto dest: split_first_Some)

declare cookies.simps [simp del]

definition browserCsrfToken :: "string option \<Rightarrow> nat list" where
  "browserCsrfToken document =
     (case document of
        None \<Rightarrow> []
      | Some cookie \<Rightarrow>
          (case find (\<lambda>c. take 10 c = ''trax_csrf='') (cookies cookie) of
             None \<Rightarrow> []
           | Some c \<Rightarrow>
               if drop 10 c = [] then []
               else (case decodeURIComponent (drop 10 c) of None \<Rightarrow> [] | Some token \<Rightarrow> token)))"

end
