(* ===== verification/Api_Client_Properties.thy ===== *)
theory Api_Client_Properties
  imports Api_Client
begin

text \<open>
  Properties of the API client: what it sends, what it returns and what it throws, on the operations
  of the generated contract.
\<close>

section \<open>Shared facts\<close>

lemma abind_simps [simp]:
  "abind None f = None"
  "abind (Some (Inl e)) f = Some (Inl e)"
  "abind (Some (Inr x)) f = f x"
  by (simp_all add: abind_def)

lemma abind_Inr_iff: "abind m f = Some (Inr y) \<longleftrightarrow> (\<exists>x. m = Some (Inr x) \<and> f x = Some (Inr y))"
  by (auto simp: abind_def split: option.splits sum.splits)

lemma validateRequest_ok:
  "validateRequest env n schema v k = Some (Inr u) \<longleftrightarrow> assertValidSchema env n schema v Request = schema_ok"
  by (auto simp: validateRequest_def split: option.splits sum.splits validation_exn.splits)

definition error_ref :: jsval where
  "error_ref = JObj [(''$ref'', JStr ''#/components/schemas/ErrorResponse'')]"

text \<open>What the client relies on in the table of operations.\<close>

definition operation_sane :: "runtime_operation \<Rightarrow> bool" where
  "operation_sane op =
     (list_all (\<lambda>s. obj_get (op_responses op) s = error_ref) (op_canonicalErrorStatuses op)
      \<and> list_all (\<lambda>(s, r). r = JNull \<longrightarrow> s = ''204'') (op_responses op)
      \<and> list_all (\<lambda>(p, _). set p \<inter> {CHR ''/'', CHR ''?'', CHR ''#''} = {}) (op_pathSchemas op)
      \<and> CHR ''?'' \<notin> set (op_path op) \<and> CHR ''#'' \<notin> set (op_path op))"

lemma operations_sane: "list_all (\<lambda>(k, op). operation_sane op) operationMetadata"
  by (simp add: operationMetadata_def operation_sane_def operation_defs error_ref_def obj_get_Cons)

lemma operation_saneD: "map_of operationMetadata k = Some op \<Longrightarrow> operation_sane op"
  using operations_sane by (auto simp: list_all_iff dest: map_of_SomeD)

section \<open>What is sent\<close>

text \<open>The input an accepted request was built from.\<close>

definition input_accepted ::
  "validator_env \<Rightarrow> nat \<Rightarrow> runtime_operation \<Rightarrow> negotiated_contract option \<Rightarrow> (string \<times> jsval) list \<Rightarrow> bool"
where
  "input_accepted env n op negotiated input =
     (list_all (\<lambda>(p, schema). assertValidSchema env n schema (obj_get (props_of (obj_get input ''path'')) p) Request
         = schema_ok) (op_pathSchemas op)
      \<and> (truthy (op_bodySchema op) \<longrightarrow>
           assertValidSchema env n (op_bodySchema op) (obj_get input ''body'') Request = schema_ok)
      \<and> (case op_commandType op of None \<Rightarrow> True
         | Some t \<Rightarrow>
             (case negotiated of None \<Rightarrow> False
              | Some contract \<Rightarrow>
                  (case map_of (commandVersions contract) t of None \<Rightarrow> False
                   | Some v \<Rightarrow> \<exists>body m. obj_get input ''body'' = JObj body \<and> obj_get body ''command_type'' = JStr t
                        \<and> obj_get body ''command_version'' = JNum m \<and> num_eq m v))))"

lemma substitute_path_valid:
  assumes "substitute_path env n k supplied schemas path = Some (Inr path')"
  shows "list_all (\<lambda>(p, schema). assertValidSchema env n schema (obj_get supplied p) Request = schema_ok) schemas"
  using assms
  by (induction env n k supplied schemas path rule: substitute_path.induct)
    (auto simp: abind_Inr_iff validateRequest_ok split: option.splits)

lemma request_path_valid:
  assumes "request_path env n k op input = Some (Inr path)"
  shows "list_all (\<lambda>(p, schema). assertValidSchema env n schema (obj_get (props_of (obj_get input ''path'')) p) Request
     = schema_ok) (op_pathSchemas op)"
  using assms by (auto simp: request_path_def Let_def split: if_splits dest: substitute_path_valid)

lemma is_num_iff: "is_num v \<longleftrightarrow> (\<exists>m. v = JNum m)"
  by (cases v) auto

lemma check_command_ok:
  "check_command k op negotiated input = Some (Inr u) \<longleftrightarrow>
     (case op_commandType op of None \<Rightarrow> True
      | Some t \<Rightarrow>
          (case negotiated of None \<Rightarrow> False
           | Some contract \<Rightarrow>
               (case map_of (commandVersions contract) t of None \<Rightarrow> False
                | Some v \<Rightarrow> \<exists>body m. obj_get input ''body'' = JObj body \<and> obj_get body ''command_type'' = JStr t
                     \<and> obj_get body ''command_version'' = JNum m \<and> num_eq m v)))"
  by (auto simp: check_command_def Let_def isRecord_iff is_num_iff split: option.splits if_splits)

lemma prepare_valid:
  assumes "prepare env n base token k op negotiated input = Some (Inr req)"
  shows "isRecord input \<and> input_accepted env n op negotiated (props_of input)
     \<and> hr_method req = op_method op \<and> hr_credentials req = ''same-origin''
     \<and> hr_body req = (if truthy (op_bodySchema op) then Some (obj_get (props_of input) ''body'') else None)
     \<and> (\<exists>path. request_path env n k op (props_of input) = Some (Inr path) \<and> hr_url req = base @ path)
     \<and> request_headers op token = Some (Inr (hr_headers req))"
  using assms
  by (auto simp: prepare_def input_accepted_def Let_def abind_Inr_iff validateRequest_ok check_command_ok
      request_path_valid split: if_splits)

lemma execute_sends:
  assumes "execute cl n w k input negotiated = (w', r)" "w' \<noteq> w"
  obtains op req where "map_of operationMetadata k = Some op"
    "prepare (cl_env cl) n (cl_baseUrl cl) (cl_csrf cl w) k op negotiated input = Some (Inr req)"
    "w' = fst (cl_fetch cl w req)"
  using assms by (auto simp: execute_def split: option.splits sum.splits prod.splits)

lemma csrf_header:
  assumes "request_headers op token = Some (Inr hs)"
  shows "map_of hs ''X-CSRF-Token'' = (if op_csrf op then header_value token else None)"
  using assms by (auto simp: request_headers_def Let_def split: if_splits option.splits)

text \<open>Substituting an encoded value changes no delimiter of the path.\<close>

lemma substitute_path_delimiters:
  assumes "substitute_path env n k supplied schemas path = Some (Inr path')"
    and "list_all (\<lambda>(p, _). c \<notin> set p) schemas" "c \<in> {CHR ''/'', CHR ''?'', CHR ''#''}"
  shows "count_list path' c = count_list path c"
  using assms
proof (induction env n k supplied schemas path rule: substitute_path.induct)
  case (2 env n k supplied name schema rest path)
  have c: "c \<in> set uri_delimiters" "c \<notin> set (''{'' @ name @ ''}'')"
    using 2(3,4) by (auto simp: uri_delimiters_def)
  obtain v where v: "js_String (ve_num_str env) (obj_get supplied name) = Some v"
    "substitute_path env n k supplied rest (js_replace path (''{'' @ name @ ''}'') (encodeURIComponent v)) = Some (Inr path')"
    using 2(2) by (auto simp: abind_Inr_iff split: option.splits)
  have "count_list path' c = count_list (js_replace path (''{'' @ name @ ''}'') (encodeURIComponent v)) c"
    using 2(1) [OF v(1) v(2)] 2(3,4) by simp
  also have "\<dots> = count_list path c"
    by (rule count_delimiter_replace [OF c])
  finally show ?case .
qed simp

lemma request_path_delimiters:
  assumes "request_path env n k op input = Some (Inr path)" "operation_sane op" "c \<in> {CHR ''/'', CHR ''?'', CHR ''#''}"
  shows "count_list path c = count_list (op_path op) c"
proof -
  have "list_all (\<lambda>(p, _). c \<notin> set p) (op_pathSchemas op)"
    using assms(2,3) by (auto simp: operation_sane_def list_all_iff)
  then show ?thesis
    using assms(1,3)
    by (auto simp: request_path_def Let_def split: if_splits intro: substitute_path_delimiters)
qed


text \<open>C4. The client changes the world only by sending one request, and only one built from an input the
  contract accepts: every path parameter and the body pass their schemas, a command carries the type
  of its operation and the negotiated version, the method and body are those of the operation and
  the input, and the CSRF token is sent exactly with the operations that ask for it.\<close>
theorem sent_requests_are_valid:
  assumes "execute cl n w k input negotiated = (w', r)" "w' \<noteq> w"
  shows "\<exists>op req. map_of operationMetadata k = Some op \<and> w' = fst (cl_fetch cl w req) \<and> isRecord input
     \<and> input_accepted (cl_env cl) n op negotiated (props_of input)
     \<and> hr_method req = op_method op \<and> hr_credentials req = ''same-origin''
     \<and> hr_body req = (if truthy (op_bodySchema op) then Some (obj_get (props_of input) ''body'') else None)
     \<and> map_of (hr_headers req) ''X-CSRF-Token'' = (if op_csrf op then header_value (cl_csrf cl w) else None)"
proof -
  obtain op req where "map_of operationMetadata k = Some op"
    and prep: "prepare (cl_env cl) n (cl_baseUrl cl) (cl_csrf cl w) k op negotiated input = Some (Inr req)"
    and "w' = fst (cl_fetch cl w req)"
    by (rule execute_sends [OF assms])
  then show ?thesis
    using prepare_valid [OF prep] csrf_header [of op] by blast
qed

text \<open>A client over a world that records the requests it is sent, with an answer of its own.\<close>

definition demo_client :: "http_response option \<Rightarrow> http_request list api_client" where
  "demo_client answer = \<lparr>cl_env = demo_env, cl_baseUrl = '''', cl_fetch = \<lambda>w req. (w @ [req], answer),
     cl_csrf = \<lambda>w. units_of ''token''\<rparr>"

definition demo_input :: jsval where
  "demo_input = JObj [(''path'', JObj [(''journey_id'', JStr ''00000000-0000-4000-8000-000000000001'')])]"

definition demo_request :: http_request where
  "demo_request = \<lparr>hr_url = ''/api/v1/journeys/00000000-0000-4000-8000-000000000001'', hr_method = ''DELETE'',
     hr_credentials = ''same-origin'',
     hr_headers = [(''Accept'', ''application/json''), (''X-CSRF-Token'', ''token'')], hr_body = None\<rparr>"

definition demo_no_content :: http_response where
  "demo_no_content = \<lparr>re_status = 204, re_contentType = None, re_text = Some '''', re_json = None\<rparr>"

definition demo_conflict :: http_response where
  "demo_conflict = \<lparr>re_status = 404, re_contentType = Some ''application/json; charset=utf-8'', re_text = None,
     re_json = Some (JObj [(''error'', JObj [(''code'', JStr ''not_found''), (''message'', JStr ''No such journey''),
       (''details'', JObj []), (''request_id'', JStr ''r1'')])])\<rparr>"

abbreviation demo_execute :: "http_response option \<Rightarrow> http_request list \<times> jsval attempt" where
  "demo_execute answer \<equiv> execute (demo_client answer) 7 [] ''delete_journey_api_v1_journeys__journey_id__delete''
     demo_input None"

lemma demo_execute_no_content: "demo_execute (Some demo_no_content) = ([demo_request], Some (Inr JNull))"
  by code_simp


lemma demo_execute_not_found: "demo_execute (Some demo_conflict) = ([demo_request],
    Some (Inl (ApiClientError \<lparr>ae_kind = Api_kind, ae_code = JStr ''not_found'', ae_message = JStr ''No such journey'',
      ae_operationId = Some ''delete_journey_api_v1_journeys__journey_id__delete'', ae_status = Some 404,
      ae_requestId = JStr ''r1''\<rparr>)))"
  by code_simp

theorem sent_requests_are_valid_witness:
  "\<exists>op req. map_of operationMetadata ''delete_journey_api_v1_journeys__journey_id__delete'' = Some op
     \<and> [demo_request] = fst (cl_fetch (demo_client (Some demo_no_content)) [] req) \<and> isRecord demo_input
     \<and> input_accepted (cl_env (demo_client (Some demo_no_content))) 7 op None (props_of demo_input)
     \<and> hr_method req = op_method op \<and> hr_credentials req = ''same-origin''
     \<and> hr_body req = (if truthy (op_bodySchema op) then Some (obj_get (props_of demo_input) ''body'') else None)
     \<and> map_of (hr_headers req) ''X-CSRF-Token''
         = (if op_csrf op then header_value (cl_csrf (demo_client (Some demo_no_content)) []) else None)"
  by (rule sent_requests_are_valid [OF demo_execute_no_content]) simp

text \<open>A path parameter cannot leave its place in the path: whatever the caller supplies, the path that is
  requested has as many slashes as the operation's template and neither query nor fragment.\<close>
theorem sent_paths_keep_their_shape:
  assumes "execute cl n w k input negotiated = (w', r)" "w' \<noteq> w"
  shows "\<exists>op req path. map_of operationMetadata k = Some op \<and> w' = fst (cl_fetch cl w req)
     \<and> hr_url req = cl_baseUrl cl @ path \<and> count_list path (CHR ''/'') = count_list (op_path op) (CHR ''/'')
     \<and> CHR ''?'' \<notin> set path \<and> CHR ''#'' \<notin> set path"
proof -
  obtain op req where op: "map_of operationMetadata k = Some op"
    and prep: "prepare (cl_env cl) n (cl_baseUrl cl) (cl_csrf cl w) k op negotiated input = Some (Inr req)"
    and w': "w' = fst (cl_fetch cl w req)"
    by (rule execute_sends [OF assms])
  obtain path where path: "request_path (cl_env cl) n k op (props_of input) = Some (Inr path)"
    "hr_url req = cl_baseUrl cl @ path"
    using prepare_valid [OF prep] by blast
  note sane = operation_saneD [OF op]
  have "count_list path c = count_list (op_path op) c" if "c \<in> {CHR ''/'', CHR ''?'', CHR ''#''}" for c
    by (rule request_path_delimiters [OF path(1) sane that])
  moreover have "CHR ''?'' \<notin> set (op_path op)" "CHR ''#'' \<notin> set (op_path op)"
    using sane by (simp_all add: operation_sane_def)
  ultimately have "count_list path (CHR ''/'') = count_list (op_path op) (CHR ''/'')"
    "CHR ''?'' \<notin> set path" "CHR ''#'' \<notin> set path"
    by (auto simp: count_list_0_iff [symmetric])
  then show ?thesis
    using op w' path(2) by blast
qed

theorem sent_paths_keep_their_shape_witness:
  "\<exists>op req path. map_of operationMetadata ''delete_journey_api_v1_journeys__journey_id__delete'' = Some op
     \<and> [demo_request] = fst (cl_fetch (demo_client (Some demo_no_content)) [] req)
     \<and> hr_url req = cl_baseUrl (demo_client (Some demo_no_content)) @ path
     \<and> count_list path (CHR ''/'') = count_list (op_path op) (CHR ''/'')
     \<and> CHR ''?'' \<notin> set path \<and> CHR ''#'' \<notin> set path"
  by (rule sent_paths_keep_their_shape [OF demo_execute_no_content]) simp

section \<open>What is returned\<close>

lemma nat_str_204: "nat_str m = ''204'' \<Longrightarrow> m = 204"
proof -
  have "nat_str 204 = ''204''"
    by code_simp
  then show "nat_str m = ''204'' \<Longrightarrow> m = 204"
    by (metis nat_str_inj)
qed

lemma null_response_is_204:
  assumes "operation_sane op" "obj_get (op_responses op) (nat_str status) = JNull"
  shows "status = 204"
proof -
  have "(nat_str status, JNull) \<in> set (op_responses op)"
    using assms(2) by (auto simp: obj_get_def proto_get_def split: option.splits if_splits dest: map_of_SomeD)
  then show ?thesis
    using assms(1) by (auto simp: operation_sane_def list_all_iff intro: nat_str_204)
qed

lemma execute_response:
  assumes "execute cl n w k input negotiated = (w', Some (Inr payload))"
  obtains op req resp where "map_of operationMetadata k = Some op"
    "prepare (cl_env cl) n (cl_baseUrl cl) (cl_csrf cl w) k op negotiated input = Some (Inr req)"
    "cl_fetch cl w req = (w', Some resp)" "handle_response (cl_env cl) n k op resp = Some (Inr payload)"
  using assms by (auto simp: execute_def split: option.splits sum.splits prod.splits)

lemma handle_response_ok:
  "handle_response env n k op resp = Some (Inr payload) \<longleftrightarrow>
     (let schema = obj_get (op_responses op) (nat_str (re_status resp)) in
      if schema = JNull then payload = JNull \<and> re_text resp = Some ''''
      else schema \<noteq> JUndef \<and> isJsonContentType (re_contentType resp) \<and> re_json resp = Some payload
        \<and> assertValidSchema env n schema payload Response = schema_ok \<and> re_ok resp)"
  by (auto simp: handle_response_def Let_def split: option.splits sum.splits validation_exn.splits if_splits)

text \<open>C5. What a request returns has the type the contract declares: the response was a success of a status the
  operation declares, and the value is either \<open>null\<close> for an empty answer of status 204 or the JSON
  payload, which passes the schema declared for its status.\<close>
theorem returned_payloads_are_typed:
  assumes "execute cl n w k input negotiated = (w', Some (Inr payload))"
  shows "\<exists>op req resp. map_of operationMetadata k = Some op \<and> cl_fetch cl w req = (w', Some resp) \<and> re_ok resp
     \<and> (let schema = obj_get (op_responses op) (nat_str (re_status resp)) in
        if schema = JNull then payload = JNull \<and> re_text resp = Some '''' \<and> re_status resp = 204
        else schema \<noteq> JUndef \<and> re_json resp = Some payload
          \<and> assertValidSchema (cl_env cl) n schema payload Response = schema_ok)"
proof -
  obtain op req resp where op: "map_of operationMetadata k = Some op" and fetch: "cl_fetch cl w req = (w', Some resp)"
    and handled: "handle_response (cl_env cl) n k op resp = Some (Inr payload)"
    by (rule execute_response [OF assms])
  have "obj_get (op_responses op) (nat_str (re_status resp)) = JNull \<Longrightarrow> re_status resp = 204"
    by (rule null_response_is_204 [OF operation_saneD [OF op]])
  then show ?thesis
    using op fetch handled unfolding handle_response_ok
    by (intro exI [of _ op] exI [of _ req] exI [of _ resp]) (auto simp: Let_def re_ok_def split: if_splits)
qed

theorem returned_payloads_are_typed_witness:
  "\<exists>op req resp. map_of operationMetadata ''delete_journey_api_v1_journeys__journey_id__delete'' = Some op
     \<and> cl_fetch (demo_client (Some demo_no_content)) [] req = ([demo_request], Some resp) \<and> re_ok resp
     \<and> (let schema = obj_get (op_responses op) (nat_str (re_status resp)) in
        if schema = JNull then JNull = JNull \<and> re_text resp = Some '''' \<and> re_status resp = 204
        else schema \<noteq> JUndef \<and> re_json resp = Some JNull
          \<and> assertValidSchema (cl_env (demo_client (Some demo_no_content))) 7 schema JNull Response = schema_ok)"
  by (rule returned_payloads_are_typed [OF demo_execute_no_content])

section \<open>What a valid value holds\<close>

lemma validate_ref:
  assumes "validate env n [(''$ref'', JStr (''#/components/schemas/'' @ k))] v mode p = schema_ok"
    and "obj_get (ve_schemas env) k = target"
  obtains m where "n = Suc m" "validate env m (props_of target) v mode p = schema_ok"
proof (cases n)
  case (Suc m)
  then have "asSchema target p (\<lambda>s. validate env m s v mode p) = schema_ok"
    using assms by (simp add: obj_get_Cons ref_prefix_def check_def Let_def split: if_splits)
  then show ?thesis
    using Suc that by (auto simp: asSchema_def split: if_splits)
qed (use assms in simp)

lemma each_ok: "each f xs = schema_ok \<longleftrightarrow> (\<forall>x \<in> set xs. f x = schema_ok)"
  by (induction xs) (auto simp: andThen_def split: option.splits sum.splits)

lemma check_ok: "check b p k = schema_ok \<longleftrightarrow> b \<and> k = schema_ok"
  by (simp add: check_def)

lemma andThen_ok: "andThen m k = schema_ok \<longleftrightarrow> m = schema_ok \<and> k = schema_ok"
  by (auto simp: andThen_def split: option.splits sum.splits)


lemma validate_object:
  assumes "validate env n s v mode p = schema_ok" "\<not> is_str (obj_get s ''$ref'')" "\<not> is_arr (obj_get s ''anyOf'')"
    "obj_get s ''type'' = JStr ''object''"
  obtains m ps where "n = Suc m" "v = JObj ps" "validateObject env (validate env m) s (JObj ps) mode p = schema_ok"
proof (cases n)
  case (Suc m)
  then have ok: "validateObject env (validate env m) s v mode p = schema_ok"
    using assms by (simp add: Let_def check_ok)
  then obtain ps where "v = JObj ps"
    by (auto simp: validateObject_def Let_def check_ok isRecord_iff)
  then show ?thesis
    using ok Suc that by simp
qed (use assms in simp)

lemma validateObject_field:
  assumes "validateObject env rec s (JObj ps) mode p = schema_ok"
    and "JStr k \<in> set (arr_of (obj_get s ''required''))" "proto_get k = None"
    and "obj_get (props_of (obj_get s ''properties'')) k = JObj f"
  shows "rec f (obj_get ps k) mode (p @ ''/'' @ k) = schema_ok"
proof -
  have "obj_in k ps"
    using assms(1,2)
    by (force simp: validateObject_def Let_def check_ok andThen_ok check_required_def each_ok split: if_splits option.splits)
  then obtain w where w: "map_of ps k = Some w"
    using assms(3) by (auto simp: obj_in_def map_of_eq_None_iff dest!: weak_map_of_SomeI)
  then have "obj_get ps k = w" "(k, w) \<in> set ps"
    by (auto simp: obj_get_def dest: map_of_SomeD)
  then show ?thesis
    using assms(1,4)
    by (auto simp: validateObject_def Let_def check_ok andThen_ok each_ok asSchema_def)
qed

lemma validate_string:
  assumes "validate env n s v mode p = schema_ok" "\<not> is_str (obj_get s ''$ref'')" "\<not> is_arr (obj_get s ''anyOf'')"
    "obj_get s ''type'' = JStr ''string''"
  shows "is_str v"
  using assms by (cases n) (auto simp: Let_def check_ok validateString_def)

lemma error_schema_lookup:
  assumes "ve_schemas env = componentSchemas"
  shows "obj_get (ve_schemas env) ''ErrorResponse'' = schema_ErrorResponse"
    "obj_get (ve_schemas env) ''ErrorBody'' = schema_ErrorBody"
  using assms by (simp_all add: componentSchemas_def obj_get_Cons)

lemma ErrorBody_field:
  assumes "k \<in> {''code'', ''message'', ''request_id''}"
  obtains t where "obj_get (props_of (obj_get (props_of schema_ErrorBody) ''properties'')) k
      = JObj [(''title'', t), (''type'', JStr ''string'')]"
    "JStr k \<in> set (arr_of (obj_get (props_of schema_ErrorBody) ''required''))" "proto_get k = None"
  using assms
  by (elim insertE emptyE) (simp_all add: schema_ErrorBody_def obj_get_Cons proto_get_def proto_functions_def)

lemma valid_error_payload:
  assumes "assertValidSchema env n error_ref payload mode = schema_ok" "ve_schemas env = componentSchemas"
  obtains ps body where "payload = JObj ps" "obj_get ps ''error'' = JObj body"
    "is_str (obj_get body ''code'')" "is_str (obj_get body ''message'')" "is_str (obj_get body ''request_id'')"
proof -
  have "validate env n [(''$ref'', JStr (''#/components/schemas/'' @ ''ErrorResponse''))] payload mode ''$'' = schema_ok"
    using assms(1) by (simp add: assertValidSchema_def error_ref_def asSchema_def)
  then obtain m where "validate env m (props_of schema_ErrorResponse) payload mode ''$'' = schema_ok"
    by (rule validate_ref [OF _ error_schema_lookup(1) [OF assms(2)]])
  then obtain ps m' where ps: "payload = JObj ps"
    "validateObject env (validate env m') (props_of schema_ErrorResponse) (JObj ps) mode ''$'' = schema_ok"
    by (rule validate_object) (auto simp: schema_ErrorResponse_def obj_get_Cons obj_get_Nil proto_get_def proto_functions_def)
  then have "validate env m' [(''$ref'', JStr (''#/components/schemas/'' @ ''ErrorBody''))] (obj_get ps ''error'') mode
      (''$'' @ ''/'' @ ''error'') = schema_ok"
    by (intro validateObject_field [OF ps(2)])
      (simp_all add: schema_ErrorResponse_def obj_get_Cons proto_get_def proto_functions_def)
  then obtain l where "validate env l (props_of schema_ErrorBody) (obj_get ps ''error'') mode (''$'' @ ''/'' @ ''error'') = schema_ok"
    by (rule validate_ref [OF _ error_schema_lookup(2) [OF assms(2)]])
  then obtain body l' where body: "obj_get ps ''error'' = JObj body"
    "validateObject env (validate env l') (props_of schema_ErrorBody) (JObj body) mode (''$'' @ ''/'' @ ''error'') = schema_ok"
    by (rule validate_object) (auto simp: schema_ErrorBody_def obj_get_Cons obj_get_Nil proto_get_def proto_functions_def)
  have field: "is_str (obj_get body k)" if k: "k \<in> {''code'', ''message'', ''request_id''}" for k
  proof -
    obtain t where t: "obj_get (props_of (obj_get (props_of schema_ErrorBody) ''properties'')) k
        = JObj [(''title'', t), (''type'', JStr ''string'')]"
      "JStr k \<in> set (arr_of (obj_get (props_of schema_ErrorBody) ''required''))" "proto_get k = None"
      by (rule ErrorBody_field [OF k])
    show ?thesis
      by (rule validate_string [OF validateObject_field [OF body(2) t(2,3,1)]])
        (simp_all add: obj_get_Cons obj_get_Nil proto_get_def proto_functions_def)
  qed
  show thesis
    by (rule that [OF ps(1) body(1)]) (simp_all add: field)
qed

section \<open>What is thrown\<close>

definition never_api :: "client_exn \<Rightarrow> bool" where
  "never_api x = (case x of ApiClientError e \<Rightarrow> ae_kind e \<noteq> Api_kind | Uncaught \<Rightarrow> True)"

lemma never_api_simps [simp]:
  "never_api (api_error kind code message k' status) \<longleftrightarrow> kind \<noteq> Api_kind"
  "never_api (invalidRequest k)" "never_api (invalidResponse k st ok)" "never_api Uncaught"
  by (simp_all add: never_api_def api_error_def invalidRequest_def invalidResponse_def)

lemma abind_Inl_iff:
  "abind m f = Some (Inl e) \<longleftrightarrow> m = Some (Inl e) \<or> (\<exists>x. m = Some (Inr x) \<and> f x = Some (Inl e))"
  by (auto simp: abind_def split: option.splits sum.splits)

lemma validateRequest_never_api: "validateRequest env n s v k = Some (Inl x) \<Longrightarrow> never_api x"
  by (auto simp: validateRequest_def split: option.splits sum.splits validation_exn.splits)

lemma substitute_path_never_api: "substitute_path env n k supplied schemas path = Some (Inl x) \<Longrightarrow> never_api x"
  by (induction env n k supplied schemas path rule: substitute_path.induct)
    (auto simp: abind_Inl_iff validateRequest_never_api split: option.splits)

lemma prepare_never_api: "prepare env n base token k op negotiated input = Some (Inl x) \<Longrightarrow> never_api x"
  by (auto simp: prepare_def request_path_def check_command_def request_headers_def Let_def abind_Inl_iff
      validateRequest_never_api substitute_path_never_api split: if_splits option.splits)

lemma handle_response_api:
  assumes "handle_response env n k op resp = Some (Inl x)" "\<not> never_api x"
  shows "\<not> re_ok resp \<and> (\<exists>payload. re_json resp = Some payload
     \<and> assertValidSchema env n (obj_get (op_responses op) (nat_str (re_status resp))) payload Response = schema_ok
     \<and> x = (if nat_str (re_status resp) \<in> set (op_canonicalErrorStatuses op)
            then canonical_error k (re_status resp) payload
            else api_error Api_kind ''http_error'' ''The Trax OS API returned a declared non-success response.''
              (Some k) (Some (re_status resp))))"
  using assms
  by (auto simp: handle_response_def Let_def split: option.splits sum.splits validation_exn.splits if_splits)

text \<open>Every error that reports an answer of the API carries a status that is no success and a code and a
  message that are strings; where the contract declares the canonical error body for that status they
  are the server's own, with its request identifier, so reading them cannot fail.\<close>
theorem api_errors_are_structured:
  assumes "execute cl n w k input negotiated = (w', Some (Inl (ApiClientError e)))" "ae_kind e = Api_kind"
    and "ve_schemas (cl_env cl) = componentSchemas"
  shows "\<exists>req resp payload. cl_fetch cl w req = (w', Some resp) \<and> \<not> re_ok resp \<and> ae_status e = Some (re_status resp)
     \<and> ae_operationId e = Some k \<and> re_json resp = Some payload \<and> is_str (ae_code e) \<and> is_str (ae_message e)
     \<and> (ae_code e = JStr ''http_error'' \<and> ae_requestId e = JUndef
        \<or> (\<exists>body. obj_get (props_of payload) ''error'' = JObj body \<and> ae_code e = obj_get body ''code''
             \<and> ae_message e = obj_get body ''message'' \<and> ae_requestId e = obj_get body ''request_id''
             \<and> is_str (ae_requestId e)))"
proof -
  have api: "\<not> never_api (ApiClientError e)"
    using assms(2) by (simp add: never_api_def)
  obtain op req resp where op: "map_of operationMetadata k = Some op" and fetch: "cl_fetch cl w req = (w', Some resp)"
    and handled: "handle_response (cl_env cl) n k op resp = Some (Inl (ApiClientError e))"
    using assms(1) api
    by (auto simp: execute_def split: option.splits sum.splits prod.splits dest: prepare_never_api)
       (auto simp: api_error_def never_api_def)
  obtain payload where payload: "\<not> re_ok resp" "re_json resp = Some payload"
    "assertValidSchema (cl_env cl) n (obj_get (op_responses op) (nat_str (re_status resp))) payload Response = schema_ok"
    and e: "ApiClientError e =
       (if nat_str (re_status resp) \<in> set (op_canonicalErrorStatuses op) then canonical_error k (re_status resp) payload
        else api_error Api_kind ''http_error'' ''The Trax OS API returned a declared non-success response.''
          (Some k) (Some (re_status resp)))"
    using handle_response_api [OF handled api] by blast
  show ?thesis
  proof (cases "nat_str (re_status resp) \<in> set (op_canonicalErrorStatuses op)")
    case False
    then show ?thesis
      using e fetch payload by (intro exI [of _ req] exI [of _ resp] exI [of _ payload]) (simp add: api_error_def)
  next
    case True
    then have "assertValidSchema (cl_env cl) n error_ref payload Response = schema_ok"
      using payload(3) operation_saneD [OF op] by (simp add: operation_sane_def list_all_iff)
    then obtain ps body where "payload = JObj ps" "obj_get ps ''error'' = JObj body"
      "is_str (obj_get body ''code'')" "is_str (obj_get body ''message'')" "is_str (obj_get body ''request_id'')"
      by (rule valid_error_payload [OF _ assms(3)])
    then show ?thesis
      using e True fetch payload
      by (intro exI [of _ req] exI [of _ resp] exI [of _ payload]) (simp add: canonical_error_def)
  qed
qed


theorem api_errors_are_structured_witness:
  "\<exists>req resp payload. cl_fetch (demo_client (Some demo_conflict)) [] req = ([demo_request], Some resp)
     \<and> \<not> re_ok resp \<and> Some 404 = Some (re_status resp)
     \<and> Some ''delete_journey_api_v1_journeys__journey_id__delete'' = Some ''delete_journey_api_v1_journeys__journey_id__delete''
     \<and> re_json resp = Some payload \<and> is_str (JStr ''not_found'') \<and> is_str (JStr ''No such journey'')
     \<and> (JStr ''not_found'' = JStr ''http_error'' \<and> JStr ''r1'' = JUndef
        \<or> (\<exists>body. obj_get (props_of payload) ''error'' = JObj body \<and> JStr ''not_found'' = obj_get body ''code''
             \<and> JStr ''No such journey'' = obj_get body ''message'' \<and> JStr ''r1'' = obj_get body ''request_id''
             \<and> is_str (JStr ''r1'')))"
  using api_errors_are_structured [OF demo_execute_not_found]
  by (simp add: demo_client_def demo_env_def)

end
