(* ===== verification/Negotiation_Cache.thy ===== *)
theory Negotiation_Cache
  imports Api_Client
begin

text \<open>
  The promise that \<open>TraxApiClient\<close> keeps of its negotiation, \<open>ensureNegotiated\<close> of
  \<open>packages/api-client/src/client.ts\<close>, when calls overlap. A state holds every promise
  \<open>bootstrap\<close> has returned, the one the client keeps, and the rejected ones whose \<open>catch\<close> handler
  is still queued. Calls, the settling of a promise and the handlers interleave in any order.
\<close>

section \<open>Model\<close>

datatype promise = Pending | Fulfilled negotiated_contract | Rejected client_exn

record cache_state =
  cs_promises :: "promise list"
  cs_negotiation :: "nat option"
  cs_handlers :: "nat list"

definition cache_init :: cache_state where
  "cache_init = \<lparr>cs_promises = [], cs_negotiation = None, cs_handlers = []\<rparr>"

text \<open>One call of \<open>ensureNegotiated\<close>: the new state and the promise it returns.\<close>

definition ensureNegotiated :: "cache_state \<Rightarrow> cache_state \<times> nat" where
  "ensureNegotiated s =
     (case cs_negotiation s of
        Some p \<Rightarrow> (s, p)
      | None \<Rightarrow>
          let pending = length (cs_promises s) in
          (s\<lparr>cs_promises := cs_promises s @ [Pending], cs_negotiation := Some pending\<rparr>, pending))"

text \<open>The promise \<open>p\<close> settles with the outcome of its \<open>bootstrap\<close>; a rejection queues its handler.\<close>

definition settle :: "nat \<Rightarrow> client_exn + negotiated_contract \<Rightarrow> cache_state \<Rightarrow> cache_state" where
  "settle p r s =
     (case r of
        Inr contract \<Rightarrow> s\<lparr>cs_promises := (cs_promises s)[p := Fulfilled contract]\<rparr>
      | Inl e \<Rightarrow> s\<lparr>cs_promises := (cs_promises s)[p := Rejected e], cs_handlers := cs_handlers s @ [p]\<rparr>)"

text \<open>The handler of a rejected promise.\<close>

definition on_rejected :: "nat \<Rightarrow> cache_state \<Rightarrow> cache_state" where
  "on_rejected p s =
     s\<lparr>cs_handlers := remove1 p (cs_handlers s),
       cs_negotiation := (if cs_negotiation s = Some p then None else cs_negotiation s)\<rparr>"

inductive cache_step :: "cache_state \<Rightarrow> cache_state \<Rightarrow> bool" where
  call: "cache_step s (fst (ensureNegotiated s))"
| settled: "p < length (cs_promises s) \<Longrightarrow> cs_promises s ! p = Pending \<Longrightarrow> cache_step s (settle p r s)"
| handled: "p \<in> set (cs_handlers s) \<Longrightarrow> cache_step s (on_rejected p s)"

inductive_cases cache_stepE: "cache_step s t"

section \<open>Invariant\<close>

text \<open>
  A promise that is pending or fulfilled is the one the client keeps; a rejected one is kept only
  while its handler is queued; handlers are queued for rejected promises only.
\<close>

fun rejected :: "promise \<Rightarrow> bool" where
  "rejected (Rejected e) = True"
| "rejected _ = False"

definition live_kept :: "cache_state \<Rightarrow> bool" where
  "live_kept s = (\<forall>p < length (cs_promises s). rejected (cs_promises s ! p) \<or> cs_negotiation s = Some p)"

definition kept_handled :: "cache_state \<Rightarrow> bool" where
  "kept_handled s =
     (case cs_negotiation s of None \<Rightarrow> True
      | Some p \<Rightarrow> p < length (cs_promises s) \<and> (rejected (cs_promises s ! p) \<longrightarrow> p \<in> set (cs_handlers s)))"

definition handlers_rejected :: "cache_state \<Rightarrow> bool" where
  "handlers_rejected s =
     (distinct (cs_handlers s) \<and> (\<forall>p \<in> set (cs_handlers s). p < length (cs_promises s) \<and> rejected (cs_promises s ! p)))"

definition cache_inv :: "cache_state \<Rightarrow> bool" where
  "cache_inv s = (live_kept s \<and> kept_handled s \<and> handlers_rejected s)"

lemmas cache_inv_defs = cache_inv_def live_kept_def kept_handled_def handlers_rejected_def

lemma cache_inv_init: "cache_inv cache_init"
  by (simp add: cache_inv_defs cache_init_def)

lemma cache_inv_call: "cache_inv s \<Longrightarrow> cache_inv (fst (ensureNegotiated s))"
  by (cases "cs_negotiation s")
    (simp_all add: cache_inv_defs ensureNegotiated_def Let_def nth_append less_Suc_eq)

lemma cache_inv_settle:
  assumes "cache_inv s" "p < length (cs_promises s)" "cs_promises s ! p = Pending"
  shows "cache_inv (settle p r s)"
proof -
  have kept: "cs_negotiation s = Some p" and "p \<notin> set (cs_handlers s)"
    using assms by (force simp: cache_inv_defs)+
  then show ?thesis
    using assms by (cases r) (auto simp: cache_inv_defs settle_def nth_list_update)
qed

lemma cache_inv_on_rejected: "cache_inv s \<Longrightarrow> p \<in> set (cs_handlers s) \<Longrightarrow> cache_inv (on_rejected p s)"
  by (cases "cs_negotiation s") (auto simp: cache_inv_defs on_rejected_def)

interpretation nego_cache: invariant_system "\<lambda>s. s = cache_init" cache_step cache_inv
  by unfold_locales
    (auto simp: cache_inv_init elim!: cache_stepE intro: cache_inv_call cache_inv_settle cache_inv_on_rejected)

lemma reachable_inv: "cache_step\<^sup>*\<^sup>* cache_init s \<Longrightarrow> cache_inv s"
  using nego_cache.inv_reachable by blast


section \<open>Properties\<close>

lemma at_most_one_index:
  assumes "\<And>i j. i < length xs \<Longrightarrow> j < length xs \<Longrightarrow> P (xs ! i) \<Longrightarrow> P (xs ! j) \<Longrightarrow> i = j"
  shows "length (filter P xs) \<le> 1"
proof -
  have "card {i. i < length xs \<and> P (xs ! i)} \<le> 1"
    using assms by (intro card_le_Suc0_iff_eq [THEN iffD2, folded One_nat_def]) auto
  then show ?thesis
    by (simp add: length_filter_conv_card)
qed

lemma live_unique:
  assumes "cache_inv s"
  shows "length (filter (\<lambda>p. \<not> rejected p) (cs_promises s)) \<le> 1"
proof (rule at_most_one_index)
  fix i j
  assume "i < length (cs_promises s)" "j < length (cs_promises s)"
    "\<not> rejected (cs_promises s ! i)" "\<not> rejected (cs_promises s ! j)"
  then have "cs_negotiation s = Some i" "cs_negotiation s = Some j"
    using assms by (auto simp: cache_inv_defs)
  then show "i = j" by simp
qed

lemma fresh_call_after_rejections:
  "cache_inv s \<Longrightarrow> cs_negotiation s = None \<Longrightarrow> list_all rejected (cs_promises s)"
  by (auto simp: cache_inv_defs list_all_length)

text \<open>C27. Negotiation is single-flight: however calls, answers and handlers interleave, at most one discovery
  is pending or has succeeded, and a call starts another one only when every earlier one has failed;
  otherwise it shares the promise there is.\<close>
theorem negotiation_single_flight:
  assumes "cache_step\<^sup>*\<^sup>* cache_init s"
  shows "length (filter (\<lambda>p. \<not> rejected p) (cs_promises s)) \<le> 1
     \<and> (if list_all rejected (cs_promises s) then cs_promises (fst (ensureNegotiated s)) \<in> {cs_promises s, cs_promises s @ [Pending]}
        else fst (ensureNegotiated s) = s \<and> \<not> rejected (cs_promises s ! snd (ensureNegotiated s)))"
proof -
  note inv = reachable_inv [OF assms]
  have "fst (ensureNegotiated s) = s \<and> \<not> rejected (cs_promises s ! snd (ensureNegotiated s))"
    if live: "\<not> list_all rejected (cs_promises s)"
  proof -
    obtain p where "p < length (cs_promises s)" "\<not> rejected (cs_promises s ! p)"
      using live unfolding list_all_length by blast
    then show ?thesis
      using inv by (auto simp: cache_inv_defs ensureNegotiated_def)
  qed
  then show ?thesis
    using live_unique [OF inv] by (auto simp: ensureNegotiated_def Let_def split: option.split)
qed

text \<open>A run of three calls: the first two share a discovery that fails, the third starts anew.\<close>

definition demo_cache :: cache_state where
  "demo_cache = fst (ensureNegotiated (on_rejected 0 (settle 0 (Inl Uncaught)
     (fst (ensureNegotiated (fst (ensureNegotiated cache_init)))))))"

lemma demo_cache_reachable: "cache_step\<^sup>*\<^sup>* cache_init demo_cache"
proof -
  let ?a = "fst (ensureNegotiated (fst (ensureNegotiated cache_init)))"
  have "cache_step\<^sup>*\<^sup>* cache_init ?a"
    by (meson call converse_rtranclp_into_rtranclp rtranclp.rtrancl_refl)
  moreover have "cache_step ?a (settle 0 (Inl Uncaught) ?a)"
    by (rule settled) (simp_all add: ensureNegotiated_def cache_init_def Let_def)
  moreover have "cache_step (settle 0 (Inl Uncaught) ?a) (on_rejected 0 (settle 0 (Inl Uncaught) ?a))"
    by (rule handled) (simp add: settle_def)
  ultimately show ?thesis
    unfolding demo_cache_def by (meson call rtranclp.rtrancl_into_rtrancl)
qed

theorem negotiation_single_flight_witness:
  "length (filter (\<lambda>p. \<not> rejected p) (cs_promises demo_cache)) \<le> 1
     \<and> (if list_all rejected (cs_promises demo_cache)
        then cs_promises (fst (ensureNegotiated demo_cache)) \<in> {cs_promises demo_cache, cs_promises demo_cache @ [Pending]}
        else fst (ensureNegotiated demo_cache) = demo_cache
          \<and> \<not> rejected (cs_promises demo_cache ! snd (ensureNegotiated demo_cache)))"
  by (rule negotiation_single_flight [OF demo_cache_reachable])

lemma drain_handlers:
  "cs_handlers s = hs \<Longrightarrow> cache_step\<^sup>*\<^sup>* s (fold on_rejected hs s) \<and> cs_handlers (fold on_rejected hs s) = []"
proof (induction hs arbitrary: s)
  case Nil
  then show ?case by simp
next
  case (Cons h hs)
  have "cache_step s (on_rejected h s)"
    using Cons.prems by (intro handled) simp
  moreover have "cs_handlers (on_rejected h s) = hs"
    using Cons.prems by (simp add: on_rejected_def)
  ultimately show ?case
    using Cons.IH by (auto intro: converse_rtranclp_into_rtranclp)
qed

text \<open>A failed negotiation is never final: once the queued handlers of a reachable state have run, which
  is always possible, no handler is left and the next call gets a promise that has not been rejected,
  a fresh discovery if the last one failed.\<close>
theorem negotiation_recovers:
  assumes "cache_step\<^sup>*\<^sup>* cache_init s"
  shows "\<exists>t. t = fold on_rejected (cs_handlers s) s \<and> cache_step\<^sup>*\<^sup>* s t \<and> cs_handlers t = []
     \<and> \<not> rejected (cs_promises (fst (ensureNegotiated t)) ! snd (ensureNegotiated t))"
proof -
  define t where "t = fold on_rejected (cs_handlers s) s"
  have t: "cache_step\<^sup>*\<^sup>* s t" "cs_handlers t = []"
    using drain_handlers [OF refl, of s] by (simp_all add: t_def)
  then have "cache_inv t"
    using assms reachable_inv by (meson rtranclp_trans)
  then have "\<not> rejected (cs_promises (fst (ensureNegotiated t)) ! snd (ensureNegotiated t))"
    using t(2) by (auto simp: cache_inv_defs ensureNegotiated_def Let_def split: option.splits)
  then show ?thesis
    using t t_def by blast
qed

theorem negotiation_recovers_witness:
  "\<exists>t. t = fold on_rejected (cs_handlers demo_cache) demo_cache \<and> cache_step\<^sup>*\<^sup>* demo_cache t \<and> cs_handlers t = []
     \<and> \<not> rejected (cs_promises (fst (ensureNegotiated t)) ! snd (ensureNegotiated t))"
  by (rule negotiation_recovers [OF demo_cache_reachable])

end
