(* ===== verification/Routes.thy ===== *)
theory Routes
  imports Uri
begin

text \<open>
  The router of the web client, \<open>apps/web/src/routes.ts\<close>: reading a path name and printing the
  path of a page. An identifier read from a path is a list of UTF-16 code units.
\<close>

section \<open>Model\<close>

datatype app_route =
    Journeys_route
  | Journey_new_route
  | Journey_route "nat list"
  | Timeline_route "nat list"
  | Packing_route "nat list"
  | Settings_route
  | About_route
  | Not_found_route

text \<open>The expression \<open>/^\/journeys\/([^/]+)(?:\/(timeline|packing))?$/\<close>: the two groups.\<close>

definition route_match :: "string \<Rightarrow> (string \<times> string option) option" where
  "route_match pathname =
     (let prefix = ''/journeys/''; rest = drop (length prefix) pathname;
          seg = takeWhile (\<lambda>c. c \<noteq> CHR ''/'') rest; tail = dropWhile (\<lambda>c. c \<noteq> CHR ''/'') rest in
      if take (length prefix) pathname \<noteq> prefix \<or> seg = [] then None
      else if tail = [] then Some (seg, None)
      else if tail = ''/timeline'' then Some (seg, Some ''timeline'')
      else if tail = ''/packing'' then Some (seg, Some ''packing'')
      else None)"

definition parseRoute :: "string \<Rightarrow> app_route" where
  "parseRoute pathname =
     (if pathname = ''/'' then Journeys_route
      else if pathname = ''/journeys/new'' then Journey_new_route
      else if pathname = ''/settings/data'' then Settings_route
      else if pathname = ''/about'' then About_route
      else case route_match pathname of
        None \<Rightarrow> Not_found_route
      | Some (seg, page) \<Rightarrow>
          (case decodeURIComponent seg of
             None \<Rightarrow> Not_found_route
           | Some journeyId \<Rightarrow>
               if page = Some ''timeline'' then Timeline_route journeyId
               else if page = Some ''packing'' then Packing_route journeyId
               else Journey_route journeyId))"

definition routes_journeys :: string where
  "routes_journeys = ''/''"

definition routes_newJourney :: string where
  "routes_newJourney = ''/journeys/new''"

definition routes_journey :: "string \<Rightarrow> string" where
  "routes_journey i = ''/journeys/'' @ encodeURIComponent i"

definition routes_timeline :: "string \<Rightarrow> string" where
  "routes_timeline i = ''/journeys/'' @ encodeURIComponent i @ ''/timeline''"

definition routes_packing :: "string \<Rightarrow> string" where
  "routes_packing i = ''/journeys/'' @ encodeURIComponent i @ ''/packing''"

definition routes_settings :: string where
  "routes_settings = ''/settings/data''"

definition routes_about :: string where
  "routes_about = ''/about''"

section \<open>Lemmas\<close>

lemma encode_no_slash: "c \<in> set (encodeURIComponent s) \<Longrightarrow> c \<noteq> CHR ''/''"
  using encode_no_delimiter [of "CHR ''/''" s] by (auto simp: uri_delimiters_def)

lemma encode_inj: "encodeURIComponent s = encodeURIComponent t \<longleftrightarrow> s = t"
  by (metis decode_encode narrow_units_of option.inject)

lemma encode_new: "encodeURIComponent s = ''new'' \<longleftrightarrow> s = ''new''"
proof -
  have "encodeURIComponent ''new'' = ''new''"
    by code_simp
  then show ?thesis
    by (metis encode_inj)
qed

lemma route_match_encoded:
  assumes "rest = [] \<or> hd rest = CHR ''/''"
  shows "route_match (''/journeys/'' @ encodeURIComponent i @ rest) =
     (if i = [] then None
      else if rest = [] then Some (encodeURIComponent i, None)
      else if rest = ''/timeline'' then Some (encodeURIComponent i, Some ''timeline'')
      else if rest = ''/packing'' then Some (encodeURIComponent i, Some ''packing'')
      else None)"
proof -
  have "takeWhile (\<lambda>c. c \<noteq> CHR ''/'') (encodeURIComponent i @ rest) = encodeURIComponent i"
    "dropWhile (\<lambda>c. c \<noteq> CHR ''/'') (encodeURIComponent i @ rest) = rest"
    using assms encode_no_slash [of _ i]
    by (cases rest; auto simp: takeWhile_append dropWhile_append)+
  then show ?thesis
    by (auto simp: route_match_def Let_def encode_Nil_iff)
qed

text \<open>The paths of the pages of a journey, read back.\<close>

lemma parseRoute_of_journey:
  "parseRoute (routes_journey i) =
     (if i = '''' then Not_found_route else if i = ''new'' then Journey_new_route else Journey_route (units_of i))"
  "parseRoute (routes_timeline i) = (if i = '''' then Not_found_route else Timeline_route (units_of i))"
  "parseRoute (routes_packing i) = (if i = '''' then Not_found_route else Packing_route (units_of i))"
proof -
  have sub: "encodeURIComponent i @ ''/timeline'' \<noteq> ''new''" "encodeURIComponent i @ ''/packing'' \<noteq> ''new''"
    by (auto dest: arg_cong [where f = length])
  note m = route_match_encoded [of "[]" i] route_match_encoded [of "''/timeline''" i]
    route_match_encoded [of "''/packing''" i]
  show "parseRoute (routes_journey i) =
     (if i = '''' then Not_found_route else if i = ''new'' then Journey_new_route else Journey_route (units_of i))"
    using m(1) by (cases "i = []") (simp_all add: parseRoute_def routes_journey_def encode_new decode_encode)
  show "parseRoute (routes_timeline i) = (if i = '''' then Not_found_route else Timeline_route (units_of i))"
    using m(2) sub by (cases "i = []") (simp_all add: parseRoute_def routes_timeline_def decode_encode)
  show "parseRoute (routes_packing i) = (if i = '''' then Not_found_route else Packing_route (units_of i))"
    using m(3) sub by (cases "i = []") (simp_all add: parseRoute_def routes_packing_def decode_encode)
qed

section \<open>Properties\<close>

text \<open>Reading the path of a page gives the page back, for every journey identifier but two: the
  empty one names no page, and a journey called \<open>new\<close> has the path of the creation form (its
  timeline and packing pages are still reached).\<close>
theorem parseRoute_reads_routes:
  "parseRoute routes_journeys = Journeys_route \<and> parseRoute routes_newJourney = Journey_new_route
   \<and> parseRoute routes_settings = Settings_route \<and> parseRoute routes_about = About_route
   \<and> parseRoute (routes_journey i) =
       (if i = '''' then Not_found_route else if i = ''new'' then Journey_new_route
        else Journey_route (units_of i))
   \<and> parseRoute (routes_timeline i) = (if i = '''' then Not_found_route else Timeline_route (units_of i))
   \<and> parseRoute (routes_packing i) = (if i = '''' then Not_found_route else Packing_route (units_of i))"
  unfolding parseRoute_of_journey
  by (simp add: parseRoute_def routes_journeys_def routes_newJourney_def routes_settings_def routes_about_def)

end
