(* ===== verification/Journey_Sync.thy ===== *)
theory Journey_Sync
  imports Api_Client Domain
begin

text \<open>
  The repository that keeps the journeys of the web client in step with the server,
  \<open>apps/web/src/adapters/http-journey-repository.ts\<close>, over the methods it calls of the API client.
  An operation is a function from a state to a state and an attempt: the state holds the client's
  own state \<open>'s\<close>, the data last loaded and the commands whose outcome is unknown.

  The requests that \<open>load\<close> sends side by side are issued in the order of the arrays and all of
  them are sent; the first failure in that order is the one reported.
\<close>

section \<open>State and errors\<close>

datatype repository_code = Authentication_required | Version_conflict | Network_error | Server_error

datatype repository_exn = RepositoryError repository_code jsval | Client_exn client_exn

type_synonym 'a outcome = "(repository_exn + 'a) option"

text \<open>The methods of the client that the repository calls, and the source of command identifiers.\<close>

record 's journey_client =
  jc_request :: "'s \<Rightarrow> string \<Rightarrow> jsval \<Rightarrow> 's \<times> jsval attempt"
  jc_commandVersion :: "'s \<Rightarrow> string \<Rightarrow> 's \<times> jsnum attempt"
  jc_commandId :: "'s \<Rightarrow> 's \<times> string"

text \<open>A pending update: its identifier and the value whose JSON text is its signature.\<close>

record 's repo_state =
  rs_client :: 's
  rs_current :: journey_data
  rs_pending :: "string \<rightharpoonup> string \<times> jsval"

type_synonym ('s, 'a) repo_op = "'s repo_state \<Rightarrow> 's repo_state \<times> 'a outcome"

definition rreturn :: "'a \<Rightarrow> ('s, 'a) repo_op" where
  "rreturn x st = (st, Some (Inr x))"

definition rthen :: "('s, 'a) repo_op \<Rightarrow> ('a \<Rightarrow> ('s, 'b) repo_op) \<Rightarrow> ('s, 'b) repo_op" where
  "rthen m f st =
     (case m st of
        (st', None) \<Rightarrow> (st', None)
      | (st', Some (Inl e)) \<Rightarrow> (st', Some (Inl e))
      | (st', Some (Inr x)) \<Rightarrow> f x st')"

text \<open>\<open>for (const x of xs) await f(x)\<close>.\<close>

fun foreach :: "('a \<Rightarrow> ('s, unit) repo_op) \<Rightarrow> 'a list \<Rightarrow> ('s, unit) repo_op" where
  "foreach f [] st = rreturn () st"
| "foreach f (x # xs) st = rthen (f x) (\<lambda>_. foreach f xs) st"

text \<open>\<open>await this.client.request(...)\<close> and \<open>await this.client.commandVersion(...)\<close>.\<close>

definition lift_attempt :: "'a attempt \<Rightarrow> 'a outcome" where
  "lift_attempt m = map_option (map_sum Client_exn id) m"

definition send :: "'s journey_client \<Rightarrow> string \<Rightarrow> jsval \<Rightarrow> ('s, jsval) repo_op" where
  "send c operationId input st =
     (case jc_request c (rs_client st) operationId input of
        (s', m) \<Rightarrow> (st\<lparr>rs_client := s'\<rparr>, lift_attempt m))"

definition command_version :: "'s journey_client \<Rightarrow> string \<Rightarrow> ('s, jsnum) repo_op" where
  "command_version c commandType st =
     (case jc_commandVersion c (rs_client st) commandType of
        (s', m) \<Rightarrow> (st\<lparr>rs_client := s'\<rparr>, lift_attempt m))"

text \<open>\<open>repositoryCall\<close>.\<close>

definition repository_error :: "repository_exn \<Rightarrow> repository_exn" where
  "repository_error x =
     (case x of
        Client_exn (ApiClientError e) \<Rightarrow>
          if ae_kind e = Network_kind then RepositoryError Network_error (JStr ''Network unavailable'')
          else if ae_status e = Some 401 then RepositoryError Authentication_required (ae_code e)
          else if ae_status e = Some 409 then RepositoryError Version_conflict (ae_code e)
          else RepositoryError Server_error
                 (if ae_kind e = Contract_kind then JStr ''invalid_response'' else ae_code e)
      | _ \<Rightarrow> x)"

definition repositoryCall :: "('s, 'a) repo_op \<Rightarrow> ('s, 'a) repo_op" where
  "repositoryCall operation st =
     (case operation st of (st', m) \<Rightarrow> (st', map_option (map_sum repository_error id) m))"

section \<open>Reading rows\<close>

definition bad_row :: repository_exn where
  "bad_row = RepositoryError Server_error (JStr ''invalid_response'')"

definition row_required :: "jsval \<Rightarrow> string list \<Rightarrow> repository_exn + (string \<times> jsval) list" where
  "row_required v keys =
     (if \<not> isRecord v \<or> list_ex (\<lambda>key. \<not> obj_in key (props_of v)) keys then Inl bad_row
      else Inr (props_of v))"

definition row_string :: "jsval \<Rightarrow> repository_exn + string" where
  "row_string v = (if is_str v then Inr (str_of v) else Inl bad_row)"

definition row_nullable :: "jsval \<Rightarrow> repository_exn + string option" where
  "row_nullable v = (if v = JNull then Inr None else rbind (row_string v) (\<lambda>s. Inr (Some s)))"

definition row_integer :: "jsval \<Rightarrow> repository_exn + int" where
  "row_integer v = (if val_isInteger v then Inr (val_int v) else Inl bad_row)"

definition row_boolean :: "jsval \<Rightarrow> repository_exn + bool" where
  "row_boolean v = (if is_bool v then Inr (bool_of v) else Inl bad_row)"

definition row_status :: "jsval \<Rightarrow> repository_exn + journey_status" where
  "row_status v =
     (if is_str v then case map_of status_table (str_of v) of None \<Rightarrow> Inl bad_row | Some s \<Rightarrow> Inr s
      else Inl bad_row)"

definition row_category :: "jsval \<Rightarrow> repository_exn + packing_category" where
  "row_category v =
     (if is_str v then case map_of category_table (str_of v) of None \<Rightarrow> Inl bad_row | Some s \<Rightarrow> Inr s
      else Inl bad_row)"

definition journeyFrom :: "jsval \<Rightarrow> repository_exn + journey" where
  "journeyFrom v =
     rbind (row_required v [''id'', ''name'', ''status'', ''record_version'', ''created_at'', ''updated_at'']) (\<lambda>row.
     rbind (row_string (obj_get row ''id'')) (\<lambda>i.
     rbind (row_string (obj_get row ''name'')) (\<lambda>name.
     rbind (row_nullable (obj_get row ''start_date'')) (\<lambda>startDate.
     rbind (row_nullable (obj_get row ''end_date'')) (\<lambda>endDate.
     rbind (row_status (obj_get row ''status'')) (\<lambda>status.
     rbind (row_integer (obj_get row ''record_version'')) (\<lambda>version.
     rbind (row_string (obj_get row ''created_at'')) (\<lambda>createdAt.
     rbind (row_string (obj_get row ''updated_at'')) (\<lambda>updatedAt.
     Inr \<lparr>j_id = i, j_name = name, j_startDate = startDate, j_endDate = endDate, j_status = status,
       j_recordVersion = version, j_createdAt = createdAt, j_updatedAt = updatedAt\<rparr>)))))))))"

definition segmentFrom :: "jsval \<Rightarrow> repository_exn + segment" where
  "segmentFrom v =
     rbind (row_required v [''id'', ''journey_id'', ''kind'', ''position'', ''record_version'', ''created_at'',
       ''updated_at'', ''notes'']) (\<lambda>row.
     rbind (row_string (obj_get row ''id'')) (\<lambda>i.
     rbind (row_string (obj_get row ''journey_id'')) (\<lambda>journeyId.
     rbind (row_integer (obj_get row ''position'')) (\<lambda>position.
     rbind (row_nullable (obj_get row ''start_date'')) (\<lambda>startDate.
     rbind (row_nullable (obj_get row ''end_date'')) (\<lambda>endDate.
     rbind (row_string (obj_get row ''notes'')) (\<lambda>notes.
     rbind (row_integer (obj_get row ''record_version'')) (\<lambda>version.
     rbind (row_string (obj_get row ''created_at'')) (\<lambda>createdAt.
     rbind (row_string (obj_get row ''updated_at'')) (\<lambda>updatedAt.
     rbind (if obj_get row ''kind'' = JStr ''stay''
            then rbind (row_string (obj_get row ''place_name'')) (\<lambda>place. Inr (Stay place))
            else rbind (row_string (obj_get row ''origin_name'')) (\<lambda>origin.
                 rbind (row_string (obj_get row ''destination_name'')) (\<lambda>destination.
                 rbind (row_string (obj_get row ''transport_mode'')) (\<lambda>mode.
                 Inr (Move origin destination mode))))) (\<lambda>detail.
     Inr \<lparr>s_id = i, s_journeyId = journeyId, s_position = position, s_startDate = startDate, s_endDate = endDate,
       s_notes = notes, s_recordVersion = version, s_createdAt = createdAt, s_updatedAt = updatedAt,
       s_detail = detail\<rparr>)))))))))))"

definition packingFrom :: "jsval \<Rightarrow> repository_exn + packing_item" where
  "packingFrom v =
     rbind (row_required v [''id'', ''journey_id'', ''label'', ''category'', ''quantity'', ''packed_quantity'',
       ''essential'', ''record_version'', ''created_at'', ''updated_at'']) (\<lambda>row.
     rbind (row_string (obj_get row ''id'')) (\<lambda>i.
     rbind (row_string (obj_get row ''journey_id'')) (\<lambda>journeyId.
     rbind (row_string (obj_get row ''label'')) (\<lambda>label.
     rbind (row_category (obj_get row ''category'')) (\<lambda>category.
     rbind (row_integer (obj_get row ''quantity'')) (\<lambda>quantity.
     rbind (row_integer (obj_get row ''packed_quantity'')) (\<lambda>packed.
     rbind (row_boolean (obj_get row ''essential'')) (\<lambda>essential.
     rbind (row_integer (obj_get row ''record_version'')) (\<lambda>version.
     rbind (row_string (obj_get row ''created_at'')) (\<lambda>createdAt.
     rbind (row_string (obj_get row ''updated_at'')) (\<lambda>updatedAt.
     Inr \<lparr>p_id = i, p_journeyId = journeyId, p_label = label, p_category = category, p_quantity = quantity,
       p_packedQuantity = packed, p_essential = essential, p_recordVersion = version, p_createdAt = createdAt,
       p_updatedAt = updatedAt\<rparr>)))))))))))"

section \<open>Writing bodies\<close>

definition nullable_str :: "string option \<Rightarrow> jsval" where
  "nullable_str so = (case so of None \<Rightarrow> JNull | Some s \<Rightarrow> JStr s)"

definition journeyBody :: "journey \<Rightarrow> bool \<Rightarrow> (string \<times> jsval) list" where
  "journeyBody v includeId =
     (if includeId then [(''id'', JStr (j_id v))] else [])
     @ [(''name'', JStr (j_name v)), (''start_date'', nullable_str (j_startDate v)), (''end_date'', nullable_str (j_endDate v))]"

definition segmentBody :: "segment \<Rightarrow> bool \<Rightarrow> (string \<times> jsval) list" where
  "segmentBody v includeId =
     (if includeId then [(''id'', JStr (s_id v))] else [])
     @ [(''kind'', JStr (case s_detail v of Stay _ \<Rightarrow> ''stay'' | Move _ _ _ \<Rightarrow> ''move'')),
        (''start_date'', nullable_str (s_startDate v)), (''end_date'', nullable_str (s_endDate v)),
        (''notes'', JStr (s_notes v)),
        (''place_name'', case s_detail v of Stay place \<Rightarrow> JStr place | Move _ _ _ \<Rightarrow> JNull),
        (''origin_name'', case s_detail v of Stay _ \<Rightarrow> JNull | Move origin _ _ \<Rightarrow> JStr origin),
        (''destination_name'', case s_detail v of Stay _ \<Rightarrow> JNull | Move _ destination _ \<Rightarrow> JStr destination),
        (''transport_mode'', JStr (case s_detail v of Stay _ \<Rightarrow> '''' | Move _ _ mode \<Rightarrow> mode))]"

definition packingBody :: "packing_item \<Rightarrow> bool \<Rightarrow> (string \<times> jsval) list" where
  "packingBody v includeId =
     (if includeId then [(''id'', JStr (p_id v))] else [])
     @ [(''label'', JStr (p_label v)), (''category'', JStr (category_name (p_category v))),
        (''quantity'', JInt (p_quantity v)), (''essential'', JBool (p_essential v))]"

definition journeyChanged :: "journey \<Rightarrow> journey \<Rightarrow> bool" where
  "journeyChanged a b = (j_name a \<noteq> j_name b \<or> j_startDate a \<noteq> j_startDate b
     \<or> j_endDate a \<noteq> j_endDate b \<or> j_status a \<noteq> j_status b)"

text \<open>The JSON texts of two such bodies are equal exactly when the bodies are.\<close>

definition segmentChanged :: "segment \<Rightarrow> segment \<Rightarrow> bool" where
  "segmentChanged a b = (segmentBody a False \<noteq> segmentBody b False)"

definition packingDefinitionChanged :: "packing_item \<Rightarrow> packing_item \<Rightarrow> bool" where
  "packingDefinitionChanged a b = (packingBody a False \<noteq> packingBody b False)"


section \<open>Loading\<close>

text \<open>\<open>payload.items.map(f)\<close>.\<close>

definition items_of :: "jsval \<Rightarrow> (jsval \<Rightarrow> repository_exn + 'a) \<Rightarrow> repository_exn + 'a list" where
  "items_of payload f =
     (case member payload ''items'' of
        Some (JArr rows) \<Rightarrow> rmap f rows
      | _ \<Rightarrow> Inl (Client_exn Uncaught))"

definition journey_path :: "string \<Rightarrow> jsval" where
  "journey_path i = JObj [(''path'', JObj [(''journey_id'', JStr i)])]"

text \<open>The two requests of one journey, and what their answers give.\<close>

definition load_details :: "'s journey_client \<Rightarrow> journey \<Rightarrow> ('s, segment list \<times> packing_item list) repo_op" where
  "load_details c journey st =
     (case send c ''list_segments_api_v1_journeys__journey_id__segments_get'' (journey_path (j_id journey)) st of
        (st1, segmentData) \<Rightarrow>
          (case send c ''list_packing_api_v1_journeys__journey_id__packing_get'' (journey_path (j_id journey)) st1 of
             (st2, packingData) \<Rightarrow>
               (st2,
                case (segmentData, packingData) of
                  (None, _) \<Rightarrow> None
                | (_, None) \<Rightarrow> None
                | (Some (Inl e), _) \<Rightarrow> Some (Inl e)
                | (_, Some (Inl e)) \<Rightarrow> Some (Inl e)
                | (Some (Inr sd), Some (Inr pd)) \<Rightarrow>
                    Some (rbind (items_of sd segmentFrom) (\<lambda>ss.
                          rbind (items_of pd packingFrom) (\<lambda>ps. Inr (ss, ps)))))))"

text \<open>\<open>Promise.all\<close> over the journeys: every request is sent, the first failure is reported.\<close>

fun load_all :: "'s journey_client \<Rightarrow> journey list \<Rightarrow> ('s, (segment list \<times> packing_item list) list) repo_op" where
  "load_all c [] st = rreturn [] st"
| "load_all c (j # js) st =
     (case load_details c j st of
        (st1, d) \<Rightarrow>
          (case load_all c js st1 of
             (st2, ds) \<Rightarrow>
               (st2,
                case (d, ds) of
                  (None, _) \<Rightarrow> None
                | (_, None) \<Rightarrow> None
                | (Some (Inl e), _) \<Rightarrow> Some (Inl e)
                | (_, Some (Inl e)) \<Rightarrow> Some (Inl e)
                | (Some (Inr x), Some (Inr xs)) \<Rightarrow> Some (Inr (x # xs)))))"

definition http_load :: "'s journey_client \<Rightarrow> ('s, journey_data) repo_op" where
  "http_load c = repositoryCall
     (rthen (send c ''list_journeys_api_v1_journeys_get'' (JObj [])) (\<lambda>payload st.
      case items_of payload journeyFrom of
        Inl e \<Rightarrow> (st, Some (Inl e))
      | Inr js \<Rightarrow>
          rthen (load_all c js) (\<lambda>details st'.
            let loaded = \<lparr>journeys = js, segments = concat (map fst details),
                  packingItems = concat (map snd details)\<rparr> in
            (st'\<lparr>rs_current := loaded, rs_pending := Map.empty\<rparr>, Some (Inr loaded))) st))"

section \<open>Saving\<close>

definition run :: "('s, 'a) repo_op \<Rightarrow> ('s, unit) repo_op" where
  "run m = rthen m (\<lambda>_. rreturn ())"

definition delete_journey :: "'s journey_client \<Rightarrow> journey \<Rightarrow> ('s, unit) repo_op" where
  "delete_journey c journey =
     run (send c ''delete_journey_api_v1_journeys__journey_id__delete'' (journey_path (j_id journey)))"

definition update_payload :: "journey \<Rightarrow> journey \<Rightarrow> jsval" where
  "update_payload old journey =
     JObj ((''journey_id'', JStr (j_id journey)) # journeyBody journey False
       @ [(''status'', JStr (status_name (j_status journey))), (''expected_record_version'', JInt (j_recordVersion old))])"

definition update_signature :: "jsnum \<Rightarrow> jsval \<Rightarrow> jsval" where
  "update_signature version payload =
     JObj [(''command_type'', JStr ''journey.update''), (''command_version'', JNum version), (''payload'', payload)]"

definition update_input :: "string \<Rightarrow> jsnum \<Rightarrow> jsval \<Rightarrow> jsval" where
  "update_input commandId version payload =
     JObj [(''body'', JObj [(''command_id'', JStr commandId), (''command_type'', JStr ''journey.update''),
       (''command_version'', JNum version), (''payload'', payload)])]"

definition update_operation :: string where
  "update_operation = ''canonical_update_journey_api_v1_commands_journey_update_post''"

text \<open>The identifier of an update: that of the pending one if it is the same command, else a new one.\<close>

definition choose_command_id :: "'s journey_client \<Rightarrow> string \<Rightarrow> jsval \<Rightarrow> 's repo_state \<Rightarrow> 's repo_state \<times> string" where
  "choose_command_id c journeyId signature st =
     (case rs_pending st journeyId of
        Some (commandId, old) \<Rightarrow>
          if old = signature then (st, commandId)
          else (case jc_commandId c (rs_client st) of (s', i) \<Rightarrow> (st\<lparr>rs_client := s'\<rparr>, i))
      | None \<Rightarrow> (case jc_commandId c (rs_client st) of (s', i) \<Rightarrow> (st\<lparr>rs_client := s'\<rparr>, i)))"

definition update_journey :: "'s journey_client \<Rightarrow> journey \<Rightarrow> journey \<Rightarrow> ('s, unit) repo_op" where
  "update_journey c old journey =
     rthen (command_version c ''journey.update'') (\<lambda>version st.
       let payload = update_payload old journey; signature = update_signature version payload in
       case choose_command_id c (j_id journey) signature st of
         (st', commandId) \<Rightarrow>
           run (send c update_operation (update_input commandId version payload))
             (st'\<lparr>rs_pending := (rs_pending st')(j_id journey \<mapsto> (commandId, signature))\<rparr>))"

definition save_journey :: "'s journey_client \<Rightarrow> journey_data \<Rightarrow> journey \<Rightarrow> ('s, unit) repo_op" where
  "save_journey c previous journey =
     (case find (\<lambda>item. j_id item = j_id journey) (journeys previous) of
        None \<Rightarrow> run (send c ''create_journey_api_v1_journeys_post'' (JObj [(''body'', JObj (journeyBody journey True))]))
      | Some old \<Rightarrow> if journeyChanged old journey then update_journey c old journey else rreturn ())"

definition segment_path :: "string \<Rightarrow> string \<Rightarrow> (string \<times> jsval)" where
  "segment_path journeyId i = (''path'', JObj [(''journey_id'', JStr journeyId), (''segment_id'', JStr i)])"

definition delete_segment :: "'s journey_client \<Rightarrow> segment \<Rightarrow> ('s, unit) repo_op" where
  "delete_segment c segment =
     run (send c ''delete_segment_api_v1_journeys__journey_id__segments__segment_id__delete''
       (JObj [segment_path (s_journeyId segment) (s_id segment)]))"

definition save_segment :: "'s journey_client \<Rightarrow> journey_data \<Rightarrow> segment \<Rightarrow> ('s, unit) repo_op" where
  "save_segment c previous segment =
     (case find (\<lambda>item. s_id item = s_id segment) (segments previous) of
        None \<Rightarrow>
          run (send c ''create_segment_api_v1_journeys__journey_id__segments_post''
            (JObj [(''path'', JObj [(''journey_id'', JStr (s_journeyId segment))]), (''body'', JObj (segmentBody segment True))]))
      | Some old \<Rightarrow>
          if segmentChanged old segment
          then run (send c ''update_segment_api_v1_journeys__journey_id__segments__segment_id__put''
            (JObj [segment_path (s_journeyId segment) (s_id segment),
              (''body'', JObj (segmentBody segment False @ [(''expected_record_version'', JInt (s_recordVersion old))]))]))
          else rreturn ())"

text \<open>The segments of a journey in order, and the first that is not where it was.\<close>

definition ordered_segments :: "journey_data \<Rightarrow> string \<Rightarrow> segment list" where
  "ordered_segments d journeyId = sort_key s_position (filter (\<lambda>item. s_journeyId item = journeyId) (segments d))"

definition moved_segment :: "journey_data \<Rightarrow> journey_data \<Rightarrow> string \<Rightarrow> segment option" where
  "moved_segment previous next_data journeyId =
     (let before = ordered_segments previous journeyId; after = ordered_segments next_data journeyId in
      map_option snd (find (\<lambda>(index, item).
        (index \<ge> length before \<or> s_id (before ! index) \<noteq> s_id item)
        \<and> list_ex (\<lambda>old. s_id old = s_id item) (segments previous)) (enumerate 0 after)))"

definition reorder_segments :: "'s journey_client \<Rightarrow> journey_data \<Rightarrow> journey_data \<Rightarrow> journey \<Rightarrow> ('s, unit) repo_op" where
  "reorder_segments c previous next_data journey =
     (case moved_segment previous next_data (j_id journey) of
        None \<Rightarrow> rreturn ()
      | Some moved \<Rightarrow>
          (case (find (\<lambda>item. s_id item = s_id moved) (segments previous),
                 findIndex (\<lambda>item. s_id item = s_id moved) (ordered_segments next_data (j_id journey))) of
             (Some old, Some position) \<Rightarrow>
               run (send c ''reorder_segment_api_v1_journeys__journey_id__segments__segment_id__reorder_post''
                 (JObj [segment_path (j_id journey) (s_id moved),
                   (''body'', JObj [(''expected_record_version'', JInt (s_recordVersion old)),
                     (''new_position'', JInt (int position))])]))
           | _ \<Rightarrow> rreturn ()))"

definition item_path :: "packing_item \<Rightarrow> (string \<times> jsval)" where
  "item_path item = (''path'', JObj [(''journey_id'', JStr (p_journeyId item)), (''item_id'', JStr (p_id item))])"

definition delete_packing :: "'s journey_client \<Rightarrow> packing_item \<Rightarrow> ('s, unit) repo_op" where
  "delete_packing c item =
     run (send c ''delete_packing_api_v1_journeys__journey_id__packing__item_id__delete'' (JObj [item_path item]))"

definition save_packing :: "'s journey_client \<Rightarrow> journey_data \<Rightarrow> packing_item \<Rightarrow> ('s, unit) repo_op" where
  "save_packing c previous item =
     (case find (\<lambda>candidate. p_id candidate = p_id item) (packingItems previous) of
        None \<Rightarrow>
          run (send c ''create_packing_api_v1_journeys__journey_id__packing_post''
            (JObj [(''path'', JObj [(''journey_id'', JStr (p_journeyId item))]), (''body'', JObj (packingBody item True))]))
      | Some old \<Rightarrow>
          if packingDefinitionChanged old item
          then run (send c ''update_packing_api_v1_journeys__journey_id__packing__item_id__put''
            (JObj [item_path item,
              (''body'', JObj (packingBody item False @ [(''expected_record_version'', JInt (p_recordVersion old))]))]))
          else if p_packedQuantity old \<noteq> p_packedQuantity item
          then run (send c ''update_packing_progress_api_v1_journeys__journey_id__packing__item_id__progress_put''
            (JObj [item_path item,
              (''body'', JObj [(''expected_record_version'', JInt (p_recordVersion old)),
                (''packed_quantity'', JInt (p_packedQuantity item))])]))
          else rreturn ())"

text \<open>The body of \<open>save\<close>, in the order of its loops.\<close>

definition save_steps :: "'s journey_client \<Rightarrow> journey_data \<Rightarrow> journey_data \<Rightarrow> ('s, journey_data) repo_op" where
  "save_steps c previous next_data =
     (let living = j_id ` set (journeys next_data) in
      rthen (foreach (delete_journey c)
        (filter (\<lambda>item. \<not> list_ex (\<lambda>candidate. j_id candidate = j_id item) (journeys next_data)) (journeys previous))) (\<lambda>_.
      rthen (foreach (save_journey c previous) (journeys next_data)) (\<lambda>_.
      rthen (foreach (delete_segment c)
        (filter (\<lambda>item. s_journeyId item \<in> living
           \<and> \<not> list_ex (\<lambda>candidate. s_id candidate = s_id item) (segments next_data)) (segments previous))) (\<lambda>_.
      rthen (foreach (save_segment c previous) (segments next_data)) (\<lambda>_.
      rthen (foreach (reorder_segments c previous next_data) (journeys next_data)) (\<lambda>_.
      rthen (foreach (delete_packing c)
        (filter (\<lambda>old. p_journeyId old \<in> living
           \<and> \<not> list_ex (\<lambda>candidate. p_id candidate = p_id old) (packingItems next_data)) (packingItems previous))) (\<lambda>_.
      rthen (foreach (save_packing c previous) (packingItems next_data)) (\<lambda>_.
      http_load c))))))))"

definition http_save :: "'s journey_client \<Rightarrow> journey_data \<Rightarrow> ('s, journey_data) repo_op" where
  "http_save c next_data = repositoryCall (\<lambda>st. save_steps c (rs_current st) next_data st)"

text \<open>The stored locale, read from and written to \<open>localStorage\<close>.\<close>

definition loadLocale :: "(string \<rightharpoonup> string) \<Rightarrow> string option" where
  "loadLocale storage =
     (case storage ''trax.locale.v1'' of
        Some v \<Rightarrow> if v = ''en'' \<or> v = ''nl'' then Some v else None
      | None \<Rightarrow> None)"

definition saveLocale :: "string \<Rightarrow> (string \<rightharpoonup> string) \<Rightarrow> (string \<rightharpoonup> string)" where
  "saveLocale locale storage = storage(''trax.locale.v1'' \<mapsto> locale)"

text \<open>The methods of the API client, as the constructor of the repository takes them by default.\<close>

definition trax_client ::
  "'w api_client \<Rightarrow> nat \<Rightarrow> ('w \<Rightarrow> 'w \<times> string) \<Rightarrow> ('w \<times> negotiated_contract option) journey_client"
where
  "trax_client cl n randomUUID = \<lparr>jc_request = trax_request cl n, jc_commandVersion = commandVersion cl n,
     jc_commandId = \<lambda>(w, k). (case randomUUID w of (w', i) \<Rightarrow> ((w', k), i))\<rparr>"

end
