(* ===== verification/Journey_Sync_Properties.thy ===== *)
theory Journey_Sync_Properties
  imports Journey_Sync Journey_Invariants
begin

text \<open>
  Properties of the HTTP journey repository: what a save leaves behind, that it sends nothing for data
  that has not changed, how a command that failed is sent again, and a request it sends in vain.
\<close>

section \<open>What the operations keep\<close>

lemma rthen_simps [simp]:
  "m st = (st', None) \<Longrightarrow> rthen m f st = (st', None)"
  "m st = (st', Some (Inl e)) \<Longrightarrow> rthen m f st = (st', Some (Inl e))"
  "m st = (st', Some (Inr x)) \<Longrightarrow> rthen m f st = f x st'"
  by (simp_all add: rthen_def)

lemma rthen_rreturn [simp]: "rthen (rreturn x) f = f x"
  by (rule ext) (simp add: rreturn_def)

text \<open>An operation that leaves the loaded data alone, whatever it returns.\<close>

definition keeps_current :: "('s, 'a) repo_op \<Rightarrow> bool" where
  "keeps_current m = (\<forall>st. rs_current (fst (m st)) = rs_current st)"

lemma keeps_currentD: "keeps_current m \<Longrightarrow> rs_current (fst (m st)) = rs_current st"
  by (simp add: keeps_current_def)

lemma keeps_current_eq: "m st = (st', r) \<Longrightarrow> keeps_current m \<Longrightarrow> rs_current st' = rs_current st"
  by (metis keeps_currentD fst_conv)

lemma keeps_current_rreturn: "keeps_current (rreturn x)"
  by (simp add: keeps_current_def rreturn_def)

lemma keeps_current_rthen:
  assumes "keeps_current m" "\<And>x. keeps_current (f x)"
  shows "keeps_current (rthen m f)"
proof -
  have "rs_current (fst (rthen m f st)) = rs_current st" for st
  proof (cases "m st")
    case (Pair st' r)
    then have "rs_current st' = rs_current st"
      using assms(1) unfolding keeps_current_def by (metis fst_conv)
    then show ?thesis
      using Pair assms(2) unfolding rthen_def keeps_current_def by (auto split: option.split sum.split)
  qed
  then show ?thesis by (simp add: keeps_current_def)
qed

lemma keeps_current_foreach: "(\<And>x. keeps_current (f x)) \<Longrightarrow> keeps_current (foreach f xs)"
proof (induction xs)
  case Nil
  have "foreach f [] = rreturn ()"
    by (rule ext) simp
  then show ?case by (simp add: keeps_current_rreturn)
next
  case (Cons x xs)
  have "foreach f (x # xs) = rthen (f x) (\<lambda>_. foreach f xs)"
    by (rule ext) simp
  then show ?case
    using Cons by (simp add: keeps_current_rthen)
qed

lemma keeps_current_send: "keeps_current (send c k input)"
  by (simp add: keeps_current_def send_def split: prod.split)

lemma keeps_current_command_version: "keeps_current (command_version c t)"
  by (simp add: keeps_current_def command_version_def split: prod.split)

lemma keeps_current_run: "keeps_current m \<Longrightarrow> keeps_current (run m)"
  by (simp add: run_def keeps_current_rthen keeps_current_rreturn)

lemma choose_command_id_current: "choose_command_id c i sig st = (st', k) \<Longrightarrow> rs_current st' = rs_current st"
  by (auto simp: choose_command_id_def split: option.splits prod.splits if_splits)

lemma keeps_current_update_journey: "keeps_current (update_journey c old j)"
proof -
  have "keeps_current (\<lambda>st. let payload = update_payload old j; signature = update_signature version payload in
       case choose_command_id c (j_id j) signature st of
         (st', commandId) \<Rightarrow>
           run (send c update_operation (update_input commandId version payload))
             (st'\<lparr>rs_pending := (rs_pending st')(j_id j \<mapsto> (commandId, signature))\<rparr>))" for version
    unfolding keeps_current_def
    by (auto simp: Let_def keeps_currentD [OF keeps_current_run [OF keeps_current_send]]
        dest: choose_command_id_current split: prod.split)
  then show ?thesis
    unfolding update_journey_def by (intro keeps_current_rthen keeps_current_command_version)
qed

lemmas keeps_current_intros =
  keeps_current_run keeps_current_send keeps_current_rreturn keeps_current_update_journey

lemma keeps_current_save_steps:
  "keeps_current (delete_journey c j)" "keeps_current (save_journey c d j)"
  "keeps_current (delete_segment c s)" "keeps_current (save_segment c d s)"
  "keeps_current (reorder_segments c d d' j)"
  "keeps_current (delete_packing c p)" "keeps_current (save_packing c d p)"
  by (simp_all add: delete_journey_def save_journey_def delete_segment_def save_segment_def reorder_segments_def
      delete_packing_def save_packing_def keeps_current_intros split: option.split)

text \<open>An operation that replaces the loaded data exactly when it succeeds.\<close>

definition commits :: "('s, journey_data) repo_op \<Rightarrow> bool" where
  "commits m = (\<forall>st. case m st of
       (st', Some (Inr loaded)) \<Rightarrow> rs_current st' = loaded \<and> rs_pending st' = Map.empty
     | (st', _) \<Rightarrow> rs_current st' = rs_current st)"

lemma commits_rthen:
  assumes "keeps_current m" "\<And>x. commits (f x)"
  shows "commits (rthen m f)"
proof -
  have "case rthen m f st of
       (st', Some (Inr loaded)) \<Rightarrow> rs_current st' = loaded \<and> rs_pending st' = Map.empty
     | (st', _) \<Rightarrow> rs_current st' = rs_current st" for st
  proof (cases "m st")
    case (Pair st' r)
    then have keep: "rs_current st' = rs_current st"
      using assms(1) unfolding keeps_current_def by (metis fst_conv)
    show ?thesis
    proof (cases r)
      case None
      then show ?thesis using Pair keep by simp
    next
      case (Some q)
      show ?thesis
      proof (cases q)
        case (Inl e)
        then show ?thesis using Pair keep Some by simp
      next
        case (Inr x)
        then show ?thesis
          using Pair keep Some assms(2) [of x, unfolded commits_def, rule_format, of st'] by simp
      qed
    qed
  qed
  then show ?thesis by (simp add: commits_def)
qed

lemma commits_repositoryCall: "commits m \<Longrightarrow> commits (repositoryCall m)"
  unfolding commits_def
proof
  fix st
  assume "\<forall>st. case m st of
       (st', Some (Inr loaded)) \<Rightarrow> rs_current st' = loaded \<and> rs_pending st' = Map.empty
     | (st', _) \<Rightarrow> rs_current st' = rs_current st"
  then have m: "case m st of
       (st', Some (Inr loaded)) \<Rightarrow> rs_current st' = loaded \<and> rs_pending st' = Map.empty
     | (st', _) \<Rightarrow> rs_current st' = rs_current st" ..
  obtain st' r where [simp]: "m st = (st', r)"
    by force
  show "case repositoryCall m st of
       (st', Some (Inr loaded)) \<Rightarrow> rs_current st' = loaded \<and> rs_pending st' = Map.empty
     | (st', _) \<Rightarrow> rs_current st' = rs_current st"
    using m by (auto simp: repositoryCall_def split: option.splits sum.splits)
qed

lemma load_all_current: "rs_current (fst (load_all c js st)) = rs_current st"
proof (induction js arbitrary: st)
  case (Cons j js)
  have "rs_current (fst (load_details c j st)) = rs_current st"
    unfolding load_details_def
    by (auto split: prod.splits dest!: keeps_current_eq [OF _ keeps_current_send])
  then show ?case
    using Cons by (auto split: prod.splits) (metis fst_conv)
qed (simp add: rreturn_def)

lemma commits_http_load: "commits (http_load c)"
proof -
  have "commits (\<lambda>st. case items_of payload journeyFrom of
        Inl e \<Rightarrow> (st, Some (Inl e))
      | Inr js \<Rightarrow>
          rthen (load_all c js) (\<lambda>details st'.
            let loaded = \<lparr>journeys = js, segments = concat (map fst details),
                  packingItems = concat (map snd details)\<rparr> in
            (st'\<lparr>rs_current := loaded, rs_pending := Map.empty\<rparr>, Some (Inr loaded))) st)" for payload
  proof (cases "items_of payload journeyFrom")
    case (Inl e)
    then show ?thesis by (simp add: commits_def)
  next
    case (Inr js)
    have "commits (rthen (load_all c js) (\<lambda>details st'.
            let loaded = \<lparr>journeys = js, segments = concat (map fst details),
                  packingItems = concat (map snd details)\<rparr> in
            (st'\<lparr>rs_current := loaded, rs_pending := Map.empty\<rparr>, Some (Inr loaded))))"
      by (rule commits_rthen) (simp_all add: commits_def keeps_current_def load_all_current Let_def)
    then show ?thesis
      using Inr by simp
  qed
  then show ?thesis
    unfolding http_load_def by (intro commits_repositoryCall commits_rthen keeps_current_send)
qed

lemma commits_http_save: "commits (http_save c d)"
  unfolding http_save_def
proof (rule commits_repositoryCall)
  have "commits (save_steps c previous d)" for previous
    unfolding save_steps_def Let_def
    by (intro commits_rthen keeps_current_foreach keeps_current_save_steps commits_http_load)
  then show "commits (\<lambda>st. save_steps c (rs_current st) d st)"
    by (simp add: commits_def)
qed


section \<open>Properties\<close>

lemma repository_error_classified: "repository_error x \<noteq> Client_exn (ApiClientError a)"
  by (auto simp: repository_error_def split: repository_exn.splits client_exn.splits if_splits)

lemma repositoryCall_classified:
  assumes "repositoryCall m st = (st', Some (Inl e))"
  shows "\<nexists>a. e = Client_exn (ApiClientError a)"
proof -
  obtain x where "e = repository_error x"
    using assms by (cases "snd (m st)") (auto simp: repositoryCall_def map_sum_def split: prod.splits sum.splits)
  then show ?thesis
    using repository_error_classified by metis
qed

text \<open>C6. A save or a load replaces the repository's copy of the data exactly when it succeeds, by what it
  returns, and then forgets every pending command; when it fails it leaves the copy alone, and what it
  throws is never an error of the API client but the repository error it was translated to.\<close>
theorem save_and_load_outcome:
  "list_all (\<lambda>operation.
     case operation st of
       (st', None) \<Rightarrow> rs_current st' = rs_current st
     | (st', Some (Inl e)) \<Rightarrow> rs_current st' = rs_current st \<and> (\<nexists>a. e = Client_exn (ApiClientError a))
     | (st', Some (Inr loaded)) \<Rightarrow> rs_current st' = loaded \<and> rs_pending st' = Map.empty)
   [http_load c, http_save c next_data]"
proof -
  have outcome: "case operation st of
       (st', None) \<Rightarrow> rs_current st' = rs_current st
     | (st', Some (Inl e)) \<Rightarrow> rs_current st' = rs_current st \<and> (\<nexists>a. e = Client_exn (ApiClientError a))
     | (st', Some (Inr loaded)) \<Rightarrow> rs_current st' = loaded \<and> rs_pending st' = Map.empty"
    if ok: "commits operation" "\<exists>m. operation = repositoryCall m" for operation
  proof -
    obtain st' r where op [simp]: "operation st = (st', r)"
      by force
    obtain m where "operation = repositoryCall m"
      using ok(2) by blast
    then have "(\<nexists>a. e = Client_exn (ApiClientError a))" if "r = Some (Inl e)" for e
      using that op repositoryCall_classified [of m st st' e] by metis
    then show ?thesis
      using ok(1) [unfolded commits_def, rule_format, of st] by (auto split: option.splits sum.splits)
  qed
  have "\<exists>m. http_load c = repositoryCall m" "\<exists>m. http_save c next_data = repositoryCall m"
    unfolding http_load_def http_save_def by blast+
  then show ?thesis
    using outcome [OF commits_http_load, of c] outcome [OF commits_http_save, of c next_data] by simp
qed

lemma find_same: "distinct (map f xs) \<Longrightarrow> x \<in> set xs \<Longrightarrow> find (\<lambda>y. f y = f x) xs = Some x"
  by (induction xs) auto

lemma foreach_idle: "(\<And>x. x \<in> set xs \<Longrightarrow> f x = rreturn ()) \<Longrightarrow> foreach f xs = rreturn ()"
proof (rule ext)
  fix st
  show "(\<And>x. x \<in> set xs \<Longrightarrow> f x = rreturn ()) \<Longrightarrow> foreach f xs st = rreturn () st"
    by (induction xs) simp_all
qed

lemma foreach_Nil: "foreach f [] = rreturn ()"
  by (rule foreach_idle) simp

lemma moved_segment_same: "moved_segment d d i = None"
  by (auto simp: moved_segment_def Let_def find_None_iff in_set_enumerate_eq)

lemma filter_gone: "filter (\<lambda>x. P x \<and> \<not> list_ex (\<lambda>y. f y = f x) xs) xs = []" "filter (\<lambda>x. \<not> list_ex (\<lambda>y. f y = f x) xs) xs = []"
  by (auto simp: filter_empty_conv list_ex_iff)

lemma repository_error_idem: "repository_error (repository_error x) = repository_error x"
  by (auto simp: repository_error_def split: repository_exn.splits client_exn.splits)

lemma repositoryCall_idem: "repositoryCall (repositoryCall m) st = repositoryCall m st"
proof -
  obtain st' r where m: "m st = (st', r)"
    by force
  show ?thesis
  proof (cases r)
    case (Some q)
    then show ?thesis
      using m by (cases q) (simp_all add: repositoryCall_def repository_error_idem)
  qed (use m in \<open>simp add: repositoryCall_def\<close>)
qed

lemma repositoryCall_http_load: "repositoryCall (http_load c) st = http_load c st"
  unfolding http_load_def by (rule repositoryCall_idem)

text \<open>C14. Saving the data the repository already holds changes nothing on the server: the save does exactly
  what a load does, without creating, updating, reordering or deleting anything.\<close>
theorem saving_unchanged_data_only_loads:
  assumes "wf_data dp (rs_current st)"
  shows "http_save c (rs_current st) st = http_load c st"
proof -
  define d where "d = rs_current st"
  note wf = wf_dataD [OF assms, folded d_def]
  have "save_journey c d j = rreturn ()" if "j \<in> set (journeys d)" for j
    using find_same [OF wf(6) that] by (simp add: save_journey_def journeyChanged_def)
  moreover have "save_segment c d s = rreturn ()" if "s \<in> set (segments d)" for s
    using find_same [OF wf(7) that] by (simp add: save_segment_def segmentChanged_def)
  moreover have "save_packing c d p = rreturn ()" if "p \<in> set (packingItems d)" for p
    using find_same [OF wf(9) that] by (simp add: save_packing_def packingDefinitionChanged_def)
  moreover have "reorder_segments c d d j = rreturn ()" for j
    by (simp add: reorder_segments_def moved_segment_same)
  ultimately have "save_steps c d d = http_load c"
    by (simp add: save_steps_def filter_gone foreach_idle foreach_Nil)
  then show ?thesis
    using repositoryCall_http_load [of c st] by (simp add: http_save_def d_def repositoryCall_def)
qed


text \<open>A client that records what it is asked and answers every listing with no rows.\<close>

definition demo_journey_client :: "(string \<times> jsval) list journey_client" where
  "demo_journey_client = \<lparr>
     jc_request = \<lambda>s k input. (s @ [(k, input)],
       Some (Inr (if take 5 k = ''list_'' then JObj [(''items'', JArr [])] else JNull))),
     jc_commandVersion = \<lambda>s t. (s, Some (Inr (of_int_num 1))),
     jc_commandId = \<lambda>s. (s, ''c'' @ nat_str (length s))\<rparr>"

definition demo_repo :: "(string \<times> jsval) list repo_state" where
  "demo_repo = \<lparr>rs_client = [], rs_current = demo_data, rs_pending = Map.empty\<rparr>"

theorem saving_unchanged_data_only_loads_witness:
  "http_save demo_journey_client (rs_current demo_repo) demo_repo = http_load demo_journey_client demo_repo"
proof (rule saving_unchanged_data_only_loads)
  show "wf_data any_date (rs_current demo_repo)"
    using demo_inv by (simp add: demo_repo_def service_inv_def)
qed

section \<open>Retrying a command\<close>

lemma command_version_fixed:
  assumes "\<And>s. snd (jc_commandVersion c s ''journey.update'') = Some (Inr v)"
  obtains s' where "command_version c ''journey.update'' st = (st\<lparr>rs_client := s'\<rparr>, Some (Inr v))"
  using assms [of "rs_client st"]
  by (cases "jc_commandVersion c (rs_client st) ''journey.update''") (simp add: command_version_def lift_attempt_def)

lemma run_send_client: "rs_client (fst (run (send c k input) st)) = fst (jc_request c (rs_client st) k input)"
  by (auto simp: run_def rthen_def send_def rreturn_def split: prod.splits option.splits sum.splits)

lemma run_send_pending: "rs_pending (fst (run (send c k input) st)) = rs_pending st"
  by (auto simp: run_def rthen_def send_def rreturn_def split: prod.splits option.splits sum.splits)

lemma choose_command_id_pending:
  "choose_command_id c i sig st = (st', k) \<Longrightarrow> rs_pending st' = rs_pending st"
  "rs_pending st i = Some (k', sig) \<Longrightarrow> choose_command_id c i sig st = (st, k')"
  by (auto simp: choose_command_id_def split: option.splits prod.splits if_splits)

text \<open>One attempt at an update: the identifier it settles on, what it sends and what it remembers.\<close>

lemma update_journey_sends:
  assumes "\<And>s. snd (jc_commandVersion c s ''journey.update'') = Some (Inr v)"
    and "update_journey c old j st = (st', r)"
  obtains w k where
    "rs_client st' = fst (jc_request c w update_operation (update_input k v (update_payload old j)))"
    "rs_pending st' (j_id j) = Some (k, update_signature v (update_payload old j))"
    "\<And>k'. rs_pending st (j_id j) = Some (k', update_signature v (update_payload old j)) \<Longrightarrow> k = k'"
proof -
  obtain s' where version: "command_version c ''journey.update'' st = (st\<lparr>rs_client := s'\<rparr>, Some (Inr v))"
    by (rule command_version_fixed [OF assms(1)])
  define sig where "sig = update_signature v (update_payload old j)"
  obtain st1 k where choose: "choose_command_id c (j_id j) sig (st\<lparr>rs_client := s'\<rparr>) = (st1, k)"
    by force
  define st2 where "st2 = st1\<lparr>rs_pending := (rs_pending st1)(j_id j \<mapsto> (k, sig))\<rparr>"
  have "st' = fst (run (send c update_operation (update_input k v (update_payload old j))) st2)"
    using assms(2) choose unfolding update_journey_def st2_def sig_def
    by (simp add: rthen_def version Let_def)
  then have "rs_client st' = fst (jc_request c (rs_client st2) update_operation (update_input k v (update_payload old j)))"
    "rs_pending st' (j_id j) = Some (k, sig)"
    by (simp_all add: run_send_client run_send_pending st2_def)
  moreover have "k = k'" if "rs_pending st (j_id j) = Some (k', sig)" for k'
    using choose choose_command_id_pending(2) [of "st\<lparr>rs_client := s'\<rparr>" "j_id j" k' sig c] that by simp
  ultimately show ?thesis
    using that sig_def by blast
qed


definition demo_renamed :: journey where
  "demo_renamed = (hd (journeys demo_data))\<lparr>j_name := ''Tour''\<rparr>"

definition demo_first :: "(string \<times> jsval) list repo_state" where
  "demo_first = fst (update_journey demo_journey_client (hd (journeys demo_data)) demo_renamed demo_repo)"

definition demo_second :: "(string \<times> jsval) list repo_state" where
  "demo_second = fst (update_journey demo_journey_client (hd (journeys demo_data)) demo_renamed demo_first)"



section \<open>A request in vain\<close>

text \<open>C37. Deleting a stop that is not the last makes the save send a reorder as well: in a journey of two
  stops, the deletion of the first is followed by a request to move the remaining one to position
  zero, where the deletion has already put it, so that its record version grows for nothing.\<close>
theorem deletion_sends_a_reorder_in_vain:
  "\<exists>d rt. deleteSegment demo_data ''j1'' ''s0'' demo_rt = Inr (d, rt)
     \<and> map (\<lambda>s. (s_id s, s_position s)) (segments d) = [(''s1'', 0)]
     \<and> take 2 (rs_client (fst (http_save demo_journey_client d demo_repo))) =
         [(''delete_segment_api_v1_journeys__journey_id__segments__segment_id__delete'',
           JObj [segment_path ''j1'' ''s0'']),
          (''reorder_segment_api_v1_journeys__journey_id__segments__segment_id__reorder_post'',
           JObj [segment_path ''j1'' ''s1'',
             (''body'', JObj [(''expected_record_version'', JInt 1), (''new_position'', JInt 0)])])]"
proof -
  define r where "r = deleteSegment demo_data ''j1'' ''s0'' demo_rt"
  have "isl r = False \<and> map (\<lambda>s. (s_id s, s_position s)) (segments (fst (projr r))) = [(''s1'', 0)]"
    unfolding r_def by code_simp
  moreover have "take 2 (rs_client (fst (http_save demo_journey_client (fst (projr r)) demo_repo))) =
         [(''delete_segment_api_v1_journeys__journey_id__segments__segment_id__delete'',
           JObj [segment_path ''j1'' ''s0'']),
          (''reorder_segment_api_v1_journeys__journey_id__segments__segment_id__reorder_post'',
           JObj [segment_path ''j1'' ''s1'',
             (''body'', JObj [(''expected_record_version'', JInt 1), (''new_position'', JInt 0)])])]"
    unfolding r_def by code_simp
  ultimately show ?thesis
    unfolding r_def by (intro exI [of _ "fst (projr r)"] exI [of _ "snd (projr r)"]) (simp add: r_def sum.collapse)
qed

end
