(* ===== verification/Journey_Data.thy ===== *)
theory Journey_Data
  imports Journey_Sync_Properties
begin

text \<open>
  The state the web client shows, \<open>apps/web/src/features/journeys/journey-data.tsx\<close>, over the
  interface \<open>JourneyRepository\<close> of \<open>apps/web/src/repositories/journey-repository.ts\<close>. The interface is
  a locale; the HTTP repository and the one in memory
  (\<open>apps/web/src/adapters/in-memory-journey-repository.ts\<close>) interpret it.
\<close>

section \<open>The repository in memory\<close>

record memory_repo =
  mr_data :: journey_data
  mr_locale :: "string option"

definition memory_load :: "memory_repo \<Rightarrow> memory_repo \<times> journey_data outcome" where
  "memory_load r = (r, Some (Inr (mr_data r)))"

definition memory_save :: "journey_data \<Rightarrow> memory_repo \<Rightarrow> memory_repo \<times> journey_data outcome" where
  "memory_save d r = (r\<lparr>mr_data := d\<rparr>, Some (Inr d))"

definition memory_loadLocale :: "memory_repo \<Rightarrow> string option" where
  "memory_loadLocale r = mr_locale r"

definition memory_saveLocale :: "string \<Rightarrow> memory_repo \<Rightarrow> memory_repo" where
  "memory_saveLocale l r = r\<lparr>mr_locale := Some l\<rparr>"

section \<open>The provider\<close>

datatype provider_status = Loading | Ready | Failed

text \<open>\<open>pv_signedOut\<close> counts the calls of \<open>onAuthenticationRequired\<close>.\<close>

record provider =
  pv_data :: journey_data
  pv_status :: provider_status
  pv_storageError :: bool
  pv_attempt :: nat
  pv_signedOut :: nat

definition provider_init :: provider where
  "provider_init = \<lparr>pv_data = EMPTY_JOURNEY_DATA, pv_status = Loading, pv_storageError = False,
     pv_attempt = 0, pv_signedOut = 0\<rparr>"

definition needs_sign_in :: "repository_exn \<Rightarrow> bool" where
  "needs_sign_in e = (case e of RepositoryError code _ \<Rightarrow> code = Authentication_required | _ \<Rightarrow> False)"

text \<open>The effect: it sets the status, and when the load settles it does nothing once it was cleaned up.\<close>

definition start_load :: "provider \<Rightarrow> provider" where
  "start_load p = p\<lparr>pv_status := Loading\<rparr>"

definition load_settled :: "bool \<Rightarrow> journey_data outcome \<Rightarrow> provider \<Rightarrow> provider" where
  "load_settled active m p =
     (case m of
        None \<Rightarrow> p
      | Some (Inr stored) \<Rightarrow> if active then p\<lparr>pv_data := stored, pv_status := Ready\<rparr> else p
      | Some (Inl e) \<Rightarrow>
          if \<not> active then p
          else if needs_sign_in e then p\<lparr>pv_signedOut := pv_signedOut p + 1\<rparr>
          else p\<lparr>pv_status := Failed\<rparr>)"

definition retry :: "provider \<Rightarrow> provider" where
  "retry p = p\<lparr>pv_attempt := pv_attempt p + 1\<rparr>"

text \<open>\<open>commit\<close> once \<open>repository.save\<close> has settled: the new state and the value it resolves to.\<close>

definition commit_settled :: "journey_data outcome \<Rightarrow> provider \<Rightarrow> provider \<times> bool option" where
  "commit_settled m p =
     (case m of
        None \<Rightarrow> (p, None)
      | Some (Inr persisted) \<Rightarrow> (p\<lparr>pv_data := persisted, pv_storageError := False\<rparr>, Some True)
      | Some (Inl e) \<Rightarrow>
          ((if needs_sign_in e then p\<lparr>pv_signedOut := pv_signedOut p + 1\<rparr> else p)\<lparr>pv_storageError := True\<rparr>,
           Some False))"

text \<open>The provider with its repository: loads, loads that are cleaned up before they settle, and commits.\<close>

inductive provider_step ::
  "('r \<Rightarrow> 'r \<times> journey_data outcome) \<Rightarrow> (journey_data \<Rightarrow> 'r \<Rightarrow> 'r \<times> journey_data outcome)
     \<Rightarrow> 'r \<times> provider \<Rightarrow> 'r \<times> provider \<Rightarrow> bool"
  for load save
where
  loads: "load r = (r', m) \<Longrightarrow> provider_step load save (r, p) (r', load_settled active m (start_load p))"
| retries: "provider_step load save (r, p) (r, start_load (retry p))"
| commit: "save d r = (r', m) \<Longrightarrow> provider_step load save (r, p) (r', fst (commit_settled m p))"

inductive_cases provider_stepE: "provider_step load save s t"

section \<open>The interface\<close>

text \<open>
  What the provider relies on: the repository has a current copy of the data, and a load or a save
  that succeeds returns the copy it leaves behind while one that fails leaves it alone.
\<close>

definition returns_copy :: "('r \<Rightarrow> journey_data) \<Rightarrow> ('r \<Rightarrow> 'r \<times> journey_data outcome) \<Rightarrow> bool" where
  "returns_copy view operation =
     (\<forall>r. case operation r of (r', Some (Inr d)) \<Rightarrow> view r' = d | (r', _) \<Rightarrow> view r' = view r)"

definition shows_copy :: "('r \<Rightarrow> journey_data) \<Rightarrow> 'r \<times> provider \<Rightarrow> bool" where
  "shows_copy view s = (pv_status (snd s) = Ready \<longrightarrow> pv_data (snd s) = view (fst s))"

locale journey_repository =
  fixes load :: "'r \<Rightarrow> 'r \<times> journey_data outcome"
    and save :: "journey_data \<Rightarrow> 'r \<Rightarrow> 'r \<times> journey_data outcome"
    and view :: "'r \<Rightarrow> journey_data"
  assumes load_copy: "returns_copy view load"
    and save_copy: "returns_copy view (save d)"
begin

lemma load_shows: "load r = (r', m) \<Longrightarrow> shows_copy view (r', load_settled active m (start_load p))"
  using load_copy [unfolded returns_copy_def, rule_format, of r]
  by (auto simp: shows_copy_def load_settled_def start_load_def split: option.splits sum.splits)

lemma commit_shows: "save d r = (r', m) \<Longrightarrow> shows_copy view (r, p) \<Longrightarrow> shows_copy view (r', fst (commit_settled m p))"
  using save_copy [of d, unfolded returns_copy_def, rule_format, of r]
  by (auto simp: shows_copy_def commit_settled_def split: option.splits sum.splits)

lemma step_shows: "provider_step load save s t \<Longrightarrow> shows_copy view s \<Longrightarrow> shows_copy view t"
  by (erule provider_stepE) (auto intro: load_shows commit_shows, simp add: shows_copy_def start_load_def)

end

sublocale journey_repository < screen: invariant_system "\<lambda>s. snd s = provider_init" "provider_step load save" "shows_copy view"
  by unfold_locales (auto intro: step_shows, simp add: shows_copy_def provider_init_def)

lemma commits_returns_copy:
  assumes "commits m"
  shows "returns_copy rs_current m"
  unfolding returns_copy_def
proof
  fix st
  show "case m st of (st', Some (Inr d)) \<Rightarrow> rs_current st' = d | (st', _) \<Rightarrow> rs_current st' = rs_current st"
    using assms [unfolded commits_def, rule_format, of st] by (auto split: prod.splits option.splits sum.splits)
qed

interpretation http: journey_repository "http_load c" "http_save c" rs_current
  by unfold_locales (auto intro: commits_returns_copy commits_http_load commits_http_save)

interpretation memory: journey_repository memory_load memory_save mr_data
  by unfold_locales (auto simp: returns_copy_def memory_load_def memory_save_def)

section \<open>Properties\<close>


definition demo_memory :: memory_repo where
  "demo_memory = \<lparr>mr_data = demo_data, mr_locale = None\<rparr>"

definition demo_http_run :: "(string \<times> jsval) list repo_state \<times> provider" where
  "demo_http_run = (case http_load demo_journey_client demo_repo of
     (st', m) \<Rightarrow> (st', load_settled True m (start_load provider_init)))"

definition demo_memory_run :: "memory_repo \<times> provider" where
  "demo_memory_run = (case memory_load demo_memory of
     (r', m) \<Rightarrow> (r', load_settled True m (start_load provider_init)))"

lemma demo_runs_ready: "pv_status (snd demo_http_run) = Ready" "pv_status (snd demo_memory_run) = Ready"
  by code_simp+

lemma demo_http_steps:
  "(provider_step (http_load demo_journey_client) (http_save demo_journey_client))\<^sup>*\<^sup>*
     (demo_repo, provider_init) (fst demo_http_run, snd demo_http_run)"
  by (auto simp: demo_http_run_def split: prod.split intro!: r_into_rtranclp loads)

lemma demo_memory_steps:
  "(provider_step memory_load memory_save)\<^sup>*\<^sup>*
     (demo_memory, provider_init) (fst demo_memory_run, snd demo_memory_run)"
  by (auto simp: demo_memory_run_def split: prod.split intro!: r_into_rtranclp loads)


end
