(* ===== verification/Accounts.thy ===== *)
theory Accounts
  imports Api_Client
begin

text \<open>
  Accounts and the instance of the web client: the HTTP adapters
  \<open>apps/web/src/adapters/http-auth-repository.ts\<close> and
  \<open>apps/web/src/adapters/http-instance-repository.ts\<close>, the account repository in memory, and the states
  of \<open>AuthProvider\<close>, its form (\<open>apps/web/src/auth/auth.tsx\<close>) and \<open>useInstance\<close>
  (\<open>apps/web/src/hooks/use-instance.ts\<close>). The method \<open>request\<close> of the API client is an argument; a
  state changes when a promise settles, and \<open>None\<close> is a promise that has not.
\<close>

section \<open>Accounts\<close>

type_synonym 's api_request = "'s \<Rightarrow> string \<Rightarrow> jsval \<Rightarrow> 's \<times> jsval attempt"

record auth_user =
  au_id :: jsval
  au_email :: jsval
  au_displayName :: jsval
  au_workspaceId :: jsval

record login_input =
  li_email :: string
  li_password :: string

record register_input = login_input +
  ri_displayName :: string

text \<open>\<open>Auth_error\<close> is a new \<open>Error\<close> with its message, \<open>Auth_other\<close> the error that was caught.\<close>

datatype auth_exn = Auth_error jsval | Auth_other

type_synonym 'a auth_outcome = "(auth_exn + 'a) option"

definition auth_repository_error :: "client_exn \<Rightarrow> auth_exn" where
  "auth_repository_error x =
     (case x of
        ApiClientError e \<Rightarrow>
          Auth_error (if ae_code e = JStr ''invalid_credentials'' then ae_code e
                      else if truthy (ae_code e) then ae_code e else JStr ''server_error'')
      | Uncaught \<Rightarrow> Auth_other)"

definition userFrom :: "jsval \<Rightarrow> client_exn + auth_user" where
  "userFrom v =
     (case member v ''user'' of
        None \<Rightarrow> Inl Uncaught
      | Some user \<Rightarrow>
          (case (member user ''id'', member user ''email'', member user ''display_name'', member user ''workspace_id'') of
             (Some i, Some email, Some name, Some workspace) \<Rightarrow>
               Inr \<lparr>au_id = i, au_email = email, au_displayName = name, au_workspaceId = workspace\<rparr>
           | _ \<Rightarrow> Inl Uncaught))"

text \<open>A request whose answer is read as a user, and the \<open>catch\<close> clause around it.\<close>

definition user_request :: "'s api_request \<Rightarrow> string \<Rightarrow> jsval \<Rightarrow> 's \<Rightarrow> 's \<times> auth_user attempt" where
  "user_request req k input s =
     (case req s k input of (s', m) \<Rightarrow> (s', abind m (\<lambda>v. Some (userFrom v))))"

definition catch_auth :: "'a attempt \<Rightarrow> 'a auth_outcome" where
  "catch_auth m = map_option (map_sum auth_repository_error id) m"

definition http_session :: "'s api_request \<Rightarrow> 's \<Rightarrow> 's \<times> auth_user option auth_outcome" where
  "http_session req s =
     (case user_request req ''session_route_api_v1_auth_session_get'' (JObj []) s of
        (s', None) \<Rightarrow> (s', None)
      | (s', Some (Inr user)) \<Rightarrow> (s', Some (Inr (Some user)))
      | (s', Some (Inl (ApiClientError e))) \<Rightarrow>
          (s', Some (if ae_status e = Some 401 then Inr None else Inl (auth_repository_error (ApiClientError e))))
      | (s', Some (Inl Uncaught)) \<Rightarrow> (s', Some (Inl Auth_other)))"

definition http_register :: "'s api_request \<Rightarrow> register_input \<Rightarrow> 's \<Rightarrow> 's \<times> auth_user auth_outcome" where
  "http_register req input s =
     (case user_request req ''register_route_api_v1_auth_register_post''
        (JObj [(''body'', JObj [(''email'', JStr (li_email input)), (''password'', JStr (li_password input)),
          (''display_name'', JStr (ri_displayName input))])]) s of
        (s', m) \<Rightarrow> (s', catch_auth m))"

definition http_login :: "'s api_request \<Rightarrow> login_input \<Rightarrow> 's \<Rightarrow> 's \<times> auth_user auth_outcome" where
  "http_login req input s =
     (case user_request req ''login_route_api_v1_auth_login_post''
        (JObj [(''body'', JObj [(''email'', JStr (li_email input)), (''password'', JStr (li_password input))])]) s of
        (s', m) \<Rightarrow> (s', catch_auth m))"

definition http_logout :: "'s api_request \<Rightarrow> 's \<Rightarrow> 's \<times> unit auth_outcome" where
  "http_logout req s =
     (case req s ''logout_route_api_v1_auth_logout_post'' (JObj []) of
        (s', m) \<Rightarrow> (s', catch_auth (abind m (\<lambda>_. Some (Inr ())))))"

text \<open>The repository in memory: its state is the user, if any.\<close>

definition memory_user :: auth_user where
  "memory_user = \<lparr>au_id = JStr ''user-1'', au_email = JStr ''owner@example.com'', au_displayName = JStr ''Owner'',
     au_workspaceId = JStr ''workspace-1''\<rparr>"

definition memory_session :: "auth_user option \<Rightarrow> auth_user option \<times> auth_user option" where
  "memory_session u = (u, u)"

definition memory_register :: "register_input \<Rightarrow> auth_user option \<Rightarrow> auth_user option \<times> auth_user" where
  "memory_register input u =
     (let user = memory_user\<lparr>au_email := JStr (li_email input), au_displayName := JStr (ri_displayName input)\<rparr>
      in (Some user, user))"

definition memory_login :: "login_input \<Rightarrow> auth_user option \<Rightarrow> auth_user option \<times> auth_user" where
  "memory_login input u = (let user = memory_user\<lparr>au_email := JStr (li_email input)\<rparr> in (Some user, user))"

definition memory_logout :: "auth_user option \<Rightarrow> auth_user option \<times> unit" where
  "memory_logout u = (None, ())"

section \<open>The provider of the account\<close>

datatype auth_state = Auth_loading | Anonymous | Authenticated auth_user | Auth_failed

definition session_settled :: "bool \<Rightarrow> auth_user option auth_outcome \<Rightarrow> auth_state \<Rightarrow> auth_state" where
  "session_settled active m st =
     (case m of
        None \<Rightarrow> st
      | Some (Inr user) \<Rightarrow>
          if active then (case user of Some u \<Rightarrow> Authenticated u | None \<Rightarrow> Anonymous) else st
      | Some (Inl _) \<Rightarrow> if active then Auth_failed else st)"

definition auth_anonymous :: "auth_state \<Rightarrow> auth_state" where
  "auth_anonymous st = Anonymous"

text \<open>\<open>logout\<close>: a rejection leaves the state and is passed on to the caller.\<close>

definition logout_settled :: "unit auth_outcome \<Rightarrow> auth_state \<Rightarrow> auth_state" where
  "logout_settled m st = (case m of Some (Inr _) \<Rightarrow> Anonymous | _ \<Rightarrow> st)"

definition onAuthenticated :: "auth_user \<Rightarrow> auth_state \<Rightarrow> auth_state" where
  "onAuthenticated user st = Authenticated user"

text \<open>What is rendered: the children see the context only when a user is signed in.\<close>

datatype auth_screen = Sign_in_screen | Loading_screen | Error_screen | Children

definition auth_render :: "auth_state \<Rightarrow> auth_screen" where
  "auth_render st =
     (if st = Anonymous then Sign_in_screen
      else if st = Auth_loading then Loading_screen
      else if st = Auth_failed then Error_screen
      else Children)"

text \<open>The form: the translations shown in \<open>error\<close> are named by their message key.\<close>

record auth_form =
  af_registering :: bool
  af_error :: string
  af_busy :: bool

definition submit_start :: "auth_form \<Rightarrow> auth_form" where
  "submit_start f = f\<lparr>af_error := '''', af_busy := True\<rparr>"

definition submit_settled :: "auth_user auth_outcome \<Rightarrow> auth_form \<times> auth_state \<Rightarrow> auth_form \<times> auth_state" where
  "submit_settled m s =
     (case m of
        None \<Rightarrow> s
      | Some (Inr user) \<Rightarrow> ((fst s)\<lparr>af_busy := False\<rparr>, onAuthenticated user (snd s))
      | Some (Inl e) \<Rightarrow>
          ((fst s)\<lparr>af_error := (if e = Auth_error (JStr ''invalid_credentials'') then ''auth.invalid'' else ''auth.failed''),
             af_busy := False\<rparr>, snd s))"

definition toggle_registering :: "auth_form \<Rightarrow> auth_form" where
  "toggle_registering f = f\<lparr>af_registering := \<not> af_registering f, af_error := ''''\<rparr>"

section \<open>The instance\<close>

record instance_info =
  ii_application :: jsval
  ii_version :: jsval
  ii_apiVersion :: jsval
  ii_capabilities :: jsval

datatype instance_exn = InstanceRepositoryError jsval jsval jsval | Instance_other

text \<open>The error's message, code and request identifier; both requests are sent, the first failure counts.\<close>

definition instance_error :: "client_exn \<Rightarrow> instance_exn" where
  "instance_error x =
     (case x of
        ApiClientError e \<Rightarrow>
          InstanceRepositoryError
            (if ae_kind e = Network_kind then JStr ''The Trax OS API could not be reached.''
             else if ae_kind e = Api_kind then ae_message e
             else JStr ''The Trax OS API returned an invalid response.'')
            (ae_code e) (ae_requestId e)
      | Uncaught \<Rightarrow> Instance_other)"

definition instance_from :: "jsval \<Rightarrow> jsval \<Rightarrow> client_exn + instance_info" where
  "instance_from version capabilities =
     (case (member version ''application'', member version ''version'', member version ''api_version'',
            member capabilities ''capabilities'') of
        (Some a, Some v, Some api, Some c) \<Rightarrow>
          Inr \<lparr>ii_application = a, ii_version = v, ii_apiVersion = api, ii_capabilities = c\<rparr>
      | _ \<Rightarrow> Inl Uncaught)"

definition getInstance :: "'s api_request \<Rightarrow> 's \<Rightarrow> 's \<times> (instance_exn + instance_info) option" where
  "getInstance req s =
     (case req s ''version_api_v1_version_get'' (JObj []) of
        (s1, m1) \<Rightarrow>
          (case req s1 ''capabilities_api_v1_capabilities_get'' (JObj []) of
             (s2, m2) \<Rightarrow>
               (s2, map_option (map_sum instance_error id)
                  (case (m1, m2) of
                     (None, _) \<Rightarrow> None
                   | (_, None) \<Rightarrow> None
                   | (Some (Inl e), _) \<Rightarrow> Some (Inl e)
                   | (_, Some (Inl e)) \<Rightarrow> Some (Inl e)
                   | (Some (Inr version), Some (Inr capabilities)) \<Rightarrow> Some (instance_from version capabilities)))))"

datatype instance_state = Instance_loading | Instance_success instance_info | Instance_failed

definition instance_settled :: "bool \<Rightarrow> (instance_exn + instance_info) option \<Rightarrow> instance_state \<Rightarrow> instance_state" where
  "instance_settled active m st =
     (case m of
        None \<Rightarrow> st
      | Some (Inr i) \<Rightarrow> if active then Instance_success i else st
      | Some (Inl _) \<Rightarrow> if active then Instance_failed else st)"

text \<open>The attempt number and the state; each attempt starts over.\<close>

definition instance_start :: "nat \<times> instance_state \<Rightarrow> nat \<times> instance_state" where
  "instance_start s = (fst s, Instance_loading)"

definition instance_retry :: "nat \<times> instance_state \<Rightarrow> nat \<times> instance_state" where
  "instance_retry s = (fst s + 1, snd s)"

section \<open>Lemmas\<close>

lemma auth_render_children: "auth_render st = Children \<longleftrightarrow> (\<exists>user. st = Authenticated user)"
  by (cases st) (simp_all add: auth_render_def)

text \<open>A session that the server refuses with status 401 is no failure: the sign-in form is shown.\<close>

lemma unauthorized_session_signs_in:
  assumes "req s ''session_route_api_v1_auth_session_get'' (JObj []) = (s', Some (Inl (ApiClientError e)))"
    and "ae_status e = Some 401"
  shows "auth_render (session_settled True (snd (http_session req s)) Auth_loading) = Sign_in_screen"
  using assms by (simp add: http_session_def user_request_def abind_def session_settled_def auth_render_def)

end
