(* ===== verification/Pages.thy ===== *)
theory Pages
  imports Routes Journey_Data Accounts
begin

text \<open>
  The choice of the page in \<open>apps/web/src/app.tsx\<close>, from the path name, the data and the status of the
  provider, and how a failed load or commit signs the user out.
\<close>

section \<open>Model\<close>

datatype page =
    Loading_page
  | Storage_error_page
  | Journey_library_page
  | Journey_editor_page
  | Journey_overview_page journey
  | Timeline_page journey
  | Packing_page journey
  | Data_settings_page
  | About_page
  | Not_found_page

text \<open>\<open>"journeyId" in route ? route.journeyId : undefined\<close>.\<close>

fun route_journeyId :: "app_route \<Rightarrow> nat list option" where
  "route_journeyId (Journey_route i) = Some i"
| "route_journeyId (Timeline_route i) = Some i"
| "route_journeyId (Packing_route i) = Some i"
| "route_journeyId _ = None"

text \<open>\<open>journeyId ? data.journeys.find(...) : undefined\<close>, where the empty identifier counts as none.\<close>

definition route_journey :: "journey_data \<Rightarrow> app_route \<Rightarrow> journey option" where
  "route_journey data route =
     (case route_journeyId route of
        None \<Rightarrow> None
      | Some i \<Rightarrow> if i = [] then None else find (\<lambda>candidate. units_of (j_id candidate) = i) (journeys data))"

definition or_not_found :: "(journey \<Rightarrow> page) \<Rightarrow> journey option \<Rightarrow> page" where
  "or_not_found f jo = (case jo of Some j \<Rightarrow> f j | None \<Rightarrow> Not_found_page)"

definition select_page :: "string \<Rightarrow> provider \<Rightarrow> page" where
  "select_page pathname p =
     (let route = parseRoute pathname; journey = route_journey (pv_data p) route in
      if pv_status p = Loading then Loading_page
      else if pv_status p = Failed then Storage_error_page
      else if (case route_journeyId route of Some i \<Rightarrow> i \<noteq> [] | None \<Rightarrow> False) \<and> journey = None then Not_found_page
      else case route of
        Journeys_route \<Rightarrow> Journey_library_page
      | Journey_new_route \<Rightarrow> Journey_editor_page
      | Journey_route _ \<Rightarrow> or_not_found Journey_overview_page journey
      | Timeline_route _ \<Rightarrow> or_not_found Timeline_page journey
      | Packing_route _ \<Rightarrow> or_not_found Packing_page journey
      | Settings_route \<Rightarrow> Data_settings_page
      | About_route \<Rightarrow> About_page
      | Not_found_route \<Rightarrow> Not_found_page)"

text \<open>\<open>AuthenticatedApplication\<close>: each call of \<open>onAuthenticationRequired\<close> makes the user anonymous.\<close>

definition apply_sign_outs :: "provider \<Rightarrow> provider \<Rightarrow> auth_state \<Rightarrow> auth_state" where
  "apply_sign_outs before after st =
     (if pv_signedOut before < pv_signedOut after then auth_anonymous st else st)"

section \<open>Properties\<close>

lemma units_of_inj: "units_of s = units_of t \<longleftrightarrow> s = t"
  by (metis narrow_units_of option.inject)

lemma units_of_Nil [simp]: "units_of s = [] \<longleftrightarrow> s = []"
  by (simp add: units_of_def)

lemma find_journey:
  assumes "distinct (map j_id js)" "j \<in> set js"
  shows "find (\<lambda>candidate. units_of (j_id candidate) = units_of (j_id j)) js = Some j"
  using find_same [OF assms] by (simp add: units_of_inj)

text \<open>The links of a journey lead to its own pages: with the data loaded and well formed, the path the
  router prints for a journey selects the overview, timeline or packing page of exactly that journey,
  except that the overview of a journey with the identifier \<open>new\<close> is hidden by the creation form.\<close>
theorem links_reach_their_page:
  assumes "wf_data dp (pv_data p)" "j \<in> set (journeys (pv_data p))" "pv_status p = Ready"
  shows "select_page (routes_timeline (j_id j)) p = Timeline_page j
     \<and> select_page (routes_packing (j_id j)) p = Packing_page j
     \<and> select_page (routes_journey (j_id j)) p =
         (if j_id j = ''new'' then Journey_editor_page else Journey_overview_page j)"
proof -
  have nonempty: "j_id j \<noteq> ''''"
    using wf_dataD(1) [OF assms(1,2)] by (auto simp: wf_item_defs blank_def js_trim_def)
  have "find (\<lambda>candidate. units_of (j_id candidate) = units_of (j_id j)) (journeys (pv_data p)) = Some j"
    by (rule find_journey [OF wf_dataD(6) [OF assms(1)] assms(2)])
  then show ?thesis
    using nonempty assms(3) parseRoute_of_journey [of "j_id j"]
    by (simp add: select_page_def route_journey_def or_not_found_def Let_def)
qed

theorem links_reach_their_page_witness:
  "select_page (routes_timeline (j_id (hd (journeys demo_data)))) (provider_init\<lparr>pv_data := demo_data, pv_status := Ready\<rparr>)
       = Timeline_page (hd (journeys demo_data))
     \<and> select_page (routes_packing (j_id (hd (journeys demo_data)))) (provider_init\<lparr>pv_data := demo_data, pv_status := Ready\<rparr>)
       = Packing_page (hd (journeys demo_data))
     \<and> select_page (routes_journey (j_id (hd (journeys demo_data)))) (provider_init\<lparr>pv_data := demo_data, pv_status := Ready\<rparr>)
       = (if j_id (hd (journeys demo_data)) = ''new'' then Journey_editor_page
          else Journey_overview_page (hd (journeys demo_data)))"
  by (rule links_reach_their_page [of any_date])
    (use demo_inv in \<open>simp_all add: service_inv_def demo_data_def\<close>)

end
