(* ===== verification/Application_State.thy ===== *)
theory Application_State
  imports Command_Protocol
begin

text \<open>
  The application-owned state of the PowerSync spike client,
  \<open>spikes/powersync/harness/src/client.ts\<close>: the accounting of capacity and the class
  \<open>ApplicationState\<close>, whose three SQLite tables and session row are the fields of a record. A method
  is a transaction: it returns the new state, or throws and changes nothing.

  A terminal result is the dynamic value that the connector hands on. The argument \<open>nonstr\<close> says how
  the SQLite binding stores a value that is no string where a text is expected (\<open>None\<close>: it throws),
  and \<open>num_str\<close> prints a number.
\<close>

section \<open>Capacity\<close>

definition maxOutstanding :: int where "maxOutstanding = 64"
definition maxOutstandingBytes :: int where "maxOutstandingBytes = 65536"
definition maxTransientUploadAttempts :: int where "maxTransientUploadAttempts = 5"
definition terminalResultReservationBytes :: int where "terminalResultReservationBytes = 512"

datatype state_error =
    Invalid_accounting
  | Command_capacity_exceeded
  | Command_byte_capacity_exceeded
  | Quarantine_capacity_exceeded
  | Quarantine_byte_capacity_exceeded
  | Command_result_id_conflict
  | Terminal_result_reservation_exceeded
  | Command_id_already_active
  | Missing_command_result
  | Resume_session_owner_mismatch
  | Constraint_failed
  | Bad_session protocol_error

definition safe_int :: "int \<Rightarrow> bool" where
  "safe_int i = (\<bar>i\<bar> \<le> max_safe)"

definition reservedOutstandingBytes :: "int \<Rightarrow> state_error + int" where
  "reservedOutstandingBytes actual =
     rbind (guard (safe_int actual \<and> 1 \<le> actual) Invalid_accounting) (\<lambda>_.
     Inr (max actual terminalResultReservationBytes))"

definition assertCombinedOutstandingCapacity :: "int \<Rightarrow> int \<Rightarrow> state_error + unit" where
  "assertCombinedOutstandingCapacity cnt bytes =
     rbind (guard (safe_int cnt \<and> 0 \<le> cnt \<and> safe_int bytes \<and> 0 \<le> bytes) Invalid_accounting) (\<lambda>_.
     rbind (guard (cnt \<le> maxOutstanding) Quarantine_capacity_exceeded) (\<lambda>_.
     guard (bytes \<le> maxOutstandingBytes) Quarantine_byte_capacity_exceeded))"

definition assertOutstandingCapacity :: "int \<Rightarrow> int \<Rightarrow> int \<Rightarrow> state_error + unit" where
  "assertOutstandingCapacity currentCount currentBytes addedBytes =
     rbind (guard (safe_int currentCount \<and> 0 \<le> currentCount \<and> safe_int currentBytes \<and> 0 \<le> currentBytes
              \<and> safe_int addedBytes \<and> 1 \<le> addedBytes) Invalid_accounting) (\<lambda>_.
     rbind (guard (currentCount + 1 \<le> maxOutstanding) Command_capacity_exceeded) (\<lambda>_.
     guard (currentBytes + addedBytes \<le> maxOutstandingBytes) Command_byte_capacity_exceeded))"

definition isRetryableUploadStatus :: "int \<Rightarrow> bool" where
  "isRetryableUploadStatus status = (status = 429 \<or> 500 \<le> status)"

datatype attempt_decision = Decide_reset | Decide_retry | Decide_exhausted | Decide_terminal

definition transientAttemptDecision :: "int \<Rightarrow> int \<Rightarrow> attempt_decision" where
  "transientAttemptDecision status completedFailures =
     (if status = 428 then Decide_reset
      else if \<not> isRetryableUploadStatus status then Decide_terminal
      else if completedFailures + 1 \<ge> maxTransientUploadAttempts then Decide_exhausted else Decide_retry)"

section \<open>Serialized size\<close>

text \<open>\<open>Buffer.byteLength(s, "utf8")\<close> and \<open>JSON.stringify\<close> of a value without undefined parts.\<close>

definition char_bytes :: "char \<Rightarrow> int" where
  "char_bytes c = (if (of_char c :: nat) < 128 then 1 else 2)"

definition utf8_len :: "string \<Rightarrow> int" where
  "utf8_len s = sum_list (map char_bytes s)"

text \<open>Evaluation on the bits of a character.\<close>

lemma char_bytes_code [code]: "char_bytes (Char b0 b1 b2 b3 b4 b5 b6 b7) = (if b7 then 2 else 1)"
  by (cases b0; cases b1; cases b2; cases b3; cases b4; cases b5; cases b6; cases b7) (simp_all add: char_bytes_def)

lemma below_space: "Char b0 b1 b2 b3 b4 b5 b6 b7 < CHR 0x20 \<longleftrightarrow> \<not> b5 \<and> \<not> b6 \<and> \<not> b7"
  by (cases b0; cases b1; cases b2; cases b3; cases b4; cases b5; cases b6; cases b7) (simp_all add: less_char_def)

lemma json_char_code [code]:
  "json_char (Char b0 b1 b2 b3 b4 b5 b6 b7) =
     (let c = Char b0 b1 b2 b3 b4 b5 b6 b7 in
      if c = CHR 0x22 then [CHR 0x5C, CHR 0x22]
      else if c = CHR 0x5C then [CHR 0x5C, CHR 0x5C]
      else if b5 \<or> b6 \<or> b7 then [c]
      else if c = CHR 0x08 then [CHR 0x5C, CHR ''b'']
      else if c = CHR 0x09 then [CHR 0x5C, CHR ''t'']
      else if c = CHR 0x0A then [CHR 0x5C, CHR ''n'']
      else if c = CHR 0x0C then [CHR 0x5C, CHR ''f'']
      else if c = CHR 0x0D then [CHR 0x5C, CHR ''r'']
      else [CHR 0x5C, CHR ''u'', CHR ''0'', CHR ''0'', hex_char (of_char c div 16), hex_char (of_char c mod 16)])"
  by (cases b5; cases b6; cases b7) (simp_all add: json_char_def Let_def below_space)

fun json_join :: "string list \<Rightarrow> string" where
  "json_join [] = ''''"
| "json_join [x] = x"
| "json_join (x # y # xs) = x @ '','' @ json_join (y # xs)"

fun json_val :: "(jsnum \<Rightarrow> string) \<Rightarrow> jsval \<Rightarrow> string" where
  "json_val num_str (JBool b) = (if b then ''true'' else ''false'')"
| "json_val num_str (JNum n) = (if num_isFinite n then num_str n else ''null'')"
| "json_val num_str (JStr s) = json_string s"
| "json_val num_str (JArr vs) = ''['' @ json_join (map (json_val num_str) vs) @ '']''"
| "json_val num_str (JObj ps) =
     ''{'' @ json_join (map (\<lambda>(k, v). json_string k @ '':'' @ json_val num_str v) ps) @ ''}''"
| "json_val num_str _ = ''null''"

definition terminalResultSerializedBytes :: "(jsnum \<Rightarrow> string) \<Rightarrow> jsval \<Rightarrow> int" where
  "terminalResultSerializedBytes num_str result = utf8_len (json_val num_str result)"

section \<open>State\<close>

record result_row =
  rr_id :: string
  rr_resourceId :: string
  rr_state :: string
  rr_code :: string
  rr_previousVersion :: int
  rr_currentVersion :: int
  rr_digest :: string
  rr_attemptNumber :: int
  rr_reserved :: int
  rr_actual :: int
  rr_sdkCompleted :: bool

record overlay_row =
  ov_id :: string
  ov_resourceId :: string
  ov_incarnationId :: string
  ov_type :: string
  ov_payload :: "string option"
  ov_expectedVersion :: int
  ov_reserved :: int
  ov_actual :: int

record session_row =
  se_session :: replica_session
  se_hasCredential :: bool
  se_resetCount :: int
  se_clientName :: "string option"
  se_principalId :: "string option"

record app_state =
  as_results :: "result_row list"
  as_overlays :: "overlay_row list"
  as_attempts :: "string \<rightharpoonup> int"
  as_session :: "session_row option"

definition app_init :: app_state where
  "app_init = \<lparr>as_results = [], as_overlays = [], as_attempts = Map.empty, as_session = None\<rparr>"

definition hasActiveCommandId :: "string \<Rightarrow> app_state \<Rightarrow> bool" where
  "hasActiveCommandId i st = (list_ex (\<lambda>r. rr_id r = i) (as_results st) \<or> list_ex (\<lambda>ov. ov_id ov = i) (as_overlays st))"

definition activeCommandIds :: "app_state \<Rightarrow> string list" where
  "activeCommandIds st = sort (map rr_id (as_results st) @ map ov_id (as_overlays st))"

definition capacityUsage :: "app_state \<Rightarrow> int \<times> int" where
  "capacityUsage st =
     (int (length (as_results st)) + int (length (as_overlays st)),
      sum_list (map rr_reserved (as_results st)) + sum_list (map ov_reserved (as_overlays st)))"

definition resultCapacityUsage :: "app_state \<Rightarrow> int \<times> int" where
  "resultCapacityUsage st = (int (length (as_results st)), sum_list (map rr_reserved (as_results st)))"

definition resultByteAccounting :: "string \<Rightarrow> app_state \<Rightarrow> (int \<times> int \<times> bool) option" where
  "resultByteAccounting i st =
     map_option (\<lambda>r. (rr_reserved r, rr_actual r, rr_sdkCompleted r)) (find (\<lambda>r. rr_id r = i) (as_results st))"

section \<open>Operations\<close>

definition drop_overlay :: "string \<Rightarrow> app_state \<Rightarrow> app_state" where
  "drop_overlay i st = st\<lparr>as_overlays := filter (\<lambda>ov. ov_id ov \<noteq> i) (as_overlays st), as_attempts := (as_attempts st)(i := None)\<rparr>"

definition normalizedCode :: "jsval \<Rightarrow> jsval" where
  "normalizedCode code = (if code = JStr ''already_applied'' then JStr ''applied'' else code)"

definition bind_text :: "(jsval \<Rightarrow> string option) \<Rightarrow> jsval \<Rightarrow> state_error + string" where
  "bind_text nonstr v =
     (if is_str v then Inr (str_of v) else case nonstr v of None \<Rightarrow> Inl Constraint_failed | Some s \<Rightarrow> Inr s)"

definition compatible_result :: "result_row \<Rightarrow> (string \<times> jsval) list \<Rightarrow> bool" where
  "compatible_result existing r =
     (JStr (rr_resourceId existing) = obj_get r ''resourceId'' \<and> JStr (rr_state existing) = obj_get r ''state''
      \<and> normalizedCode (JStr (rr_code existing)) = normalizedCode (obj_get r ''code'')
      \<and> JInt (rr_previousVersion existing) = obj_get r ''previousVersion''
      \<and> JInt (rr_currentVersion existing) = obj_get r ''currentVersion''
      \<and> JStr (rr_digest existing) = obj_get r ''digest'')"

definition persist_result ::
  "(jsnum \<Rightarrow> string) \<Rightarrow> (jsval \<Rightarrow> string option) \<Rightarrow> jsval \<Rightarrow> app_state \<Rightarrow> state_error + app_state"
where
  "persist_result num_str nonstr result st =
     (let r = props_of result; actual = terminalResultSerializedBytes num_str result in
      rbind (bind_text nonstr (obj_get r ''commandId'')) (\<lambda>i.
      case find (\<lambda>row. rr_id row = i) (as_results st) of
        Some existing \<Rightarrow>
          rbind (guard (compatible_result existing r) Command_result_id_conflict) (\<lambda>_. Inr (drop_overlay i st))
      | None \<Rightarrow>
          let prior = find (\<lambda>ov. ov_id ov = i) (as_overlays st) in
          rbind (case prior of Some ov \<Rightarrow> Inr (ov_reserved ov) | None \<Rightarrow> reservedOutstandingBytes actual) (\<lambda>reserved.
          rbind (guard (actual \<le> reserved) Terminal_result_reservation_exceeded) (\<lambda>_.
          rbind (if prior = None then assertOutstandingCapacity (fst (capacityUsage st)) (snd (capacityUsage st)) reserved
                 else Inr ()) (\<lambda>_.
          rbind (bind_text nonstr (obj_get r ''resourceId'')) (\<lambda>resourceId.
          rbind (bind_text nonstr (obj_get r ''state'')) (\<lambda>state.
          rbind (bind_text nonstr (obj_get r ''code'')) (\<lambda>code.
          rbind (bind_text nonstr (obj_get r ''digest'')) (\<lambda>digest.
          Inr (drop_overlay i
            (st\<lparr>as_results := as_results st @
               [\<lparr>rr_id = i, rr_resourceId = resourceId, rr_state = state, rr_code = code,
                 rr_previousVersion = val_int (obj_get r ''previousVersion''),
                 rr_currentVersion = val_int (obj_get r ''currentVersion''), rr_digest = digest,
                 rr_attemptNumber = val_int (obj_get r ''attemptNumber''), rr_reserved = reserved, rr_actual = actual,
                 rr_sdkCompleted = False\<rparr>]\<rparr>)))))))))))"

fun persistResults ::
  "(jsnum \<Rightarrow> string) \<Rightarrow> (jsval \<Rightarrow> string option) \<Rightarrow> jsval list \<Rightarrow> app_state \<Rightarrow> state_error + app_state"
where
  "persistResults num_str nonstr [] st = Inr st"
| "persistResults num_str nonstr (r # rs) st =
     rbind (persist_result num_str nonstr r st) (persistResults num_str nonstr rs)"

fun markResultsSdkCompleted :: "string list \<Rightarrow> app_state \<Rightarrow> state_error + app_state" where
  "markResultsSdkCompleted [] st = Inr st"
| "markResultsSdkCompleted (i # is) st =
     rbind (guard (list_ex (\<lambda>r. rr_id r = i) (as_results st)) Missing_command_result) (\<lambda>_.
     markResultsSdkCompleted is
       (st\<lparr>as_results := map (\<lambda>r. if rr_id r = i then r\<lparr>rr_sdkCompleted := True\<rparr> else r) (as_results st)\<rparr>))"

fun addOverlays :: "string set \<Rightarrow> overlay_row list \<Rightarrow> app_state \<Rightarrow> state_error + app_state" where
  "addOverlays batchIds [] st = Inr st"
| "addOverlays batchIds (ov # ovs) st =
     rbind (guard (ov_id ov \<notin> batchIds \<and> \<not> list_ex (\<lambda>r. rr_id r = ov_id ov) (as_results st)) Command_id_already_active) (\<lambda>_.
     rbind (guard (\<not> list_ex (\<lambda>old. ov_id old = ov_id ov) (as_overlays st) \<and> 0 < ov_reserved ov \<and> 0 < ov_actual ov)
              Constraint_failed) (\<lambda>_.
     addOverlays (insert (ov_id ov) batchIds) ovs (st\<lparr>as_overlays := as_overlays st @ [ov]\<rparr>)))"

definition removeOverlays :: "string list \<Rightarrow> app_state \<Rightarrow> app_state" where
  "removeOverlays is st = st\<lparr>as_overlays := filter (\<lambda>ov. ov_id ov \<notin> set is) (as_overlays st)\<rparr>"

definition clearOverlays :: "app_state \<Rightarrow> app_state" where
  "clearOverlays st = st\<lparr>as_overlays := [], as_attempts := Map.empty\<rparr>"

text \<open>The answer says whether a row was deleted.\<close>

definition acknowledgeResult :: "string \<Rightarrow> app_state \<Rightarrow> app_state \<times> bool" where
  "acknowledgeResult i st =
     (st\<lparr>as_results := filter (\<lambda>r. \<not> (rr_id r = i \<and> rr_sdkCompleted r)) (as_results st)\<rparr>,
      list_ex (\<lambda>r. rr_id r = i \<and> rr_sdkCompleted r) (as_results st))"

text \<open>The table refuses a count above five.\<close>

definition recordTransientFailure :: "string \<Rightarrow> app_state \<Rightarrow> state_error + app_state \<times> int" where
  "recordTransientFailure i st =
     (let n = (case as_attempts st i of None \<Rightarrow> 1 | Some k \<Rightarrow> k + 1) in
      rbind (guard (0 < n \<and> n \<le> 5) Constraint_failed) (\<lambda>_. Inr (st\<lparr>as_attempts := (as_attempts st)(i \<mapsto> n)\<rparr>, n)))"

definition clearTransientFailure :: "string \<Rightarrow> app_state \<Rightarrow> app_state" where
  "clearTransientFailure i st = st\<lparr>as_attempts := (as_attempts st)(i := None)\<rparr>"

definition setReplicaSession ::
  "replica_session \<Rightarrow> int \<Rightarrow> string option \<Rightarrow> string option \<Rightarrow> app_state \<Rightarrow> app_state"
where
  "setReplicaSession session resetCount clientName principalId st =
     st\<lparr>as_session := Some \<lparr>se_session = session, se_hasCredential = True, se_resetCount = resetCount,
       se_clientName = clientName, se_principalId = principalId\<rparr>\<rparr>"

definition session_value :: "replica_session \<Rightarrow> jsval" where
  "session_value s = JObj [(''replicaId'', JStr (b_replicaId s)), (''replicaEpoch'', JInt (b_replicaEpoch s)),
     (''credential'', JStr (b_credential s))]"

definition resumeReplicaSession ::
  "string \<Rightarrow> string \<Rightarrow> app_state \<Rightarrow> state_error + (replica_session \<times> int) option"
where
  "resumeReplicaSession clientName principalId st =
     (case as_session st of
        None \<Rightarrow> Inr None
      | Some row \<Rightarrow>
          rbind (guard (se_clientName row = Some clientName \<and> se_principalId row = Some principalId \<and> se_hasCredential row)
                   Resume_session_owner_mismatch) (\<lambda>_.
          case parseReplicaSessionSecret (session_value (se_session row)) of
            Inl e \<Rightarrow> Inl (Bad_session e)
          | Inr session \<Rightarrow> Inr (Some (session, se_resetCount row))))"

definition readResults :: "app_state \<Rightarrow> result_row list" where
  "readResults st = sort_key rr_id (as_results st)"

definition readOverlays :: "app_state \<Rightarrow> overlay_row list" where
  "readOverlays st = sort_key ov_id (as_overlays st)"

end
