(* ===== verification/Quarantine.thy ===== *)
theory Quarantine
  imports Application_State "HOL-Library.Sorting_Algorithms"
begin

text \<open>
  The private sidecar files of the PowerSync spike client, \<open>spikes/powersync/harness/src/client.ts\<close>: the
  quarantine store, which keeps the commands set aside by a replica reset, and the reset state, which
  says how far a reset has come. Both are read back from JSON text that an earlier run has written.

  \<open>num_str\<close> prints a number, \<open>str_num\<close> is the language's conversion of a text to a number, and \<open>collate\<close>
  is the order of \<open>localeCompare\<close>.
\<close>

section \<open>Data\<close>

record quarantine_base =
  qc_id :: string
  qc_resource_id :: string
  qc_incarnation_id :: string
  qc_type :: string
  qc_payload :: "string option"
  qc_expected :: "int option"

record quarantine_intent = quarantine_base +
  qn_authorized :: bool
  qn_reserved :: int

datatype quarantine_state = Pending_review | Invalidated

record quarantined = quarantine_base +
  qc_state :: quarantine_state
  qc_exportable :: int
  qc_reserved :: int

record quarantine_store =
  qs_finalized :: "quarantined list"
  qs_pending :: "quarantine_intent list"

datatype quarantine_error =
    Invalid_quarantine string
  | Reservation_invalid
  | Representation_exceeds_reservation
  | Duplicate_quarantine_id
  | Legacy_without_version
  | Invalid_sidecar
  | Unreadable_sidecar
  | Invalid_reset_state
  | Invalid_reset_phase
  | Invalid_reset_session protocol_error
  | Pending_requires_reset
  | Reset_requires_quarantine
  | Sidecar_not_regular
  | Sidecar_mode_invalid
  | Conversion_failed

section \<open>Reservations\<close>

definition json_object :: "(string \<times> string) list \<Rightarrow> string" where
  "json_object fs = ''{'' @ json_join (map (\<lambda>(k, v). json_field k v) fs) @ ''}''"

definition json_bytes :: "(string \<times> string) list \<Rightarrow> int" where
  "json_bytes fs = utf8_len (json_object fs)"

definition json_opt_int :: "int option \<Rightarrow> string" where
  "json_opt_int v = (case v of None \<Rightarrow> ''null'' | Some i \<Rightarrow> int_str i)"

definition state_name :: "quarantine_state \<Rightarrow> string" where
  "state_name s = (case s of Pending_review \<Rightarrow> ''pending_review'' | Invalidated \<Rightarrow> ''invalidated'')"

text \<open>The size of an object's text does not depend on the order of its properties; one order serves all.\<close>

definition base_fields :: "'a quarantine_base_scheme \<Rightarrow> (string \<times> string) list" where
  "base_fields e =
     [(''id'', json_string (qc_id e)), (''resource_id'', json_string (qc_resource_id e)),
      (''resource_incarnation_id'', json_string (qc_incarnation_id e)), (''command_type'', json_string (qc_type e)),
      (''payload'', json_opt (qc_payload e)), (''expected_record_version'', json_opt_int (qc_expected e))]"

definition intent_fields :: "bool \<Rightarrow> int \<Rightarrow> (string \<times> string) list" where
  "intent_fields authorized reserved =
     [(''initiallyAuthorized'', if authorized then ''true'' else ''false''), (''reserved_bytes'', int_str reserved)]"

definition final_fields :: "quarantine_state \<Rightarrow> int \<Rightarrow> int \<Rightarrow> (string \<times> string) list" where
  "final_fields state exportable reserved =
     [(''state'', json_string (state_name state)), (''exportable'', int_str exportable), (''reserved_bytes'', int_str reserved)]"

definition quarantineEntryReservationBytes :: "'a quarantine_base_scheme \<Rightarrow> int" where
  "quarantineEntryReservationBytes entry =
     (let ceiling = maxOutstandingBytes;
          initial = base_fields entry @ intent_fields True ceiling;
          retained = base_fields entry @ final_fields Pending_review 1 ceiling;
          invalidated = base_fields (entry\<lparr>qc_payload := None\<rparr>) @ final_fields Invalidated 0 ceiling
      in foldr max (map json_bytes [initial, retained, invalidated]) terminalResultReservationBytes)"

section \<open>Reading entries\<close>

text \<open>\<open>Number(v)\<close>; \<open>None\<close> where it throws.\<close>

fun js_Number :: "(jsnum \<Rightarrow> string) \<Rightarrow> (string \<Rightarrow> jsnum) \<Rightarrow> jsval \<Rightarrow> jsnum option" where
  "js_Number num_str str_num JUndef = Some NaN"
| "js_Number num_str str_num JNull = Some (Fin 0)"
| "js_Number num_str str_num (JBool b) = Some (Fin (if b then 1 else 0))"
| "js_Number num_str str_num (JNum n) = Some n"
| "js_Number num_str str_num (JStr s) = Some (str_num s)"
| "js_Number num_str str_num v = map_option str_num (js_String num_str v)"

definition number_or_throw :: "(jsnum \<Rightarrow> string) \<Rightarrow> (string \<Rightarrow> jsnum) \<Rightarrow> jsval \<Rightarrow> quarantine_error + jsnum" where
  "number_or_throw num_str str_num v =
     (case js_Number num_str str_num v of None \<Rightarrow> Inl Conversion_failed | Some n \<Rightarrow> Inr n)"

definition quarantineString :: "jsval \<Rightarrow> string \<Rightarrow> quarantine_error + string" where
  "quarantineString v field =
     rbind (guard (is_str v \<and> 1 \<le> length (str_of v)) (Invalid_quarantine field)) (\<lambda>_. Inr (str_of v))"

definition quarantine_payload :: "jsval \<Rightarrow> quarantine_error + string option" where
  "quarantine_payload v =
     (if v = JNull then Inr None else rbind (quarantineString v ''payload'') (\<lambda>s. Inr (Some s)))"

definition normalizeQuarantineReservation ::
  "(jsnum \<Rightarrow> string) \<Rightarrow> (string \<Rightarrow> jsnum) \<Rightarrow> jsval \<Rightarrow> 'a quarantine_base_scheme \<Rightarrow> quarantine_error + int"
where
  "normalizeQuarantineReservation num_str str_num raw entry =
     (let minimum = quarantineEntryReservationBytes entry in
      rbind (number_or_throw num_str str_num raw) (\<lambda>candidate.
      let reserved = (if num_isSafeInteger candidate \<and> num_int candidate \<ge> minimum then num_int candidate else minimum) in
      rbind (guard (reserved \<le> maxOutstandingBytes) Reservation_invalid) (\<lambda>_. Inr reserved)))"

text \<open>The identifying fields, read in the order of the object literal.\<close>

definition read_base ::
  "(string \<times> jsval) list \<Rightarrow> string option \<Rightarrow> int option \<Rightarrow> quarantine_error + quarantine_base"
where
  "read_base value payload expected =
     rbind (quarantineString (obj_get value ''id'') ''id'') (\<lambda>i.
     rbind (quarantineString (obj_get value ''resource_id'') ''resource_id'') (\<lambda>resource.
     rbind (quarantineString (obj_get value ''resource_incarnation_id'') ''resource_incarnation_id'') (\<lambda>incarnation.
     rbind (quarantineString (obj_get value ''command_type'') ''command_type'') (\<lambda>type.
     Inr \<lparr>qc_id = i, qc_resource_id = resource, qc_incarnation_id = incarnation, qc_type = type,
       qc_payload = payload, qc_expected = expected\<rparr>))))"

definition expected_version ::
  "(jsnum \<Rightarrow> string) \<Rightarrow> (string \<Rightarrow> jsnum) \<Rightarrow> jsval \<Rightarrow> quarantine_error + int"
where
  "expected_version num_str str_num v =
     rbind (number_or_throw num_str str_num v) (\<lambda>n.
     rbind (guard (num_isSafeInteger n \<and> 1 \<le> num_int n) (Invalid_quarantine ''expected version'')) (\<lambda>_. Inr (num_int n)))"

definition quarantine_state_of :: "jsval \<Rightarrow> quarantine_state option" where
  "quarantine_state_of v =
     (if v = JStr ''pending_review'' then Some Pending_review
      else if v = JStr ''invalidated'' then Some Invalidated else None)"

definition normalizeFinalizedQuarantine ::
  "(jsnum \<Rightarrow> string) \<Rightarrow> (string \<Rightarrow> jsnum) \<Rightarrow> bool \<Rightarrow> jsval \<Rightarrow> quarantine_error + quarantined"
where
  "normalizeFinalizedQuarantine num_str str_num allowLegacyMissingVersion raw =
     rbind (guard (isRecord raw) (Invalid_quarantine ''entry'')) (\<lambda>_.
     let value = props_of raw; version = obj_get value ''expected_record_version'' in
     rbind (case quarantine_state_of (obj_get value ''state'') of
              None \<Rightarrow> Inl (Invalid_quarantine ''state'') | Some s \<Rightarrow> Inr s) (\<lambda>state.
     rbind (quarantine_payload (obj_get value ''payload'')) (\<lambda>payload.
     rbind (number_or_throw num_str str_num (obj_get value ''exportable'')) (\<lambda>exportable.
     rbind (guard (\<not> ((state = Pending_review \<and> num_val exportable \<noteq> Some 1)
              \<or> (state = Invalidated \<and> (num_val exportable \<noteq> Some 0 \<or> payload \<noteq> None))))
              (Invalid_quarantine ''consistency'')) (\<lambda>_.
     rbind (if version = JNull \<or> (allowLegacyMissingVersion \<and> version = JUndef) then Inr None
            else rbind (expected_version num_str str_num version) (\<lambda>v. Inr (Some v))) (\<lambda>expected.
     rbind (read_base value payload expected) (\<lambda>base.
     rbind (normalizeQuarantineReservation num_str str_num (obj_get value ''reserved_bytes'') base) (\<lambda>reserved.
     rbind (guard (json_bytes (base_fields base @ final_fields state (num_int exportable) reserved) \<le> reserved)
              Representation_exceeds_reservation) (\<lambda>_.
     Inr (quarantine_base.extend base
            (quarantined.fields state (num_int exportable) reserved)))))))))))"

definition normalizePendingQuarantine ::
  "(jsnum \<Rightarrow> string) \<Rightarrow> (string \<Rightarrow> jsnum) \<Rightarrow> jsval \<Rightarrow> quarantine_error + quarantine_intent"
where
  "normalizePendingQuarantine num_str str_num raw =
     rbind (guard (isRecord raw) (Invalid_quarantine ''entry'')) (\<lambda>_.
     let value = props_of raw; authorized = obj_get value ''initiallyAuthorized'' in
     rbind (guard (is_bool authorized) (Invalid_quarantine ''authorization'')) (\<lambda>_.
     rbind (quarantine_payload (obj_get value ''payload'')) (\<lambda>payload.
     rbind (guard (\<not> (\<not> bool_of authorized \<and> payload \<noteq> None)) (Invalid_quarantine ''denied payload'')) (\<lambda>_.
     rbind (expected_version num_str str_num (obj_get value ''expected_record_version'')) (\<lambda>expected.
     rbind (read_base value payload (Some expected)) (\<lambda>base.
     rbind (normalizeQuarantineReservation num_str str_num (obj_get value ''reserved_bytes'') base) (\<lambda>reserved.
     rbind (guard (json_bytes (base_fields base @ intent_fields (bool_of authorized) reserved) \<le> reserved)
              Representation_exceeds_reservation) (\<lambda>_.
     Inr (quarantine_base.extend base (quarantine_intent.fields (bool_of authorized) reserved))))))))))"

section \<open>The store\<close>

definition assertUniqueQuarantineIds :: "quarantine_store \<Rightarrow> quarantine_error + unit" where
  "assertUniqueQuarantineIds store =
     guard (distinct (map qc_id (qs_finalized store) @ map qc_id (qs_pending store))) Duplicate_quarantine_id"

text \<open>What \<open>readFile\<close> and \<open>JSON.parse\<close> give.\<close>

datatype sidecar = Absent | Unreadable | Content jsval

definition empty_store :: quarantine_store where
  "empty_store = \<lparr>qs_finalized = [], qs_pending = []\<rparr>"

text \<open>The loop over the commands of a version 1 sidecar.\<close>

definition legacy_field :: "jsval \<Rightarrow> string \<Rightarrow> jsval" where
  "legacy_field item k = (if isRecord item then obj_get (props_of item) k else JUndef)"

fun read_legacy ::
  "(jsnum \<Rightarrow> string) \<Rightarrow> (string \<Rightarrow> jsnum) \<Rightarrow> jsval list \<Rightarrow> quarantine_store \<Rightarrow> quarantine_error + quarantine_store"
where
  "read_legacy num_str str_num [] store = Inr store"
| "read_legacy num_str str_num (item # items) store =
     (if quarantine_state_of (legacy_field item ''state'') \<noteq> None
      then rbind (normalizeFinalizedQuarantine num_str str_num True item) (\<lambda>q.
           read_legacy num_str str_num items (store\<lparr>qs_finalized := qs_finalized store @ [q]\<rparr>))
      else rbind (guard (legacy_field item ''expected_record_version'' \<noteq> JUndef) Legacy_without_version) (\<lambda>_.
           rbind (normalizePendingQuarantine num_str str_num item) (\<lambda>q.
           read_legacy num_str str_num items (store\<lparr>qs_pending := qs_pending store @ [q]\<rparr>))))"

text \<open>The store, whether a file existed and whether it had the old version.\<close>

definition readQuarantineStore ::
  "(jsnum \<Rightarrow> string) \<Rightarrow> (string \<Rightarrow> jsnum) \<Rightarrow> sidecar \<Rightarrow> quarantine_error + quarantine_store \<times> bool \<times> bool"
where
  "readQuarantineStore num_str str_num target =
     (case target of
        Absent \<Rightarrow> Inr (empty_store, False, False)
      | Unreadable \<Rightarrow> Inl Unreadable_sidecar
      | Content value \<Rightarrow>
          rbind (guard (isRecord value) Invalid_sidecar) (\<lambda>_.
          let ps = props_of value; finalized = obj_get ps ''finalized''; pending = obj_get ps ''pending'';
              commands = obj_get ps ''commands'' in
          if obj_get ps ''version'' = JInt 2 \<and> is_arr finalized \<and> is_arr pending
          then rbind (rmap (normalizeFinalizedQuarantine num_str str_num False) (arr_of finalized)) (\<lambda>fs.
               rbind (rmap (normalizePendingQuarantine num_str str_num) (arr_of pending)) (\<lambda>ps.
               let store = \<lparr>qs_finalized = fs, qs_pending = ps\<rparr> in
               rbind (assertUniqueQuarantineIds store) (\<lambda>_. Inr (store, True, False))))
          else if obj_get ps ''version'' = JInt 1 \<and> is_arr commands
          then rbind (read_legacy num_str str_num (arr_of commands) empty_store) (\<lambda>store.
               rbind (assertUniqueQuarantineIds store) (\<lambda>_. Inr (store, True, True)))
          else Inl Invalid_sidecar))"

definition finalizedQuarantineBytes :: "quarantined list \<Rightarrow> int" where
  "finalizedQuarantineBytes commands = foldl (\<lambda>total q. total + qc_reserved q) 0 commands"

fun merge_unique :: "string set \<Rightarrow> quarantined list \<Rightarrow> quarantine_error + quarantined list" where
  "merge_unique ids [] = Inr []"
| "merge_unique ids (q # qs) =
     rbind (guard (qc_id q \<notin> ids) Duplicate_quarantine_id) (\<lambda>_.
     rbind (merge_unique (insert (qc_id q) ids) qs) (\<lambda>rest. Inr (q # rest)))"

definition mergeFinalizedQuarantine ::
  "string comparator \<Rightarrow> quarantined list \<Rightarrow> quarantined list \<Rightarrow> quarantine_error + quarantined list"
where
  "mergeFinalizedQuarantine collate existing additions =
     rbind (merge_unique {} (existing @ additions)) (\<lambda>merged. Inr (Sorting_Algorithms.sort (key qc_id collate) merged))"

definition intent_value :: "quarantine_intent \<Rightarrow> jsval" where
  "intent_value q = JObj
     [(''id'', JStr (qc_id q)), (''command_type'', JStr (qc_type q)), (''resource_id'', JStr (qc_resource_id q)),
      (''resource_incarnation_id'', JStr (qc_incarnation_id q)),
      (''payload'', case qc_payload q of None \<Rightarrow> JNull | Some s \<Rightarrow> JStr s),
      (''expected_record_version'', case qc_expected q of None \<Rightarrow> JNull | Some v \<Rightarrow> JInt v),
      (''initiallyAuthorized'', JBool (qn_authorized q)), (''reserved_bytes'', JInt (qn_reserved q))]"

definition quarantined_value :: "quarantined \<Rightarrow> jsval" where
  "quarantined_value q = JObj
     [(''id'', JStr (qc_id q)), (''resource_id'', JStr (qc_resource_id q)),
      (''resource_incarnation_id'', JStr (qc_incarnation_id q)), (''command_type'', JStr (qc_type q)),
      (''expected_record_version'', case qc_expected q of None \<Rightarrow> JNull | Some v \<Rightarrow> JInt v),
      (''state'', JStr (state_name (qc_state q))),
      (''payload'', case qc_payload q of None \<Rightarrow> JNull | Some s \<Rightarrow> JStr s),
      (''exportable'', JInt (qc_exportable q)), (''reserved_bytes'', JInt (qc_reserved q))]"

text \<open>The value that the client writes for a store.\<close>

definition store_value :: "quarantine_store \<Rightarrow> jsval" where
  "store_value store = JObj [(''version'', JInt 2), (''finalized'', JArr (map quarantined_value (qs_finalized store))),
     (''pending'', JArr (map intent_value (qs_pending store)))]"

text \<open>The new list, and the store to be written; \<open>None\<close> when the command is not there.\<close>

definition persistQuarantineAcknowledgement :: "quarantined list \<Rightarrow> string \<Rightarrow> (quarantined list \<times> quarantine_store) option" where
  "persistQuarantineAcknowledgement current commandId =
     (case findIndex (\<lambda>q. qc_id q = commandId) current of
        None \<Rightarrow> None
      | Some k \<Rightarrow>
          let remaining = take k current @ drop (Suc k) current in
          Some (remaining, \<lparr>qs_finalized = remaining, qs_pending = []\<rparr>))"

section \<open>The reset state\<close>

text \<open>The phase stays the value that was read, which later comparisons use as it is.\<close>

record reset_state =
  rs_phase :: jsval
  rs_resetRequestId :: string
  rs_oldSession :: replica_session
  rs_newSession :: "replica_session option"

definition reset_phases :: "string list" where
  "reset_phases = [''quarantined'', ''session_staged'', ''cleared'']"

definition parse_session :: "jsval \<Rightarrow> quarantine_error + replica_session" where
  "parse_session v =
     (case parseReplicaSessionSecret v of Inl e \<Rightarrow> Inl (Invalid_reset_session e) | Inr s \<Rightarrow> Inr s)"

definition phase_has_session :: "jsval \<Rightarrow> bool" where
  "phase_has_session phase = (phase = JStr ''session_staged'' \<or> phase = JStr ''cleared'')"

definition parseResetState :: "(jsnum \<Rightarrow> string) \<Rightarrow> jsval \<Rightarrow> quarantine_error + reset_state" where
  "parseResetState num_str value =
     rbind (guard (isRecord value) Invalid_reset_state) (\<lambda>_.
     let r = props_of value; phase = obj_get r ''phase''; request = obj_get r ''resetRequestId'';
         session = obj_get r ''newSession'' in
     rbind (guard (list_all (\<lambda>k. k \<in> set [''version'', ''phase'', ''resetRequestId'', ''oldSession'', ''newSession'']) (map fst r)
              \<and> obj_get r ''version'' = JInt 2) Invalid_reset_state) (\<lambda>_.
     rbind (case js_String num_str phase of None \<Rightarrow> Inl Conversion_failed | Some s \<Rightarrow> Inr s) (\<lambda>name.
     rbind (guard (name \<in> set reset_phases \<and> is_str request \<and> commandUuid (str_of request)) Invalid_reset_state) (\<lambda>_.
     rbind (parse_session (obj_get r ''oldSession'')) (\<lambda>old.
     rbind (if session = JUndef then Inr None else rbind (parse_session session) (\<lambda>s. Inr (Some s))) (\<lambda>new.
     rbind (guard (phase_has_session phase = (new \<noteq> None)) Invalid_reset_phase) (\<lambda>_.
     Inr \<lparr>rs_phase = phase, rs_resetRequestId = str_of request, rs_oldSession = old, rs_newSession = new\<rparr>)))))))"

definition reset_value :: "reset_state \<Rightarrow> jsval" where
  "reset_value s = JObj ([(''version'', JInt 2), (''phase'', rs_phase s), (''resetRequestId'', JStr (rs_resetRequestId s)),
     (''oldSession'', session_value (rs_oldSession s))]
     @ (case rs_newSession s of None \<Rightarrow> [] | Some n \<Rightarrow> [(''newSession'', session_value n)]))"

definition validateQuarantineResetLink :: "bool \<Rightarrow> nat \<Rightarrow> jsval option \<Rightarrow> quarantine_error + unit" where
  "validateQuarantineResetLink existed pendingCount resetPhase =
     rbind (guard (\<not> (pendingCount > 0 \<and> resetPhase = None)) Pending_requires_reset) (\<lambda>_.
     guard (\<not> (\<not> existed \<and> pendingCount = 0 \<and> resetPhase \<noteq> None)) Reset_requires_quarantine)"

text \<open>What \<open>lstat\<close> says of a file; \<open>None\<close> is a missing one.\<close>

record file_info =
  fi_isFile :: bool
  fi_isSymbolicLink :: bool
  fi_mode :: nat

definition assertPrivateRegularFile :: "file_info option \<Rightarrow> quarantine_error + bool" where
  "assertPrivateRegularFile info =
     (case info of
        None \<Rightarrow> Inr False
      | Some i \<Rightarrow>
          rbind (guard (\<not> (\<not> fi_isFile i \<or> fi_isSymbolicLink i)) Sidecar_not_regular) (\<lambda>_.
          rbind (guard (fi_mode i mod 512 = 384) Sidecar_mode_invalid) (\<lambda>_. Inr True)))"

definition readResetState ::
  "(jsnum \<Rightarrow> string) \<Rightarrow> file_info option \<Rightarrow> sidecar \<Rightarrow> quarantine_error + reset_state option"
where
  "readResetState num_str info target =
     rbind (assertPrivateRegularFile info) (\<lambda>there.
     if \<not> there then Inr None
     else (case target of
             Content v \<Rightarrow> rbind (parseResetState num_str v) (\<lambda>s. Inr (Some s))
           | _ \<Rightarrow> Inl Unreadable_sidecar))"

end
