(* ===== verification/Command_Upload.thy ===== *)
theory Command_Upload
  imports Quarantine
begin

text \<open>
  Queueing and uploading commands in the PowerSync spike client,
  \<open>spikes/powersync/harness/src/client.ts\<close>: \<open>validateQueuedCrud\<close>, \<open>queueCommands\<close>,
  \<open>SpikeCommandConnector.uploadData\<close> and the acknowledgement of results and quarantined commands. The SDK's
  upload queue is the list of its transactions, of one entry each; what the network answers and
  whether the SDK's own transactions succeed are arguments of each step. The fault that holds an
  upload before its completion only delays it and is left out.
\<close>

section \<open>State\<close>

record crud_entry =
  cr_table :: string
  cr_op :: string
  cr_id :: jsval
  cr_opData :: "(string \<times> jsval) list option"

text \<open>
  The client's options and variables (\<open>sc_quarantine\<close> is \<open>finalizedQuarantine\<close>), the application state and
  the SDK's queue, and the two sidecar files. The reserved bytes of the quarantine are always computed
  from its entries.
\<close>

record spike_client =
  sc_name :: string
  sc_principal :: "string option"
  sc_app :: app_state
  sc_queue :: "crud_entry list"
  sc_quarantine :: "quarantined list"
  sc_session :: "replica_session option"
  sc_resetRequired :: bool
  sc_resetCount :: int
  sc_databaseClosed :: bool
  sc_quarantineFile :: sidecar
  sc_resetFile :: sidecar

datatype upload_error =
    Bad_queue string
  | Bad_version
  | No_session
  | No_incarnation
  | State_error state_error
  | Protocol_error protocol_error
  | Reset_required
  | Retryable_failure
  | Network_failure
  | Malformed_response
  | Denied_without_result
  | Upload_failed int
  | Sdk_failed
  | Quarantine_error quarantine_error
  | Write_failed
  | Type_failed
  | Database_failed
  | Reset_not_requested
  | Intent_diverged
  | Unexpected_pending
  | Reset_failed
  | Reset_not_cleared
  | Active_in_multiple_states
  | Resume_session_missing
  | Resume_session_mismatch
  | Registration_failed

section \<open>Validation of queued entries\<close>

definition requiredQueueColumns :: "string list" where
  "requiredQueueColumns = [''command_type'', ''command_version'', ''expected_record_version'', ''resource_id'',
     ''resource_incarnation_id'', ''upload_correlation_id'']"

definition allowedQueueColumns :: "string list" where
  "allowedQueueColumns = requiredQueueColumns @ [''payload'']"

definition assertPositiveExpectedRecordVersion :: "jsval \<Rightarrow> upload_error + unit" where
  "assertPositiveExpectedRecordVersion v = guard (val_isSafeInteger v \<and> 1 \<le> val_int v) Bad_version"

definition validate_entry :: "crud_entry \<Rightarrow> upload_error + spike_command" where
  "validate_entry entry =
     rbind (guard (cr_table entry = ''command_queue'' \<and> cr_op entry = ''PUT'') (Bad_queue ''crud'')) (\<lambda>_.
     let data = (case cr_opData entry of None \<Rightarrow> [] | Some ps \<Rightarrow> ps); keys = map fst data;
         ty = obj_get data ''command_type''; payload = obj_get data ''payload'' in
     rbind (guard (cr_opData entry \<noteq> None \<and> list_all (\<lambda>k. k \<in> set allowedQueueColumns) keys
              \<and> list_all (\<lambda>k. k \<in> set keys) requiredQueueColumns) (Bad_queue ''columns'')) (\<lambda>_.
     rbind (guard (is_str (cr_id entry) \<and> is_str ty \<and> obj_get data ''command_version'' = JInt 1
              \<and> is_str (obj_get data ''resource_id'') \<and> is_str (obj_get data ''resource_incarnation_id'')
              \<and> is_str (obj_get data ''upload_correlation_id'')) (Bad_queue ''values'')) (\<lambda>_.
     rbind (assertPositiveExpectedRecordVersion (obj_get data ''expected_record_version'')) (\<lambda>_.
     case map_of supportedCommandTypes (str_of ty) of
       None \<Rightarrow> Inl (Bad_queue ''type'')
     | Some type \<Rightarrow>
         rbind (guard (type = Resource_update \<longrightarrow> is_str payload) (Bad_queue ''payload'')) (\<lambda>_.
         rbind (guard (type = Resource_soft_delete \<longrightarrow> payload = JNull \<or> payload = JUndef) (Bad_queue ''payload'')) (\<lambda>_.
         Inr \<lparr>c_commandId = str_of (cr_id entry), c_type = type, c_resourceId = str_of (obj_get data ''resource_id''),
           c_resourceIncarnationId = str_of (obj_get data ''resource_incarnation_id''),
           c_expectedRecordVersion = val_int (obj_get data ''expected_record_version''),
           c_payload = (if type = Resource_update then Some (str_of payload) else None)\<rparr>))))))"

text \<open>A transaction has exactly one entry, so no target can be duplicated in it.\<close>

definition validateQueuedCrud :: "crud_entry list \<Rightarrow> upload_error + spike_command list" where
  "validateQueuedCrud crud =
     rbind (guard (length crud = 1) (Bad_queue ''length'')) (\<lambda>_. rmap validate_entry crud)"

section \<open>Queueing\<close>

record queued_input =
  qi_commandId :: string
  qi_type :: command_type
  qi_resourceId :: string
  qi_incarnationId :: "string option"
  qi_expectedVersion :: jsval
  qi_payload :: "string option"

definition combinedCapacityUsage :: "spike_client \<Rightarrow> int \<times> int" where
  "combinedCapacityUsage st =
     (fst (capacityUsage (sc_app st)) + int (length (sc_quarantine st)),
      snd (capacityUsage (sc_app st)) + finalizedQuarantineBytes (sc_quarantine st))"

text \<open>
  \<open>bindCommand\<close>; \<open>replicated\<close> is the incarnation of the resource in the replica, if there is one. The
  size is that of the command's JSON text.
\<close>

definition bindCommand :: "string option \<Rightarrow> queued_input \<Rightarrow> upload_error + overlay_row" where
  "bindCommand replicated c =
     rbind (assertPositiveExpectedRecordVersion (qi_expectedVersion c)) (\<lambda>_.
     case (case qi_incarnationId c of Some i \<Rightarrow> Some i | None \<Rightarrow> replicated) of
       None \<Rightarrow> Inl No_incarnation
     | Some incarnation \<Rightarrow>
         if incarnation = '''' then Inl No_incarnation
         else
           let version = val_int (qi_expectedVersion c);
               actual = utf8_len (''{'' @ json_field ''commandId'' (json_string (qi_commandId c))
                 @ '','' @ json_field ''type'' (json_string (type_name (qi_type c)))
                 @ '','' @ json_field ''resourceId'' (json_string (qi_resourceId c))
                 @ '','' @ json_field ''resourceIncarnationId'' (json_string incarnation)
                 @ '','' @ json_field ''expectedRecordVersion'' (int_str version)
                 @ '','' @ json_field ''payload'' (json_opt (qi_payload c)) @ ''}'') in
           (case reservedOutstandingBytes actual of
              Inl e \<Rightarrow> Inl (State_error e)
            | Inr reserved \<Rightarrow>
                Inr \<lparr>ov_id = qi_commandId c, ov_resourceId = qi_resourceId c, ov_incarnationId = incarnation,
                  ov_type = type_name (qi_type c), ov_payload = qi_payload c, ov_expectedVersion = version,
                  ov_reserved = reserved, ov_actual = actual\<rparr>))"

definition queue_entry :: "string \<Rightarrow> overlay_row \<Rightarrow> crud_entry" where
  "queue_entry correlationId ov =
     \<lparr>cr_table = ''command_queue'', cr_op = ''PUT'', cr_id = JStr (ov_id ov),
       cr_opData = Some [(''command_type'', JStr (ov_type ov)), (''command_version'', JInt 1),
         (''resource_id'', JStr (ov_resourceId ov)), (''resource_incarnation_id'', JStr (ov_incarnationId ov)),
         (''expected_record_version'', JInt (ov_expectedVersion ov)),
         (''payload'', if ov_type ov = type_name Resource_update
            then (case ov_payload ov of Some s \<Rightarrow> JStr s | None \<Rightarrow> JNull) else JNull),
         (''upload_correlation_id'', JStr correlationId)]\<rparr>"

text \<open>
  \<open>queueCommands\<close> of one command, and any other number is refused; \<open>sdk\<close> says whether the SDK's write
  transaction commits. The overlay is written first and removed again when the SDK fails.
\<close>

definition queueCommands ::
  "string option \<Rightarrow> bool \<Rightarrow> string \<Rightarrow> queued_input list \<Rightarrow> spike_client \<Rightarrow> spike_client \<times> (upload_error + unit)"
where
  "queueCommands replicated sdk correlationId commands st =
     (case commands of
        [c] \<Rightarrow>
          (case bindCommand replicated c of
             Inl e \<Rightarrow> (st, Inl e)
           | Inr bound \<Rightarrow>
               if list_ex (\<lambda>q. qc_id q = ov_id bound) (sc_quarantine st) \<or> hasActiveCommandId (ov_id bound) (sc_app st)
               then (st, Inl (State_error Command_id_already_active))
               else
                 (case assertOutstandingCapacity (fst (combinedCapacityUsage st)) (snd (combinedCapacityUsage st)) (ov_reserved bound) of
                    Inl e \<Rightarrow> (st, Inl (State_error e))
                  | Inr _ \<Rightarrow>
                      (case addOverlays {} [bound] (sc_app st) of
                         Inl e \<Rightarrow> (st, Inl (State_error e))
                       | Inr app \<Rightarrow>
                           if sdk
                           then (st\<lparr>sc_app := app, sc_queue := sc_queue st @ [queue_entry correlationId bound]\<rparr>, Inr ())
                           else (st\<lparr>sc_app := removeOverlays [ov_id bound] app\<rparr>, Inl Sdk_failed))))
      | _ \<Rightarrow> (st, Inl (Bad_queue ''length'')))"

section \<open>Uploading\<close>

text \<open>What \<open>fetch\<close> gives: nothing, or a status and the JSON of the body, if it is JSON.\<close>

datatype reply = No_reply | Reply int "jsval option"

definition failed_result :: "(string \<Rightarrow> string) \<Rightarrow> spike_command \<Rightarrow> 'a replica_binding_scheme \<Rightarrow> string \<Rightarrow> int \<Rightarrow> jsval" where
  "failed_result sha c binding code attempt =
     JObj [(''commandId'', JStr (c_commandId c)), (''resourceId'', JStr (c_resourceId c)), (''state'', JStr ''failed''),
       (''code'', JStr code), (''previousVersion'', JInt (c_expectedRecordVersion c)),
       (''currentVersion'', JInt (c_expectedRecordVersion c)), (''digest'', JStr (commandDigest sha c binding)),
       (''attemptNumber'', JInt attempt)]"

text \<open>The identifiers that \<open>completeWithResults\<close> marks, and the SDK's \<open>complete\<close>, which may fail.\<close>

definition result_id :: "(jsval \<Rightarrow> string option) \<Rightarrow> jsval \<Rightarrow> state_error + string" where
  "result_id nonstr r = bind_text nonstr (obj_get (props_of r) ''commandId'')"

definition completeWithResults ::
  "(jsnum \<Rightarrow> string) \<Rightarrow> (jsval \<Rightarrow> string option) \<Rightarrow> bool \<Rightarrow> jsval list \<Rightarrow> spike_client \<Rightarrow> spike_client \<times> (upload_error + unit)"
where
  "completeWithResults num_str nonstr sdk results st =
     (case persistResults num_str nonstr results (sc_app st) of
        Inl e \<Rightarrow> (st, Inl (State_error e))
      | Inr app \<Rightarrow>
          if \<not> sdk then (st\<lparr>sc_app := app\<rparr>, Inl Sdk_failed)
          else
            (case rbind (rmap (result_id nonstr) results) (\<lambda>is. markResultsSdkCompleted is app) of
               Inl e \<Rightarrow> (st\<lparr>sc_app := app, sc_queue := tl (sc_queue st)\<rparr>, Inl (State_error e))
             | Inr app' \<Rightarrow> (st\<lparr>sc_app := app', sc_queue := tl (sc_queue st)\<rparr>, Inr ())))"

text \<open>A transient failure: it is counted, and the fifth turns into a terminal result.\<close>

definition transient_failure ::
  "(string \<Rightarrow> string) \<Rightarrow> (jsnum \<Rightarrow> string) \<Rightarrow> (jsval \<Rightarrow> string option) \<Rightarrow> bool \<Rightarrow> spike_command \<Rightarrow> replica_session
     \<Rightarrow> upload_error \<Rightarrow> spike_client \<Rightarrow> spike_client \<times> (upload_error + unit)"
where
  "transient_failure sha num_str nonstr sdk c session error st =
     (case recordTransientFailure (c_commandId c) (sc_app st) of
        Inl e \<Rightarrow> (st, Inl (State_error e))
      | Inr (app, failures) \<Rightarrow>
          if failures \<ge> maxTransientUploadAttempts
          then completeWithResults num_str nonstr sdk [failed_result sha c session ''retry_exhausted'' failures] (st\<lparr>sc_app := app\<rparr>)
          else (st\<lparr>sc_app := app\<rparr>, Inl error))"

definition uploadData ::
  "(string \<Rightarrow> string) \<Rightarrow> (jsnum \<Rightarrow> string) \<Rightarrow> (jsval \<Rightarrow> string option) \<Rightarrow> bool \<Rightarrow> reply \<Rightarrow> spike_client
     \<Rightarrow> spike_client \<times> (upload_error + unit)"
where
  "uploadData sha num_str nonstr sdk reply st =
     (case sc_queue st of
        [] \<Rightarrow> (st, Inr ())
      | entry # _ \<Rightarrow>
          (case validateQueuedCrud [entry] of
             Inl e \<Rightarrow> (st, Inl e)
           | Inr commands \<Rightarrow>
               (case sc_session st of
                  None \<Rightarrow> (st, Inl No_session)
                | Some session \<Rightarrow>
                    let c = hd commands in
                    (case reply of
                       No_reply \<Rightarrow> transient_failure sha num_str nonstr sdk c session Network_failure st
                     | Reply status raw \<Rightarrow>
                         if status = 428 then (st\<lparr>sc_resetRequired := True\<rparr>, Inl Reset_required)
                         else if isRetryableUploadStatus status
                         then transient_failure sha num_str nonstr sdk c session Retryable_failure st
                         else
                           (case raw of
                              None \<Rightarrow> (st, Inl Malformed_response)
                            | Some body \<Rightarrow>
                                if status = 403
                                then (case parseCommandResponse sha num_str body commands session of
                                        Inl e \<Rightarrow> (st, Inl (Protocol_error e))
                                      | Inr results \<Rightarrow>
                                          if obj_get (props_of (hd results)) ''state'' \<noteq> JStr ''denied''
                                          then (st, Inl Denied_without_result)
                                          else completeWithResults num_str nonstr sdk results st)
                                else if status = 409 \<and> isRecord body
                                        \<and> obj_get (props_of body) ''error'' = JStr ''idempotency_conflict''
                                then completeWithResults num_str nonstr sdk
                                       [failed_result sha c session ''idempotency_conflict'' 1] st
                                else if \<not> (200 \<le> status \<and> status \<le> 299) then (st, Inl (Upload_failed status))
                                else (case parseCommandResponse sha num_str body commands session of
                                        Inl e \<Rightarrow> (st, Inl (Protocol_error e))
                                      | Inr results \<Rightarrow> completeWithResults num_str nonstr sdk results st))))))"

section \<open>Acknowledging\<close>

definition acknowledgeCommandResult :: "string \<Rightarrow> spike_client \<Rightarrow> spike_client \<times> bool" where
  "acknowledgeCommandResult i st =
     (case acknowledgeResult i (sc_app st) of (app, done) \<Rightarrow> (st\<lparr>sc_app := app\<rparr>, done))"

text \<open>
  How an operation on files or on the SDK's database ends: it succeeds, throws before it takes effect, or
  throws after it (\<open>writePrivateJsonAtomically\<close> after its rename, when the new content is in place).
\<close>

datatype outcome = Done | Failed_before | Failed_after

definition acknowledgeOrDiscardQuarantinedCommand ::
  "outcome \<Rightarrow> string \<Rightarrow> spike_client \<Rightarrow> spike_client \<times> (upload_error + bool)"
where
  "acknowledgeOrDiscardQuarantinedCommand writing i st =
     (case persistQuarantineAcknowledgement (sc_quarantine st) i of
        None \<Rightarrow> (st, Inr False)
      | Some (remaining, store) \<Rightarrow>
          (case writing of
             Failed_before \<Rightarrow> (st, Inl Write_failed)
           | Failed_after \<Rightarrow> (st\<lparr>sc_quarantineFile := Content (store_value store)\<rparr>, Inl Write_failed)
           | Done \<Rightarrow> (st\<lparr>sc_quarantineFile := Content (store_value store), sc_quarantine := remaining\<rparr>, Inr True)))"

definition setSession :: "replica_session \<Rightarrow> spike_client \<Rightarrow> spike_client" where
  "setSession session st = st\<lparr>sc_session := Some session, sc_resetRequired := False\<rparr>"

end
