(* ===== verification/Replica_Reset.thy ===== *)
theory Replica_Reset
  imports Command_Upload
begin

text \<open>
  \<open>performReplicaReset\<close> of the PowerSync spike client, \<open>spikes/powersync/harness/src/client.ts\<close>. A reset sets
  the queued commands aside in the quarantine file, obtains a new session, clears the replica and
  finally decides for every command whether it may be reviewed. Its progress is kept in the reset file,
  so that it can be taken up again where it stopped.

  An action changes the client and returns a value or throws; what the network, the disk and the SDK do is
  the argument \<open>env\<close>. Every action on the disk or the SDK may throw before or after it takes effect, so the
  states in which an action can throw are also those a crash can leave behind. The test hooks and the
  retry that follows an injected fault are left out; uploads do not run during a reset, which
  disconnects the database first.
\<close>

section \<open>Actions\<close>

type_synonym 'a act = "spike_client \<Rightarrow> spike_client \<times> (upload_error + 'a)"

definition act_bind :: "'a act \<Rightarrow> ('a \<Rightarrow> 'b act) \<Rightarrow> 'b act" where
  "act_bind m f st = (case m st of (st', Inl e) \<Rightarrow> (st', Inl e) | (st', Inr x) \<Rightarrow> f x st')"

definition act_return :: "'a \<Rightarrow> 'a act" where
  "act_return x st = (st, Inr x)"

definition act_lift :: "upload_error + 'a \<Rightarrow> 'a act" where
  "act_lift r st = (st, r)"

definition act_get :: "(spike_client \<Rightarrow> 'a) \<Rightarrow> 'a act" where
  "act_get f st = (st, Inr (f st))"

definition act_modify :: "(spike_client \<Rightarrow> spike_client) \<Rightarrow> unit act" where
  "act_modify f st = (f st, Inr ())"

definition act_effect :: "outcome \<Rightarrow> upload_error \<Rightarrow> (spike_client \<Rightarrow> spike_client) \<Rightarrow> unit act" where
  "act_effect result e f st =
     (case result of Done \<Rightarrow> (f st, Inr ()) | Failed_before \<Rightarrow> (st, Inl e) | Failed_after \<Rightarrow> (f st, Inl e))"

definition quarantine_result :: "quarantine_error + 'a \<Rightarrow> upload_error + 'a" where
  "quarantine_result r = (case r of Inl e \<Rightarrow> Inl (Quarantine_error e) | Inr x \<Rightarrow> Inr x)"

section \<open>The environment\<close>

record reset_env =
  en_requestId :: string
  en_disconnect :: outcome
  en_classify :: "quarantine_base \<Rightarrow> reply"
  en_writePending :: outcome
  en_writeQuarantined :: outcome
  en_reset :: reply
  en_writeStaged :: outcome
  en_storeStaged :: outcome
  en_acknowledge :: reply
  en_clear :: outcome
  en_clearOverlays :: outcome
  en_close :: outcome
  en_writeCleared :: outcome
  en_storeSession :: outcome
  en_closeAgain :: outcome
  en_challenge :: reply
  en_connect :: outcome
  en_observe :: reply
  en_storeObserved :: outcome
  en_reclassify :: "quarantine_intent \<Rightarrow> reply"
  en_visibleRows :: "string \<Rightarrow> string \<Rightarrow> nat"
  en_writeFinalized :: outcome
  en_unlink :: outcome

text \<open>\<open>replicaPost\<close> reads every body as JSON.\<close>

definition replicaPost :: "reply \<Rightarrow> upload_error + int \<times> jsval" where
  "replicaPost r =
     (case r of
        No_reply \<Rightarrow> Inl Network_failure
      | Reply status None \<Rightarrow> Inl Malformed_response
      | Reply status (Some body) \<Rightarrow> Inr (status, body))"

text \<open>\<open>status === 200 && "preserve" in body && body.preserve === true\<close>; \<open>in\<close> throws on a primitive value.\<close>

definition preserves :: "int \<times> jsval \<Rightarrow> upload_error + bool" where
  "preserves answer =
     (case answer of (status, body) \<Rightarrow>
        if status \<noteq> 200 then Inr False
        else if isRecord body then Inr (obj_get (props_of body) ''preserve'' = JBool True)
        else if is_arr body then Inr False else Inl Type_failed)"

definition issueChallenge :: "reply \<Rightarrow> upload_error + unit" where
  "issueChallenge r =
     rbind (replicaPost r) (\<lambda>(status, body).
     guard (status = 201 \<and> isRecord body \<and> obj_in ''challengeId'' (props_of body)) Reset_failed)"

definition acknowledgeChallenge :: "reply \<Rightarrow> upload_error + unit" where
  "acknowledgeChallenge r = rbind (replicaPost r) (\<lambda>(status, body). guard (status = 200) Reset_failed)"

section \<open>Reading and accounting\<close>

text \<open>The client's own files are regular and private.\<close>

definition own_file :: "sidecar \<Rightarrow> file_info option" where
  "own_file f = (if f = Absent then None else Some \<lparr>fi_isFile = True, fi_isSymbolicLink = False, fi_mode = 384\<rparr>)"

definition read_reset :: "(jsnum \<Rightarrow> string) \<Rightarrow> reset_state option act" where
  "read_reset num_str st =
     (st, quarantine_result (readResetState num_str (own_file (sc_resetFile st)) (sc_resetFile st)))"

definition read_store :: "(jsnum \<Rightarrow> string) \<Rightarrow> (string \<Rightarrow> jsnum) \<Rightarrow> quarantine_store act" where
  "read_store num_str str_num st =
     (st, rbind (quarantine_result (readQuarantineStore num_str str_num (sc_quarantineFile st))) (\<lambda>r. Inr (fst r)))"

definition pendingQuarantineBytes :: "quarantine_intent list \<Rightarrow> int" where
  "pendingQuarantineBytes pending = foldl (\<lambda>total item. total + qn_reserved item) 0 pending"

definition assertResetCapacity :: "quarantine_store \<Rightarrow> unit act" where
  "assertResetCapacity store st =
     (let results = resultCapacityUsage (sc_app st) in
      (st, case assertCombinedOutstandingCapacity
             (fst results + int (length (qs_finalized store)) + int (length (qs_pending store)))
             (snd results + finalizedQuarantineBytes (qs_finalized store) + pendingQuarantineBytes (qs_pending store)) of
           Inl e \<Rightarrow> Inl (State_error e) | Inr _ \<Rightarrow> Inr ()))"

definition write_store :: "outcome \<Rightarrow> quarantine_store \<Rightarrow> unit act" where
  "write_store result store = act_effect result Write_failed (\<lambda>st. st\<lparr>sc_quarantineFile := Content (store_value store)\<rparr>)"

definition write_reset :: "outcome \<Rightarrow> reset_state \<Rightarrow> unit act" where
  "write_reset result state = act_effect result Write_failed (\<lambda>st. st\<lparr>sc_resetFile := Content (reset_value state)\<rparr>)"

definition store_session :: "outcome \<Rightarrow> replica_session \<Rightarrow> int \<Rightarrow> unit act" where
  "store_session result session resetCount =
     act_effect result Database_failed
       (\<lambda>st. st\<lparr>sc_app := setReplicaSession session resetCount (Some (sc_name st)) (sc_principal st) (sc_app st)\<rparr>)"

definition database_call :: "outcome \<Rightarrow> unit act" where
  "database_call result = act_effect result Database_failed (\<lambda>st. st)"

definition close_database :: "outcome \<Rightarrow> unit act" where
  "close_database result = act_effect result Database_failed (\<lambda>st. st\<lparr>sc_databaseClosed := True\<rparr>)"

section \<open>Setting the commands aside\<close>

definition queued_candidate :: "crud_entry \<Rightarrow> upload_error + quarantine_base" where
  "queued_candidate entry =
     rbind (validateQueuedCrud [entry]) (\<lambda>commands.
     let c = hd commands in
     Inr \<lparr>qc_id = c_commandId c, qc_resource_id = c_resourceId c, qc_incarnation_id = c_resourceIncarnationId c,
       qc_type = type_name (c_type c), qc_payload = c_payload c, qc_expected = Some (c_expectedRecordVersion c)\<rparr>)"

definition overlay_candidate :: "overlay_row \<Rightarrow> quarantine_base" where
  "overlay_candidate ov =
     \<lparr>qc_id = ov_id ov, qc_resource_id = ov_resourceId ov, qc_incarnation_id = ov_incarnationId ov,
       qc_type = ov_type ov, qc_payload = ov_payload ov, qc_expected = Some (ov_expectedVersion ov)\<rparr>"

text \<open>A queued command and its overlay must say the same.\<close>

definition diverged :: "overlay_row list \<Rightarrow> quarantine_base \<Rightarrow> bool" where
  "diverged overlays command =
     (case find (\<lambda>ov. ov_id ov = qc_id command) overlays of None \<Rightarrow> False | Some ov \<Rightarrow> overlay_candidate ov \<noteq> command)"

definition reset_candidates :: "quarantine_base list \<Rightarrow> overlay_row list \<Rightarrow> quarantine_base list" where
  "reset_candidates queued overlays =
     queued @ map overlay_candidate (filter (\<lambda>ov. ov_id ov \<notin> set (map qc_id queued)) overlays)"

definition quarantine_item :: "(quarantine_base \<Rightarrow> reply) \<Rightarrow> overlay_row list \<Rightarrow> quarantine_base \<Rightarrow> upload_error + quarantine_intent" where
  "quarantine_item classify overlays item =
     rbind (replicaPost (classify item)) (\<lambda>answer.
     rbind (preserves answer) (\<lambda>initiallyAuthorized.
     let overlayReservation = (case find (\<lambda>ov. ov_id ov = qc_id item) overlays of None \<Rightarrow> 0 | Some ov \<Rightarrow> ov_reserved ov);
         base = item\<lparr>qc_payload := if initiallyAuthorized then qc_payload item else None\<rparr>;
         reserved = max overlayReservation (quarantineEntryReservationBytes base) in
     Inr (quarantine_base.extend base (quarantine_intent.fields initiallyAuthorized reserved))))"

definition begin_reset ::
  "(jsnum \<Rightarrow> string) \<Rightarrow> (string \<Rightarrow> jsnum) \<Rightarrow> reset_env \<Rightarrow> replica_session \<Rightarrow> reset_state act"
where
  "begin_reset num_str str_num env session =
     act_bind (act_get sc_resetRequired) (\<lambda>required.
     act_bind (act_lift (guard required Reset_not_requested)) (\<lambda>_.
     act_bind (act_get sc_queue) (\<lambda>queue.
     act_bind (act_lift (rmap queued_candidate (take 1000 queue))) (\<lambda>queued.
     act_bind (act_get (\<lambda>st. readOverlays (sc_app st))) (\<lambda>overlays.
     act_bind (act_lift (guard (\<not> list_ex (diverged overlays) queued) Intent_diverged)) (\<lambda>_.
     let candidates = reset_candidates queued overlays in
     act_bind (read_store num_str str_num) (\<lambda>prior.
     act_bind (act_lift (guard (qs_pending prior = []) Unexpected_pending)) (\<lambda>_.
     act_bind (act_lift (guard (\<not> list_ex (\<lambda>c. qc_id c \<in> set (map qc_id (qs_finalized prior))) candidates)
                (Quarantine_error Duplicate_quarantine_id))) (\<lambda>_.
     act_bind (database_call (en_disconnect env)) (\<lambda>_.
     act_bind (act_lift (rmap (quarantine_item (en_classify env) overlays) candidates)) (\<lambda>pending.
     let store = \<lparr>qs_finalized = qs_finalized prior, qs_pending = pending\<rparr> in
     act_bind (assertResetCapacity store) (\<lambda>_.
     act_bind (write_store (en_writePending env) store) (\<lambda>_.
     let state = \<lparr>rs_phase = JStr ''quarantined'', rs_resetRequestId = en_requestId env,
                   rs_oldSession = session, rs_newSession = None\<rparr> in
     act_bind (write_reset (en_writeQuarantined env) state) (\<lambda>_.
     act_return state))))))))))))))"

section \<open>Staging the new session\<close>

definition stage_session ::
  "(jsnum \<Rightarrow> string) \<Rightarrow> (string \<Rightarrow> jsnum) \<Rightarrow> reset_env \<Rightarrow> reset_state \<Rightarrow> reset_state act"
where
  "stage_session num_str str_num env state =
     act_bind (act_lift (replicaPost (en_reset env))) (\<lambda>answer.
     act_bind (act_lift (guard (fst answer = 200) Reset_failed)) (\<lambda>_.
     act_bind (act_lift (quarantine_result (parse_session (snd answer)))) (\<lambda>newSession.
     let staged = state\<lparr>rs_phase := JStr ''session_staged'', rs_newSession := Some newSession\<rparr> in
     act_bind (read_store num_str str_num) (\<lambda>store.
     act_bind (assertResetCapacity store) (\<lambda>_.
     act_bind (write_reset (en_writeStaged env) staged) (\<lambda>_.
     act_bind (act_get sc_resetCount) (\<lambda>resetCount.
     act_bind (store_session (en_storeStaged env) newSession (resetCount + 1)) (\<lambda>_.
     act_return staged))))))))"

section \<open>Clearing the replica\<close>

definition count_applied :: "replica_session \<Rightarrow> spike_client \<Rightarrow> int" where
  "count_applied newSession st =
     (case as_session (sc_app st) of
        Some row \<Rightarrow>
          if b_replicaId (se_session row) = b_replicaId newSession \<and> b_replicaEpoch (se_session row) = b_replicaEpoch newSession
          then se_resetCount row else sc_resetCount st + 1
      | None \<Rightarrow> sc_resetCount st + 1)"

text \<open>The staged session was parsed when it was obtained or read, and parsing it again changes nothing.\<close>

definition new_session :: "reset_state \<Rightarrow> upload_error + replica_session" where
  "new_session state = (case rs_newSession state of None \<Rightarrow> Inl Reset_not_cleared | Some s \<Rightarrow> Inr s)"

definition clear_replica ::
  "(jsnum \<Rightarrow> string) \<Rightarrow> (string \<Rightarrow> jsnum) \<Rightarrow> reset_env \<Rightarrow> reset_state \<Rightarrow> reset_state act"
where
  "clear_replica num_str str_num env state =
     act_bind (act_lift (new_session state)) (\<lambda>newSession.
     act_bind (act_lift (replicaPost (en_acknowledge env))) (\<lambda>answer.
     act_bind (act_lift (guard (fst answer = 200) Reset_failed)) (\<lambda>_.
     act_bind (act_modify (\<lambda>st. st\<lparr>sc_resetCount := count_applied newSession st\<rparr>)) (\<lambda>_.
     act_bind (act_modify (setSession newSession)) (\<lambda>_.
     act_bind (read_store num_str str_num) (\<lambda>store.
     act_bind (assertResetCapacity store) (\<lambda>_.
     act_bind (act_effect (en_clear env) Database_failed (\<lambda>st. st\<lparr>sc_queue := []\<rparr>)) (\<lambda>_.
     act_bind (act_effect (en_clearOverlays env) Database_failed (\<lambda>st. st\<lparr>sc_app := clearOverlays (sc_app st)\<rparr>)) (\<lambda>_.
     act_bind (close_database (en_close env)) (\<lambda>_.
     let cleared = state\<lparr>rs_phase := JStr ''cleared''\<rparr> in
     act_bind (assertResetCapacity store) (\<lambda>_.
     act_bind (write_reset (en_writeCleared env) cleared) (\<lambda>_.
     act_return cleared))))))))))))"

section \<open>Finishing\<close>

definition finalize_item ::
  "(quarantine_intent \<Rightarrow> reply) \<Rightarrow> (string \<Rightarrow> string \<Rightarrow> nat) \<Rightarrow> quarantine_intent \<Rightarrow> upload_error + quarantined"
where
  "finalize_item classify rows item =
     rbind (replicaPost (classify item)) (\<lambda>answer.
     rbind (preserves answer) (\<lambda>currentlyAuthorized.
     let visible = qn_authorized item \<and> currentlyAuthorized \<and> rows (qc_resource_id item) (qc_incarnation_id item) = 1;
         finalized = \<lparr>qc_id = qc_id item, qc_resource_id = qc_resource_id item, qc_incarnation_id = qc_incarnation_id item,
           qc_type = qc_type item, qc_payload = (if visible then qc_payload item else None), qc_expected = qc_expected item,
           qc_state = (if visible then Pending_review else Invalidated), qc_exportable = (if visible then 1 else 0),
           qc_reserved = qn_reserved item\<rparr> in
     rbind (guard (json_bytes (base_fields finalized @ final_fields (qc_state finalized) (qc_exportable finalized) (qc_reserved finalized))
              \<le> qn_reserved item) (Quarantine_error Representation_exceeds_reservation)) (\<lambda>_.
     Inr finalized)))"

definition finish_reset ::
  "string comparator \<Rightarrow> (jsnum \<Rightarrow> string) \<Rightarrow> (string \<Rightarrow> jsnum) \<Rightarrow> reset_env \<Rightarrow> reset_state \<Rightarrow> unit act"
where
  "finish_reset collate num_str str_num env state =
     act_bind (act_lift (guard (rs_phase state = JStr ''cleared'') Reset_not_cleared)) (\<lambda>_.
     act_bind (act_lift (new_session state)) (\<lambda>session.
     act_bind (act_modify (\<lambda>st. st\<lparr>sc_session := Some session\<rparr>)) (\<lambda>_.
     act_bind (act_get sc_resetCount) (\<lambda>resetCount.
     act_bind (store_session (en_storeSession env) session resetCount) (\<lambda>_.
     act_bind (act_get sc_databaseClosed) (\<lambda>closed.
     act_bind (if closed then act_return () else close_database (en_closeAgain env)) (\<lambda>_.
     act_bind (act_lift (issueChallenge (en_challenge env))) (\<lambda>_.
     act_bind (act_modify (\<lambda>st. st\<lparr>sc_resetRequired := False, sc_databaseClosed := False\<rparr>)) (\<lambda>_.
     act_bind (database_call (en_connect env)) (\<lambda>_.
     act_bind (act_lift (acknowledgeChallenge (en_observe env))) (\<lambda>_.
     act_bind (store_session (en_storeObserved env) session resetCount) (\<lambda>_.
     act_bind (read_store num_str str_num) (\<lambda>retained.
     act_bind (assertResetCapacity retained) (\<lambda>_.
     act_bind (act_lift (rmap (finalize_item (en_reclassify env) (en_visibleRows env)) (qs_pending retained))) (\<lambda>additions.
     act_bind (act_lift (quarantine_result (mergeFinalizedQuarantine collate (qs_finalized retained) additions))) (\<lambda>merged.
     let completed = \<lparr>qs_finalized = merged, qs_pending = []\<rparr> in
     act_bind (assertResetCapacity completed) (\<lambda>_.
     act_bind (write_store (en_writeFinalized env) completed) (\<lambda>_.
     act_bind (act_modify (\<lambda>st. st\<lparr>sc_quarantine := merged\<rparr>)) (\<lambda>_.
     act_effect (en_unlink env) Write_failed (\<lambda>st. st\<lparr>sc_resetFile := Absent\<rparr>))))))))))))))))))))"

definition performReplicaReset ::
  "string comparator \<Rightarrow> (jsnum \<Rightarrow> string) \<Rightarrow> (string \<Rightarrow> jsnum) \<Rightarrow> reset_env \<Rightarrow> unit act"
where
  "performReplicaReset collate num_str str_num env =
     act_bind (act_get sc_session) (\<lambda>current.
     act_bind (act_lift (case current of None \<Rightarrow> Inl No_session | Some s \<Rightarrow> Inr s)) (\<lambda>session.
     act_bind (read_reset num_str) (\<lambda>persisted.
     act_bind (case persisted of Some state \<Rightarrow> act_return state | None \<Rightarrow> begin_reset num_str str_num env session) (\<lambda>state.
     act_bind (if rs_phase state = JStr ''quarantined'' then stage_session num_str str_num env state else act_return state) (\<lambda>state.
     act_bind (if rs_phase state = JStr ''session_staged'' then clear_replica num_str str_num env state else act_return state) (\<lambda>state.
     finish_reset collate num_str str_num env state))))))"

end
