(* ===== verification/Replica_Resume.thy ===== *)
theory Replica_Resume
  imports Replica_Reset
begin

text \<open>
  \<open>openSpikeClient\<close> of the PowerSync spike client, \<open>spikes/powersync/harness/src/client.ts\<close>: the checks of the files an
  earlier run has left; with \<open>resumeExisting\<close>, the session it kept and the completion of a reset that it did not finish;
  and without, a new session or none. The application's variables are lost with the process; its rows, the SDK's queue and the two
  files are what remains. When resuming, the options name a command endpoint and a principal, and the
  replica's database file exists.
\<close>

section \<open>Admission\<close>

text \<open>The constructor of \<open>ApplicationState\<close> refuses an identifier that is both a result and pending.\<close>

definition app_collision :: "app_state \<Rightarrow> bool" where
  "app_collision app = list_ex (\<lambda>r. list_ex (\<lambda>ov. ov_id ov = rr_id r) (as_overlays app)) (as_results app)"

definition admit_files ::
  "(jsnum \<Rightarrow> string) \<Rightarrow> (string \<Rightarrow> jsnum) \<Rightarrow> spike_client \<Rightarrow> upload_error + reset_state option \<times> quarantine_store \<times> bool"
where
  "admit_files num_str str_num st =
     rbind (guard (\<not> app_collision (sc_app st)) Active_in_multiple_states) (\<lambda>_.
     rbind (quarantine_result (readResetState num_str (own_file (sc_resetFile st)) (sc_resetFile st))) (\<lambda>persistedReset.
     rbind (quarantine_result (assertPrivateRegularFile (own_file (sc_quarantineFile st)))) (\<lambda>existed.
     rbind (quarantine_result (readQuarantineStore num_str str_num (sc_quarantineFile st))) (\<lambda>(store, _, migrated).
     rbind (quarantine_result (validateQuarantineResetLink existed (length (qs_pending store)) (map_option rs_phase persistedReset))) (\<lambda>_.
     Inr (persistedReset, store, migrated))))))"

definition admit_capacity :: "quarantine_store \<Rightarrow> app_state \<Rightarrow> upload_error + unit" where
  "admit_capacity store app =
     rbind (guard (\<not> list_ex (\<lambda>i. i \<in> set (map qc_id (qs_finalized store))) (activeCommandIds app)) Active_in_multiple_states) (\<lambda>_.
     case assertCombinedOutstandingCapacity (fst (capacityUsage app) + int (length (qs_finalized store)))
            (snd (capacityUsage app) + finalizedQuarantineBytes (qs_finalized store)) of
       Inl e \<Rightarrow> Inl (State_error e) | Inr _ \<Rightarrow> Inr ())"

definition resume_session :: "spike_client \<Rightarrow> upload_error + replica_session \<times> int" where
  "resume_session st =
     (case sc_principal st of
        None \<Rightarrow> Inl Resume_session_missing
      | Some p \<Rightarrow>
          (case resumeReplicaSession (sc_name st) p (sc_app st) of
             Inl e \<Rightarrow> Inl (State_error e)
           | Inr None \<Rightarrow> Inl Resume_session_missing
           | Inr (Some r) \<Rightarrow> Inr r))"

section \<open>Completing a reset\<close>

definition use_session :: "replica_session \<Rightarrow> int \<Rightarrow> unit act" where
  "use_session session n = act_modify (\<lambda>st. st\<lparr>sc_session := Some session, sc_resetCount := n\<rparr>)"

text \<open>The three branches over the phase; the state is returned as the later code sees it.\<close>

definition resume_phase :: "reset_env \<Rightarrow> reset_state \<Rightarrow> replica_session \<times> int \<Rightarrow> reset_state act" where
  "resume_phase env state current =
     (if rs_phase state = JStr ''quarantined''
      then act_bind (act_lift (guard (fst current = rs_oldSession state) Resume_session_mismatch)) (\<lambda>_.
           act_bind (act_lift (replicaPost (en_reset env))) (\<lambda>answer.
           act_bind (act_lift (guard (fst answer = 200) Reset_failed)) (\<lambda>_.
           act_bind (act_lift (quarantine_result (parse_session (snd answer)))) (\<lambda>newSession.
           let staged = state\<lparr>rs_phase := JStr ''session_staged'', rs_newSession := Some newSession\<rparr> in
           act_bind (write_reset (en_writeStaged env) staged) (\<lambda>_.
           act_bind (store_session (en_storeStaged env) newSession (snd current + 1)) (\<lambda>_.
           act_bind (use_session newSession (snd current + 1)) (\<lambda>_. act_return staged)))))))
      else if rs_phase state = JStr ''session_staged''
      then act_bind (act_lift (new_session state)) (\<lambda>newSession.
           if fst current = rs_oldSession state
           then act_bind (store_session (en_storeStaged env) newSession (snd current + 1)) (\<lambda>_.
                act_bind (use_session newSession (snd current + 1)) (\<lambda>_. act_return state))
           else if fst current = newSession
           then act_bind (use_session newSession (snd current)) (\<lambda>_. act_return state)
           else act_lift (Inl Resume_session_mismatch))
      else act_bind (act_lift (new_session state)) (\<lambda>newSession.
           act_bind (act_lift (guard (fst current = newSession) Resume_session_mismatch)) (\<lambda>_.
           act_bind (use_session newSession (snd current)) (\<lambda>_. act_return state))))"

definition resume_clear ::
  "(jsnum \<Rightarrow> string) \<Rightarrow> (string \<Rightarrow> jsnum) \<Rightarrow> reset_env \<Rightarrow> reset_state \<Rightarrow> reset_state act"
where
  "resume_clear num_str str_num env state =
     (if rs_phase state = JStr ''session_staged''
      then act_bind (act_lift (new_session state)) (\<lambda>newSession.
           act_bind (act_lift (replicaPost (en_acknowledge env))) (\<lambda>answer.
           act_bind (act_lift (guard (fst answer = 200) Reset_failed)) (\<lambda>_.
           act_bind (read_store num_str str_num) (\<lambda>store.
           act_bind (assertResetCapacity store) (\<lambda>_.
           act_bind (act_effect (en_clear env) Database_failed (\<lambda>st. st\<lparr>sc_queue := []\<rparr>)) (\<lambda>_.
           act_bind (act_effect (en_clearOverlays env) Database_failed (\<lambda>st. st\<lparr>sc_app := clearOverlays (sc_app st)\<rparr>)) (\<lambda>_.
           act_bind (close_database (en_close env)) (\<lambda>_.
           let cleared = state\<lparr>rs_phase := JStr ''cleared''\<rparr> in
           act_bind (write_reset (en_writeCleared env) cleared) (\<lambda>_.
           act_return cleared)))))))))
      else if rs_phase state = JStr ''cleared''
      then act_bind (close_database (en_close env)) (\<lambda>_. act_return state)
      else act_return state)"

text \<open>Connecting, and what remains of a reset once the client is connected.\<close>

definition connect_client :: "reset_env \<Rightarrow> unit act" where
  "connect_client env =
     act_bind (act_lift (issueChallenge (en_challenge env))) (\<lambda>_.
     act_bind (act_modify (\<lambda>st. st\<lparr>sc_resetRequired := False, sc_databaseClosed := False\<rparr>)) (\<lambda>_.
     act_bind (database_call (en_connect env)) (\<lambda>_.
     act_bind (act_lift (acknowledgeChallenge (en_observe env))) (\<lambda>_.
     act_bind (act_get (\<lambda>st. (sc_session st, sc_resetCount st))) (\<lambda>(session, n).
     case session of
       None \<Rightarrow> act_return ()
     | Some s \<Rightarrow> store_session (en_storeObserved env) s n)))))"

definition resume_finish ::
  "string comparator \<Rightarrow> (jsnum \<Rightarrow> string) \<Rightarrow> (string \<Rightarrow> jsnum) \<Rightarrow> reset_env \<Rightarrow> reset_state \<Rightarrow> unit act"
where
  "resume_finish collate num_str str_num env state =
     act_bind (act_lift (guard (rs_phase state = JStr ''cleared'') Reset_not_cleared)) (\<lambda>_.
     act_bind (read_store num_str str_num) (\<lambda>retained.
     act_bind (act_lift (rmap (finalize_item (en_reclassify env) (en_visibleRows env)) (qs_pending retained))) (\<lambda>additions.
     act_bind (act_lift (quarantine_result (mergeFinalizedQuarantine collate (qs_finalized retained) additions))) (\<lambda>merged.
     let completed = \<lparr>qs_finalized = merged, qs_pending = []\<rparr> in
     act_bind (assertResetCapacity completed) (\<lambda>_.
     act_bind (write_store (en_writeFinalized env) completed) (\<lambda>_.
     act_bind (act_modify (\<lambda>st. st\<lparr>sc_quarantine := merged\<rparr>)) (\<lambda>_.
     act_effect (en_unlink env) Write_failed (\<lambda>st. st\<lparr>sc_resetFile := Absent\<rparr>))))))))"

text \<open>What every opening does first; the variables of an earlier run are gone.\<close>

definition admit_client :: "(jsnum \<Rightarrow> string) \<Rightarrow> (string \<Rightarrow> jsnum) \<Rightarrow> reset_env \<Rightarrow> reset_state option act" where
  "admit_client num_str str_num env =
     act_bind (act_get (admit_files num_str str_num)) (\<lambda>admitted.
     act_bind (act_lift admitted) (\<lambda>(persistedReset, store, migrated).
     act_bind (if migrated then write_store (en_writePending env) store else act_return ()) (\<lambda>_.
     act_bind (act_get (\<lambda>st. admit_capacity store (sc_app st))) (\<lambda>capacity.
     act_bind (act_lift capacity) (\<lambda>_.
     act_bind (act_modify (\<lambda>st. st\<lparr>sc_quarantine := qs_finalized store\<rparr>)) (\<lambda>_.
     act_return persistedReset))))))"

definition openSpikeClient ::
  "string comparator \<Rightarrow> (jsnum \<Rightarrow> string) \<Rightarrow> (string \<Rightarrow> jsnum) \<Rightarrow> reset_env \<Rightarrow> unit act"
where
  "openSpikeClient collate num_str str_num env =
     act_bind (admit_client num_str str_num env) (\<lambda>persistedReset.
     act_bind (act_get resume_session) (\<lambda>resumed.
     act_bind (act_lift resumed) (\<lambda>current.
     act_bind (use_session (fst current) (snd current)) (\<lambda>_.
     case persistedReset of
       None \<Rightarrow> connect_client env
     | Some state \<Rightarrow>
         act_bind (resume_phase env state current) (\<lambda>state.
         act_bind (resume_clear num_str str_num env state) (\<lambda>state.
         act_bind (connect_client env) (\<lambda>_.
         resume_finish collate num_str str_num env state)))))))"

section \<open>Opening without resuming\<close>

definition register_session :: "reply \<Rightarrow> upload_error + replica_session" where
  "register_session reply =
     rbind (replicaPost reply) (\<lambda>answer.
     rbind (guard (fst answer = 201) Registration_failed) (\<lambda>_.
     quarantine_result (parse_session (snd answer))))"

text \<open>
  A new session is registered if there is a command endpoint; without one there is no session, and
  nothing is acknowledged. A reset that an earlier run has left unfinished stays as it is.
\<close>

definition openNewClient ::
  "(jsnum \<Rightarrow> string) \<Rightarrow> (string \<Rightarrow> jsnum) \<Rightarrow> reset_env \<Rightarrow> reply option \<Rightarrow> unit act"
where
  "openNewClient num_str str_num env registration =
     act_bind (admit_client num_str str_num env) (\<lambda>_.
     case registration of
       None \<Rightarrow>
         act_bind (act_modify (\<lambda>st. st\<lparr>sc_session := None, sc_resetCount := 0, sc_resetRequired := False, sc_databaseClosed := False\<rparr>)) (\<lambda>_.
         database_call (en_connect env))
     | Some reply \<Rightarrow>
         act_bind (act_lift (register_session reply)) (\<lambda>session.
         act_bind (use_session session 0) (\<lambda>_.
         connect_client env)))"

end
