(* ===== verification/Spike_Client_Properties.thy ===== *)
theory Spike_Client_Properties
  imports Command_Upload Command_Protocol_Properties
begin

text \<open>
  Properties of queueing and uploading in the PowerSync spike client: the work it keeps is bounded and
  every identifier names one piece of it, and a command that cannot be delivered ends after five
  attempts.
\<close>

section \<open>Lists with unique keys\<close>

lemma filter_key_absent: "k \<notin> f ` set xs \<Longrightarrow> filter (\<lambda>x. f x \<noteq> k) xs = xs"
  by (auto simp: filter_id_conv)

lemma remove_key:
  assumes "distinct (map f xs)" "find (\<lambda>x. f x = k) xs = Some y"
  shows "length xs = Suc (length (filter (\<lambda>x. f x \<noteq> k) xs))
     \<and> sum_list (map g xs) = g y + (sum_list (map g (filter (\<lambda>x. f x \<noteq> k) xs)) :: int)
     \<and> f ` set xs = insert k (f ` set (filter (\<lambda>x. f x \<noteq> k) xs))"
  using assms
proof (induction xs)
  case (Cons a xs)
  show ?case
  proof (cases "f a = k")
    case True
    then have "filter (\<lambda>x. f x \<noteq> k) xs = xs"
      using Cons.prems by (intro filter_key_absent) auto
    then show ?thesis
      using True Cons.prems by simp
  next
    case False
    then show ?thesis
      using Cons by (simp add: insert_commute)
  qed
qed simp

lemma distinct_map_filter_key: "distinct (map f xs) \<Longrightarrow> distinct (map f (filter P xs))"
  by (induction xs) auto

lemma finalizedQuarantineBytes_sum [simp]: "finalizedQuarantineBytes qs = sum_list (map qc_reserved qs)"
proof -
  have "foldl (\<lambda>total q. total + qc_reserved q) n qs = n + sum_list (map qc_reserved qs)" for n
    by (induction qs arbitrary: n) auto
  then show ?thesis
    by (simp add: finalizedQuarantineBytes_def)
qed

section \<open>Invariant\<close>

definition app_ids :: "app_state \<Rightarrow> string set" where
  "app_ids app = rr_id ` set (as_results app) \<union> ov_id ` set (as_overlays app)"

definition app_distinct :: "app_state \<Rightarrow> bool" where
  "app_distinct app = (distinct (map rr_id (as_results app)) \<and> distinct (map ov_id (as_overlays app))
     \<and> rr_id ` set (as_results app) \<inter> ov_id ` set (as_overlays app) = {})"

definition rows_ok :: "spike_client \<Rightarrow> bool" where
  "rows_ok st =
     ((\<forall>r \<in> set (as_results (sc_app st)). 512 \<le> rr_reserved r \<and> rr_actual r \<le> rr_reserved r)
      \<and> (\<forall>ov \<in> set (as_overlays (sc_app st)). 512 \<le> ov_reserved ov)
      \<and> (\<forall>q \<in> set (sc_quarantine st). 512 \<le> qc_reserved q)
      \<and> (\<forall>i n. as_attempts (sc_app st) i = Some n \<longrightarrow> 1 \<le> n \<and> n \<le> 5))"

text \<open>A queued command has an overlay, or a result that the SDK has not completed yet.\<close>

definition pending_work :: "app_state \<Rightarrow> string \<Rightarrow> bool" where
  "pending_work app i =
     (i \<in> ov_id ` set (as_overlays app) \<or> (\<exists>r \<in> set (as_results app). rr_id r = i \<and> \<not> rr_sdkCompleted r))"

definition queue_ok :: "spike_client \<Rightarrow> bool" where
  "queue_ok st = (distinct (map cr_id (sc_queue st))
     \<and> (\<forall>e \<in> set (sc_queue st). \<exists>i. cr_id e = JStr i \<and> pending_work (sc_app st) i))"

definition within_capacity :: "spike_client \<Rightarrow> bool" where
  "within_capacity st = (fst (combinedCapacityUsage st) \<le> 64 \<and> snd (combinedCapacityUsage st) \<le> 65536)"

definition spike_inv :: "spike_client \<Rightarrow> bool" where
  "spike_inv st = (app_distinct (sc_app st) \<and> distinct (map qc_id (sc_quarantine st))
     \<and> rows_ok st \<and> queue_ok st \<and> within_capacity st)"

definition spike_init :: "spike_client \<Rightarrow> bool" where
  "spike_init st = (sc_app st = app_init \<and> sc_queue st = [] \<and> sc_quarantine st = [])"

lemma spike_inv_init: "spike_init st \<Longrightarrow> spike_inv st"
  by (simp add: spike_init_def spike_inv_def app_distinct_def rows_ok_def queue_ok_def within_capacity_def
      combinedCapacityUsage_def capacityUsage_def app_init_def)

section \<open>Storing a result\<close>

text \<open>Storing the result of a command that is pending moves its reservation and changes no total.\<close>

lemma persist_result_shape:
  assumes "persist_result num_str nonstr result app = Inr app'"
    and "bind_text nonstr (obj_get (props_of result) ''commandId'') = Inr i"
  shows "(i \<in> rr_id ` set (as_results app) \<and> app' = drop_overlay i app)
     \<or> (i \<notin> rr_id ` set (as_results app)
        \<and> (\<exists>row. app' = drop_overlay i (app\<lparr>as_results := as_results app @ [row]\<rparr>)
             \<and> rr_id row = i \<and> \<not> rr_sdkCompleted row \<and> rr_actual row \<le> rr_reserved row
             \<and> (\<forall>ov. find (\<lambda>ov. ov_id ov = i) (as_overlays app) = Some ov \<longrightarrow> rr_reserved row = ov_reserved ov)))"
proof (cases "find (\<lambda>row. rr_id row = i) (as_results app)")
  case (Some existing)
  then show ?thesis
    using assms by (auto simp: persist_result_def Let_def rbind_Inr_iff dest: find_SomeD)
next
  case None
  then have "i \<notin> rr_id ` set (as_results app)"
    by (auto simp: find_NoneD)
  then show ?thesis
    using assms None
    by (clarsimp simp: persist_result_def Let_def rbind_Inr_iff simp del: split_paired_Ex)
      (rule exI, rule conjI, rule refl, auto)
qed

text \<open>What a step may do to the rows: totals and identifiers stay, every old result is kept.\<close>

definition moved :: "string \<Rightarrow> app_state \<Rightarrow> app_state \<Rightarrow> bool" where
  "moved i app app' =
     (capacityUsage app' = capacityUsage app \<and> app_distinct app' \<and> app_ids app' = app_ids app
      \<and> i \<in> rr_id ` set (as_results app') \<and> as_attempts app' = (as_attempts app)(i := None)
      \<and> as_overlays app' = filter (\<lambda>ov. ov_id ov \<noteq> i) (as_overlays app)
      \<and> (\<exists>new. as_results app' = as_results app @ new
           \<and> (\<forall>r \<in> set new. rr_id r = i \<and> \<not> rr_sdkCompleted r \<and> rr_actual r \<le> rr_reserved r
                \<and> (\<exists>ov \<in> set (as_overlays app). rr_reserved r = ov_reserved ov))))"

lemma persist_result_moved:
  assumes "persist_result num_str nonstr result app = Inr app'"
    and "bind_text nonstr (obj_get (props_of result) ''commandId'') = Inr i"
    and "app_distinct app" "i \<in> app_ids app"
  shows "moved i app app'"
proof (cases "i \<in> rr_id ` set (as_results app)")
  case True
  then have "app' = drop_overlay i app"
    using persist_result_shape [OF assms(1,2)] by blast
  moreover have "filter (\<lambda>ov. ov_id ov \<noteq> i) (as_overlays app) = as_overlays app"
    using True assms(3) by (intro filter_key_absent) (auto simp: app_distinct_def)
  ultimately show ?thesis
    using True assms(3) by (simp add: moved_def drop_overlay_def capacityUsage_def app_distinct_def app_ids_def)
next
  case False
  then obtain row where row: "rr_id row = i" "\<not> rr_sdkCompleted row" "rr_actual row \<le> rr_reserved row"
    "\<forall>ov. find (\<lambda>ov. ov_id ov = i) (as_overlays app) = Some ov \<longrightarrow> rr_reserved row = ov_reserved ov"
    "app' = drop_overlay i (app\<lparr>as_results := as_results app @ [row]\<rparr>)"
    using persist_result_shape [OF assms(1,2)] by blast
  obtain ov where ov: "find (\<lambda>ov. ov_id ov = i) (as_overlays app) = Some ov"
    using assms(4) False by (cases "find (\<lambda>ov. ov_id ov = i) (as_overlays app)") (auto simp: find_NoneD app_ids_def)
  have rest: "length (as_overlays app) = Suc (length (filter (\<lambda>x. ov_id x \<noteq> i) (as_overlays app)))"
    "sum_list (map ov_reserved (as_overlays app))
       = ov_reserved ov + sum_list (map ov_reserved (filter (\<lambda>x. ov_id x \<noteq> i) (as_overlays app)))"
    "ov_id ` set (as_overlays app) = insert i (ov_id ` set (filter (\<lambda>x. ov_id x \<noteq> i) (as_overlays app)))"
    using remove_key [OF _ ov, where g = ov_reserved] assms(3) by (simp_all add: app_distinct_def)
  have "ov \<in> set (as_overlays app)"
    using ov by (auto dest: find_SomeD)
  then have "\<exists>new. as_results app @ [row] = as_results app @ new
      \<and> (\<forall>r \<in> set new. rr_id r = i \<and> \<not> rr_sdkCompleted r \<and> rr_actual r \<le> rr_reserved r
           \<and> (\<exists>ov \<in> set (as_overlays app). rr_reserved r = ov_reserved ov))"
    using row(1-4) ov by (intro exI [of _ "[row]"]) auto
  moreover have "app_ids app' = app_ids app"
    using row(1,5) rest(3) by (auto simp: app_ids_def drop_overlay_def)
  moreover have "app_distinct app'"
    using assms(3) row(1,5) False by (auto simp: app_distinct_def drop_overlay_def distinct_map_filter_key)
  moreover have "capacityUsage app' = capacityUsage app"
    using row(4,5) ov rest(1,2) by (simp add: capacityUsage_def drop_overlay_def)
  ultimately show ?thesis
    using row(1,5) by (simp add: moved_def drop_overlay_def)
qed


section \<open>Completing an upload\<close>

definition mark_completed :: "string \<Rightarrow> app_state \<Rightarrow> app_state" where
  "mark_completed i app = app\<lparr>as_results :=
     map (\<lambda>r. if rr_id r = i then r\<lparr>rr_sdkCompleted := True\<rparr> else r) (as_results app)\<rparr>"

lemma mark_completed_simps [simp]:
  "map rr_id (as_results (mark_completed i app)) = map rr_id (as_results app)"
  "map rr_reserved (as_results (mark_completed i app)) = map rr_reserved (as_results app)"
  "length (as_results (mark_completed i app)) = length (as_results app)"
  "as_overlays (mark_completed i app) = as_overlays app" "as_attempts (mark_completed i app) = as_attempts app"
  by (simp_all add: mark_completed_def comp_def if_distrib cong: map_cong)

lemma mark_completed_ids [simp]: "rr_id ` set (as_results (mark_completed i app)) = rr_id ` set (as_results app)"
  by (metis list.set_map mark_completed_simps(1))

lemma mark_completed_bytes:
  "\<forall>r \<in> set (as_results app). P (rr_reserved r) (rr_actual r) \<Longrightarrow>
     \<forall>r \<in> set (as_results (mark_completed i app)). P (rr_reserved r) (rr_actual r)"
  by (auto simp: mark_completed_def)

lemma mark_completed_pending:
  assumes "pending_work app j" "j \<noteq> i"
  shows "pending_work (mark_completed i app) j"
proof (cases "j \<in> ov_id ` set (as_overlays app)")
  case True
  then show ?thesis by (simp add: pending_work_def mark_completed_def)
next
  case False
  then obtain r where r: "r \<in> set (as_results app)" "rr_id r = j" "\<not> rr_sdkCompleted r"
    using assms(1) by (auto simp: pending_work_def)
  then have "r \<in> set (as_results (mark_completed i app))"
    using assms(2) by (auto simp: mark_completed_def intro: rev_image_eqI)
  then show ?thesis
    using r by (auto simp: pending_work_def)
qed

lemma complete_stored:
  assumes "persist_result num_str nonstr r (sc_app st) = Inr app1"
    and "bind_text nonstr (obj_get (props_of r) ''commandId'') = Inr i" "i \<in> rr_id ` set (as_results app1)"
  shows "fst (completeWithResults num_str nonstr sdk [r] st) =
     (if sdk then st\<lparr>sc_app := mark_completed i app1, sc_queue := tl (sc_queue st)\<rparr> else st\<lparr>sc_app := app1\<rparr>)"
proof -
  have "markResultsSdkCompleted [i] app1 = Inr (mark_completed i app1)"
    using assms(3) by (auto simp: list_ex_iff guard_def mark_completed_def)
  moreover have "rmap (result_id nonstr) [r] = Inr [i]"
    using assms(2) by (simp add: result_id_def)
  moreover have "persistResults num_str nonstr [r] (sc_app st) = Inr app1"
    using assms(1) by simp
  ultimately show ?thesis
    by (simp add: completeWithResults_def del: rmap.simps persistResults.simps markResultsSdkCompleted.simps)
qed

definition with_app :: "spike_client \<Rightarrow> app_state \<Rightarrow> bool" where
  "with_app st app =
     (app_distinct app \<and> capacityUsage app = capacityUsage (sc_app st)
      \<and> (\<forall>r \<in> set (as_results app). 512 \<le> rr_reserved r \<and> rr_actual r \<le> rr_reserved r)
      \<and> (\<forall>ov \<in> set (as_overlays app). 512 \<le> ov_reserved ov)
      \<and> (\<forall>i n. as_attempts app i = Some n \<longrightarrow> 1 \<le> n \<and> n \<le> 5))"

lemma with_app_mark_completed: "with_app st app \<Longrightarrow> with_app st (mark_completed i app)"
  using mark_completed_bytes [of app "\<lambda>reserved actual. 512 \<le> reserved \<and> actual \<le> reserved" i]
  by (simp add: with_app_def capacityUsage_def app_distinct_def app_ids_def)

lemma spike_inv_with_app: "spike_inv st \<Longrightarrow> with_app st (sc_app st)"
  by (auto simp: spike_inv_def rows_ok_def with_app_def)

lemma spike_invI:
  assumes "spike_inv st" "with_app st app" "sc_app st' = app" "sc_quarantine st' = sc_quarantine st" "queue_ok st'"
  shows "spike_inv st'"
  using assms
  by (simp add: spike_inv_def with_app_def rows_ok_def within_capacity_def combinedCapacityUsage_def)

lemma moved_with_app:
  assumes "with_app st app" "moved i app app'"
  shows "with_app st app'"
proof -
  obtain new where new: "as_results app' = as_results app @ new"
    "\<forall>r \<in> set new. rr_actual r \<le> rr_reserved r \<and> (\<exists>ov \<in> set (as_overlays app). rr_reserved r = ov_reserved ov)"
    using assms(2) unfolding moved_def by blast
  have "512 \<le> rr_reserved r \<and> rr_actual r \<le> rr_reserved r" if "r \<in> set (as_results app')" for r
    using that new assms(1) unfolding with_app_def by fastforce
  then show ?thesis
    using assms by (simp add: with_app_def moved_def)
qed

lemma moved_pending:
  assumes "moved i app app'" "pending_work app j" "app_distinct app"
  shows "pending_work app' j"
proof (cases "j = i")
  case False
  then show ?thesis
    using assms(1,2) by (auto simp: pending_work_def moved_def)
next
  case True
  show ?thesis
  proof (cases "i \<in> rr_id ` set (as_results app)")
    case True
    then have "i \<notin> ov_id ` set (as_overlays app)"
      using assms(3) by (auto simp: app_distinct_def)
    then show ?thesis
      using assms(1,2) \<open>j = i\<close> by (auto simp: pending_work_def moved_def)
  next
    case False
    then show ?thesis
      using assms(1) \<open>j = i\<close> by (fastforce simp: pending_work_def moved_def)
  qed
qed

text \<open>The last step of an upload: the entry leaves the queue and its result is marked.\<close>

lemma complete_inv:
  assumes "spike_inv st" "sc_queue st = e # es" "cr_id e = JStr i" "with_app st app" "app_distinct app"
    and "\<And>j. pending_work (sc_app st) j \<Longrightarrow> pending_work app j"
    and "bind_text nonstr (obj_get (props_of r) ''commandId'') = Inr i" "i \<in> app_ids app"
    and "completeWithResults num_str nonstr sdk [r] (st\<lparr>sc_app := app\<rparr>) = (st', res)"
  shows "spike_inv st'"
proof -
  have queue: "queue_ok st"
    using assms(1) by (simp add: spike_inv_def)
  have same: "spike_inv (st\<lparr>sc_app := app\<rparr>)"
    using assms(6) queue by (intro spike_invI [OF assms(1,4)]) (auto simp: queue_ok_def)
  show ?thesis
  proof (cases "persist_result num_str nonstr r app")
    case (Inl err)
    then show ?thesis
      using assms(9) same by (auto simp: completeWithResults_def)
  next
    case (Inr app1)
    have moved: "moved i app app1"
      by (rule persist_result_moved [OF Inr assms(7,5,8)])
    have with1: "with_app st app1"
      by (rule moved_with_app [OF assms(4) moved])
    have pending1: "pending_work app1 j" if "pending_work (sc_app st) j" for j
      by (rule moved_pending [OF moved assms(6) [OF that] assms(5)])
    show ?thesis
    proof (cases sdk)
      case False
      then have "st' = st\<lparr>sc_app := app1\<rparr>"
        using assms(9) Inr by (simp add: completeWithResults_def)
      then show ?thesis
        using pending1 queue by (intro spike_invI [OF assms(1) with1]) (auto simp: queue_ok_def)
    next
      case True
      define app2 where "app2 = mark_completed i app1"
      have "i \<in> rr_id ` set (as_results app1)"
        using moved by (simp add: moved_def)
      then have st': "st' = st\<lparr>sc_app := app2, sc_queue := es\<rparr>"
        using complete_stored [of num_str nonstr r "st\<lparr>sc_app := app\<rparr>" app1 i sdk] Inr assms(2,7,9) True
        by (simp add: app2_def)
      have "pending_work (sc_app st') j" if "pending_work app1 j" "j \<noteq> i" for j
        using mark_completed_pending [OF that] by (simp add: st' app2_def)
      moreover have "j \<noteq> i" if "e' \<in> set es" "cr_id e' = JStr j" for e' j
        using that queue assms(2,3) by (force simp: queue_ok_def)
      ultimately have "queue_ok st'"
        using queue pending1 assms(2) unfolding queue_ok_def st' by (simp, blast)
      moreover have "with_app st (sc_app st')"
        using with_app_mark_completed [OF with1] by (simp add: st' app2_def)
      ultimately show ?thesis
        by (intro spike_invI [OF assms(1)]) (auto simp: st')
    qed
  qed
qed

section \<open>Uploading keeps the invariant\<close>

text \<open>
  How SQLite's binding relates to \<open>String(...)\<close>: a value that prints as a command identifier is bound as
  that text, or refused.
\<close>

definition binds_ids :: "(jsnum \<Rightarrow> string) \<Rightarrow> (jsval \<Rightarrow> string option) \<Rightarrow> bool" where
  "binds_ids num_str nonstr = (\<forall>v i. commandUuid i \<longrightarrow> js_String num_str v = Some i \<longrightarrow> nonstr v \<in> {None, Some i})"

definition queue_uuids :: "spike_client \<Rightarrow> bool" where
  "queue_uuids st = (\<forall>e \<in> set (sc_queue st). \<exists>i. cr_id e = JStr i \<and> commandUuid i)"

lemma pending_work_ids: "pending_work app i \<Longrightarrow> i \<in> app_ids app"
  by (auto simp: pending_work_def app_ids_def)

lemma complete_any_inv:
  assumes "spike_inv st" "sc_queue st = e # es" "cr_id e = JStr i" "with_app st app"
    and "\<And>j. pending_work (sc_app st) j \<Longrightarrow> pending_work app j"
    and "\<And>j. bind_text nonstr (obj_get (props_of r) ''commandId'') = Inr j \<Longrightarrow> j = i"
  shows "spike_inv (fst (completeWithResults num_str nonstr sdk [r] (st\<lparr>sc_app := app\<rparr>)))"
proof (cases "bind_text nonstr (obj_get (props_of r) ''commandId'')")
  case (Inl err)
  then have "fst (completeWithResults num_str nonstr sdk [r] (st\<lparr>sc_app := app\<rparr>)) = st\<lparr>sc_app := app\<rparr>"
    by (simp add: completeWithResults_def persist_result_def Let_def)
  moreover have "queue_ok (st\<lparr>sc_app := app\<rparr>)"
    using assms(1,5) by (auto simp: spike_inv_def queue_ok_def)
  ultimately show ?thesis
    using spike_invI [OF assms(1,4)] by simp
next
  case (Inr j)
  have "pending_work (sc_app st) i"
    using assms(1,2,3) by (auto simp: spike_inv_def queue_ok_def)
  then have "i \<in> app_ids app"
    using assms(5) pending_work_ids by blast
  moreover have "app_distinct app"
    using assms(4) by (simp add: with_app_def)
  ultimately show ?thesis
    using Inr assms(6) by (intro complete_inv [OF assms(1-4) _ assms(5) _ _ surjective_pairing]) auto
qed

lemma failed_result_binds:
  "bind_text nonstr (obj_get (props_of (failed_result sha c b code n)) ''commandId'') = Inr (c_commandId c)"
  by (simp add: bind_text_def failed_result_def obj_get_def)

lemma recorded_failure:
  assumes "with_app st (sc_app st)" "recordTransientFailure i (sc_app st) = Inr (app, n)"
  shows "with_app st app \<and> app = (sc_app st)\<lparr>as_attempts := (as_attempts (sc_app st))(i \<mapsto> n)\<rparr>"
proof -
  have n: "1 \<le> n" "n \<le> 5" and app: "app = (sc_app st)\<lparr>as_attempts := (as_attempts (sc_app st))(i \<mapsto> n)\<rparr>"
    using assms(2) by (auto simp: recordTransientFailure_def Let_def rbind_Inr_iff)
  then show ?thesis
    using assms(1) by (simp add: with_app_def capacityUsage_def app_distinct_def)
qed

lemma transient_inv:
  assumes "spike_inv st" "sc_queue st = e # es" "cr_id e = JStr (c_commandId c)"
  shows "spike_inv (fst (transient_failure sha num_str nonstr sdk c session err st))"
proof (cases "recordTransientFailure (c_commandId c) (sc_app st)")
  case (Inl x)
  then show ?thesis
    using assms(1) by (simp add: transient_failure_def)
next
  case (Inr p)
  obtain app n where p: "p = (app, n)" by (cases p)
  have rec: "with_app st app" "as_overlays app = as_overlays (sc_app st)" "as_results app = as_results (sc_app st)"
    using recorded_failure [OF spike_inv_with_app [OF assms(1)], of "c_commandId c" app n] Inr p by auto
  have pending: "pending_work app j = pending_work (sc_app st) j" for j
    using rec by (simp add: pending_work_def)
  have "spike_inv (st\<lparr>sc_app := app\<rparr>)"
    using assms(1) pending by (intro spike_invI [OF assms(1) rec(1)]) (auto simp: spike_inv_def queue_ok_def)
  moreover have "spike_inv (fst (completeWithResults num_str nonstr sdk [failed_result sha c session code n] (st\<lparr>sc_app := app\<rparr>)))" for code
    by (rule complete_any_inv [OF assms rec(1)]) (simp_all add: pending failed_result_binds)
  ultimately show ?thesis
    using Inr p by (simp add: transient_failure_def)
qed

lemma validate_entry_id: "validate_entry e = Inr c \<Longrightarrow> cr_id e = JStr (c_commandId c)"
  by (auto simp: validate_entry_def Let_def rbind_Inr_iff is_str_iff split: option.splits)

lemma validateQueuedCrud_one:
  "validateQueuedCrud [e] = Inr cs \<longleftrightarrow> (\<exists>c. cs = [c] \<and> validate_entry e = Inr c)"
  by (auto simp: validateQueuedCrud_def rbind_Inr_iff)

lemma response_result_binds:
  assumes "parseCommandResponse sha num_str v [c] b = Inr rs" "binds_ids num_str nonstr" "commandUuid (c_commandId c)"
  shows "\<exists>r. rs = [r] \<and> (\<forall>j. bind_text nonstr (obj_get (props_of r) ''commandId'') = Inr j \<longrightarrow> j = c_commandId c)"
proof -
  obtain expected where "parse_results sha num_str b (js_Map (map (\<lambda>c. (c_commandId c, c)) [c])) rs = Inr expected" "length rs = 1"
    using assms(1) by (auto simp: parseCommandResponse_def Let_def rbind_Inr_iff)
  then obtain cs where "mset cs = mset [c]" "list_all2 (answers sha num_str b) rs cs"
    using parse_results_complete [of sha num_str b "[c]" rs expected] by auto
  then obtain r where r: "rs = [r]" "answers sha num_str b r c"
    by (auto simp: list_all2_Cons2)
  have "j = c_commandId c" if "bind_text nonstr (obj_get (props_of r) ''commandId'') = Inr j" for j
  proof (cases "is_str (obj_get (props_of r) ''commandId'')")
    case True
    then show ?thesis
      using that r(2) by (auto simp: bind_text_def answers_def is_str_iff)
  next
    case False
    then show ?thesis
      using that r(2) assms(2,3) by (fastforce simp: bind_text_def answers_def binds_ids_def split: option.splits)
  qed
  then show ?thesis
    using r(1) by blast
qed

lemma upload_inv:
  assumes "spike_inv st" "queue_uuids st" "binds_ids num_str nonstr"
  shows "spike_inv (fst (uploadData sha num_str nonstr sdk reply st))"
proof (cases "sc_queue st")
  case Nil
  then show ?thesis using assms(1) by (simp add: uploadData_def)
next
  case (Cons e es)
  show ?thesis
  proof (cases "validateQueuedCrud [e]")
    case (Inl err)
    then show ?thesis using assms(1) Cons by (simp add: uploadData_def)
  next
    case (Inr cs)
    then obtain c where c: "cs = [c]" "cr_id e = JStr (c_commandId c)"
      by (auto simp: validateQueuedCrud_one validate_entry_id)
    have uuid: "commandUuid (c_commandId c)"
      using assms(2) c(2) Cons by (auto simp: queue_uuids_def)
    have same: "st\<lparr>sc_app := sc_app st\<rparr> = st" by simp
    have complete: "spike_inv (fst (completeWithResults num_str nonstr sdk [r] st))"
      if "\<And>j. bind_text nonstr (obj_get (props_of r) ''commandId'') = Inr j \<Longrightarrow> j = c_commandId c" for r
      using complete_any_inv [OF assms(1) Cons c(2) spike_inv_with_app [OF assms(1)] _ that] by (simp add: same)
    have answered: "spike_inv (fst (completeWithResults num_str nonstr sdk rs st))"
      if "parseCommandResponse sha num_str v [c] b = Inr rs" for v b rs
      using response_result_binds [OF that assms(3) uuid] complete by auto
    have failed: "spike_inv (fst (completeWithResults num_str nonstr sdk [failed_result sha c b code n] st))" for b code n
      by (rule complete) (simp add: failed_result_binds)
    have reset: "spike_inv (st\<lparr>sc_resetRequired := True\<rparr>)"
      using assms(1) by (simp add: spike_inv_def rows_ok_def queue_ok_def within_capacity_def combinedCapacityUsage_def)
    show ?thesis
      using Inr Cons c assms(1) reset answered failed transient_inv [OF assms(1) Cons c(2)]
      by (auto simp: uploadData_def Let_def split: option.split reply.split sum.split)
  qed
qed

section \<open>Queueing and acknowledging keep the invariant\<close>

lemma list_ex_key: "list_ex (\<lambda>x. f x = k) xs \<longleftrightarrow> k \<in> f ` set xs"
  by (auto simp: list_ex_iff image_iff)

lemma bindCommand_Inr:
  "bindCommand replicated c = Inr ov \<Longrightarrow> ov_id ov = qi_commandId c \<and> 512 \<le> ov_reserved ov \<and> ov_actual ov \<le> ov_reserved ov
     \<and> 0 < ov_actual ov"
  by (auto simp: bindCommand_def rbind_Inr_iff Let_def reservedOutstandingBytes_def terminalResultReservationBytes_def
      split: option.splits if_splits sum.splits)

lemma hasActiveCommandId_iff: "hasActiveCommandId i app \<longleftrightarrow> i \<in> app_ids app"
  by (simp add: hasActiveCommandId_def app_ids_def list_ex_key)

lemma addOverlays_one:
  assumes "ov_id ov \<notin> app_ids app" "0 < ov_reserved ov" "0 < ov_actual ov"
  shows "addOverlays {} [ov] app = Inr (app\<lparr>as_overlays := as_overlays app @ [ov]\<rparr>)"
  using assms by (simp add: app_ids_def list_ex_key)

text \<open>What \<open>queueCommands\<close> does: it changes nothing, or adds one overlay and one queue entry.\<close>

lemma queueCommands_cases:
  obtains (unchanged) "fst (queueCommands replicated sdk corr cs st) = st"
  | (queued) c ov where "cs = [c]" "bindCommand replicated c = Inr ov" "sdk"
      "ov_id ov \<notin> app_ids (sc_app st)" "ov_id ov \<notin> qc_id ` set (sc_quarantine st)"
      "fst (combinedCapacityUsage st) + 1 \<le> 64" "snd (combinedCapacityUsage st) + ov_reserved ov \<le> 65536"
      "fst (queueCommands replicated sdk corr cs st) =
         st\<lparr>sc_app := (sc_app st)\<lparr>as_overlays := as_overlays (sc_app st) @ [ov]\<rparr>, sc_queue := sc_queue st @ [queue_entry corr ov]\<rparr>"
proof (cases "\<exists>c ov. cs = [c] \<and> bindCommand replicated c = Inr ov \<and> ov_id ov \<notin> app_ids (sc_app st)
    \<and> ov_id ov \<notin> qc_id ` set (sc_quarantine st)
    \<and> assertOutstandingCapacity (fst (combinedCapacityUsage st)) (snd (combinedCapacityUsage st)) (ov_reserved ov) = Inr ()")
  case True
  then obtain c ov where c: "cs = [c]" "bindCommand replicated c = Inr ov" "ov_id ov \<notin> app_ids (sc_app st)"
    "ov_id ov \<notin> qc_id ` set (sc_quarantine st)"
    "assertOutstandingCapacity (fst (combinedCapacityUsage st)) (snd (combinedCapacityUsage st)) (ov_reserved ov) = Inr ()"
    by blast
  have "\<not> list_ex (\<lambda>q. qc_id q = ov_id ov) (sc_quarantine st)"
    using c(4) by (simp add: list_ex_key)
  moreover have added: "addOverlays {} [ov] (sc_app st) = Inr ((sc_app st)\<lparr>as_overlays := as_overlays (sc_app st) @ [ov]\<rparr>)"
    using bindCommand_Inr [OF c(2)] by (intro addOverlays_one c(3)) auto
  ultimately have res: "fst (queueCommands replicated sdk corr cs st) =
      (if sdk then st\<lparr>sc_app := (sc_app st)\<lparr>as_overlays := as_overlays (sc_app st) @ [ov]\<rparr>, sc_queue := sc_queue st @ [queue_entry corr ov]\<rparr>
       else st\<lparr>sc_app := removeOverlays [ov_id ov] ((sc_app st)\<lparr>as_overlays := as_overlays (sc_app st) @ [ov]\<rparr>)\<rparr>)"
    using c(1,2,3,5) by (simp add: queueCommands_def hasActiveCommandId_iff del: addOverlays.simps)
  show ?thesis
  proof (cases sdk)
    case False
    have "filter (\<lambda>x. ov_id x \<noteq> ov_id ov) (as_overlays (sc_app st)) = as_overlays (sc_app st)"
      using c(3) by (intro filter_key_absent) (simp add: app_ids_def)
    then have "removeOverlays [ov_id ov] ((sc_app st)\<lparr>as_overlays := as_overlays (sc_app st) @ [ov]\<rparr>) = sc_app st"
      by (simp add: removeOverlays_def)
    then show ?thesis
      using res False unchanged by simp
  next
    case True
    then show ?thesis
      using c res by (intro queued [of c ov])
        (auto simp: assertOutstandingCapacity_def rbind_Inr_iff maxOutstanding_def maxOutstandingBytes_def)
  qed
next
  case False
  then show ?thesis
    by (intro unchanged)
      (auto simp: queueCommands_def hasActiveCommandId_iff list_ex_key simp del: addOverlays.simps
        split: list.split sum.split)
qed

lemma queue_inv:
  assumes "spike_inv st"
  shows "spike_inv (fst (queueCommands replicated sdk corr cs st))"
proof (cases rule: queueCommands_cases [of replicated sdk corr cs st])
  case unchanged
  then show ?thesis using assms by simp
next
  case (queued c ov)
  let ?app = "(sc_app st)\<lparr>as_overlays := as_overlays (sc_app st) @ [ov]\<rparr>"
  have distinct: "app_distinct ?app"
    using assms queued(4) by (auto simp: spike_inv_def app_distinct_def app_ids_def)
  have pending: "pending_work ?app j" if "pending_work (sc_app st) j" for j
    using that by (auto simp: pending_work_def)
  have "j \<noteq> ov_id ov" if "pending_work (sc_app st) j" for j
    using pending_work_ids [OF that] queued(4) by auto
  then have "JStr (ov_id ov) \<notin> cr_id ` set (sc_queue st)"
    using assms by (fastforce simp: spike_inv_def queue_ok_def)
  moreover have "pending_work ?app (ov_id ov)"
    by (simp add: pending_work_def)
  moreover have "queue_ok st"
    using assms by (simp add: spike_inv_def)
  ultimately have "queue_ok (fst (queueCommands replicated sdk corr cs st))"
    using pending unfolding queued(8) queue_ok_def by (simp add: queue_entry_def) blast
  moreover have "rows_ok (fst (queueCommands replicated sdk corr cs st))"
    using assms bindCommand_Inr [OF queued(2)] by (auto simp: queued(8) spike_inv_def rows_ok_def)
  moreover have "within_capacity (fst (queueCommands replicated sdk corr cs st))"
    using queued(6,7) by (simp add: queued(8) within_capacity_def combinedCapacityUsage_def capacityUsage_def)
  ultimately show ?thesis
    using assms distinct by (simp add: queued(8) spike_inv_def)
qed

lemma sum_filter_le:
  fixes f :: "'a \<Rightarrow> int"
  shows "\<forall>x \<in> set xs. 0 \<le> f x \<Longrightarrow> sum_list (map f (filter P xs)) \<le> sum_list (map f xs)"
  by (induction xs) (auto intro: add_increasing)

lemma ack_result_inv:
  assumes "spike_inv st"
  shows "spike_inv (fst (acknowledgeCommandResult i st))"
proof -
  define rs where "rs = filter (\<lambda>r. \<not> (rr_id r = i \<and> rr_sdkCompleted r)) (as_results (sc_app st))"
  have st': "fst (acknowledgeCommandResult i st) = st\<lparr>sc_app := (sc_app st)\<lparr>as_results := rs\<rparr>\<rparr>"
    by (simp add: acknowledgeCommandResult_def acknowledgeResult_def rs_def)
  have "sum_list (map rr_reserved rs) \<le> sum_list (map rr_reserved (as_results (sc_app st)))"
    using assms unfolding rs_def by (intro sum_filter_le) (force simp: spike_inv_def rows_ok_def)
  moreover have "int (length rs) \<le> int (length (as_results (sc_app st)))"
    by (simp only: rs_def of_nat_le_iff length_filter_le)
  ultimately have "within_capacity (st\<lparr>sc_app := (sc_app st)\<lparr>as_results := rs\<rparr>\<rparr>)"
    using assms unfolding spike_inv_def within_capacity_def combinedCapacityUsage_def capacityUsage_def
    by simp
  moreover have "app_distinct ((sc_app st)\<lparr>as_results := rs\<rparr>)"
    using assms by (auto simp: spike_inv_def app_distinct_def distinct_map_filter_key rs_def)
  moreover have "queue_ok (st\<lparr>sc_app := (sc_app st)\<lparr>as_results := rs\<rparr>\<rparr>)"
    using assms by (fastforce simp: spike_inv_def queue_ok_def pending_work_def rs_def)
  ultimately show ?thesis
    using assms by (auto simp: st' spike_inv_def rows_ok_def rs_def)
qed

lemma remove_at:
  fixes f :: "'a \<Rightarrow> int"
  assumes "findIndex P xs = Some k"
  shows "set (take k xs @ drop (Suc k) xs) \<subseteq> set xs" "length (take k xs @ drop (Suc k) xs) \<le> length xs"
    "(\<forall>x \<in> set xs. 0 \<le> f x) \<Longrightarrow> sum_list (map f (take k xs @ drop (Suc k) xs)) \<le> sum_list (map f xs)"
    "distinct (map g xs) \<Longrightarrow> distinct (map g (take k xs @ drop (Suc k) xs))"
proof -
  have xs: "xs = take k xs @ xs ! k # drop (Suc k) xs" if "k < length xs"
    using that by (rule id_take_nth_drop)
  show "set (take k xs @ drop (Suc k) xs) \<subseteq> set xs" "length (take k xs @ drop (Suc k) xs) \<le> length xs"
    by (auto dest: in_set_takeD in_set_dropD)
  show "sum_list (map f (take k xs @ drop (Suc k) xs)) \<le> sum_list (map f xs)" if nonneg: "\<forall>x \<in> set xs. 0 \<le> f x"
  proof (cases "k < length xs")
    case True
    have "sum_list (map f xs) = f (xs ! k) + sum_list (map f (take k xs @ drop (Suc k) xs))"
      by (subst xs [OF True]) simp
    moreover have "0 \<le> f (xs ! k)"
      using nonneg True by simp
    ultimately show ?thesis by simp
  qed simp
  show "distinct (map g (take k xs @ drop (Suc k) xs))" if d: "distinct (map g xs)"
  proof (cases "k < length xs")
    case True
    have "distinct (map g (take k xs @ xs ! k # drop (Suc k) xs))"
      using d xs [OF True] by simp
    then show ?thesis by simp
  qed (use d in simp)
qed

lemma ack_quarantine_inv:
  assumes "spike_inv st"
  shows "spike_inv (fst (acknowledgeOrDiscardQuarantinedCommand writing i st))"
proof (cases "findIndex (\<lambda>q. qc_id q = i) (sc_quarantine st)")
  case None
  then show ?thesis
    using assms by (simp add: acknowledgeOrDiscardQuarantinedCommand_def persistQuarantineAcknowledgement_def)
next
  case (Some k)
  let ?qs = "take k (sc_quarantine st) @ drop (Suc k) (sc_quarantine st)"
  have other: "spike_inv (st\<lparr>sc_quarantineFile := f\<rparr>)" for f
    using assms by (simp add: spike_inv_def rows_ok_def queue_ok_def within_capacity_def combinedCapacityUsage_def)
  have "\<forall>q \<in> set (sc_quarantine st). 0 \<le> qc_reserved q"
    using assms by (force simp: spike_inv_def rows_ok_def)
  then have "spike_inv (st\<lparr>sc_quarantineFile := f, sc_quarantine := ?qs\<rparr>)" for f
    using assms remove_at(1,2) [OF Some] remove_at(3) [OF Some, of qc_reserved] remove_at(4) [OF Some, of qc_id]
    by (auto simp: spike_inv_def rows_ok_def queue_ok_def within_capacity_def combinedCapacityUsage_def)
  then show ?thesis
    using Some assms other
    by (simp add: acknowledgeOrDiscardQuarantinedCommand_def persistQuarantineAcknowledgement_def Let_def split: outcome.split)
qed

end
