(* ===== verification/Replica_Reset_Properties.thy ===== *)
theory Replica_Reset_Properties
  imports Replica_Reset Spike_Client_Properties
begin

text \<open>
  Properties of the replica reset of the PowerSync spike client. The proofs use a weakest precondition
  for actions: what must hold of a client so that the action ends well in a state with \<open>Q\<close>, or throws in a
  state with \<open>E\<close>. Since every write may throw before or after it takes effect, \<open>E\<close> describes every state
  in which the reset can be interrupted.
\<close>

section \<open>Weakest preconditions\<close>

named_theorems wp_simps \<open>weakest preconditions of the actions\<close>

definition wp :: "'a act \<Rightarrow> ('a \<Rightarrow> spike_client \<Rightarrow> bool) \<Rightarrow> (spike_client \<Rightarrow> bool) \<Rightarrow> spike_client \<Rightarrow> bool" where
  "wp m Q E st = (case m st of (st', Inl e) \<Rightarrow> E st' | (st', Inr x) \<Rightarrow> Q x st')"

lemma wp_bind [wp_simps]: "wp (act_bind m f) Q E st = wp m (\<lambda>x. wp (f x) Q E) E st"
  by (simp add: wp_def act_bind_def split: prod.split sum.split)

lemma wp_return [wp_simps]: "wp (act_return x) Q E st = Q x st"
  by (simp add: wp_def act_return_def)

lemma wp_get [wp_simps]: "wp (act_get f) Q E st = Q (f st) st"
  by (simp add: wp_def act_get_def)

lemma wp_modify [wp_simps]: "wp (act_modify f) Q E st = Q () (f st)"
  by (simp add: wp_def act_modify_def)

lemma wp_lift [wp_simps]: "wp (act_lift r) Q E st = (case r of Inl e \<Rightarrow> E st | Inr x \<Rightarrow> Q x st)"
  by (simp add: wp_def act_lift_def)

lemma wp_effect [wp_simps]:
  "wp (act_effect result e f) Q E st = (case result of Done \<Rightarrow> Q () (f st) | Failed_before \<Rightarrow> E st | Failed_after \<Rightarrow> E (f st))"
  by (simp add: wp_def act_effect_def split: outcome.split)

lemma wp_if [wp_simps]: "wp (if b then m else n) Q E st = (if b then wp m Q E st else wp n Q E st)"
  by simp

lemma wp_mono: "wp m Q E st \<Longrightarrow> (\<And>x s. Q x s \<Longrightarrow> Q' x s) \<Longrightarrow> (\<And>s. E s \<Longrightarrow> E' s) \<Longrightarrow> wp m Q' E' st"
  by (auto simp: wp_def split: prod.splits sum.splits)

lemma wp_fst: "P (fst (m st)) \<longleftrightarrow> wp m (\<lambda>_. P) P st"
  by (simp add: wp_def split: prod.split sum.split)

lemma wp_read_store [wp_simps]:
  "wp (read_store num_str str_num) Q E st =
     (case readQuarantineStore num_str str_num (sc_quarantineFile st) of Inl e \<Rightarrow> E st | Inr r \<Rightarrow> Q (fst r) st)"
  by (simp add: wp_def read_store_def quarantine_result_def split: sum.split)

lemma wp_read_reset [wp_simps]:
  "wp (read_reset num_str) Q E st =
     (case readResetState num_str (own_file (sc_resetFile st)) (sc_resetFile st) of Inl e \<Rightarrow> E st | Inr r \<Rightarrow> Q r st)"
  by (simp add: wp_def read_reset_def quarantine_result_def split: sum.split)

text \<open>The same as rules, for the stages of a reset.\<close>

named_theorems wp_intros \<open>rules for weakest preconditions\<close>

lemma wp_bindI [wp_intros]: "wp m (\<lambda>x. wp (f x) Q E) E st \<Longrightarrow> wp (act_bind m f) Q E st"
  by (simp add: wp_bind)

lemma wp_returnI [wp_intros]: "Q x st \<Longrightarrow> wp (act_return x) Q E st"
  by (simp add: wp_return)

lemma wp_getI [wp_intros]: "Q (f st) st \<Longrightarrow> wp (act_get f) Q E st"
  by (simp add: wp_get)

lemma wp_modifyI [wp_intros]: "Q () (f st) \<Longrightarrow> wp (act_modify f) Q E st"
  by (simp add: wp_modify)

lemma wp_liftI [wp_intros]: "E st \<Longrightarrow> (\<And>x. r = Inr x \<Longrightarrow> Q x st) \<Longrightarrow> wp (act_lift r) Q E st"
  by (simp add: wp_lift split: sum.split)

lemma wp_effectI [wp_intros]: "E st \<Longrightarrow> E (f st) \<Longrightarrow> Q () (f st) \<Longrightarrow> wp (act_effect result e f) Q E st"
  by (simp add: wp_effect split: outcome.split)

lemma wp_ifI [wp_intros]: "(b \<Longrightarrow> wp m Q E st) \<Longrightarrow> (\<not> b \<Longrightarrow> wp n Q E st) \<Longrightarrow> wp (if b then m else n) Q E st"
  by simp

lemma wp_read_storeI [wp_intros]:
  assumes "E st" "\<And>store x. readQuarantineStore num_str str_num (sc_quarantineFile st) = Inr (store, x) \<Longrightarrow> Q store st"
  shows "wp (read_store num_str str_num) Q E st"
  using assms by (simp add: wp_read_store split: sum.split)

lemma wp_capacity [wp_intros]:
  assumes "E st"
    and "fst (resultCapacityUsage (sc_app st)) + int (length (qs_finalized store)) + int (length (qs_pending store)) \<le> 64 \<Longrightarrow>
      snd (resultCapacityUsage (sc_app st)) + finalizedQuarantineBytes (qs_finalized store) + pendingQuarantineBytes (qs_pending store) \<le> 65536 \<Longrightarrow>
      Q () st"
  shows "wp (assertResetCapacity store) Q E st"
  using assms
  by (auto simp: wp_def assertResetCapacity_def Let_def assertCombinedOutstandingCapacity_def rbind_Inr_iff rbind_Inl_iff
      maxOutstanding_def maxOutstandingBytes_def split: sum.split)

text \<open>Predicates that every part of an action keeps, in every way it can end.\<close>

named_theorems keeps_intros \<open>rules for predicates that an action keeps\<close>

definition keeps :: "(spike_client \<Rightarrow> bool) \<Rightarrow> 'a act \<Rightarrow> bool" where
  "keeps I m = (\<forall>st. I st \<longrightarrow> wp m (\<lambda>_. I) I st)"

lemma keepsD: "keeps I m \<Longrightarrow> I st \<Longrightarrow> I (fst (m st))"
  by (simp add: keeps_def wp_fst [of I])

lemma keeps_bind [keeps_intros]: "keeps I m \<Longrightarrow> (\<And>x. keeps I (f x)) \<Longrightarrow> keeps I (act_bind m f)"
  unfolding keeps_def wp_bind by (blast intro: wp_mono)

lemma keeps_pure [keeps_intros]:
  "keeps I (act_lift r)" "keeps I (act_get g)" "keeps I (act_return x)" "keeps I (read_store num_str str_num)"
  "keeps I (read_reset num_str)" "keeps I (assertResetCapacity store)"
  by (auto simp: keeps_def wp_lift wp_get wp_return wp_read_store wp_read_reset wp_capacity split: sum.split)

lemma keeps_change [keeps_intros]:
  "(\<And>st. I st \<Longrightarrow> I (f st)) \<Longrightarrow> keeps I (act_modify f)"
  "(\<And>st. I st \<Longrightarrow> I (f st)) \<Longrightarrow> keeps I (act_effect result e f)"
  by (auto simp: keeps_def wp_modify wp_effect split: outcome.split)

lemma keeps_branch [keeps_intros]:
  "keeps I m \<Longrightarrow> keeps I n \<Longrightarrow> keeps I (if b then m else n)"
  "(\<And>a b. keeps I (g a b)) \<Longrightarrow> keeps I (case_prod g p)"
  "keeps I m \<Longrightarrow> (\<And>x. keeps I (h x)) \<Longrightarrow> keeps I (case_option m h v)"
  by (auto split: prod.split option.split)

lemmas reset_actions = write_store_def write_reset_def store_session_def database_call_def close_database_def

section \<open>The commands that are kept\<close>

text \<open>The identifiers in the quarantine file.\<close>

definition entry_ids :: "jsval \<Rightarrow> string set" where
  "entry_ids v = (\<lambda>e. str_of (legacy_field e ''id'')) ` set (arr_of v)"

definition file_ids :: "sidecar \<Rightarrow> string set" where
  "file_ids f = (case f of
     Content v \<Rightarrow>
       let ps = props_of v in
       if obj_get ps ''version'' = JInt 2 \<and> is_arr (obj_get ps ''finalized'') \<and> is_arr (obj_get ps ''pending'')
       then entry_ids (obj_get ps ''finalized'') \<union> entry_ids (obj_get ps ''pending'')
       else entry_ids (obj_get ps ''commands'')
   | _ \<Rightarrow> {})"

definition store_ids :: "quarantine_store \<Rightarrow> string set" where
  "store_ids store = qc_id ` set (qs_finalized store) \<union> qc_id ` set (qs_pending store)"

lemma file_ids_store_value [simp]: "file_ids (Content (store_value store)) = store_ids store"
  by (auto simp: file_ids_def store_value_def store_ids_def entry_ids_def legacy_field_def obj_get_Cons image_iff
      quarantined_value_def intent_value_def)

lemma quarantineString_Inr: "quarantineString v k = Inr s \<longleftrightarrow> v = JStr s \<and> s \<noteq> ''''"
  by (cases v) (auto simp: quarantineString_def rbind_Inr_iff Suc_le_eq)

lemma read_base_Inr:
  "read_base value payload expected = Inr b \<longleftrightarrow>
     obj_get value ''id'' = JStr (qc_id b) \<and> qc_id b \<noteq> '''' \<and> obj_get value ''resource_id'' = JStr (qc_resource_id b) \<and> qc_resource_id b \<noteq> ''''
     \<and> obj_get value ''resource_incarnation_id'' = JStr (qc_incarnation_id b) \<and> qc_incarnation_id b \<noteq> ''''
     \<and> obj_get value ''command_type'' = JStr (qc_type b) \<and> qc_type b \<noteq> '''' \<and> qc_payload b = payload \<and> qc_expected b = expected"
  by (cases b) (auto simp: read_base_def rbind_Inr_iff quarantineString_Inr)

lemma extend_id [simp]:
  "qc_id (quarantine_base.extend b x) = qc_id b" "qc_resource_id (quarantine_base.extend b x) = qc_resource_id b"
  "qc_incarnation_id (quarantine_base.extend b x) = qc_incarnation_id b" "qc_type (quarantine_base.extend b x) = qc_type b"
  "qc_payload (quarantine_base.extend b x) = qc_payload b" "qc_expected (quarantine_base.extend b x) = qc_expected b"
  by (simp_all add: quarantine_base.defs)

lemma extend_more [simp]:
  "qn_reserved (quarantine_base.extend b (quarantine_intent.fields a r)) = r"
  "qn_authorized (quarantine_base.extend b (quarantine_intent.fields a r)) = a"
  "qc_reserved (quarantine_base.extend b (quarantined.fields s x r)) = r"
  "qc_state (quarantine_base.extend b (quarantined.fields s x r)) = s"
  "qc_exportable (quarantine_base.extend b (quarantined.fields s x r)) = x"
  by (simp_all add: quarantine_base.defs quarantine_intent.defs quarantined.defs)

lemma reservation_ge: "512 \<le> quarantineEntryReservationBytes e"
  by (simp add: quarantineEntryReservationBytes_def Let_def terminalResultReservationBytes_def)

lemma normalizeQuarantineReservation_Inr:
  "normalizeQuarantineReservation num_str str_num raw e = Inr r \<Longrightarrow> quarantineEntryReservationBytes e \<le> r \<and> r \<le> 65536"
  by (auto simp: normalizeQuarantineReservation_def Let_def rbind_Inr_iff maxOutstandingBytes_def)

lemma normalizeQuarantineReservation_512:
  "normalizeQuarantineReservation num_str str_num raw e = Inr r \<Longrightarrow> 512 \<le> r"
  using normalizeQuarantineReservation_Inr reservation_ge order_trans by blast

lemma normalizeFinalized_Inr:
  assumes "normalizeFinalizedQuarantine num_str str_num legacy raw = Inr q"
  shows "str_of (legacy_field raw ''id'') = qc_id q \<and> 512 \<le> qc_reserved q"
  using assms
  by (auto simp: normalizeFinalizedQuarantine_def Let_def rbind_Inr_iff legacy_field_def read_base_Inr
      dest!: normalizeQuarantineReservation_512)

lemma normalizePending_Inr:
  assumes "normalizePendingQuarantine num_str str_num raw = Inr q"
  shows "str_of (legacy_field raw ''id'') = qc_id q \<and> 512 \<le> qn_reserved q
    \<and> (\<not> qn_authorized q \<longrightarrow> qc_payload q = None)"
  using assms
  by (auto simp: normalizePendingQuarantine_def Let_def rbind_Inr_iff legacy_field_def read_base_Inr
      dest!: normalizeQuarantineReservation_512)

text \<open>Whatever can be read from the quarantine file has its identifiers, each once.\<close>

lemma rmap_image:
  assumes "rmap f xs = Inr ys" "\<And>x y. f x = Inr y \<Longrightarrow> g x = h y"
  shows "g ` set xs = h ` set ys"
  using assms(1)
proof (induction xs arbitrary: ys)
  case (Cons x xs)
  then obtain y ys' where "f x = Inr y" "rmap f xs = Inr ys'" "ys = y # ys'"
    by (auto simp: rbind_Inr_iff)
  then show ?case
    using Cons.IH assms(2) by simp
qed simp

lemma rmap_all: "rmap f xs = Inr ys \<Longrightarrow> (\<And>x y. f x = Inr y \<Longrightarrow> P y) \<Longrightarrow> \<forall>y \<in> set ys. P y"
  by (induction xs arbitrary: ys) (auto simp: rbind_Inr_iff)

definition store_bytes_ok :: "quarantine_store \<Rightarrow> bool" where
  "store_bytes_ok store = ((\<forall>q \<in> set (qs_finalized store). 512 \<le> qc_reserved q) \<and> (\<forall>q \<in> set (qs_pending store). 512 \<le> qn_reserved q))"

lemma store_append [simp]:
  "store_ids (store\<lparr>qs_finalized := qs_finalized store @ [q]\<rparr>) = insert (qc_id q) (store_ids store)"
  "store_ids (store\<lparr>qs_pending := qs_pending store @ [p]\<rparr>) = insert (qc_id p) (store_ids store)"
  "store_bytes_ok (store\<lparr>qs_finalized := qs_finalized store @ [q]\<rparr>) = (512 \<le> qc_reserved q \<and> store_bytes_ok store)"
  "store_bytes_ok (store\<lparr>qs_pending := qs_pending store @ [p]\<rparr>) = (512 \<le> qn_reserved p \<and> store_bytes_ok store)"
  by (auto simp: store_ids_def store_bytes_ok_def)

lemma read_legacy_ids:
  "read_legacy num_str str_num items store = Inr store' \<Longrightarrow>
     store_ids store' = (\<lambda>e. str_of (legacy_field e ''id'')) ` set items \<union> store_ids store
     \<and> (store_bytes_ok store \<longrightarrow> store_bytes_ok store')"
proof (induction num_str str_num items store rule: read_legacy.induct)
  case (1 num_str str_num store)
  then show ?case by simp
next
  case (2 num_str str_num item items store)
  show ?case
  proof (cases "quarantine_state_of (legacy_field item ''state'') \<noteq> None")
    case True
    then obtain q where q: "normalizeFinalizedQuarantine num_str str_num True item = Inr q"
      "read_legacy num_str str_num items (store\<lparr>qs_finalized := qs_finalized store @ [q]\<rparr>) = Inr store'"
      using 2(3) by (auto simp: rbind_Inr_iff)
    then show ?thesis
      using 2(1) [OF True q(2)] normalizeFinalized_Inr [OF q(1)] by simp
  next
    case False
    then obtain q where q: "legacy_field item ''expected_record_version'' \<noteq> JUndef"
      "normalizePendingQuarantine num_str str_num item = Inr q"
      "read_legacy num_str str_num items (store\<lparr>qs_pending := qs_pending store @ [q]\<rparr>) = Inr store'"
      using 2(3) by (auto simp: rbind_Inr_iff)
    then show ?thesis
      using 2(2) [OF False q(3)] normalizePending_Inr [OF q(2)] by simp
  qed
qed

lemma readQuarantineStore_Inr:
  assumes "readQuarantineStore num_str str_num f = Inr (store, existed, migrated)"
  shows "store_ids store = file_ids f \<and> distinct (map qc_id (qs_finalized store) @ map qc_id (qs_pending store))
    \<and> store_bytes_ok store"
proof (cases f)
  case Absent
  then show ?thesis
    using assms by (auto simp: readQuarantineStore_def empty_store_def store_ids_def file_ids_def store_bytes_ok_def)
next
  case Unreadable
  then show ?thesis
    using assms by (simp add: readQuarantineStore_def)
next
  case (Content v)
  let ?ps = "props_of v"
  show ?thesis
  proof (cases "obj_get ?ps ''version'' = JInt 2 \<and> is_arr (obj_get ?ps ''finalized'') \<and> is_arr (obj_get ?ps ''pending'')")
    case True
    then obtain fs ps where parts: "rmap (normalizeFinalizedQuarantine num_str str_num False) (arr_of (obj_get ?ps ''finalized'')) = Inr fs"
      "rmap (normalizePendingQuarantine num_str str_num) (arr_of (obj_get ?ps ''pending'')) = Inr ps"
      "store = \<lparr>qs_finalized = fs, qs_pending = ps\<rparr>" "distinct (map qc_id fs @ map qc_id ps)"
      using assms Content by (auto simp: readQuarantineStore_def Let_def rbind_Inr_iff assertUniqueQuarantineIds_def)
    have "entry_ids (obj_get ?ps ''finalized'') = qc_id ` set fs"
      unfolding entry_ids_def by (rule rmap_image [OF parts(1)]) (simp add: normalizeFinalized_Inr)
    moreover have "entry_ids (obj_get ?ps ''pending'') = qc_id ` set ps"
      unfolding entry_ids_def by (rule rmap_image [OF parts(2)]) (simp add: normalizePending_Inr)
    moreover have "\<forall>q \<in> set fs. 512 \<le> qc_reserved q"
      by (rule rmap_all [OF parts(1)]) (simp add: normalizeFinalized_Inr)
    moreover have "\<forall>q \<in> set ps. 512 \<le> qn_reserved q"
      by (rule rmap_all [OF parts(2)]) (simp add: normalizePending_Inr)
    ultimately show ?thesis
      using True parts(3,4) Content by (simp add: file_ids_def store_ids_def store_bytes_ok_def)
  next
    case False
    then have legacy: "read_legacy num_str str_num (arr_of (obj_get ?ps ''commands'')) empty_store = Inr store"
      "distinct (map qc_id (qs_finalized store) @ map qc_id (qs_pending store))"
      using assms Content
      by (auto simp: readQuarantineStore_def Let_def rbind_Inr_iff assertUniqueQuarantineIds_def split: if_splits)
    have "store_ids empty_store = {}" "store_bytes_ok empty_store"
      by (simp_all add: empty_store_def store_ids_def store_bytes_ok_def)
    then have "store_ids store = (\<lambda>e. str_of (legacy_field e ''id'')) ` set (arr_of (obj_get ?ps ''commands''))" "store_bytes_ok store"
      using read_legacy_ids [OF legacy(1)] by simp_all
    moreover have "file_ids f = entry_ids (obj_get ?ps ''commands'')"
      using False Content by (simp only: file_ids_def Let_def if_False sidecar.case)
    ultimately show ?thesis
      using legacy(2) by (simp add: entry_ids_def)
  qed
qed

section \<open>No command is lost\<close>

text \<open>
  Of the rows, the quarantine file and the reset file: the identifiers \<open>K\<close> are still there, and while a
  reset is unfinished the quarantine file has every command that is still shown as pending.
\<close>

definition kept :: "string set \<Rightarrow> app_state \<Rightarrow> sidecar \<Rightarrow> sidecar \<Rightarrow> bool" where
  "kept K app quarantine reset =
     (K \<subseteq> app_ids app \<union> file_ids quarantine \<and> (reset \<noteq> Absent \<longrightarrow> ov_id ` set (as_overlays app) \<subseteq> file_ids quarantine))"

abbreviation client_kept :: "string set \<Rightarrow> spike_client \<Rightarrow> bool" where
  "client_kept K st \<equiv> kept K (sc_app st) (sc_quarantineFile st) (sc_resetFile st)"

abbreviation resetting :: "string set \<Rightarrow> spike_client \<Rightarrow> bool" where
  "resetting K st \<equiv> client_kept K st \<and> sc_resetFile st \<noteq> Absent"

lemma kept_session [simp]: "kept K (setReplicaSession x n a b app) q r = kept K app q r"
  by (simp add: kept_def setReplicaSession_def app_ids_def)

lemma kept_reset: "r \<noteq> Absent \<Longrightarrow> kept K app q r \<Longrightarrow> kept K app q r'"
  by (auto simp: kept_def)

text \<open>Clearing the overlays is harmless because the quarantine file has them.\<close>

lemma kept_cleared:
  assumes "r \<noteq> Absent" "kept K app q r"
  shows "kept K (clearOverlays app) q r'"
proof -
  have "K \<subseteq> rr_id ` set (as_results app) \<union> file_ids q"
    using assms unfolding kept_def app_ids_def by blast
  then show ?thesis
    by (simp add: kept_def clearOverlays_def app_ids_def)
qed

lemma kept_stored: "kept K app q r \<Longrightarrow> store_ids store = file_ids q \<Longrightarrow> kept K app (Content (store_value store)) r"
  by (simp add: kept_def)

lemma resetting_kept:
  assumes "resetting K st"
  shows "kept K (sc_app st) (sc_quarantineFile st) r" "kept K (clearOverlays (sc_app st)) (sc_quarantineFile st) r"
    "store_ids store = file_ids (sc_quarantineFile st) \<Longrightarrow> kept K (sc_app st) (Content (store_value store)) r"
  using assms kept_reset kept_cleared kept_stored by blast+

lemma quarantine_item_base:
  "quarantine_item classify overlays item = Inr q \<Longrightarrow> qc_id q = qc_id item"
  by (auto simp: quarantine_item_def rbind_Inr_iff Let_def)

lemma set_readOverlays [simp]: "set (readOverlays app) = set (as_overlays app)"
  by (simp add: readOverlays_def)

lemma reset_candidates_ids: "ov_id ` set overlays \<subseteq> qc_id ` set (reset_candidates queued overlays)"
proof (intro subsetI, elim imageE)
  fix i ov
  assume ov: "i = ov_id ov" "ov \<in> set overlays"
  show "i \<in> qc_id ` set (reset_candidates queued overlays)"
  proof (cases "i \<in> qc_id ` set queued")
    case True
    then show ?thesis by (auto simp: reset_candidates_def)
  next
    case False
    then have "overlay_candidate ov \<in> set (reset_candidates queued overlays)"
      using ov by (simp add: reset_candidates_def)
    moreover have "qc_id (overlay_candidate ov) = i"
      by (simp add: ov(1) overlay_candidate_def)
    ultimately show ?thesis by blast
  qed
qed

lemma pending_ids:
  assumes "rmap (quarantine_item classify overlays) (reset_candidates queued overlays) = Inr pending"
  shows "ov_id ` set overlays \<subseteq> qc_id ` set pending"
  using reset_candidates_ids rmap_image [OF assms, of qc_id qc_id] quarantine_item_base by metis

lemma begun_kept:
  assumes "kept K app f r" "readQuarantineStore num_str str_num f = Inr (prior, x)" "qs_pending prior = []"
    and "rmap (quarantine_item classify (readOverlays app)) (reset_candidates queued (readOverlays app)) = Inr pending"
  shows "kept K app (Content (store_value \<lparr>qs_finalized = qs_finalized prior, qs_pending = pending\<rparr>)) r'"
proof -
  let ?store = "\<lparr>qs_finalized = qs_finalized prior, qs_pending = pending\<rparr>"
  have "file_ids f \<subseteq> store_ids ?store"
    using readQuarantineStore_Inr [of num_str str_num f prior "fst x" "snd x"] assms(2,3) by (auto simp: store_ids_def)
  moreover have "ov_id ` set (as_overlays app) \<subseteq> store_ids ?store"
    using pending_ids [OF assms(4)] by (auto simp: store_ids_def)
  ultimately show ?thesis
    using assms(1) by (auto simp: kept_def)
qed

lemma begin_reset_wp:
  assumes "client_kept K st" "sc_resetFile st = Absent"
  shows "wp (begin_reset num_str str_num env session) (\<lambda>_. resetting K) (client_kept K) st"
  unfolding begin_reset_def Let_def reset_actions
  using assms by (intro wp_intros) (simp_all add: begun_kept)

lemma stage_session_wp:
  assumes "resetting K st"
  shows "wp (stage_session num_str str_num env state) (\<lambda>_. resetting K) (client_kept K) st"
  unfolding stage_session_def Let_def reset_actions
  using assms by (intro wp_intros) (simp_all add: resetting_kept)

lemma clear_replica_wp:
  assumes "resetting K st"
  shows "wp (clear_replica num_str str_num env state) (\<lambda>_. resetting K) (client_kept K) st"
  unfolding clear_replica_def Let_def reset_actions setSession_def
  using assms by (intro wp_intros) (simp_all add: resetting_kept)

lemma merge_unique_Inr: "merge_unique ids qs = Inr ms \<Longrightarrow> ms = qs \<and> distinct (map qc_id qs) \<and> ids \<inter> qc_id ` set qs = {}"
  by (induction ids qs arbitrary: ms rule: merge_unique.induct) (auto simp: rbind_Inr_iff)

lemma mergeFinalized_Inr:
  assumes "mergeFinalizedQuarantine collate existing additions = Inr merged"
  shows "mset merged = mset existing + mset additions \<and> distinct (map qc_id (existing @ additions))"
  using assms merge_unique_Inr by (fastforce simp: mergeFinalizedQuarantine_def rbind_Inr_iff)

lemma finalize_item_Inr:
  "finalize_item classify rows item = Inr q \<Longrightarrow> qc_id q = qc_id item \<and> qc_reserved q = qn_reserved item"
  by (auto simp: finalize_item_def rbind_Inr_iff Let_def)

lemma finished_ids:
  assumes "readQuarantineStore num_str str_num f = Inr (store, x)" "rmap (finalize_item classify rows) (qs_pending store) = Inr additions"
    and "mergeFinalizedQuarantine collate (qs_finalized store) additions = Inr merged"
  shows "store_ids \<lparr>qs_finalized = merged, qs_pending = []\<rparr> = file_ids f"
proof -
  have "set merged = set (qs_finalized store) \<union> set additions"
    using mergeFinalized_Inr [OF assms(3)] by (metis mset_append set_append set_mset_mset)
  moreover have "qc_id ` set additions = qc_id ` set (qs_pending store)"
    using rmap_image [OF assms(2), of qc_id qc_id] by (simp add: finalize_item_Inr)
  ultimately show ?thesis
    using readQuarantineStore_Inr [of num_str str_num f store "fst x" "snd x"] assms(1)
    by (simp add: store_ids_def image_Un)
qed

lemma quarantine_result_Inr [simp]: "quarantine_result r = Inr x \<longleftrightarrow> r = Inr x"
  by (simp add: quarantine_result_def split: sum.split)

lemma finish_reset_wp:
  assumes "resetting K st"
  shows "wp (finish_reset collate num_str str_num env state) (\<lambda>_. client_kept K) (client_kept K) st"
  unfolding finish_reset_def Let_def reset_actions
  using assms by (intro wp_intros) (simp_all add: resetting_kept finished_ids)

text \<open>A rule for the whole reset: \<open>R\<close> holds between its stages.\<close>

lemma reset_absent:
  "readResetState num_str (own_file f) f = Inr None \<Longrightarrow> f = Absent"
  by (auto simp: readResetState_def own_file_def assertPrivateRegularFile_def rbind_Inr_iff split: if_splits sidecar.splits)

lemma reset_rule:
  assumes "E st"
    and present: "\<And>s. readResetState num_str (own_file (sc_resetFile st)) (sc_resetFile st) = Inr (Some s) \<Longrightarrow> R s st"
    and start: "\<And>session. sc_resetFile st = Absent \<Longrightarrow> wp (begin_reset num_str str_num env session) R E st"
    and stage: "\<And>s t. R s t \<Longrightarrow> rs_phase s = JStr ''quarantined'' \<Longrightarrow> wp (stage_session num_str str_num env s) R E t"
    and clear: "\<And>s t. R s t \<Longrightarrow> rs_phase s = JStr ''session_staged'' \<Longrightarrow> wp (clear_replica num_str str_num env s) R E t"
    and finish: "\<And>s t. R s t \<Longrightarrow> wp (finish_reset collate num_str str_num env s) Q E t"
  shows "wp (performReplicaReset collate num_str str_num env) Q E st"
proof -
  have cleared: "wp (if rs_phase s = JStr ''session_staged'' then clear_replica num_str str_num env s else act_return s)
      (\<lambda>s. wp (finish_reset collate num_str str_num env s) Q E) E t" if "R s t" for s t
    using that wp_mono [OF clear finish] finish by (simp add: wp_return)
  have staged: "wp (if rs_phase s = JStr ''quarantined'' then stage_session num_str str_num env s else act_return s)
      (\<lambda>s. wp (if rs_phase s = JStr ''session_staged'' then clear_replica num_str str_num env s else act_return s)
        (\<lambda>s. wp (finish_reset collate num_str str_num env s) Q E) E) E t" if "R s t" for s t
    using that wp_mono [OF stage cleared] cleared by (simp add: wp_return)
  show ?thesis
    unfolding performReplicaReset_def wp_bind wp_get wp_lift wp_read_reset
    using assms(1) wp_mono [OF start staged, OF reset_absent] staged [OF present]
    by (auto simp: wp_return split: sum.split option.split)
qed

lemma reset_keeps:
  assumes "client_kept K st"
  shows "wp (performReplicaReset collate num_str str_num env) (\<lambda>_. client_kept K) (client_kept K) st"
proof (rule reset_rule [where R = "\<lambda>_. resetting K"])
  show "resetting K st" if "readResetState num_str (own_file (sc_resetFile st)) (sc_resetFile st) = Inr (Some s)" for s
    using that assms by (auto simp: readResetState_def own_file_def assertPrivateRegularFile_def)
qed (use assms in \<open>simp_all add: begin_reset_wp stage_session_wp clear_replica_wp finish_reset_wp\<close>)

section \<open>The outstanding work stays bounded\<close>

definition reset_phase :: "sidecar \<Rightarrow> jsval" where
  "reset_phase f = (case f of Content v \<Rightarrow> obj_get (props_of v) ''phase'' | _ \<Rightarrow> JUndef)"

lemma reset_phase_simps [simp]:
  "reset_phase Absent = JUndef" "reset_phase (Content (reset_value s)) = rs_phase s"
  by (simp_all add: reset_phase_def reset_value_def obj_get_Cons)

lemma read_phase:
  "readResetState num_str (own_file f) f = Inr (Some s) \<Longrightarrow> rs_phase s = reset_phase f"
  by (auto simp: readResetState_def own_file_def assertPrivateRegularFile_def rbind_Inr_iff parseResetState_def Let_def
      reset_phase_def split: sidecar.splits if_splits)

text \<open>The invariant over its parts; after the clearing, nothing is pending until the reset has finished.\<close>

definition work_ok :: "app_state \<Rightarrow> crud_entry list \<Rightarrow> quarantined list \<Rightarrow> bool" where
  "work_ok app queue qs =
     spike_inv \<lparr>sc_name = '''', sc_principal = None, sc_app = app, sc_queue = queue, sc_quarantine = qs, sc_session = None,
       sc_resetRequired = False, sc_resetCount = 0, sc_databaseClosed = False, sc_quarantineFile = Absent, sc_resetFile = Absent\<rparr>"

lemma spike_inv_work_ok: "spike_inv st = work_ok (sc_app st) (sc_queue st) (sc_quarantine st)"
  by (simp add: work_ok_def spike_inv_def rows_ok_def queue_ok_def within_capacity_def combinedCapacityUsage_def)

lemma work_ok_session [simp]: "work_ok (setReplicaSession x n a b app) queue qs = work_ok app queue qs"
  by (simp add: work_ok_def spike_inv_def app_distinct_def rows_ok_def queue_ok_def within_capacity_def
      combinedCapacityUsage_def capacityUsage_def pending_work_def setReplicaSession_def)

lemma work_ok_unqueued: "work_ok app queue qs \<Longrightarrow> work_ok app [] qs"
  by (simp add: work_ok_def spike_inv_def rows_ok_def queue_ok_def within_capacity_def combinedCapacityUsage_def)

lemma sum_list_nonneg_512: "\<forall>x \<in> set xs. 512 \<le> f x \<Longrightarrow> 0 \<le> sum_list (map f xs :: int list)"
  by (rule sum_list_nonneg) force

lemma work_ok_cleared:
  assumes "work_ok app queue qs"
  shows "work_ok (clearOverlays app) [] qs"
proof -
  have "0 \<le> sum_list (map ov_reserved (as_overlays app))"
    using assms by (intro sum_list_nonneg_512) (simp add: work_ok_def spike_inv_def rows_ok_def)
  then show ?thesis
    using assms by (simp add: work_ok_def spike_inv_def app_distinct_def rows_ok_def queue_ok_def within_capacity_def
        combinedCapacityUsage_def capacityUsage_def clearOverlays_def)
qed

lemma overlays_after [simp]:
  "as_overlays (setReplicaSession x n a b app) = as_overlays app" "as_overlays (clearOverlays app) = []"
  "resultCapacityUsage (setReplicaSession x n a b app) = resultCapacityUsage app"
  by (simp_all add: setReplicaSession_def clearOverlays_def resultCapacityUsage_def)

definition reset_ok :: "app_state \<Rightarrow> crud_entry list \<Rightarrow> quarantined list \<Rightarrow> sidecar \<Rightarrow> bool" where
  "reset_ok app queue qs reset =
     (work_ok app queue qs \<and> (reset_phase reset = JStr ''cleared'' \<longrightarrow> as_overlays app = [] \<and> queue = []))"

abbreviation client_ok :: "spike_client \<Rightarrow> bool" where
  "client_ok st \<equiv> reset_ok (sc_app st) (sc_queue st) (sc_quarantine st) (sc_resetFile st)"

lemma reset_ok_simps [simp]:
  "reset_ok (setReplicaSession x n a b app) queue qs r = reset_ok app queue qs r"
  by (simp_all add: reset_ok_def)

lemma reset_ok_rules:
  assumes "reset_ok app queue qs r"
  shows "rs_phase s \<noteq> JStr ''cleared'' \<Longrightarrow> reset_ok app queue qs (Content (reset_value s))"
    "reset_ok app [] qs r" "reset_ok (clearOverlays app) [] qs r'"
  using assms work_ok_unqueued work_ok_cleared by (auto simp: reset_ok_def)

lemma begin_reset_ok:
  assumes "client_ok st"
  shows "wp (begin_reset num_str str_num env session) (\<lambda>s st'. client_ok st' \<and> rs_phase s \<noteq> JStr ''cleared'') client_ok st"
  unfolding begin_reset_def Let_def reset_actions
  using assms by (intro wp_intros) (simp_all add: reset_ok_rules(1) [OF assms])

lemma stage_session_ok:
  assumes "client_ok st"
  shows "wp (stage_session num_str str_num env state) (\<lambda>s st'. client_ok st' \<and> rs_phase s \<noteq> JStr ''cleared'') client_ok st"
  unfolding stage_session_def Let_def reset_actions
  using assms by (intro wp_intros) (simp_all add: reset_ok_rules(1) [OF assms])

lemma clear_replica_ok:
  assumes "client_ok st"
  shows "wp (clear_replica num_str str_num env state)
     (\<lambda>s st'. client_ok st' \<and> (rs_phase s = JStr ''cleared'' \<longrightarrow> as_overlays (sc_app st') = [] \<and> sc_queue st' = [])) client_ok st"
  unfolding clear_replica_def Let_def reset_actions setSession_def
  using assms by (intro wp_intros) (simp_all add: reset_ok_rules(2,3) [OF assms])

lemma work_ok_finished:
  assumes "work_ok app [] qs" "as_overlays app = []"
    and "readQuarantineStore num_str str_num f = Inr (store, x)" "rmap (finalize_item classify rows) (qs_pending store) = Inr additions"
    and "mergeFinalizedQuarantine collate (qs_finalized store) additions = Inr merged"
    and "fst (resultCapacityUsage app) + int (length merged) \<le> 64"
    and "snd (resultCapacityUsage app) + finalizedQuarantineBytes merged \<le> 65536"
  shows "work_ok app [] merged"
proof -
  have m: "mset merged = mset (qs_finalized store @ additions)" "distinct (map qc_id (qs_finalized store @ additions))"
    using mergeFinalized_Inr [OF assms(5)] by auto
  have "distinct (map qc_id merged)"
    using m by (metis mset_eq_imp_distinct_iff mset_map)
  moreover have "512 \<le> qc_reserved q" if "q \<in> set merged" for q
  proof -
    have bytes: "store_bytes_ok store"
      using readQuarantineStore_Inr [of num_str str_num f store "fst x" "snd x"] assms(3) by simp
    have "qc_reserved ` set additions = qn_reserved ` set (qs_pending store)"
      using rmap_image [OF assms(4), of qn_reserved qc_reserved] by (simp add: finalize_item_Inr)
    moreover have "q \<in> set (qs_finalized store) \<union> set additions"
      using m(1) that by (metis mset_eq_setD set_append)
    ultimately show ?thesis
      using bytes unfolding store_bytes_ok_def by (metis UnE imageE imageI)
  qed
  ultimately show ?thesis
    using assms(1,2,6,7)
    by (simp add: work_ok_def spike_inv_def app_distinct_def rows_ok_def queue_ok_def within_capacity_def
        combinedCapacityUsage_def capacityUsage_def resultCapacityUsage_def)
qed

lemma finished_ok:
  assumes "reset_ok app queue qs r" "as_overlays app = []" "queue = []"
    and "readQuarantineStore num_str str_num f = Inr (store, x)" "rmap (finalize_item classify rows) (qs_pending store) = Inr additions"
    and "mergeFinalizedQuarantine collate (qs_finalized store) additions = Inr merged"
    and "fst (resultCapacityUsage app) + int (length merged) \<le> 64"
    and "snd (resultCapacityUsage app) + sum_list (map qc_reserved merged) \<le> 65536"
  shows "reset_ok app [] merged r'"
  using work_ok_finished [OF _ assms(2,4-7)] assms(1-3,8) by (simp add: reset_ok_def)

lemma finish_reset_ok:
  assumes "client_ok st" "rs_phase state = JStr ''cleared'' \<longrightarrow> as_overlays (sc_app st) = [] \<and> sc_queue st = []"
  shows "wp (finish_reset collate num_str str_num env state) (\<lambda>_. client_ok) client_ok st"
proof (cases "rs_phase state = JStr ''cleared''")
  case False
  then show ?thesis
    using assms(1) by (simp add: finish_reset_def wp_bind wp_lift)
next
  case True
  then have empty: "as_overlays (sc_app st) = []" "sc_queue st = []"
    using assms(2) by auto
  show ?thesis
    unfolding finish_reset_def Let_def reset_actions
    using assms(1) empty by (intro wp_intros) (simp_all add: finished_ok [OF assms(1) empty] pendingQuarantineBytes_def)
qed

lemma reset_bounded:
  assumes "client_ok st"
  shows "wp (performReplicaReset collate num_str str_num env) (\<lambda>_. client_ok) client_ok st"
proof (rule reset_rule [where R = "\<lambda>s st'. client_ok st'
      \<and> (rs_phase s = JStr ''cleared'' \<longrightarrow> as_overlays (sc_app st') = [] \<and> sc_queue st' = [])"])
  show "client_ok st \<and> (rs_phase s = JStr ''cleared'' \<longrightarrow> as_overlays (sc_app st) = [] \<and> sc_queue st = [])"
    if "readResetState num_str (own_file (sc_resetFile st)) (sc_resetFile st) = Inr (Some s)" for s
    using assms read_phase [OF that] by (simp add: reset_ok_def)
  show "wp (begin_reset num_str str_num env session) (\<lambda>s st'. client_ok st'
      \<and> (rs_phase s = JStr ''cleared'' \<longrightarrow> as_overlays (sc_app st') = [] \<and> sc_queue st' = [])) client_ok st" for session
    by (rule wp_mono [OF begin_reset_ok [OF assms]]) auto
  show "wp (stage_session num_str str_num env s) (\<lambda>s st'. client_ok st'
      \<and> (rs_phase s = JStr ''cleared'' \<longrightarrow> as_overlays (sc_app st') = [] \<and> sc_queue st' = [])) client_ok t"
    if "client_ok t \<and> (rs_phase s = JStr ''cleared'' \<longrightarrow> as_overlays (sc_app t) = [] \<and> sc_queue t = [])" for s t
    by (rule wp_mono [OF stage_session_ok]) (use that in auto)
qed (use assms in \<open>auto simp: clear_replica_ok finish_reset_ok\<close>)

end
