(* ===== verification/Replica_Resume_Properties.thy ===== *)
theory Replica_Resume_Properties
  imports Replica_Resume Replica_Reset_Properties
begin

text \<open>
  Reopening the PowerSync spike client after a crash: like another attempt of the reset in the same
  process, it loses no command.
\<close>

lemma wp_case_prodI [wp_intros]: "(\<And>a b. p = (a, b) \<Longrightarrow> wp (m a b) Q E st) \<Longrightarrow> wp (case_prod m p) Q E st"
  by (cases p) simp

lemma wp_optionI [wp_intros]:
  "(v = None \<Longrightarrow> wp m Q E st) \<Longrightarrow> (\<And>x. v = Some x \<Longrightarrow> wp (f x) Q E st) \<Longrightarrow> wp (case_option m f v) Q E st"
  by (cases v) simp_all

lemmas resume_actions = reset_actions use_session_def

lemma resume_phase_wp:
  assumes "resetting K st"
  shows "wp (resume_phase env state current) (\<lambda>_. resetting K) (client_kept K) st"
  unfolding resume_phase_def Let_def resume_actions
  using assms by (intro wp_intros) (simp_all add: resetting_kept)

lemma resume_clear_wp:
  assumes "resetting K st"
  shows "wp (resume_clear num_str str_num env state) (\<lambda>_. resetting K) (client_kept K) st"
  unfolding resume_clear_def Let_def resume_actions
  using assms by (intro wp_intros) (simp_all add: resetting_kept)

lemma connect_client_wp:
  assumes "client_kept K st"
  shows "wp (connect_client env) (\<lambda>_ s. client_kept K s \<and> sc_resetFile s = sc_resetFile st) (client_kept K) st"
  unfolding connect_client_def resume_actions
  using assms by (intro wp_intros) simp_all

lemma resume_finish_wp:
  assumes "resetting K st"
  shows "wp (resume_finish collate num_str str_num env state) (\<lambda>_. client_kept K) (client_kept K) st"
  unfolding resume_finish_def Let_def resume_actions
  using assms by (intro wp_intros) (simp_all add: resetting_kept finished_ids)

text \<open>Everything up to the branch on the reset state.\<close>

lemma admit_files_Inr:
  assumes "admit_files num_str str_num st = Inr (persisted, store, migrated)"
  shows "store_ids store = file_ids (sc_quarantineFile st)" "persisted \<noteq> None \<Longrightarrow> sc_resetFile st \<noteq> Absent"
    "distinct (map qc_id (qs_finalized store))" "store_bytes_ok store"
    "persisted = Some s \<Longrightarrow> rs_phase s = reset_phase (sc_resetFile st)"
  using assms readQuarantineStore_Inr [of num_str str_num "sc_quarantineFile st" store] read_phase
  by (auto simp: admit_files_def rbind_Inr_iff readResetState_def own_file_def assertPrivateRegularFile_def)

lemma open_keeps:
  assumes "client_kept K st"
  shows "wp (openSpikeClient collate num_str str_num env) (\<lambda>_. client_kept K) (client_kept K) st"
proof -
  have reset: "wp (resume_phase env state current) (\<lambda>x. wp (act_bind (resume_clear num_str str_num env x) (\<lambda>state.
      act_bind (connect_client env) (\<lambda>_. resume_finish collate num_str str_num env state))) (\<lambda>_. client_kept K) (client_kept K))
      (client_kept K) s"
    if s: "resetting K s" for s state current
  proof -
    have finish: "wp (act_bind (connect_client env) (\<lambda>_. resume_finish collate num_str str_num env x)) (\<lambda>_. client_kept K) (client_kept K) t"
      if "resetting K t" for x t
      unfolding wp_bind by (rule wp_mono [OF connect_client_wp]) (use that resume_finish_wp in auto)
    have "wp (act_bind (resume_clear num_str str_num env y) (\<lambda>state.
        act_bind (connect_client env) (\<lambda>_. resume_finish collate num_str str_num env state))) (\<lambda>_. client_kept K) (client_kept K) t"
      if "resetting K t" for y t
      unfolding wp_bind [of "resume_clear num_str str_num env y"] by (rule wp_mono [OF resume_clear_wp [OF that] finish])
    then show ?thesis
      by (intro wp_mono [OF resume_phase_wp [OF s]])
  qed
  have connect: "wp (connect_client env) (\<lambda>_. client_kept K) (client_kept K) s" if "client_kept K s" for s
    by (rule wp_mono [OF connect_client_wp [OF that]]) auto
  have stored: "client_kept K (st\<lparr>sc_quarantineFile := Content (store_value store)\<rparr>)"
    if "admit_files num_str str_num st = Inr (persisted, store, migrated)" for persisted store migrated
    using kept_stored [OF assms admit_files_Inr(1) [OF that]] by simp
  show ?thesis
    unfolding openSpikeClient_def admit_client_def resume_actions
    using assms
    by (intro wp_intros connect reset) (simp_all add: stored [simplified] admit_files_Inr(2))
qed

lemma new_keeps:
  assumes "client_kept K st"
  shows "wp (openNewClient num_str str_num env registration) (\<lambda>_. client_kept K) (client_kept K) st"
proof -
  have connect: "wp (connect_client env) (\<lambda>_. client_kept K) (client_kept K) s" if "client_kept K s" for s
    by (rule wp_mono [OF connect_client_wp [OF that]]) auto
  have stored: "client_kept K (st\<lparr>sc_quarantineFile := Content (store_value store)\<rparr>)"
    if "admit_files num_str str_num st = Inr (persisted, store, migrated)" for persisted store migrated
    using kept_stored [OF assms admit_files_Inr(1) [OF that]] by simp
  show ?thesis
    unfolding openNewClient_def admit_client_def resume_actions
    using assms by (intro wp_intros connect) (simp_all add: stored [simplified])
qed

section \<open>Reopening keeps the work bounded\<close>

abbreviation cleared_ok :: "reset_state \<Rightarrow> spike_client \<Rightarrow> bool" where
  "cleared_ok s st \<equiv> client_ok st \<and> (rs_phase s = JStr ''cleared'' \<longrightarrow> as_overlays (sc_app st) = [] \<and> sc_queue st = [])"

lemma resume_phase_ok:
  assumes "cleared_ok state st"
  shows "wp (resume_phase env state current) cleared_ok client_ok st"
proof -
  have ok: "client_ok st"
    using assms by simp
  show ?thesis
    unfolding resume_phase_def Let_def resume_actions
    using assms by (intro wp_intros) (simp_all add: reset_ok_rules(1) [OF ok])
qed

lemma resume_clear_ok:
  assumes "cleared_ok state st"
  shows "wp (resume_clear num_str str_num env state) cleared_ok client_ok st"
proof -
  have ok: "client_ok st"
    using assms by simp
  show ?thesis
    unfolding resume_clear_def Let_def resume_actions
    using assms by (intro wp_intros) (simp_all add: reset_ok_rules(2,3) [OF ok])
qed

lemma connect_client_ok:
  assumes "client_ok st"
  shows "wp (connect_client env) (\<lambda>_ s. client_ok s \<and> as_overlays (sc_app s) = as_overlays (sc_app st) \<and> sc_queue s = sc_queue st) client_ok st"
  unfolding connect_client_def resume_actions
  using assms by (intro wp_intros) simp_all

lemma resume_finish_ok:
  assumes "cleared_ok state st"
  shows "wp (resume_finish collate num_str str_num env state) (\<lambda>_. client_ok) client_ok st"
proof (cases "rs_phase state = JStr ''cleared''")
  case False
  then show ?thesis
    using assms by (simp add: resume_finish_def wp_bind wp_lift)
next
  case True
  then have ok: "client_ok st" and empty: "as_overlays (sc_app st) = []" "sc_queue st = []"
    using assms by auto
  show ?thesis
    unfolding resume_finish_def Let_def resume_actions
    using ok empty by (intro wp_intros) (simp_all add: finished_ok [OF ok empty] pendingQuarantineBytes_def)
qed

lemma admitted_ok:
  assumes "client_ok st" "admit_files num_str str_num st = Inr (persisted, store, migrated)" "admit_capacity store (sc_app st) = Inr ()"
  shows "reset_ok (sc_app st) (sc_queue st) (qs_finalized store) (sc_resetFile st)"
  using assms(1,3) admit_files_Inr(3,4) [OF assms(2)]
  by (auto simp: reset_ok_def work_ok_def spike_inv_def rows_ok_def queue_ok_def within_capacity_def combinedCapacityUsage_def
      admit_capacity_def rbind_Inr_iff assertCombinedOutstandingCapacity_def store_bytes_ok_def maxOutstanding_def
      maxOutstandingBytes_def split: sum.splits)

lemma new_bounded:
  assumes "client_ok st"
  shows "wp (openNewClient num_str str_num env registration) (\<lambda>_. client_ok) client_ok st"
proof -
  have connect: "wp (connect_client env) (\<lambda>_. client_ok) client_ok s" if "client_ok s" for s
    by (rule wp_mono [OF connect_client_ok [OF that]]) auto
  show ?thesis
    unfolding openNewClient_def admit_client_def resume_actions
    using assms by (intro wp_intros connect) (simp_all add: admitted_ok [OF assms])
qed

lemma open_bounded:
  assumes "client_ok st"
  shows "wp (openSpikeClient collate num_str str_num env) (\<lambda>_. client_ok) client_ok st"
proof -
  have finish: "wp (act_bind (connect_client env) (\<lambda>_. resume_finish collate num_str str_num env x)) (\<lambda>_. client_ok) client_ok t"
    if "cleared_ok x t" for x t
    unfolding wp_bind by (rule wp_mono [OF connect_client_ok]) (use that resume_finish_ok in auto)
  have clear: "wp (act_bind (resume_clear num_str str_num env x) (\<lambda>state.
      act_bind (connect_client env) (\<lambda>_. resume_finish collate num_str str_num env state))) (\<lambda>_. client_ok) client_ok t"
    if "cleared_ok x t" for x t
    unfolding wp_bind [of "resume_clear num_str str_num env x"] by (rule wp_mono [OF resume_clear_ok [OF that] finish])
  have reset: "wp (resume_phase env state current) (\<lambda>x. wp (act_bind (resume_clear num_str str_num env x) (\<lambda>state.
      act_bind (connect_client env) (\<lambda>_. resume_finish collate num_str str_num env state))) (\<lambda>_. client_ok) client_ok)
      client_ok s" if "cleared_ok state s" for s state current
    by (intro wp_mono [OF resume_phase_ok [OF that]] clear)
  have connect: "wp (connect_client env) (\<lambda>_. client_ok) client_ok s" if "client_ok s" for s
    by (rule wp_mono [OF connect_client_ok [OF that]]) auto
  have phase: "reset_phase (sc_resetFile st) = JStr ''cleared'' \<Longrightarrow> as_overlays (sc_app st) = [] \<and> sc_queue st = []"
    using assms by (simp add: reset_ok_def)
  show ?thesis
    unfolding openSpikeClient_def admit_client_def resume_actions
    using assms by (intro wp_intros connect reset) (simp_all add: admitted_ok [OF assms] admit_files_Inr(5) phase)
qed

section \<open>Steps of the client\<close>

text \<open>
  What the application, the SDK and the server can make the client do, in any order. Commands are queued
  under version 4 UUIDs and not while a reset is unfinished; the SDK's binding of values to text agrees
  with \<open>String(...)\<close> on identifiers.
\<close>

inductive spike_step :: "spike_client \<Rightarrow> spike_client \<Rightarrow> bool" where
  Queue: "sc_resetFile st = Absent \<Longrightarrow> \<forall>c \<in> set cs. commandUuid (qi_commandId c) \<Longrightarrow>
    spike_step st (fst (queueCommands replicated sdk corr cs st))"
| Upload: "binds_ids num_str nonstr \<Longrightarrow> spike_step st (fst (uploadData sha num_str nonstr sdk reply st))"
| Acknowledge: "spike_step st (fst (acknowledgeCommandResult i st))"
| Discard: "spike_step st (fst (acknowledgeOrDiscardQuarantinedCommand writing i st))"
| Reset: "spike_step st (fst (performReplicaReset collate num_str str_num env st))"
| Reopen: "spike_step st (fst (openSpikeClient collate num_str str_num env st))"
| Open: "spike_step st (fst (openNewClient num_str str_num env registration st))"

definition spike_start :: "spike_client \<Rightarrow> bool" where
  "spike_start st = (spike_init st \<and> sc_resetFile st = Absent)"

definition client_inv :: "spike_client \<Rightarrow> bool" where
  "client_inv st = (client_ok st \<and> queue_uuids st)"

definition queue_frame :: "spike_client \<Rightarrow> spike_client \<Rightarrow> bool" where
  "queue_frame st st' = (sc_resetFile st' = sc_resetFile st \<and> set (sc_queue st') \<subseteq> set (sc_queue st))"

lemma queue_frame_refl [simp]:
  "queue_frame st st" "queue_frame st (st\<lparr>sc_resetRequired := b\<rparr>)" "queue_frame st (st\<lparr>sc_app := app\<rparr>)"
  "queue_frame st (st\<lparr>sc_app := app, sc_queue := tl (sc_queue st)\<rparr>)"
  by (cases "sc_queue st"; auto simp: queue_frame_def)+

lemma complete_frame [simp]: "queue_frame st (fst (completeWithResults num_str nonstr sdk rs st))"
  by (simp add: completeWithResults_def split: sum.split)

lemma transient_frame [simp]: "queue_frame st (fst (transient_failure sha num_str nonstr sdk c session e st))"
proof -
  have "queue_frame st (fst (completeWithResults num_str nonstr sdk rs (st\<lparr>sc_app := app\<rparr>)))" for rs app
    using complete_frame [of "st\<lparr>sc_app := app\<rparr>"] by (simp add: queue_frame_def)
  then show ?thesis
    by (simp add: transient_failure_def split: sum.split prod.split)
qed

lemma upload_frame: "queue_frame st (fst (uploadData sha num_str nonstr sdk reply st))"
  by (simp add: uploadData_def Let_def split: list.split sum.split option.split reply.split)

lemma reset_uuids: "keeps queue_uuids (performReplicaReset collate num_str str_num env)"
  unfolding performReplicaReset_def begin_reset_def stage_session_def clear_replica_def finish_reset_def Let_def
    reset_actions setSession_def
  by (intro keeps_intros) (simp_all add: queue_uuids_def)

lemma open_uuids: "keeps queue_uuids (openSpikeClient collate num_str str_num env)"
  unfolding openSpikeClient_def admit_client_def connect_client_def resume_phase_def resume_clear_def resume_finish_def Let_def resume_actions
  by (intro keeps_intros) (simp_all add: queue_uuids_def)

lemma new_uuids: "keeps queue_uuids (openNewClient num_str str_num env registration)"
  unfolding openNewClient_def admit_client_def connect_client_def Let_def resume_actions
  by (intro keeps_intros) (simp_all add: queue_uuids_def)

lemma client_inv_step:
  assumes "spike_step st st'" "client_inv st"
  shows "client_inv st'"
  using assms
proof cases
  case (Queue cs replicated sdk corr)
  have inv: "spike_inv st'"
    using queue_inv assms(2) Queue(1) by (simp add: client_inv_def reset_ok_def spike_inv_work_ok)
  have "sc_resetFile st' = Absent \<and> queue_uuids st'"
  proof (cases rule: queueCommands_cases [of replicated sdk corr cs st])
    case unchanged
    then show ?thesis using assms(2) Queue by (simp add: client_inv_def)
  next
    case (queued c ov)
    then show ?thesis
      using assms(2) Queue bindCommand_Inr [OF queued(2)] by (auto simp: client_inv_def queue_uuids_def queue_entry_def)
  qed
  then show ?thesis
    using inv by (simp add: client_inv_def reset_ok_def spike_inv_work_ok)
next
  case (Upload num_str nonstr sha sdk reply)
  have "spike_inv st'"
    using upload_inv assms(2) Upload by (simp add: client_inv_def reset_ok_def spike_inv_work_ok)
  moreover have "queue_uuids st'" "sc_resetFile st' = sc_resetFile st"
    using upload_frame [of st sha num_str nonstr sdk reply] assms(2) Upload(1) by (auto simp: client_inv_def queue_uuids_def queue_frame_def)
  moreover have "st' = st" if "sc_queue st = []"
    using that Upload(1) by (simp add: uploadData_def)
  ultimately show ?thesis
    using assms(2) by (auto simp: client_inv_def reset_ok_def spike_inv_work_ok)
next
  case (Acknowledge i)
  have "spike_inv st'"
    using ack_result_inv assms(2) Acknowledge by (simp add: client_inv_def reset_ok_def spike_inv_work_ok)
  then show ?thesis
    using assms(2) Acknowledge
    by (simp add: client_inv_def reset_ok_def spike_inv_work_ok queue_uuids_def acknowledgeCommandResult_def acknowledgeResult_def)
next
  case (Discard writing i)
  have "spike_inv st'"
    using ack_quarantine_inv assms(2) Discard by (simp add: client_inv_def reset_ok_def spike_inv_work_ok)
  moreover have "sc_app st' = sc_app st \<and> sc_queue st' = sc_queue st \<and> sc_resetFile st' = sc_resetFile st"
    using Discard by (simp add: acknowledgeOrDiscardQuarantinedCommand_def split: option.split outcome.split)
  ultimately show ?thesis
    using assms(2) by (simp add: client_inv_def reset_ok_def spike_inv_work_ok queue_uuids_def)
next
  case (Reset collate num_str str_num env)
  have "client_ok st'"
    using reset_bounded assms(2) Reset by (simp add: client_inv_def wp_fst [of client_ok])
  moreover have "queue_uuids st'"
    using keepsD [OF reset_uuids] assms(2) Reset by (simp add: client_inv_def)
  ultimately show ?thesis
    by (simp add: client_inv_def)
next
  case (Reopen collate num_str str_num env)
  have "client_ok st'"
    using open_bounded assms(2) Reopen by (simp add: client_inv_def wp_fst [of client_ok])
  moreover have "queue_uuids st'"
    using keepsD [OF open_uuids] assms(2) Reopen by (simp add: client_inv_def)
  ultimately show ?thesis
    by (simp add: client_inv_def)
next
  case (Open num_str str_num env registration)
  have "client_ok st'"
    using new_bounded assms(2) Open by (simp add: client_inv_def wp_fst [of client_ok])
  moreover have "queue_uuids st'"
    using keepsD [OF new_uuids] assms(2) Open by (simp add: client_inv_def)
  ultimately show ?thesis
    by (simp add: client_inv_def)
qed

interpretation spike: invariant_system spike_start spike_step client_inv
proof unfold_locales
  show "client_inv s" if "spike_start s" for s
    using that spike_inv_init [of s]
    by (simp add: spike_start_def client_inv_def reset_ok_def spike_inv_work_ok queue_uuids_def spike_init_def)
  show "client_inv t" if "spike_step s t" "client_inv s" for s t
    by (rule client_inv_step [OF that])
qed

end
