(* ===== verification/Quarantine_Properties.thy ===== *)
theory Quarantine_Properties
  imports Replica_Reset_Properties
begin

text \<open>
  Properties of the quarantine file of the PowerSync spike client: the reservation of an entry covers every
  form in which it is stored, and reading the file gives back what was written.
\<close>

section \<open>Sizes\<close>

lemma utf8_len_simps [simp]:
  "utf8_len [] = 0" "utf8_len (c # s) = char_bytes c + utf8_len s" "utf8_len (s @ t) = utf8_len s + utf8_len t"
  by (simp_all add: utf8_len_def)

lemma utf8_len_nonneg [simp]: "0 \<le> utf8_len s"
  by (induction s) (simp_all add: char_bytes_def)

lemma json_join_len: "fs \<noteq> [] \<Longrightarrow> utf8_len (json_join fs) = sum_list (map (\<lambda>f. utf8_len f + 1) fs) - 1"
proof (induction fs rule: json_join.induct)
  case (3 x y xs)
  then show ?case by (simp add: char_bytes_code)
qed simp_all

lemma json_bytes_sum:
  assumes "fs \<noteq> []"
  shows "json_bytes fs = 1 + sum_list (map (\<lambda>(k, v). utf8_len (json_field k v) + 1) fs)"
  using assms json_join_len [of "map (\<lambda>(k, v). json_field k v) fs"]
  by (simp add: json_bytes_def json_object_def char_bytes_code comp_def case_prod_unfold)

lemma json_field_len: "utf8_len (json_field k v) = utf8_len (json_string k) + 1 + utf8_len v"
  by (simp add: json_field_def char_bytes_code)

lemma nat_str_len: "n < 10 ^ k \<Longrightarrow> 0 < k \<Longrightarrow> length (nat_str n) \<le> k"
proof (induction k arbitrary: n)
  case (Suc k)
  show ?case
  proof (cases "n < 10")
    case True
    then show ?thesis by (simp add: nat_str.simps)
  next
    case False
    then have "0 < k"
      using Suc.prems by (cases k) auto
    moreover have "n div 10 < 10 ^ k"
      using Suc.prems by (simp add: less_mult_imp_div_less)
    ultimately show ?thesis
      using Suc.IH False by (simp add: nat_str.simps [of n])
  qed
qed simp

lemma nat_str_ascii: "c \<in> set (nat_str n) \<Longrightarrow> char_bytes c = 1"
proof (induction n rule: nat_str.induct)
  case (1 n)
  have "char_bytes (digit_char d) = 1" if "d < 10" for d
    using that by (simp add: digit_char_def char_bytes_def)
  then show ?case
    using 1 by (subst (asm) nat_str.simps) (auto split: if_splits)
qed

lemma int_str_len:
  assumes "0 \<le> i" "i < 10 ^ k" "0 < k"
  shows "utf8_len (int_str i) \<le> int k"
proof -
  have "\<forall>c \<in> set s. char_bytes c = 1 \<Longrightarrow> utf8_len s = int (length s)" for s
    by (induction s) simp_all
  then have "utf8_len (nat_str n) = int (length (nat_str n))" for n
    using nat_str_ascii by blast
  moreover have "length (nat_str (nat i)) \<le> k"
    using assms by (intro nat_str_len) (simp_all add: nat_less_iff)
  ultimately show ?thesis
    using assms(1) by (simp add: int_str_def)
qed

lemma reserved_len: "0 \<le> r \<Longrightarrow> r \<le> 65536 \<Longrightarrow> utf8_len (int_str r) \<le> 5"
  using int_str_len [of r 5] by simp

text \<open>The part of a stored entry that depends on its identifying fields, and the rest of each form.\<close>

definition base_size :: "'a quarantine_base_scheme \<Rightarrow> int" where
  "base_size e = 1 + sum_list (map (\<lambda>(k, v). utf8_len (json_field k v) + 1) (base_fields e))"

lemma literal_sizes:
  "utf8_len (json_string ''initiallyAuthorized'') = 21" "utf8_len (json_string ''reserved_bytes'') = 16"
  "utf8_len (json_string ''state'') = 7" "utf8_len (json_string ''exportable'') = 12"
  "utf8_len (json_string ''pending_review'') = 16" "utf8_len (json_string ''invalidated'') = 13"
  "utf8_len ''true'' = 4" "utf8_len ''false'' = 5" "utf8_len (int_str 1) = 1" "utf8_len (int_str 0) = 1"
  "utf8_len (int_str 65536) = 5"
  by code_simp+

lemma form_sizes:
  "json_bytes (base_fields e @ intent_fields True r) = base_size e + 45 + utf8_len (int_str r)"
  "json_bytes (base_fields e @ intent_fields False r) = base_size e + 46 + utf8_len (int_str r)"
  "json_bytes (base_fields e @ final_fields Pending_review 1 r) = base_size e + 58 + utf8_len (int_str r)"
  "json_bytes (base_fields e @ final_fields Invalidated 0 r) = base_size e + 55 + utf8_len (int_str r)"
  by (simp_all add: json_bytes_sum base_size_def intent_fields_def final_fields_def base_fields_def json_field_len
      literal_sizes state_name_def char_bytes_code)

lemma reservation_size:
  "quarantineEntryReservationBytes e = max (base_size e + 63) (max (base_size (e\<lparr>qc_payload := None\<rparr>) + 60) 512)"
  by (simp add: quarantineEntryReservationBytes_def Let_def form_sizes literal_sizes maxOutstandingBytes_def
      terminalResultReservationBytes_def)

section \<open>Properties\<close>

text \<open>C21. The comment of \<open>quarantineEntryReservationBytes\<close> holds: a reservation of that many bytes, or more, covers the
  entry in every form in which it is ever stored, its own size included: waiting for the reset, authorized or
  not, kept for review, and invalidated without its payload.\<close>
theorem reservation_covers_every_form:
  assumes "quarantineEntryReservationBytes e \<le> r" "r \<le> 65536"
  shows "512 \<le> r \<and> json_bytes (base_fields e @ intent_fields authorized r) \<le> r
     \<and> json_bytes (base_fields e @ final_fields Pending_review 1 r) \<le> r
     \<and> json_bytes (base_fields (e\<lparr>qc_payload := None\<rparr>) @ final_fields Invalidated 0 r) \<le> r"
proof -
  have "512 \<le> r" "base_size e + 63 \<le> r" "base_size (e\<lparr>qc_payload := None\<rparr>) + 60 \<le> r"
    using assms(1) by (simp_all add: reservation_size)
  then show ?thesis
    using reserved_len [of r] assms(2) by (cases authorized) (simp_all add: form_sizes)
qed

definition demo_base :: quarantine_base where
  "demo_base = \<lparr>qc_id = ''a'', qc_resource_id = ''r'', qc_incarnation_id = ''i'', qc_type = ''t'', qc_payload = Some ''x'',
     qc_expected = Some 1\<rparr>"

theorem reservation_covers_every_form_witness:
  "quarantineEntryReservationBytes demo_base = 512 \<and> json_bytes (base_fields demo_base @ intent_fields False 512) \<le> 512"
proof -
  have "quarantineEntryReservationBytes demo_base = 512"
    by code_simp
  then show ?thesis
    using reservation_covers_every_form [of demo_base 512 False] by simp
qed

section \<open>Reading back\<close>

definition wf_base :: "'a quarantine_base_scheme \<Rightarrow> bool" where
  "wf_base q = (qc_id q \<noteq> '''' \<and> qc_resource_id q \<noteq> '''' \<and> qc_incarnation_id q \<noteq> '''' \<and> qc_type q \<noteq> ''''
     \<and> qc_payload q \<noteq> Some '''' \<and> (case qc_expected q of None \<Rightarrow> True | Some v \<Rightarrow> 1 \<le> v \<and> v \<le> max_safe))"

definition reserved_ok :: "'a quarantine_base_scheme \<Rightarrow> int \<Rightarrow> bool" where
  "reserved_ok q r = (quarantineEntryReservationBytes q \<le> r \<and> r \<le> 65536)"

definition wf_intent :: "quarantine_intent \<Rightarrow> bool" where
  "wf_intent q = (wf_base q \<and> qc_expected q \<noteq> None \<and> (\<not> qn_authorized q \<longrightarrow> qc_payload q = None) \<and> reserved_ok q (qn_reserved q))"

definition wf_final :: "quarantined \<Rightarrow> bool" where
  "wf_final q = (wf_base q \<and> qc_exportable q = (if qc_state q = Pending_review then 1 else 0)
     \<and> (qc_state q = Invalidated \<longrightarrow> qc_payload q = None) \<and> reserved_ok q (qc_reserved q))"

definition wf_store :: "quarantine_store \<Rightarrow> bool" where
  "wf_store store = ((\<forall>q \<in> set (qs_finalized store). wf_final q) \<and> (\<forall>q \<in> set (qs_pending store). wf_intent q)
     \<and> distinct (map qc_id (qs_finalized store) @ map qc_id (qs_pending store)))"

lemma base_fields_extend [simp]:
  "base_fields (quarantine_base.extend b x) = base_fields b"
  "quarantineEntryReservationBytes (quarantine_base.extend b x) = quarantineEntryReservationBytes b"
  by (simp_all add: base_fields_def quarantineEntryReservationBytes_def Let_def quarantine_base.defs)

lemma wf_extend [simp]:
  "wf_base (quarantine_base.extend b x) = wf_base b" "reserved_ok (quarantine_base.extend b x) r = reserved_ok b r"
  by (simp_all add: wf_base_def reserved_ok_def)

lemma quarantine_payload_Inr:
  "quarantine_payload v = Inr p \<longleftrightarrow> (v = JNull \<and> p = None) \<or> (\<exists>s. v = JStr s \<and> s \<noteq> '''' \<and> p = Some s)"
  by (auto simp: quarantine_payload_def rbind_Inr_iff quarantineString_Inr)

lemma safe_integer_bound: "num_isSafeInteger n \<Longrightarrow> num_int n \<le> max_safe"
  using num_isInteger_Some [of n] by (auto simp: num_isSafeInteger_def)

lemma expected_version_Inr:
  "expected_version num_str str_num v = Inr i \<Longrightarrow> 1 \<le> i \<and> i \<le> max_safe"
  by (auto simp: expected_version_def rbind_Inr_iff safe_integer_bound)

lemma normalizePending_wf:
  assumes "normalizePendingQuarantine num_str str_num raw = Inr q"
  shows "wf_intent q"
proof -
  obtain payload expected base reserved where parts: "isRecord raw"
    "quarantine_payload (obj_get (props_of raw) ''payload'') = Inr payload"
    "\<not> bool_of (obj_get (props_of raw) ''initiallyAuthorized'') \<Longrightarrow> payload = None"
    "expected_version num_str str_num (obj_get (props_of raw) ''expected_record_version'') = Inr expected"
    "read_base (props_of raw) payload (Some expected) = Inr base"
    "normalizeQuarantineReservation num_str str_num (obj_get (props_of raw) ''reserved_bytes'') base = Inr reserved"
    "q = quarantine_base.extend base (quarantine_intent.fields (bool_of (obj_get (props_of raw) ''initiallyAuthorized'')) reserved)"
    using assms by (auto simp: normalizePendingQuarantine_def Let_def rbind_Inr_iff)
  then show ?thesis
    using expected_version_Inr [OF parts(4)] normalizeQuarantineReservation_Inr [OF parts(6)]
    by (auto simp: wf_intent_def wf_base_def reserved_ok_def read_base_Inr quarantine_payload_Inr)
qed

lemma normalizeFinalized_wf:
  assumes "normalizeFinalizedQuarantine num_str str_num legacy raw = Inr q"
  shows "wf_final q"
proof -
  let ?version = "obj_get (props_of raw) ''expected_record_version''"
  obtain state payload exportable expected base reserved where parts:
    "quarantine_payload (obj_get (props_of raw) ''payload'') = Inr payload"
    "\<not> (state = Pending_review \<and> num_val exportable \<noteq> Some 1)"
    "\<not> (state = Invalidated \<and> (num_val exportable \<noteq> Some 0 \<or> payload \<noteq> None))"
    "(if ?version = JNull \<or> (legacy \<and> ?version = JUndef) then Inr None
      else rbind (expected_version num_str str_num ?version) (\<lambda>v. Inr (Some v))) = Inr expected"
    "read_base (props_of raw) payload expected = Inr base"
    "normalizeQuarantineReservation num_str str_num (obj_get (props_of raw) ''reserved_bytes'') base = Inr reserved"
    "q = quarantine_base.extend base (quarantined.fields state (num_int exportable) reserved)"
    using assms unfolding normalizeFinalizedQuarantine_def Let_def rbind_Inr_iff guard_Inr_iff by blast
  have "case expected of None \<Rightarrow> True | Some v \<Rightarrow> 1 \<le> v \<and> v \<le> max_safe"
    using parts(4) by (auto simp: rbind_Inr_iff split: if_splits dest: expected_version_Inr)
  moreover have "num_int exportable = (if state = Pending_review then 1 else 0)"
    using parts(2,3) by (cases state) (auto simp: num_int_def)
  ultimately show ?thesis
    using parts(1,3,5,7) normalizeQuarantineReservation_Inr [OF parts(6)]
    by (auto simp: wf_final_def wf_base_def reserved_ok_def read_base_Inr quarantine_payload_Inr)
qed

lemma read_legacy_wf:
  "read_legacy num_str str_num items store = Inr store' \<Longrightarrow>
     \<forall>q \<in> set (qs_finalized store). wf_final q \<Longrightarrow> \<forall>q \<in> set (qs_pending store). wf_intent q \<Longrightarrow>
     (\<forall>q \<in> set (qs_finalized store'). wf_final q) \<and> (\<forall>q \<in> set (qs_pending store'). wf_intent q)"
proof (induction num_str str_num items store rule: read_legacy.induct)
  case (1 num_str str_num store)
  then show ?case by simp
next
  case (2 num_str str_num item items store)
  show ?case
  proof (cases "quarantine_state_of (legacy_field item ''state'') \<noteq> None")
    case True
    then obtain q where q: "normalizeFinalizedQuarantine num_str str_num True item = Inr q"
      "read_legacy num_str str_num items (store\<lparr>qs_finalized := qs_finalized store @ [q]\<rparr>) = Inr store'"
      using 2(3) by (auto simp: rbind_Inr_iff)
    show ?thesis
      using 2(1) [OF True q(2)] 2(4,5) normalizeFinalized_wf [OF q(1)] by auto
  next
    case False
    then obtain q where q: "normalizePendingQuarantine num_str str_num item = Inr q"
      "read_legacy num_str str_num items (store\<lparr>qs_pending := qs_pending store @ [q]\<rparr>) = Inr store'"
      using 2(3) by (auto simp: rbind_Inr_iff)
    show ?thesis
      using 2(2) [OF False q(2)] 2(4,5) normalizePending_wf [OF q(1)] by auto
  qed
qed

lemma readQuarantineStore_wf:
  assumes "readQuarantineStore num_str str_num f = Inr (store, x)"
  shows "wf_store store"
proof -
  have "distinct (map qc_id (qs_finalized store) @ map qc_id (qs_pending store))"
    using readQuarantineStore_Inr [of num_str str_num f store "fst x" "snd x"] assms by simp
  moreover have "(\<forall>q \<in> set (qs_finalized store). wf_final q) \<and> (\<forall>q \<in> set (qs_pending store). wf_intent q)"
  proof (cases f)
    case (Content v)
    then consider fs ps where
        "rmap (normalizeFinalizedQuarantine num_str str_num False) (arr_of (obj_get (props_of v) ''finalized'')) = Inr fs"
        "rmap (normalizePendingQuarantine num_str str_num) (arr_of (obj_get (props_of v) ''pending'')) = Inr ps"
        "store = \<lparr>qs_finalized = fs, qs_pending = ps\<rparr>"
      | "read_legacy num_str str_num (arr_of (obj_get (props_of v) ''commands'')) empty_store = Inr store"
      using assms by (auto simp: readQuarantineStore_def Let_def rbind_Inr_iff split: if_splits)
    then show ?thesis
    proof cases
      case 1
      then show ?thesis
        using rmap_all [OF 1(1), of wf_final] rmap_all [OF 1(2), of wf_intent] normalizeFinalized_wf normalizePending_wf
        by auto
    next
      case 2
      then show ?thesis
        using read_legacy_wf [OF 2] by (simp add: empty_store_def)
    qed
  qed (use assms in \<open>auto simp: readQuarantineStore_def empty_store_def\<close>)
  ultimately show ?thesis
    by (simp add: wf_store_def)
qed

lemma expected_version_value:
  "1 \<le> v \<Longrightarrow> v \<le> max_safe \<Longrightarrow> expected_version num_str str_num (JInt v) = Inr v"
  by (simp add: expected_version_def number_or_throw_def)

lemma reservation_value:
  assumes "reserved_ok q r"
  shows "normalizeQuarantineReservation num_str str_num (JInt r) q = Inr r"
proof -
  have "512 \<le> r" "r \<le> max_safe"
    using assms reservation_ge [of q] by (auto simp: reserved_ok_def max_safe_def)
  then show ?thesis
    using assms
    by (simp add: normalizeQuarantineReservation_def number_or_throw_def reserved_ok_def maxOutstandingBytes_def)
qed

lemma payload_value:
  "p \<noteq> Some '''' \<Longrightarrow> quarantine_payload (case p of None \<Rightarrow> JNull | Some s \<Rightarrow> JStr s) = Inr p"
  by (cases p) (auto simp: quarantine_payload_Inr)

lemma form_fits:
  assumes "reserved_ok q r"
  shows "json_bytes (base_fields q @ intent_fields a r) \<le> r"
    "s = Invalidated \<longrightarrow> qc_payload q = None \<Longrightarrow>
       json_bytes (base_fields q @ final_fields s (if s = Pending_review then 1 else 0) r) \<le> r"
proof -
  have "base_size q + 63 \<le> r" "0 \<le> r" "r \<le> 65536"
    using assms reservation_ge [of q] by (auto simp: reserved_ok_def reservation_size)
  then show "json_bytes (base_fields q @ intent_fields a r) \<le> r"
    "json_bytes (base_fields q @ final_fields s (if s = Pending_review then 1 else 0) r) \<le> r"
    using reserved_len [of r] by (cases a; cases s; simp add: form_sizes)+
qed

lemma truncate_simps [simp]:
  "qc_id (quarantine_base.truncate q) = qc_id q" "qc_resource_id (quarantine_base.truncate q) = qc_resource_id q"
  "qc_incarnation_id (quarantine_base.truncate q) = qc_incarnation_id q" "qc_type (quarantine_base.truncate q) = qc_type q"
  "qc_payload (quarantine_base.truncate q) = qc_payload q" "qc_expected (quarantine_base.truncate q) = qc_expected q"
  "base_fields (quarantine_base.truncate q) = base_fields q"
  "reserved_ok (quarantine_base.truncate q) r = reserved_ok q r"
  by (simp_all add: quarantine_base.defs base_fields_def reserved_ok_def quarantineEntryReservationBytes_def Let_def)

lemma extend_truncate:
  "quarantine_base.extend (quarantine_base.truncate q) (quarantine_intent.fields (qn_authorized q) (qn_reserved q)) = q"
  "quarantine_base.extend (quarantine_base.truncate f) (quarantined.fields (qc_state f) (qc_exportable f) (qc_reserved f)) = f"
  by (cases q; simp add: quarantine_base.defs quarantine_intent.defs) (cases f; simp add: quarantine_base.defs quarantined.defs)

lemma read_base_value:
  assumes "wf_base q" "obj_get ps ''id'' = JStr (qc_id q)" "obj_get ps ''resource_id'' = JStr (qc_resource_id q)"
    "obj_get ps ''resource_incarnation_id'' = JStr (qc_incarnation_id q)" "obj_get ps ''command_type'' = JStr (qc_type q)"
  shows "read_base ps (qc_payload q) (qc_expected q) = Inr (quarantine_base.truncate q)"
  using assms by (simp add: read_base_Inr wf_base_def)

lemma normalizePending_value:
  assumes "wf_intent q"
  shows "normalizePendingQuarantine num_str str_num (intent_value q) = Inr q"
proof -
  let ?ps = "props_of (intent_value q)"
  obtain v where v: "qc_expected q = Some v" "1 \<le> v" "v \<le> max_safe"
    using assms by (auto simp: wf_intent_def wf_base_def split: option.splits)
  have get: "obj_get ?ps ''payload'' = (case qc_payload q of None \<Rightarrow> JNull | Some s \<Rightarrow> JStr s)"
    "obj_get ?ps ''initiallyAuthorized'' = JBool (qn_authorized q)" "obj_get ?ps ''expected_record_version'' = JInt v"
    "obj_get ?ps ''reserved_bytes'' = JInt (qn_reserved q)" "isRecord (intent_value q)"
    by (simp_all add: intent_value_def obj_get_Cons v(1))
  have base: "read_base ?ps (qc_payload q) (Some v) = Inr (quarantine_base.truncate q)"
    using assms read_base_value [of q ?ps] v(1) by (simp add: wf_intent_def intent_value_def obj_get_Cons)
  have ok: "reserved_ok (quarantine_base.truncate q) (qn_reserved q)"
    using assms by (simp add: wf_intent_def)
  show ?thesis
    using assms ok form_fits(1) [OF ok, of "qn_authorized q"]
    by (auto simp: normalizePendingQuarantine_def Let_def get payload_value wf_intent_def wf_base_def expected_version_value
        v base reservation_value [OF ok] extend_truncate)
qed

lemma normalizeFinalized_value:
  assumes "wf_final q"
  shows "normalizeFinalizedQuarantine num_str str_num legacy (quarantined_value q) = Inr q"
proof -
  let ?ps = "props_of (quarantined_value q)"
  have get: "obj_get ?ps ''payload'' = (case qc_payload q of None \<Rightarrow> JNull | Some s \<Rightarrow> JStr s)"
    "obj_get ?ps ''exportable'' = JInt (qc_exportable q)" "obj_get ?ps ''state'' = JStr (state_name (qc_state q))"
    "obj_get ?ps ''expected_record_version'' = (case qc_expected q of None \<Rightarrow> JNull | Some v \<Rightarrow> JInt v)"
    "obj_get ?ps ''reserved_bytes'' = JInt (qc_reserved q)" "isRecord (quarantined_value q)"
    by (simp_all add: quarantined_value_def obj_get_Cons)
  have base: "read_base ?ps (qc_payload q) (qc_expected q) = Inr (quarantine_base.truncate q)"
    using assms read_base_value [of q ?ps] by (simp add: wf_final_def quarantined_value_def obj_get_Cons)
  have ok: "reserved_ok (quarantine_base.truncate q) (qc_reserved q)"
    using assms by (simp add: wf_final_def)
  let ?v = "case qc_expected q of None \<Rightarrow> JNull | Some v \<Rightarrow> JInt v"
  have expected: "(if ?v = JNull \<or> (legacy \<and> ?v = JUndef) then Inr None
      else rbind (expected_version num_str str_num ?v) (\<lambda>v. Inr (Some v))) = Inr (qc_expected q)"
    using assms by (cases "qc_expected q") (auto simp: wf_final_def wf_base_def expected_version_value)
  have state: "quarantine_state_of (JStr (state_name (qc_state q))) = Some (qc_state q)"
    by (cases "qc_state q") (simp_all add: quarantine_state_of_def state_name_def)
  have exportable: "num_val (of_int_num (qc_exportable q)) = Some (if qc_state q = Pending_review then 1 else 0)"
    "number_or_throw num_str str_num (JInt (qc_exportable q)) = Inr (of_int_num (qc_exportable q))"
    using assms by (simp_all add: wf_final_def of_int_num_def number_or_throw_def)
  have payload: "quarantine_payload (case qc_payload q of None \<Rightarrow> JNull | Some s \<Rightarrow> JStr s) = Inr (qc_payload q)"
    using assms by (intro payload_value) (simp add: wf_final_def wf_base_def)
  have fits: "json_bytes (base_fields q @ final_fields (qc_state q) (qc_exportable q) (qc_reserved q)) \<le> qc_reserved q"
    using assms form_fits(2) [OF ok, of "qc_state q"] by (simp add: wf_final_def)
  have "qc_state q = Invalidated \<Longrightarrow> qc_payload q = None"
    using assms by (simp add: wf_final_def)
  moreover have "read_base ?ps None (qc_expected q) = Inr (quarantine_base.truncate q)" if "qc_payload q = None"
    using base that by simp
  moreover have ext: "quarantine_base.extend (quarantine_base.truncate q) (quarantined.fields s (qc_exportable q) (qc_reserved q)) = q"
    if "qc_state q = s" for s
    using extend_truncate(2) [of q] that by simp
  ultimately show ?thesis
    using fits
    unfolding normalizeFinalizedQuarantine_def Let_def get payload state exportable expected
    by (cases "qc_state q") (simp_all add: base reservation_value [OF ok] exportable get(6) ext)
qed

lemma rmap_values: "(\<And>x. x \<in> set xs \<Longrightarrow> f (g x) = Inr x) \<Longrightarrow> rmap f (map g xs) = Inr xs"
  by (induction xs) simp_all

lemma read_written_store:
  assumes "wf_store store"
  shows "readQuarantineStore num_str str_num (Content (store_value store)) = Inr (store, True, False)"
proof -
  have "rmap (normalizeFinalizedQuarantine num_str str_num False) (map quarantined_value (qs_finalized store)) = Inr (qs_finalized store)"
    using assms by (intro rmap_values normalizeFinalized_value) (simp add: wf_store_def)
  moreover have "rmap (normalizePendingQuarantine num_str str_num) (map intent_value (qs_pending store)) = Inr (qs_pending store)"
    using assms by (intro rmap_values normalizePending_value) (simp add: wf_store_def)
  moreover have "assertUniqueQuarantineIds store = Inr ()"
    using assms by (simp add: assertUniqueQuarantineIds_def wf_store_def)
  ultimately show ?thesis
    by (cases store) (simp add: readQuarantineStore_def store_value_def obj_get_Cons Let_def)
qed

text \<open>C20. The quarantine file gives back exactly the well-formed stores: non-empty fields, positive safe versions,
  a denied or invalidated command without its payload, reservations between what the entry needs and the
  whole capacity, and unique identifiers. Whatever is read, from either version of the format, is
  such a store, and reading one that was written returns it.\<close>
theorem quarantine_store_roundtrip:
  "((\<exists>f x. readQuarantineStore num_str str_num f = Inr (store, x)) \<longleftrightarrow> wf_store store)
   \<and> (readQuarantineStore num_str str_num (Content (store_value store)) = Inr (store, True, False) \<longleftrightarrow> wf_store store)"
  using readQuarantineStore_wf read_written_store by blast

end
