(* ===== verification/Upload_Properties.thy ===== *)
theory Upload_Properties
  imports Quarantine_Properties
begin

text \<open>
  A command of the PowerSync spike client that the server never takes ends after five attempts: its terminal
  result always fits into the bytes reserved for it, so it can be stored.
\<close>

section \<open>The size of a failed result\<close>

definition plain_char :: "char \<Rightarrow> bool" where
  "plain_char c = (is_hex_lower c \<or> c = CHR ''-'')"

lemma hex_lower_cases: "is_hex_lower c \<Longrightarrow> c \<in> set ''0123456789abcdef''"
proof -
  have range: "c \<in> char_of ` {a..b}" if "of_char c \<in> {a..b}" for a b :: nat
    using that by (metis char_of_char image_eqI)
  assume "is_hex_lower c"
  then have "(of_char c :: nat) \<in> {48..57} \<or> (of_char c :: nat) \<in> {97..102}"
    by (auto simp: is_hex_lower_def is_digit_def less_eq_char_def)
  then have "c \<in> char_of ` ({48..57} :: nat set) \<or> c \<in> char_of ` ({97..102} :: nat set)"
    using range by blast
  moreover have "{48..57::nat} = {48, 49, 50, 51, 52, 53, 54, 55, 56, 57}" "{97..102::nat} = {97, 98, 99, 100, 101, 102}"
    by (simp_all add: set_eq_iff) presburger+
  ultimately show ?thesis
    by (auto simp: char_of_def bit_iff_odd)
qed

lemma plain_char_json: "plain_char c \<Longrightarrow> json_char c = [c] \<and> char_bytes c = 1"
  by (auto simp: plain_char_def json_char_code char_bytes_code dest!: hex_lower_cases)

lemma plain_string_size:
  assumes "\<forall>c \<in> set s. plain_char c"
  shows "utf8_len (json_string s) = int (length s) + 2"
proof -
  have "utf8_len (concat (map json_char s)) = int (length s)"
    using assms by (induction s) (simp_all add: plain_char_json)
  then show ?thesis
    by (simp add: json_string_def char_bytes_code)
qed

lemma uuid_plain: "uuid s \<Longrightarrow> \<forall>c \<in> set s. plain_char c" "commandUuid s \<Longrightarrow> \<forall>c \<in> set s. plain_char c"
  unfolding uuid_def commandUuid_def plain_char_def using uuid_pattern_chars version_digits by blast+

text \<open>What is assumed of the hash and of how numbers print: 64 hexadecimal digits, and safe integers in decimal.\<close>

definition hex_digest :: "(string \<Rightarrow> string) \<Rightarrow> bool" where
  "hex_digest sha = (\<forall>s. length (sha s) = 64 \<and> (\<forall>c \<in> set (sha s). is_hex_lower c))"

definition prints_integers :: "(jsnum \<Rightarrow> string) \<Rightarrow> bool" where
  "prints_integers num_str = (\<forall>i. 0 \<le> i \<longrightarrow> i \<le> max_safe \<longrightarrow> num_str (of_int_num i) = int_str i)"

lemma number_size:
  assumes "prints_integers num_str" "0 \<le> i" "i \<le> max_safe"
  shows "utf8_len (json_val num_str (JInt i)) \<le> 16"
  using assms int_str_len [of i 16] by (simp add: prints_integers_def max_safe_def num_isFinite_def of_int_num_def)

lemma key_sizes:
  "utf8_len (json_string ''commandId'') = 11" "utf8_len (json_string ''resourceId'') = 12"
  "utf8_len (json_string ''code'') = 6" "utf8_len (json_string ''previousVersion'') = 17"
  "utf8_len (json_string ''currentVersion'') = 16" "utf8_len (json_string ''digest'') = 8"
  "utf8_len (json_string ''attemptNumber'') = 15" "utf8_len (json_string ''failed'') = 8"
  "utf8_len (json_string ''retry_exhausted'') = 17" "utf8_len (json_string ''idempotency_conflict'') = 22"
  by code_simp+

lemma failed_result_fits:
  assumes "hex_digest sha" "prints_integers num_str" "commandUuid (c_commandId c)" "uuid (c_resourceId c)"
    and "1 \<le> c_expectedRecordVersion c" "c_expectedRecordVersion c \<le> max_safe" "1 \<le> n" "n \<le> max_safe"
    and "code \<in> {''retry_exhausted'', ''idempotency_conflict''}"
  shows "terminalResultSerializedBytes num_str (failed_result sha c b code n) \<le> 512"
proof -
  have ids: "utf8_len (json_string (c_commandId c)) = 38" "utf8_len (json_string (c_resourceId c)) = 38"
    using assms(3,4) commandUuid_shape(1) uuid_shape(1) uuid_plain by (simp_all add: plain_string_size)
  have digest: "utf8_len (json_string (commandDigest sha c b)) = 66"
    using assms(1) by (simp add: plain_string_size hex_digest_def commandDigest_def plain_char_def)
  have numbers: "utf8_len (json_val num_str (JInt (c_expectedRecordVersion c))) \<le> 16" "utf8_len (json_val num_str (JInt n)) \<le> 16"
    using assms(5-8) by (intro number_size [OF assms(2)]; simp)+
  have code: "utf8_len (json_string code) \<le> 22"
    using assms(9) by (auto simp: key_sizes)
  show ?thesis
    using ids digest numbers code
    by (simp add: terminalResultSerializedBytes_def failed_result_def key_sizes literal_sizes char_bytes_code
        del: json_val.simps(2))
qed

section \<open>Attempts\<close>

definition transient_reply :: "reply \<Rightarrow> bool" where
  "transient_reply r = (case r of No_reply \<Rightarrow> True | Reply status _ \<Rightarrow> isRetryableUploadStatus status)"

lemma upload_transient:
  assumes "sc_queue st = e # es" "validate_entry e = Inr c" "sc_session st = Some session" "transient_reply r"
  shows "\<exists>err. uploadData sha num_str nonstr sdk r st = transient_failure sha num_str nonstr sdk c session err st"
proof -
  have "validateQueuedCrud [e] = Inr [c]"
    using assms(2) by (simp add: validateQueuedCrud_one)
  then show ?thesis
    using assms(1,3,4) by (auto simp: uploadData_def transient_reply_def isRetryableUploadStatus_def split: reply.splits)
qed

definition failure_count :: "string \<Rightarrow> app_state \<Rightarrow> int" where
  "failure_count i app = (case as_attempts app i of None \<Rightarrow> 0 | Some n \<Rightarrow> n)"

definition counted :: "string \<Rightarrow> int \<Rightarrow> spike_client \<Rightarrow> spike_client" where
  "counted i n st = st\<lparr>sc_app := (sc_app st)\<lparr>as_attempts := (as_attempts (sc_app st))(i \<mapsto> n)\<rparr>\<rparr>"

lemma counted_simps [simp]:
  "sc_queue (counted i n st) = sc_queue st" "sc_session (counted i n st) = sc_session st"
  "as_results (sc_app (counted i n st)) = as_results (sc_app st)" "as_overlays (sc_app (counted i n st)) = as_overlays (sc_app st)"
  "failure_count i (sc_app (counted i n st)) = n" "counted i m (counted i n st) = counted i m st"
  by (simp_all add: counted_def failure_count_def)

lemma transient_counts:
  assumes "0 \<le> failure_count (c_commandId c) (sc_app st)" "failure_count (c_commandId c) (sc_app st) < 4"
  shows "fst (transient_failure sha num_str nonstr sdk c session err st)
     = counted (c_commandId c) (failure_count (c_commandId c) (sc_app st) + 1) st"
  using assms
  by (auto simp: transient_failure_def recordTransientFailure_def failure_count_def counted_def Let_def maxTransientUploadAttempts_def
      split: option.splits)

text \<open>The fifth failure stores the terminal result and takes the entry off the queue.\<close>

lemma transient_exhausts:
  assumes "failure_count (c_commandId c) (sc_app st) = 4" "find (\<lambda>ov. ov_id ov = c_commandId c) (as_overlays (sc_app st)) = Some ov"
    and "c_commandId c \<notin> rr_id ` set (as_results (sc_app st))"
    and "terminalResultSerializedBytes num_str (failed_result sha c session ''retry_exhausted'' 5) \<le> ov_reserved ov"
    and "transient_failure sha num_str nonstr True c session err st = (st', res)"
  shows "res = Inr () \<and> sc_queue st' = tl (sc_queue st)
    \<and> (\<exists>row. as_results (sc_app st') = as_results (sc_app st) @ [row] \<and> rr_id row = c_commandId c \<and> rr_state row = ''failed''
         \<and> rr_code row = ''retry_exhausted'' \<and> rr_attemptNumber row = 5 \<and> rr_sdkCompleted row)
    \<and> as_overlays (sc_app st') = filter (\<lambda>ov. ov_id ov \<noteq> c_commandId c) (as_overlays (sc_app st))
    \<and> as_attempts (sc_app st') (c_commandId c) = None"
proof -
  let ?i = "c_commandId c" and ?r = "failed_result sha c session ''retry_exhausted'' 5"
  have get: "obj_get (props_of ?r) ''commandId'' = JStr ?i" "obj_get (props_of ?r) ''resourceId'' = JStr (c_resourceId c)"
    "obj_get (props_of ?r) ''state'' = JStr ''failed''" "obj_get (props_of ?r) ''code'' = JStr ''retry_exhausted''"
    "obj_get (props_of ?r) ''digest'' = JStr (commandDigest sha c session)" "obj_get (props_of ?r) ''attemptNumber'' = JInt 5"
    by (simp_all add: failed_result_def obj_get_Cons)
  have none: "find (\<lambda>row. rr_id row = ?i) (as_results (sc_app st)) = None"
    using assms(3) by (force simp: find_None_iff)
  define row where "row = \<lparr>rr_id = ?i, rr_resourceId = c_resourceId c, rr_state = ''failed'', rr_code = ''retry_exhausted'',
    rr_previousVersion = val_int (obj_get (props_of ?r) ''previousVersion''),
    rr_currentVersion = val_int (obj_get (props_of ?r) ''currentVersion''), rr_digest = commandDigest sha c session,
    rr_attemptNumber = 5, rr_reserved = ov_reserved ov, rr_actual = terminalResultSerializedBytes num_str ?r, rr_sdkCompleted = False\<rparr>"
  let ?app = "(sc_app st)\<lparr>as_attempts := (as_attempts (sc_app st))(?i \<mapsto> 5)\<rparr>"
  let ?stored = "drop_overlay ?i (?app\<lparr>as_results := as_results (sc_app st) @ [row]\<rparr>)"
  have rec: "recordTransientFailure ?i (sc_app st) = Inr (?app, 5)"
    using assms(1) by (auto simp: recordTransientFailure_def failure_count_def split: option.splits)
  have persist: "persist_result num_str nonstr ?r ?app = Inr ?stored"
    using assms(2,4) none by (simp add: persist_result_def Let_def get bind_text_def row_def)
  have "completeWithResults num_str nonstr True [?r] (st\<lparr>sc_app := ?app\<rparr>) = (st', res)"
    using assms(5) rec by (simp add: transient_failure_def maxTransientUploadAttempts_def)
  moreover have "rmap (result_id nonstr) [?r] = Inr [?i]"
    by (simp add: result_id_def get bind_text_def)
  moreover have "markResultsSdkCompleted [?i] ?stored = Inr (mark_completed ?i ?stored)"
    by (simp add: mark_completed_def drop_overlay_def row_def list_ex_iff)
  ultimately have "res = Inr ()" "st' = st\<lparr>sc_app := mark_completed ?i ?stored, sc_queue := tl (sc_queue st)\<rparr>"
    using persist by (simp_all add: completeWithResults_def del: rmap.simps markResultsSdkCompleted.simps)
  moreover have "map (\<lambda>r. if rr_id r = ?i then r\<lparr>rr_sdkCompleted := True\<rparr> else r) (as_results (sc_app st)) = as_results (sc_app st)"
    using assms(3) by (intro map_idI) force
  ultimately show ?thesis
    by (simp add: mark_completed_def drop_overlay_def row_def)
qed

definition upload_all ::
  "(string \<Rightarrow> string) \<Rightarrow> (jsnum \<Rightarrow> string) \<Rightarrow> (jsval \<Rightarrow> string option) \<Rightarrow> reply list \<Rightarrow> spike_client \<Rightarrow> spike_client"
where
  "upload_all sha num_str nonstr replies st = fold (\<lambda>r st. fst (uploadData sha num_str nonstr True r st)) replies st"

lemma upload_counts:
  assumes "sc_queue st = e # es" "validate_entry e = Inr c" "sc_session st = Some session"
    and "0 \<le> failure_count (c_commandId c) (sc_app st)" "failure_count (c_commandId c) (sc_app st) < 4" "transient_reply r"
  shows "fst (uploadData sha num_str nonstr True r st) = counted (c_commandId c) (failure_count (c_commandId c) (sc_app st) + 1) st"
  using upload_transient [OF assms(1-3,6)] transient_counts [OF assms(4,5)] by metis

lemma upload_fifth:
  assumes "sc_queue st = e # es" "validate_entry e = Inr c" "sc_session st = Some session" "transient_reply r"
    and "failure_count (c_commandId c) (sc_app st) = 4" "find (\<lambda>ov. ov_id ov = c_commandId c) (as_overlays (sc_app st)) = Some ov"
    and "c_commandId c \<notin> rr_id ` set (as_results (sc_app st))"
    and "terminalResultSerializedBytes num_str (failed_result sha c session ''retry_exhausted'' 5) \<le> ov_reserved ov"
    and "fst (uploadData sha num_str nonstr True r st) = st'"
  shows "sc_queue st' = es
    \<and> (\<exists>row. as_results (sc_app st') = as_results (sc_app st) @ [row] \<and> rr_id row = c_commandId c \<and> rr_state row = ''failed''
         \<and> rr_code row = ''retry_exhausted'' \<and> rr_attemptNumber row = 5 \<and> rr_sdkCompleted row)
    \<and> as_overlays (sc_app st') = filter (\<lambda>ov. ov_id ov \<noteq> c_commandId c) (as_overlays (sc_app st))
    \<and> as_attempts (sc_app st') (c_commandId c) = None"
proof -
  obtain err where "uploadData sha num_str nonstr True r st = transient_failure sha num_str nonstr True c session err st"
    using upload_transient [OF assms(1-4)] by blast
  then have "transient_failure sha num_str nonstr True c session err st
      = (st', snd (transient_failure sha num_str nonstr True c session err st))"
    using assms(9) by (metis prod.collapse)
  from transient_exhausts [OF assms(5-8) this] show ?thesis
    using assms(1) by simp
qed

lemma upload_five:
  assumes "sc_queue st = e # es" "validate_entry e = Inr c" "sc_session st = Some session"
    and "failure_count (c_commandId c) (sc_app st) = 0" "length replies = 5" "\<forall>r \<in> set replies. transient_reply r"
  shows "\<exists>r. transient_reply r \<and> upload_all sha num_str nonstr replies st = fst (uploadData sha num_str nonstr True r (counted (c_commandId c) 4 st))
    \<and> upload_all sha num_str nonstr (butlast replies) st = counted (c_commandId c) 4 st"
proof -
  obtain r1 r2 r3 r4 r5 where r: "replies = [r1, r2, r3, r4, r5]"
    using assms(5) by (auto simp: length_Suc_conv numeral_eq_Suc)
  have step: "fst (uploadData sha num_str nonstr True r (counted (c_commandId c) n st)) = counted (c_commandId c) (n + 1) st"
    if "0 \<le> n" "n < 4" "transient_reply r" for n r
    using upload_counts [of "counted (c_commandId c) n st" e es c session r] assms(1-3) that by simp
  have "fst (uploadData sha num_str nonstr True r1 st) = counted (c_commandId c) 1 st"
    using upload_counts [OF assms(1-3), of r1] assms(4,6) r by simp
  then show ?thesis
    using step [of 1 r2] step [of 2 r3] step [of 3 r4] assms(6) r by (intro exI [of _ r5]) (simp add: upload_all_def)
qed

end
