(* ===== verification/Replica_Recovery.thy ===== *)
theory Replica_Recovery
  imports Quarantine_Properties
begin

text \<open>
  Recovery of the PowerSync spike client: once a reset has left its two files in order, an attempt in which
  the network, the disk and the SDK work completes it, from whatever phase the files record.
\<close>

section \<open>Files in order\<close>

definition wf_reset :: "reset_state \<Rightarrow> bool" where
  "wf_reset s = (rs_phase s \<in> JStr ` set reset_phases \<and> commandUuid (rs_resetRequestId s) \<and> wf_session (rs_oldSession s)
     \<and> (phase_has_session (rs_phase s) \<longleftrightarrow> rs_newSession s \<noteq> None) \<and> (\<forall>n. rs_newSession s = Some n \<longrightarrow> wf_session n))"

lemma parse_session_value [simp]: "wf_session s \<Longrightarrow> parse_session (session_value s) = Inr s"
  using parse_session_js [of s] by (simp add: parse_session_def session_value_def session_js_def)

lemma parse_reset_value:
  assumes "wf_reset s"
  shows "parseResetState num_str (reset_value s) = Inr s"
proof -
  obtain phase where phase: "rs_phase s = JStr phase" "phase \<in> set reset_phases"
    using assms by (auto simp: wf_reset_def)
  have old: "parse_session (session_value (rs_oldSession s)) = Inr (rs_oldSession s)"
    using assms by (simp add: wf_reset_def)
  show ?thesis
  proof (cases "rs_newSession s")
    case None
    then show ?thesis
      using assms phase old
      by (cases s) (simp add: parseResetState_def reset_value_def Let_def obj_get_Cons obj_get_Nil proto_get_def
          proto_functions_def wf_reset_def)
  next
    case (Some n)
    then have "parse_session (session_value n) = Inr n"
      using assms by (simp add: wf_reset_def)
    moreover have "session_value n \<noteq> JUndef"
      by (simp add: session_value_def)
    ultimately show ?thesis
      using assms phase old Some
      by (cases s) (simp add: parseResetState_def reset_value_def Let_def obj_get_Cons wf_reset_def)
  qed
qed

definition capacity_ok :: "quarantine_store \<Rightarrow> app_state \<Rightarrow> bool" where
  "capacity_ok store app =
     (assertCombinedOutstandingCapacity
        (fst (resultCapacityUsage app) + int (length (qs_finalized store)) + int (length (qs_pending store)))
        (snd (resultCapacityUsage app) + finalizedQuarantineBytes (qs_finalized store) + pendingQuarantineBytes (qs_pending store))
      = Inr ())"

lemma wp_capacity_ok: "capacity_ok store (sc_app st) \<Longrightarrow> wp (assertResetCapacity store) Q E st = Q () st"
  by (simp add: wp_def assertResetCapacity_def capacity_ok_def Let_def)

lemma capacity_ok_app [simp]:
  "capacity_ok store (setReplicaSession x n a b app) = capacity_ok store app"
  "capacity_ok store (clearOverlays app) = capacity_ok store app"
  by (simp_all add: capacity_ok_def resultCapacityUsage_def clearOverlays_def setReplicaSession_def)

text \<open>The two files of a reset that can be taken up again.\<close>

definition recoverable :: "reset_state \<Rightarrow> quarantine_store \<Rightarrow> app_state \<Rightarrow> sidecar \<Rightarrow> sidecar \<Rightarrow> bool" where
  "recoverable s store app quarantine reset =
     (wf_reset s \<and> wf_store store \<and> capacity_ok store app \<and> quarantine = Content (store_value store) \<and> reset = Content (reset_value s))"

abbreviation client_recoverable :: "spike_client \<Rightarrow> bool" where
  "client_recoverable st \<equiv>
     sc_session st \<noteq> None \<and> (\<exists>s store. recoverable s store (sc_app st) (sc_quarantineFile st) (sc_resetFile st))"

section \<open>Everything works\<close>

definition good_reply :: "reply \<Rightarrow> bool" where
  "good_reply r = (\<exists>status body. r = Reply status (Some body) \<and> isRecord body)"

definition works :: "reset_env \<Rightarrow> bool" where
  "works env = (list_all (\<lambda>r. r = Done) [en_writeStaged env, en_storeStaged env, en_clear env, en_clearOverlays env, en_close env,
       en_writeCleared env, en_storeSession env, en_closeAgain env, en_connect env, en_storeObserved env, en_writeFinalized env,
       en_unlink env]
     \<and> (\<exists>n. wf_session n \<and> en_reset env = Reply 200 (Some (session_value n)))
     \<and> (\<exists>body. en_acknowledge env = Reply 200 (Some body)) \<and> issueChallenge (en_challenge env) = Inr ()
     \<and> acknowledgeChallenge (en_observe env) = Inr () \<and> (\<forall>q. good_reply (en_reclassify env q)))"

lemma good_reply_preserves: "good_reply r \<Longrightarrow> \<exists>b answer. replicaPost r = Inr answer \<and> preserves answer = Inr b"
  unfolding good_reply_def
proof (elim exE conjE)
  fix status body
  assume "r = Reply status (Some body)" "isRecord body"
  then show ?thesis
    by (intro exI [of _ "status = 200 \<and> obj_get (props_of body) ''preserve'' = JBool True"] exI [of _ "(status, body)"])
      (simp add: replicaPost_def preserves_def)
qed

lemma finalize_item_works:
  assumes "wf_intent q" "good_reply (classify q)"
  shows "\<exists>f. finalize_item classify rows q = Inr f"
proof -
  obtain b answer where reply: "replicaPost (classify q) = Inr answer" "preserves answer = Inr b"
    using good_reply_preserves [OF assms(2)] by blast
  let ?visible = "qn_authorized q \<and> b \<and> rows (qc_resource_id q) (qc_incarnation_id q) = 1"
  have ok: "base_size q + 63 \<le> qn_reserved q" "base_size (q\<lparr>qc_payload := None\<rparr>) + 60 \<le> qn_reserved q" "0 \<le> qn_reserved q"
    "qn_reserved q \<le> 65536"
    using assms(1) reservation_ge [of q] by (auto simp: wf_intent_def reserved_ok_def reservation_size)
  have size: "base_size \<lparr>qc_id = qc_id q, qc_resource_id = qc_resource_id q, qc_incarnation_id = qc_incarnation_id q,
      qc_type = qc_type q, qc_payload = p, qc_expected = qc_expected q, qc_state = s, qc_exportable = x, qc_reserved = r\<rparr>
      = base_size (q\<lparr>qc_payload := p\<rparr>)" for p s x r
    by (simp add: base_size_def base_fields_def)
  have "base_size (q\<lparr>qc_payload := qc_payload q\<rparr>) = base_size q"
    by simp
  then show ?thesis
    using reply ok reserved_len [of "qn_reserved q"]
    by (cases ?visible) (auto simp: finalize_item_def Let_def form_sizes size)
qed

lemma rmap_works: "\<forall>x \<in> set xs. \<exists>y. f x = Inr y \<Longrightarrow> \<exists>ys. rmap f xs = Inr ys"
  by (induction xs) auto

lemma merge_unique_works: "distinct (map qc_id qs) \<Longrightarrow> ids \<inter> qc_id ` set qs = {} \<Longrightarrow> merge_unique ids qs = Inr qs"
  by (induction ids qs rule: merge_unique.induct) auto

lemma rmap_sum: "rmap f xs = Inr ys \<Longrightarrow> (\<And>x y. f x = Inr y \<Longrightarrow> g x = h y) \<Longrightarrow> map g xs = map h ys"
  by (induction xs arbitrary: ys) (auto simp: rbind_Inr_iff)

lemma pendingQuarantineBytes_sum: "pendingQuarantineBytes qs = sum_list (map qn_reserved qs)"
proof -
  have "foldl (\<lambda>total q. total + qn_reserved q) n qs = n + sum_list (map qn_reserved qs)" for n
    by (induction qs arbitrary: n) auto
  then show ?thesis
    by (simp add: pendingQuarantineBytes_def)
qed

text \<open>The decisions about the pending commands can be taken, and the completed store has the same size.\<close>

lemma finish_works:
  assumes "wf_store store" "capacity_ok store app" "\<forall>q. good_reply (classify q)"
  obtains additions merged where "rmap (finalize_item classify rows) (qs_pending store) = Inr additions"
    "mergeFinalizedQuarantine collate (qs_finalized store) additions = Inr merged"
    "capacity_ok \<lparr>qs_finalized = merged, qs_pending = []\<rparr> app"
proof -
  obtain additions where adds: "rmap (finalize_item classify rows) (qs_pending store) = Inr additions"
    using assms(1,3) finalize_item_works rmap_works [of "qs_pending store" "finalize_item classify rows"]
    by (auto simp: wf_store_def)
  have ids: "map qc_id (qs_pending store) = map qc_id additions" and bytes: "map qn_reserved (qs_pending store) = map qc_reserved additions"
    using rmap_sum [OF adds] finalize_item_Inr by metis+
  define merged where "merged = Sorting_Algorithms.sort (key qc_id collate) (qs_finalized store @ additions)"
  have merge: "mergeFinalizedQuarantine collate (qs_finalized store) additions = Inr merged"
    using assms(1) ids merge_unique_works [of "qs_finalized store @ additions" "{}"]
    by (simp add: mergeFinalizedQuarantine_def merged_def wf_store_def)
  have m: "mset merged = mset (qs_finalized store @ additions)"
    by (simp add: merged_def)
  have "length merged = length (qs_finalized store) + length (qs_pending store)"
    using mset_eq_length [OF m] arg_cong [OF ids, of length] by simp
  moreover have "sum_list (map qc_reserved merged) = sum_list (map qc_reserved (qs_finalized store)) + sum_list (map qn_reserved (qs_pending store))"
  proof -
    have "mset (map qc_reserved merged) = mset (map qc_reserved (qs_finalized store @ additions))"
      using m by simp
    then have "sum_list (map qc_reserved merged) = sum_list (map qc_reserved (qs_finalized store @ additions))"
      by (metis sum_mset_sum_list)
    then show ?thesis
      by (simp add: bytes)
  qed
  ultimately have "capacity_ok \<lparr>qs_finalized = merged, qs_pending = []\<rparr> app"
    using assms(2) by (simp add: capacity_ok_def pendingQuarantineBytes_sum add.assoc)
  with that adds merge show thesis by blast
qed

section \<open>Recovery\<close>

abbreviation recovered :: "quarantine_store \<Rightarrow> spike_client \<Rightarrow> bool" where
  "recovered store st \<equiv> sc_resetFile st = Absent \<and> qc_id ` set (sc_quarantine st) = store_ids store
     \<and> sc_quarantineFile st = Content (store_value \<lparr>qs_finalized = sc_quarantine st, qs_pending = []\<rparr>)"

lemma finish_reset_works:
  assumes "works env" "wf_store store" "capacity_ok store (sc_app st)" "sc_quarantineFile st = Content (store_value store)"
    and "rs_phase s = JStr ''cleared''" "rs_newSession s = Some n"
  shows "wp (finish_reset collate num_str str_num env s) (\<lambda>_. recovered store) (\<lambda>_. False) st"
proof -
  obtain additions merged where fin: "rmap (finalize_item (en_reclassify env) (en_visibleRows env)) (qs_pending store) = Inr additions"
    "mergeFinalizedQuarantine collate (qs_finalized store) additions = Inr merged"
    "capacity_ok \<lparr>qs_finalized = merged, qs_pending = []\<rparr> (sc_app st)"
  proof (rule finish_works [OF assms(2,3)])
    show "\<forall>q. good_reply (en_reclassify env q)"
      using assms(1) by (simp add: works_def)
  qed
  have read: "readQuarantineStore num_str str_num (Content (store_value store)) = Inr (store, True, False)"
    by (rule read_written_store [OF assms(2)])
  have ids: "qc_id ` set merged = store_ids store"
    using finished_ids [OF read fin(1,2)] by (simp add: store_ids_def)
  show ?thesis
    using assms fin read ids
    unfolding finish_reset_def Let_def reset_actions
    by (simp add: wp_simps wp_capacity_ok works_def new_session_def quarantine_result_def)
qed

lemma wf_reset_stages:
  assumes "wf_reset s"
  shows "wf_session n \<Longrightarrow> wf_reset (s\<lparr>rs_phase := JStr ''session_staged'', rs_newSession := Some n\<rparr>)"
    "rs_phase s = JStr ''session_staged'' \<Longrightarrow> wf_reset (s\<lparr>rs_phase := JStr ''cleared''\<rparr>)"
  using assms by (auto simp: wf_reset_def phase_has_session_def reset_phases_def)

text \<open>Between the stages: the quarantine file is in order, and the state is one that may be written.\<close>

abbreviation in_order :: "quarantine_store \<Rightarrow> reset_state \<Rightarrow> spike_client \<Rightarrow> bool" where
  "in_order store s st \<equiv> wf_reset s \<and> wf_store store \<and> capacity_ok store (sc_app st) \<and> sc_quarantineFile st = Content (store_value store)"

lemma stage_session_works:
  assumes "works env" "in_order store s st"
  shows "wp (stage_session num_str str_num env s) (\<lambda>s' st'. in_order store s' st' \<and> rs_phase s' = JStr ''session_staged'')
    (\<lambda>_. False) st"
proof -
  obtain n where n: "wf_session n" "en_reset env = Reply 200 (Some (session_value n))"
    using assms(1) by (auto simp: works_def)
  have "readQuarantineStore num_str str_num (Content (store_value store)) = Inr (store, True, False)"
    using assms(2) by (intro read_written_store) simp
  then show ?thesis
    using assms n wf_reset_stages(1) [of s n]
    unfolding stage_session_def Let_def reset_actions
    by (simp add: wp_simps wp_capacity_ok works_def quarantine_result_def replicaPost_def)
qed

lemma clear_replica_works:
  assumes "works env" "in_order store s st" "rs_phase s = JStr ''session_staged''"
  shows "wp (clear_replica num_str str_num env s) (\<lambda>s' st'. in_order store s' st' \<and> rs_phase s' = JStr ''cleared'')
    (\<lambda>_. False) st"
proof -
  obtain n where n: "rs_newSession s = Some n"
    using assms(2,3) by (auto simp: wf_reset_def phase_has_session_def)
  obtain body where body: "en_acknowledge env = Reply 200 (Some body)"
    using assms(1) by (auto simp: works_def)
  have "readQuarantineStore num_str str_num (Content (store_value store)) = Inr (store, True, False)"
    using assms(2) by (intro read_written_store) simp
  then show ?thesis
    using assms n body wf_reset_stages(2) [of s]
    unfolding clear_replica_def Let_def reset_actions setSession_def
    by (simp add: wp_simps wp_capacity_ok works_def quarantine_result_def replicaPost_def new_session_def)
qed

lemma recovery:
  assumes "works env" "sc_session st \<noteq> None" "recoverable s store (sc_app st) (sc_quarantineFile st) (sc_resetFile st)"
  shows "wp (performReplicaReset collate num_str str_num env) (\<lambda>_. recovered store) (\<lambda>_. False) st"
proof -
  have order: "in_order store s st" and content: "sc_resetFile st = Content (reset_value s)" and wf: "wf_reset s"
    using assms(3) by (simp_all add: recoverable_def)
  have read: "readResetState num_str (own_file (sc_resetFile st)) (sc_resetFile st) = Inr (Some s)"
    using parse_reset_value [OF wf] by (simp add: content readResetState_def own_file_def assertPrivateRegularFile_def)
  have finish: "wp (finish_reset collate num_str str_num env t) (\<lambda>_. recovered store) (\<lambda>_. False) st'"
    if t: "in_order store t st'" "rs_phase t = JStr ''cleared''" for t st'
  proof -
    obtain n where "rs_newSession t = Some n"
      using t by (auto simp: wf_reset_def phase_has_session_def)
    then show ?thesis
      using that by (intro finish_reset_works [OF assms(1)]) auto
  qed
  have clear: "wp (if rs_phase t = JStr ''session_staged'' then clear_replica num_str str_num env t else act_return t)
      (\<lambda>t. wp (finish_reset collate num_str str_num env t) (\<lambda>_. recovered store) (\<lambda>_. False)) (\<lambda>_. False) st'"
    if "in_order store t st'" "rs_phase t = JStr ''session_staged'' \<or> rs_phase t = JStr ''cleared''" for t st'
    using that wp_mono [OF clear_replica_works [OF assms(1) that(1)]] finish by (auto simp: wp_return)
  have stage: "wp (if rs_phase s = JStr ''quarantined'' then stage_session num_str str_num env s else act_return s)
      (\<lambda>t. wp (if rs_phase t = JStr ''session_staged'' then clear_replica num_str str_num env t else act_return t)
        (\<lambda>t. wp (finish_reset collate num_str str_num env t) (\<lambda>_. recovered store) (\<lambda>_. False)) (\<lambda>_. False)) (\<lambda>_. False) st"
  proof (cases "rs_phase s = JStr ''quarantined''")
    case True
    then show ?thesis
      using wp_mono [OF stage_session_works [OF assms(1) order] clear] by simp
  next
    case False
    then show ?thesis
      using wf clear [OF order] by (auto simp: wp_return wf_reset_def reset_phases_def)
  qed
  show ?thesis
    unfolding performReplicaReset_def wp_bind wp_get wp_lift wp_read_reset
    using assms(2) read stage by (auto simp: wp_return)
qed


definition demo_session :: "int \<Rightarrow> replica_session" where
  "demo_session epoch = \<lparr>b_replicaId = ''44444444-4444-4444-8444-444444444444'', b_replicaEpoch = epoch,
     b_credential = ''r2_'' @ replicate 43 CHR ''A''\<rparr>"

definition demo_client :: spike_client where
  "demo_client = \<lparr>sc_name = ''c'', sc_principal = Some ''p'', sc_app = app_init, sc_queue = [], sc_quarantine = [],
     sc_session = Some (demo_session 1), sc_resetRequired = False, sc_resetCount = 0, sc_databaseClosed = False,
     sc_quarantineFile = Absent, sc_resetFile = Absent\<rparr>"

definition demo_env :: reset_env where
  "demo_env = \<lparr>en_requestId = ''55555555-5555-4555-8555-555555555555'', en_disconnect = Done,
     en_classify = (\<lambda>_. Reply 200 (Some (JObj [(''preserve'', JBool True)]))), en_writePending = Done, en_writeQuarantined = Done,
     en_reset = Reply 200 (Some (session_value (demo_session 2))), en_writeStaged = Done, en_storeStaged = Done,
     en_acknowledge = Reply 200 (Some JNull), en_clear = Done, en_clearOverlays = Done, en_close = Done, en_writeCleared = Done,
     en_storeSession = Done, en_closeAgain = Done, en_challenge = Reply 201 (Some (JObj [(''challengeId'', JStr ''x'')])),
     en_connect = Done, en_observe = Reply 200 (Some JNull), en_storeObserved = Done,
     en_reclassify = (\<lambda>_. Reply 200 (Some (JObj [(''preserve'', JBool True)]))), en_visibleRows = (\<lambda>_ _. 1),
     en_writeFinalized = Done, en_unlink = Done\<rparr>"

definition demo_intent :: quarantine_intent where
  "demo_intent = \<lparr>qc_id = ''a'', qc_resource_id = ''r'', qc_incarnation_id = ''i'', qc_type = ''t'', qc_payload = Some ''x'',
     qc_expected = Some 1, qn_authorized = True, qn_reserved = 512\<rparr>"

definition demo_store :: quarantine_store where
  "demo_store = \<lparr>qs_finalized = [], qs_pending = [demo_intent]\<rparr>"

definition demo_state :: reset_state where
  "demo_state = \<lparr>rs_phase = JStr ''quarantined'', rs_resetRequestId = ''55555555-5555-4555-8555-555555555555'',
     rs_oldSession = demo_session 1, rs_newSession = None\<rparr>"

definition demo_interrupted :: spike_client where
  "demo_interrupted = demo_client\<lparr>sc_quarantineFile := Content (store_value demo_store), sc_resetFile := Content (reset_value demo_state)\<rparr>"


end
