(* ===== verification/Spike_Properties.thy ===== *)
theory Spike_Properties
  imports Replica_Resume_Properties Upload_Properties Replica_Recovery
begin

text \<open>
  What the PowerSync spike client promises about the commands it is given, and where it fails to: the
  work it keeps is bounded, a command that cannot be delivered ends, and a replica reset loses no command
  however often it is interrupted, as long as nothing else happens in between.
\<close>

section \<open>A client to try things on\<close>

definition demo_id :: "char \<Rightarrow> string" where
  "demo_id c = replicate 8 c @ ''-1111-4111-8111-111111111111''"

definition demo_input :: "char \<Rightarrow> string \<Rightarrow> queued_input" where
  "demo_input c payload = \<lparr>qi_commandId = demo_id c, qi_type = Resource_update,
     qi_resourceId = ''22222222-2222-4222-8222-222222222222'',
     qi_incarnationId = Some ''33333333-3333-4333-8333-333333333333'', qi_expectedVersion = JInt 1, qi_payload = Some payload\<rparr>"

definition demo_queue :: "char \<Rightarrow> string \<Rightarrow> spike_client \<Rightarrow> spike_client" where
  "demo_queue c payload st = fst (queueCommands None True ''corr'' [demo_input c payload] st)"

definition demo_upload :: "reply \<Rightarrow> spike_client \<Rightarrow> spike_client" where
  "demo_upload reply st = fst (uploadData (\<lambda>_. ''d'') (\<lambda>_. '''') (\<lambda>_. None) True reply st)"

definition demo_reset :: "reset_env \<Rightarrow> spike_client \<Rightarrow> spike_client \<times> (upload_error + unit)" where
  "demo_reset env st = performReplicaReset flat (\<lambda>_. '''') (\<lambda>_. NaN) env st"

section \<open>Bounds\<close>


definition demo_busy :: spike_client where
  "demo_busy = demo_upload No_reply (demo_queue CHR ''b'' ''y'' (demo_queue CHR ''a'' ''x'' demo_client))"

lemma demo_queue_step:
  assumes "sc_resetFile st = Absent" "c \<in> set ''abcdef''"
  shows "spike_step st (demo_queue c p st)"
proof -
  have "commandUuid (demo_id c)"
    using assms(2) by (auto simp: demo_id_def commandUuid_def uuid_pattern_def hexes_def seq_match_def is_hex_lower_def
        is_digit_def less_eq_char_def numeral_eq_Suc)
  then show ?thesis
    unfolding demo_queue_def using assms(1) by (intro Queue) (auto simp: demo_input_def)
qed

lemma demo_upload_step: "spike_step st (demo_upload reply st)"
  unfolding demo_upload_def by (rule Upload) (simp add: binds_ids_def)

lemma demo_busy_reachable: "spike_step\<^sup>*\<^sup>* demo_client demo_busy"
proof -
  have absent: "sc_resetFile demo_client = Absent" "sc_resetFile (demo_queue CHR ''a'' ''x'' demo_client) = Absent"
    by code_simp+
  have "spike_step demo_client (demo_queue CHR ''a'' ''x'' demo_client)"
    using absent by (intro demo_queue_step) simp_all
  moreover have "spike_step (demo_queue CHR ''a'' ''x'' demo_client) (demo_queue CHR ''b'' ''y'' (demo_queue CHR ''a'' ''x'' demo_client))"
    using absent by (intro demo_queue_step) simp_all
  ultimately show ?thesis
    unfolding demo_busy_def using demo_upload_step by (meson converse_rtranclp_into_rtranclp rtranclp.rtrancl_refl)
qed


section \<open>Commands that are never taken\<close>

lemma val_int_bound: "val_isSafeInteger v \<Longrightarrow> val_int v \<le> max_safe"
  by (cases v) (simp_all add: safe_integer_bound)

lemma validate_entry_version: "validate_entry e = Inr c \<Longrightarrow> 1 \<le> c_expectedRecordVersion c \<and> c_expectedRecordVersion c \<le> max_safe"
  by (auto simp: validate_entry_def Let_def rbind_Inr_iff assertPositiveExpectedRecordVersion_def val_int_bound split: option.splits)

text \<open>C18. A command at the head of the queue that the server never takes, because it cannot be reached or answers with
  status 429 or 5xx, ends: after five attempts, and not before, it has left the queue and the pending
  commands, with the result \<open>retry_exhausted\<close> of attempt five, which always fits into the bytes
  reserved for the command. The hash has 64 hexadecimal digits and integers print in decimal.\<close>
theorem undelivered_command_ends:
  assumes "spike_start s" "spike_step\<^sup>*\<^sup>* s st" "sc_queue st = e # es" "validate_entry e = Inr c" "sc_session st = Some session"
    and "as_attempts (sc_app st) (c_commandId c) = None" "c_commandId c \<notin> rr_id ` set (as_results (sc_app st))"
    and "uuid (c_resourceId c)" "hex_digest sha" "prints_integers num_str"
    and "length replies = 5" "\<forall>r \<in> set replies. transient_reply r"
    and "upload_all sha num_str nonstr replies st = st'"
  shows "sc_queue (upload_all sha num_str nonstr (butlast replies) st) = sc_queue st \<and> sc_queue st' = es
    \<and> (\<exists>row. as_results (sc_app st') = as_results (sc_app st) @ [row] \<and> rr_id row = c_commandId c \<and> rr_state row = ''failed''
         \<and> rr_code row = ''retry_exhausted'' \<and> rr_attemptNumber row = 5 \<and> rr_sdkCompleted row)
    \<and> as_overlays (sc_app st') = filter (\<lambda>ov. ov_id ov \<noteq> c_commandId c) (as_overlays (sc_app st))"
proof -
  have inv: "client_inv st"
    by (rule spike.inv_reachable [OF assms(1,2)])
  then have spike: "spike_inv st" and uuids: "queue_uuids st"
    by (simp_all add: client_inv_def reset_ok_def spike_inv_work_ok)
  have id: "cr_id e = JStr (c_commandId c)" "commandUuid (c_commandId c)"
    using validate_entry_id [OF assms(4)] uuids assms(3) by (auto simp: queue_uuids_def)
  have "pending_work (sc_app st) (c_commandId c)"
    using spike assms(3) id(1) by (auto simp: spike_inv_def queue_ok_def)
  then have "c_commandId c \<in> ov_id ` set (as_overlays (sc_app st))"
    using assms(7) unfolding pending_work_def by (metis imageI)
  then obtain ov where ov: "find (\<lambda>ov. ov_id ov = c_commandId c) (as_overlays (sc_app st)) = Some ov"
    by (metis (mono_tags, lifting) find_None_iff imageE not_None_eq)
  then have "512 \<le> ov_reserved ov"
    using spike by (auto simp: spike_inv_def rows_ok_def dest: find_SomeD)
  moreover have "terminalResultSerializedBytes num_str (failed_result sha c session ''retry_exhausted'' 5) \<le> 512"
    using validate_entry_version [OF assms(4)] by (intro failed_result_fits assms id) (simp_all add: max_safe_def)
  ultimately have fits: "terminalResultSerializedBytes num_str (failed_result sha c session ''retry_exhausted'' 5) \<le> ov_reserved ov"
    by simp
  obtain r where r: "transient_reply r" "fst (uploadData sha num_str nonstr True r (counted (c_commandId c) 4 st)) = st'"
    "upload_all sha num_str nonstr (butlast replies) st = counted (c_commandId c) 4 st"
    using upload_five [OF assms(3-5) _ assms(11,12), of sha num_str nonstr] assms(6,13) by (auto simp: failure_count_def)
  show ?thesis
    using upload_fifth [of "counted (c_commandId c) 4 st", OF _ assms(4) _ r(1) _ _ _ fits r(2)] assms(3,5,7) ov r(3) by simp
qed

definition demo_fresh :: spike_client where
  "demo_fresh = demo_queue CHR ''a'' ''x'' demo_client"

definition demo_failures :: "reply list" where
  "demo_failures = [No_reply, Reply 500 None, Reply 429 None, No_reply, Reply 503 None]"

theorem undelivered_command_ends_witness:
  "\<exists>row. as_results (sc_app (upload_all (\<lambda>_. replicate 64 CHR ''a'') (\<lambda>n. int_str (num_int n)) (\<lambda>_. None) demo_failures demo_fresh)) = [row]
     \<and> rr_code row = ''retry_exhausted'' \<and> rr_attemptNumber row = 5"
proof -
  define e where "e = hd (sc_queue demo_fresh)"
  define c where "c = (case validate_entry e of Inr c \<Rightarrow> c)"
  have queue: "sc_queue demo_fresh = [e]" and valid: "validate_entry e = Inr c"
    and rows: "as_results (sc_app demo_fresh) = []" "as_attempts (sc_app demo_fresh) (c_commandId c) = None"
    and resource: "uuid (c_resourceId c)" and session: "sc_session demo_fresh = Some (demo_session 1)"
    unfolding e_def c_def by code_simp+
  have start: "spike_start demo_client"
    by (simp add: spike_start_def spike_init_def demo_client_def)
  have reach: "spike_step\<^sup>*\<^sup>* demo_client demo_fresh"
    unfolding demo_fresh_def by (rule r_into_rtranclp, rule demo_queue_step) (simp_all add: demo_client_def)
  have hash: "hex_digest (\<lambda>_. replicate 64 CHR ''a'')" "prints_integers (\<lambda>n. int_str (num_int n))"
    by (simp_all add: hex_digest_def prints_integers_def is_hex_lower_def is_digit_def less_eq_char_def)
  have replies: "length demo_failures = 5" "\<forall>r \<in> set demo_failures. transient_reply r"
    by (simp_all add: demo_failures_def transient_reply_def isRetryableUploadStatus_def)
  have "c_commandId c \<notin> rr_id ` set (as_results (sc_app demo_fresh))"
    using rows by simp
  from undelivered_command_ends [OF start reach queue valid session rows(2) this resource hash replies refl]
  show ?thesis
    using rows(1) by auto
qed

section \<open>Interrupted resets\<close>

text \<open>An attempt is another call in the same process, or opening the client again after a crash, with or without resuming its session.\<close>

datatype attempt = Retry reset_env | Restart reset_env | Start_anew reset_env "reply option"

fun reset_attempt ::
  "string comparator \<Rightarrow> (jsnum \<Rightarrow> string) \<Rightarrow> (string \<Rightarrow> jsnum) \<Rightarrow> attempt \<Rightarrow> spike_client \<Rightarrow> spike_client"
where
  "reset_attempt collate num_str str_num (Retry env) st = fst (performReplicaReset collate num_str str_num env st)"
| "reset_attempt collate num_str str_num (Restart env) st = fst (openSpikeClient collate num_str str_num env st)"
| "reset_attempt collate num_str str_num (Start_anew env registration) st = fst (openNewClient num_str str_num env registration st)"

definition reset_attempts ::
  "string comparator \<Rightarrow> (jsnum \<Rightarrow> string) \<Rightarrow> (string \<Rightarrow> jsnum) \<Rightarrow> attempt list \<Rightarrow> spike_client \<Rightarrow> spike_client"
where
  "reset_attempts collate num_str str_num attempts st = fold (reset_attempt collate num_str str_num) attempts st"

lemma reset_attempt_kept:
  "client_kept K st \<Longrightarrow> client_kept K (reset_attempt collate num_str str_num a st)"
  using reset_keeps open_keeps new_keeps by (cases a) (simp_all add: wp_fst [of "client_kept K"])

lemma reset_attempts_kept:
  "client_kept K st \<Longrightarrow> client_kept K (reset_attempts collate num_str str_num attempts st)"
  by (induction attempts arbitrary: st) (simp_all add: reset_attempts_def reset_attempt_kept)

text \<open>C16. However often a reset is attempted, in one process or after restarts, and wherever each attempt is
  interrupted, by the network, the disk or the SDK, no command is lost: one that was pending, had a result or was quarantined before is
  still pending, has a result or is named in the quarantine file.\<close>
theorem reset_keeps_every_command:
  assumes "sc_resetFile st = Absent" "i \<in> app_ids (sc_app st) \<union> file_ids (sc_quarantineFile st)"
  shows "i \<in> app_ids (sc_app (reset_attempts collate num_str str_num attempts st))
     \<union> file_ids (sc_quarantineFile (reset_attempts collate num_str str_num attempts st))"
  using reset_attempts_kept [of "{i}" st collate num_str str_num attempts] assms by (simp add: kept_def)

definition demo_stale :: spike_client where
  "demo_stale = demo_upload (Reply 428 None) (demo_queue CHR ''a'' ''x'' demo_client)"

theorem reset_keeps_every_command_witness:
  "demo_id CHR ''a'' \<in> app_ids (sc_app demo_stale)
   \<and> demo_id CHR ''a'' \<in> app_ids (sc_app (reset_attempts flat (\<lambda>_. '''') (\<lambda>_. NaN) [Retry (demo_env\<lparr>en_reset := No_reply\<rparr>), Restart demo_env] demo_stale))
       \<union> file_ids (sc_quarantineFile (reset_attempts flat (\<lambda>_. '''') (\<lambda>_. NaN) [Retry (demo_env\<lparr>en_reset := No_reply\<rparr>), Restart demo_env] demo_stale))"
proof -
  have absent: "sc_resetFile demo_stale = Absent" and pending: "map ov_id (as_overlays (sc_app demo_stale)) = [demo_id CHR ''a'']"
    by code_simp+
  have here: "demo_id CHR ''a'' \<in> app_ids (sc_app demo_stale)"
    using arg_cong [OF pending, of set] by (auto simp: app_ids_def)
  show ?thesis
    using reset_keeps_every_command [OF absent, of "demo_id CHR ''a''"] here by blast
qed


text \<open>The second case, from a client with one quarantined command.\<close>

definition demo_quarantined :: quarantined where
  "demo_quarantined = \<lparr>qc_id = demo_id CHR ''c'', qc_resource_id = ''r'', qc_incarnation_id = ''i'', qc_type = ''t'',
     qc_payload = None, qc_expected = None, qc_state = Invalidated, qc_exportable = 0, qc_reserved = 512\<rparr>"

definition demo_keeper :: spike_client where
  "demo_keeper = demo_client\<lparr>sc_quarantine := [demo_quarantined],
     sc_quarantineFile := Content (store_value \<lparr>qs_finalized = [demo_quarantined], qs_pending = []\<rparr>)\<rparr>"

theorem acknowledgement_erases_pending_commands:
  "let stale = demo_upload (Reply 428 None) (demo_queue CHR ''a'' ''x'' demo_keeper);
       interrupted = fst (demo_reset (demo_env\<lparr>en_reset := No_reply\<rparr>) stale);
       acknowledged = fst (acknowledgeOrDiscardQuarantinedCommand Done (demo_id CHR ''c'') interrupted);
       (after, outcome) = demo_reset demo_env acknowledged in
   outcome = Inr () \<and> as_results (sc_app after) = [] \<and> as_overlays (sc_app after) = [] \<and> sc_queue after = []
   \<and> sc_quarantine after = []"
  by code_simp

section \<open>Resets that cannot be completed\<close>

lemma open_refused:
  assumes "\<And>x. admit_files num_str str_num st \<noteq> Inr x"
  shows "fst (openSpikeClient collate num_str str_num env st) = st" "fst (openNewClient num_str str_num env registration st) = st"
proof -
  obtain e where "admit_files num_str str_num st = Inl e"
    using assms by (cases "admit_files num_str str_num st") auto
  then show "fst (openSpikeClient collate num_str str_num env st) = st" "fst (openNewClient num_str str_num env registration st) = st"
    by (simp_all add: openSpikeClient_def openNewClient_def admit_client_def act_bind_def act_get_def act_lift_def)
qed

lemma blocked_attempt:
  assumes "sc_resetFile st \<noteq> Absent" "readQuarantineStore num_str str_num (sc_quarantineFile st) = Inl err"
  shows "sc_resetFile (reset_attempt collate num_str str_num a st) \<noteq> Absent
    \<and> sc_quarantineFile (reset_attempt collate num_str str_num a st) = sc_quarantineFile st"
proof -
  let ?I = "\<lambda>s. sc_resetFile s \<noteq> Absent \<and> sc_quarantineFile s = sc_quarantineFile st"
  have retry: "wp (performReplicaReset collate num_str str_num env) (\<lambda>_ _. False) ?I st" for env
  proof (rule reset_rule [where R = "\<lambda>_. ?I"])
    fix session s t
    show "wp (begin_reset num_str str_num env session) (\<lambda>_. ?I) ?I st" if "sc_resetFile st = Absent"
      using that assms(1) by simp
    show "?I t \<Longrightarrow> wp (stage_session num_str str_num env s) (\<lambda>_. ?I) ?I t"
      unfolding stage_session_def Let_def reset_actions using assms(2) by (intro wp_intros) simp_all
    show "?I t \<Longrightarrow> wp (clear_replica num_str str_num env s) (\<lambda>_. ?I) ?I t"
      unfolding clear_replica_def Let_def reset_actions setSession_def using assms(2) by (intro wp_intros) simp_all
    show "?I t \<Longrightarrow> wp (finish_reset collate num_str str_num env s) (\<lambda>_ _. False) ?I t"
      unfolding finish_reset_def Let_def reset_actions using assms(2) by (intro wp_intros) simp_all
  qed (use assms(1) in simp_all)
  have "admit_files num_str str_num st \<noteq> Inr x" for x
    using assms(2) by (auto simp: admit_files_def rbind_Inr_iff)
  then have restart: "fst (openSpikeClient collate num_str str_num env st) = st" "fst (openNewClient num_str str_num env r st) = st" for env r
    by (rule open_refused)+
  show ?thesis
  proof (cases a)
    case (Retry env)
    have "wp (performReplicaReset collate num_str str_num env) (\<lambda>_. ?I) ?I st"
      by (rule wp_mono [OF retry]) simp_all
    then show ?thesis
      using Retry by (simp add: wp_fst [of ?I])
  qed (use assms(1) restart in simp_all)
qed

lemma blocked_attempts:
  "sc_resetFile st \<noteq> Absent \<Longrightarrow> readQuarantineStore num_str str_num (sc_quarantineFile st) = Inl err \<Longrightarrow>
     sc_resetFile (reset_attempts collate num_str str_num attempts st) \<noteq> Absent"
proof (induction attempts arbitrary: st)
  case (Cons a attempts)
  then show ?case
    using blocked_attempt [OF Cons.prems, of collate a] by (simp add: reset_attempts_def)
qed (simp add: reset_attempts_def)

lemma half_written_attempt:
  assumes "sc_resetFile st = Absent" "readQuarantineStore num_str str_num (sc_quarantineFile st) = Inr (store, x)"
    and "qs_pending store \<noteq> []"
  shows "reset_attempt collate num_str str_num a st = st"
proof -
  have retry: "wp (performReplicaReset collate num_str str_num env) (\<lambda>_ _. False) (\<lambda>s. s = st) st" for env
  proof (rule reset_rule [where R = "\<lambda>_ _. False"])
    show "wp (begin_reset num_str str_num env session) (\<lambda>_ _. False) (\<lambda>s. s = st) st" for session
      unfolding begin_reset_def Let_def reset_actions using assms(2,3) by (intro wp_intros) simp_all
    show "False" if "readResetState num_str (own_file (sc_resetFile st)) (sc_resetFile st) = Inr (Some s)" for s
      using that assms(1) by (simp add: readResetState_def own_file_def assertPrivateRegularFile_def)
  qed simp_all
  have "admit_files num_str str_num st \<noteq> Inr y" for y
    using assms by (auto simp: admit_files_def rbind_Inr_iff readResetState_def own_file_def assertPrivateRegularFile_def
        validateQuarantineResetLink_def quarantine_result_def split: sum.splits)
  then have restart: "fst (openSpikeClient collate num_str str_num env st) = st" "fst (openNewClient num_str str_num env r st) = st" for env r
    by (rule open_refused)+
  show ?thesis
  proof (cases a)
    case (Retry env)
    have "wp (performReplicaReset collate num_str str_num env) (\<lambda>_ s. s = st) (\<lambda>s. s = st) st"
      by (rule wp_mono [OF retry]) simp_all
    then show ?thesis
      using Retry by (simp add: wp_fst [of "\<lambda>s. s = st"])
  qed (use restart in simp_all)
qed

definition demo_empty :: spike_client where
  "demo_empty = fst (demo_reset demo_env (demo_upload (Reply 428 None) (demo_queue CHR ''a'' '''' demo_client)))"

definition demo_half :: spike_client where
  "demo_half = fst (demo_reset (demo_env\<lparr>en_writeQuarantined := Failed_before\<rparr>) demo_stale)"

text \<open>C39. Two ways in which a reset can never be completed, neither by trying again nor by opening the client again. A
  command with an empty payload can be queued, and a reset writes it into the quarantine file, which is
  refused from then on because a payload must not be empty; the server's reply plays no role. And when the
  quarantine file is written but the reset file is not, every later attempt finds pending commands without a reset
  state and changes nothing.\<close>
theorem interrupted_reset_can_block:
  "sc_resetFile (reset_attempts collate (\<lambda>_. '''') (\<lambda>_. NaN) attempts demo_empty) \<noteq> Absent
   \<and> reset_attempts collate (\<lambda>_. '''') (\<lambda>_. NaN) attempts demo_half = demo_half"
proof
  have "sc_resetFile demo_empty \<noteq> Absent"
    "readQuarantineStore (\<lambda>_. '''') (\<lambda>_. NaN) (sc_quarantineFile demo_empty) = Inl (Invalid_quarantine ''payload'')"
    by code_simp+
  then show "sc_resetFile (reset_attempts collate (\<lambda>_. '''') (\<lambda>_. NaN) attempts demo_empty) \<noteq> Absent"
    by (rule blocked_attempts)
next
  have absent: "sc_resetFile demo_half = Absent"
    by code_simp
  have "case readQuarantineStore (\<lambda>_. '''') (\<lambda>_. NaN) (sc_quarantineFile demo_half) of
      Inl _ \<Rightarrow> False | Inr (store, _) \<Rightarrow> qs_pending store \<noteq> []"
    by code_simp
  then obtain store x where "readQuarantineStore (\<lambda>_. '''') (\<lambda>_. NaN) (sc_quarantineFile demo_half) = Inr (store, x)"
    "qs_pending store \<noteq> []"
    by (auto split: sum.splits)
  then have "reset_attempt collate (\<lambda>_. '''') (\<lambda>_. NaN) a demo_half = demo_half" for a
    by (rule half_written_attempt [OF absent])
  then show "reset_attempts collate (\<lambda>_. '''') (\<lambda>_. NaN) attempts demo_half = demo_half"
    by (induction attempts) (simp_all add: reset_attempts_def)
qed

section \<open>A result that is quarantined as well\<close>

lemma open_conflict:
  assumes "admit_files num_str str_num st = Inr (persisted, store, False)" "admit_capacity store (sc_app st) = Inl e"
  shows "openSpikeClient collate num_str str_num env st = (st, Inl e)"
  using assms by (simp add: openSpikeClient_def admit_client_def act_bind_def act_get_def act_lift_def act_return_def)

definition demo_answer :: jsval where
  "demo_answer = JObj [(''spikeProtocol'', JInt 1), (''results'', JArr [JObj
     [(''commandId'', JStr (demo_id CHR ''a'')), (''resourceId'', JStr ''22222222-2222-4222-8222-222222222222''),
      (''digest'', JStr ''d''), (''state'', JStr ''applied''), (''code'', JStr ''applied''),
      (''previousVersion'', JInt 1), (''currentVersion'', JInt 2), (''attemptNumber'', JInt 1)]])]"

text \<open>The server applies the command, the client stores the result, and the SDK fails to complete the transaction.\<close>

definition demo_stored :: spike_client where
  "demo_stored = fst (uploadData (\<lambda>_. ''d'') (\<lambda>_. '''') (\<lambda>_. None) False (Reply 200 (Some demo_answer)) demo_fresh)"

definition demo_doubled :: "spike_client \<times> (upload_error + unit)" where
  "demo_doubled = demo_reset demo_env (demo_upload (Reply 428 None) demo_stored)"

text \<open>C40. A reset quarantines every entry of the SDK's queue, also one whose result is already stored because only the SDK's
  completion failed. The reset succeeds, the command is both applied and pending review, and from then
  on the client cannot be opened, because it refuses an identifier that is active in two states.\<close>
theorem reset_doubles_a_stored_result:
  "snd demo_doubled = Inr ()
   \<and> map (\<lambda>r. (rr_id r, rr_state r)) (as_results (sc_app (fst demo_doubled))) = [(demo_id CHR ''a'', ''applied'')]
   \<and> map (\<lambda>q. (qc_id q, qc_state q)) (sc_quarantine (fst demo_doubled)) = [(demo_id CHR ''a'', Pending_review)]
   \<and> openSpikeClient collate (\<lambda>_. '''') (\<lambda>_. NaN) env (fst demo_doubled) = (fst demo_doubled, Inl Active_in_multiple_states)"
proof -
  have "case demo_doubled of (st, outcome) \<Rightarrow> outcome = Inr ()
      \<and> map (\<lambda>r. (rr_id r, rr_state r)) (as_results (sc_app st)) = [(demo_id CHR ''a'', ''applied'')]
      \<and> map (\<lambda>q. (qc_id q, qc_state q)) (sc_quarantine st) = [(demo_id CHR ''a'', Pending_review)]
      \<and> (case admit_files (\<lambda>_. '''') (\<lambda>_. NaN) st of
          Inl _ \<Rightarrow> False
        | Inr (_, store, migrated) \<Rightarrow> \<not> migrated \<and> admit_capacity store (sc_app st) = Inl Active_in_multiple_states)"
    by code_simp
  then obtain st persisted store where run: "demo_doubled = (st, Inr ())"
    "map (\<lambda>r. (rr_id r, rr_state r)) (as_results (sc_app st)) = [(demo_id CHR ''a'', ''applied'')]"
    "map (\<lambda>q. (qc_id q, qc_state q)) (sc_quarantine st) = [(demo_id CHR ''a'', Pending_review)]"
    "admit_files (\<lambda>_. '''') (\<lambda>_. NaN) st = Inr (persisted, store, False)"
    "admit_capacity store (sc_app st) = Inl Active_in_multiple_states"
    by (auto split: sum.splits prod.splits)
  show ?thesis
    using run(2,3) open_conflict [OF run(4,5)] unfolding run(1) fst_conv snd_conv by blast
qed

section \<open>Payloads\<close>

definition authorized :: "reply \<Rightarrow> bool" where
  "authorized r = (\<exists>body. r = Reply 200 (Some body) \<and> isRecord body \<and> obj_get (props_of body) ''preserve'' = JBool True)"

lemma preserves_authorized: "replicaPost r = Inr answer \<Longrightarrow> preserves answer = Inr b \<Longrightarrow> b = authorized r"
  by (auto simp: replicaPost_def preserves_def authorized_def split: reply.splits option.splits if_splits)

text \<open>C19. A reset keeps the payload of a command only if the server has allowed it twice, before and after the reset, and the
  replica still has the command's resource in that incarnation, and then the command is open for review.
  Otherwise it is invalidated without its payload; when the first answer refuses it, the payload is not even
  written to the quarantine file. Its identity, target and expected version are kept in either case.\<close>
theorem payload_needs_two_authorizations:
  assumes "quarantine_item classify overlays item = Inr p" "finalize_item reclassify rows p = Inr q"
    and "visible \<longleftrightarrow> authorized (classify item) \<and> authorized (reclassify p) \<and> rows (qc_resource_id item) (qc_incarnation_id item) = 1"
  shows "qc_payload p = (if authorized (classify item) then qc_payload item else None)
    \<and> qc_payload q = (if visible then qc_payload item else None)
    \<and> qc_state q = (if visible then Pending_review else Invalidated) \<and> qc_exportable q = (if visible then 1 else 0)
    \<and> (qc_id q, qc_resource_id q, qc_incarnation_id q, qc_type q, qc_expected q)
        = (qc_id item, qc_resource_id item, qc_incarnation_id item, qc_type item, qc_expected item)"
proof -
  obtain answer first where first: "replicaPost (classify item) = Inr answer" "preserves answer = Inr first"
    "qc_id p = qc_id item" "qc_resource_id p = qc_resource_id item" "qc_incarnation_id p = qc_incarnation_id item"
    "qc_type p = qc_type item" "qc_expected p = qc_expected item" "qn_authorized p = first"
    "qc_payload p = (if first then qc_payload item else None)"
    using assms(1) by (auto simp: quarantine_item_def rbind_Inr_iff Let_def)
  obtain answer' again where again: "replicaPost (reclassify p) = Inr answer'" "preserves answer' = Inr again"
    "q = \<lparr>qc_id = qc_id p, qc_resource_id = qc_resource_id p, qc_incarnation_id = qc_incarnation_id p, qc_type = qc_type p,
       qc_payload = (if qn_authorized p \<and> again \<and> rows (qc_resource_id p) (qc_incarnation_id p) = 1 then qc_payload p else None),
       qc_expected = qc_expected p,
       qc_state = (if qn_authorized p \<and> again \<and> rows (qc_resource_id p) (qc_incarnation_id p) = 1 then Pending_review else Invalidated),
       qc_exportable = (if qn_authorized p \<and> again \<and> rows (qc_resource_id p) (qc_incarnation_id p) = 1 then 1 else 0),
       qc_reserved = qn_reserved p\<rparr>"
    using assms(2) unfolding finalize_item_def rbind_Inr_iff Let_def by blast
  show ?thesis
    using preserves_authorized [OF first(1,2)] preserves_authorized [OF again(1,2)] first again(3) assms(3) by simp
qed

theorem payload_needs_two_authorizations_witness:
  "\<exists>q. finalize_item (en_reclassify demo_env) (\<lambda>_ _. 0) demo_intent = Inr q \<and> qc_payload demo_intent = Some ''x''
     \<and> qc_payload q = None \<and> qc_state q = Invalidated"
proof -
  have first: "quarantine_item (en_classify demo_env) [] demo_base = Inr demo_intent"
    by code_simp
  have "case finalize_item (en_reclassify demo_env) (\<lambda>_ _. 0) demo_intent of Inl _ \<Rightarrow> False | Inr _ \<Rightarrow> True"
    by code_simp
  then obtain q where q: "finalize_item (en_reclassify demo_env) (\<lambda>_ _. 0) demo_intent = Inr q"
    by (auto split: sum.splits)
  show ?thesis
    using payload_needs_two_authorizations [OF first q, of False] q by (simp add: demo_intent_def)
qed

end
