(* ===== verification/Private_Files.thy ===== *)
theory Private_Files
  imports Replica_Reset
begin

text \<open>
  \<open>writePrivateJsonAtomically\<close> of the PowerSync spike client, \<open>spikes/powersync/harness/src/client.ts\<close>: the quarantine and the
  reset file are replaced by writing a temporary file beside them and renaming it. Each call of the file
  system succeeds or fails with a code, and one that fails may have taken effect. The contents that the target had on the way
  are recorded: they are what a crash can leave.
\<close>

section \<open>The file system\<close>

text \<open>A file: the value written completely, if it was, whether it is on the disk, and its mode.\<close>

record private_file =
  pf_content :: "jsval option"
  pf_synced :: bool
  pf_mode :: nat

record private_dir =
  pd_target :: "private_file option"
  pd_temporary :: "private_file option"
  pd_seen :: "private_file option list"

datatype call = Call_ok | Call_failed string bool

datatype file_error = File_error string | Cleanup_failed string string

type_synonym 'a file_act = "private_dir \<Rightarrow> private_dir \<times> (file_error + 'a)"

definition fbind :: "'a file_act \<Rightarrow> ('a \<Rightarrow> 'b file_act) \<Rightarrow> 'b file_act" where
  "fbind m f d = (case m d of (d', Inl e) \<Rightarrow> (d', Inl e) | (d', Inr x) \<Rightarrow> f x d')"

text \<open>A call with its effect; the target is recorded after every effect.\<close>

definition fcall :: "call \<Rightarrow> (private_dir \<Rightarrow> private_dir) \<Rightarrow> unit file_act" where
  "fcall c f d =
     (let d' = f d; seen = d'\<lparr>pd_seen := pd_seen d @ [pd_target d']\<rparr> in
      case c of Call_ok \<Rightarrow> (seen, Inr ())
      | Call_failed code effect \<Rightarrow> (if effect then seen else d, Inl (File_error code)))"

definition on_temporary :: "(private_file \<Rightarrow> private_file) \<Rightarrow> private_dir \<Rightarrow> private_dir" where
  "on_temporary f d = d\<lparr>pd_temporary := map_option f (pd_temporary d)\<rparr>"

definition on_target :: "(private_file \<Rightarrow> private_file) \<Rightarrow> private_dir \<Rightarrow> private_dir" where
  "on_target f d = d\<lparr>pd_target := map_option f (pd_target d)\<rparr>"

record write_env =
  we_open :: call
  we_write :: call
  we_sync :: call
  we_close :: call
  we_chmod :: call
  we_rename :: call
  we_chmodTarget :: call
  we_openDirectory :: call
  we_syncDirectory :: call
  we_closeDirectory :: call
  we_unlink :: call

section \<open>The write\<close>

text \<open>\<open>try { .. } finally { .. }\<close>: what the last part throws replaces the rest.\<close>

definition ffinally :: "'a file_act \<Rightarrow> unit file_act \<Rightarrow> 'a file_act" where
  "ffinally m end_act d =
     (case m d of (d', r) \<Rightarrow> (case end_act d' of (d'', Inl e) \<Rightarrow> (d'', Inl e) | (d'', Inr _) \<Rightarrow> (d'', r)))"

text \<open>A call on the directory changes no file.\<close>

definition syncParentDirectory :: "write_env \<Rightarrow> unit file_act" where
  "syncParentDirectory env d =
     (let tolerate = (\<lambda>r. case r of Inl (File_error code) \<Rightarrow>
            if code \<in> {''EINVAL'', ''ENOTSUP'', ''EBADF''} then Inr () else r | _ \<Rightarrow> r) in
      case fcall (we_openDirectory env) id d of
        (d', Inl e) \<Rightarrow> (d', tolerate (Inl e))
      | (d', Inr _) \<Rightarrow>
          ffinally (\<lambda>d. case fcall (we_syncDirectory env) id d of (d', r) \<Rightarrow> (d', tolerate r)) (fcall (we_closeDirectory env) id) d')"

definition open_temporary :: "write_env \<Rightarrow> unit file_act" where
  "open_temporary env d =
     (if pd_temporary d \<noteq> None then (d, Inl (File_error ''EEXIST''))
      else fcall (we_open env) (\<lambda>d. d\<lparr>pd_temporary := Some \<lparr>pf_content = None, pf_synced = False, pf_mode = 384\<rparr>\<rparr>) d)"

definition write_temporary :: "write_env \<Rightarrow> jsval \<Rightarrow> unit file_act" where
  "write_temporary env value =
     fbind (open_temporary env) (\<lambda>_.
     fbind (ffinally
       (fbind (fcall (we_write env) (on_temporary (\<lambda>f. f\<lparr>pf_content := (if we_write env = Call_ok then Some value else None)\<rparr>))) (\<lambda>_.
        fcall (we_sync env) (on_temporary (\<lambda>f. f\<lparr>pf_synced := (we_sync env = Call_ok)\<rparr>))))
       (fcall (we_close env) id)) (\<lambda>_.
     fcall (we_chmod env) (on_temporary (\<lambda>f. f\<lparr>pf_mode := 384\<rparr>))))"

definition rename_temporary :: "private_dir \<Rightarrow> private_dir" where
  "rename_temporary d = d\<lparr>pd_target := pd_temporary d, pd_temporary := None\<rparr>"

text \<open>The catch clause before the rename has returned.\<close>

definition unlink_temporary :: "write_env \<Rightarrow> file_error \<Rightarrow> unit file_act" where
  "unlink_temporary env error d =
     (case (if pd_temporary d = None then (d, Inl (File_error ''ENOENT'')) else fcall (we_unlink env) (\<lambda>d. d\<lparr>pd_temporary := None\<rparr>) d) of
        (d', Inl (File_error code)) \<Rightarrow>
          (d', Inl (if code = ''ENOENT'' then error else (case error of File_error first \<Rightarrow> Cleanup_failed first code | _ \<Rightarrow> error)))
      | (d', _) \<Rightarrow> (d', Inl error))"

definition writePrivateJsonAtomically :: "write_env \<Rightarrow> jsval \<Rightarrow> unit file_act" where
  "writePrivateJsonAtomically env value d =
     (case fbind (write_temporary env value) (\<lambda>_. fcall (we_rename env) rename_temporary) d of
        (d', Inl e) \<Rightarrow> unlink_temporary env e d'
      | (d', Inr _) \<Rightarrow>
          fbind (fcall (we_chmodTarget env) (on_target (\<lambda>f. f\<lparr>pf_mode := 384\<rparr>))) (\<lambda>_. syncParentDirectory env) d')"

section \<open>Atomicity\<close>

text \<open>What must hold so that an action ends well in a state with \<open>Q\<close>, or throws \<open>e\<close> in a state with \<open>E e\<close>.\<close>

definition fwp :: "'a file_act \<Rightarrow> ('a \<Rightarrow> private_dir \<Rightarrow> bool) \<Rightarrow> (file_error \<Rightarrow> private_dir \<Rightarrow> bool) \<Rightarrow> private_dir \<Rightarrow> bool" where
  "fwp m Q E d = (case m d of (d', Inl e) \<Rightarrow> E e d' | (d', Inr x) \<Rightarrow> Q x d')"

lemma fwp_bindI: "fwp m (\<lambda>x. fwp (f x) Q E) E d \<Longrightarrow> fwp (fbind m f) Q E d"
  by (simp add: fwp_def fbind_def split: prod.splits sum.splits)

definition seen :: "private_dir \<Rightarrow> private_dir" where
  "seen d = d\<lparr>pd_seen := pd_seen d @ [pd_target d]\<rparr>"

lemma fcall_seen: "pd_seen (f d) = pd_seen d \<Longrightarrow> fcall c f d =
    (case c of Call_ok \<Rightarrow> (seen (f d), Inr ()) | Call_failed code effect \<Rightarrow> (if effect then seen (f d) else d, Inl (File_error code)))"
  by (simp add: fcall_def seen_def Let_def split: call.split)

lemma fwp_callI:
  assumes "pd_seen (f d) = pd_seen d" "c = Call_ok \<Longrightarrow> Q () (seen (f d))"
    and "\<And>code. E (File_error code) d" "\<And>code. E (File_error code) (seen (f d))"
  shows "fwp (fcall c f) Q E d"
  using assms by (cases c) (simp_all add: fwp_def fcall_seen)

lemma fwp_finallyI: "fwp m (\<lambda>x. fwp n (\<lambda>_. Q x) E) (\<lambda>e. fwp n (\<lambda>_. E e) E) d \<Longrightarrow> fwp (ffinally m n) Q E d"
  by (simp add: fwp_def ffinally_def split: prod.splits sum.splits)

lemma fwp_mono: "fwp m Q E d \<Longrightarrow> (\<And>x d. Q x d \<Longrightarrow> Q' x d) \<Longrightarrow> (\<And>e d. E e d \<Longrightarrow> E' e d) \<Longrightarrow> fwp m Q' E' d"
  by (auto simp: fwp_def split: prod.splits sum.splits)

text \<open>The target is still what it was, and nothing else was ever seen.\<close>

definition untouched :: "private_file option \<Rightarrow> private_dir \<Rightarrow> bool" where
  "untouched old d = (pd_target d = old \<and> set (pd_seen d) \<subseteq> {old})"

definition complete :: "jsval \<Rightarrow> private_file" where
  "complete value = \<lparr>pf_content = Some value, pf_synced = True, pf_mode = 384\<rparr>"

lemma untouched_seen: "untouched old d \<Longrightarrow> untouched old (seen d)"
  by (simp add: untouched_def seen_def)

lemma untouched_temporary: "untouched old (d\<lparr>pd_temporary := t\<rparr>) = untouched old d"
  by (simp add: untouched_def)

lemma on_temporary_fields: "pd_seen (on_temporary f d) = pd_seen d" "untouched old (on_temporary f d) = untouched old d"
    "pd_temporary (on_temporary f d) = map_option f (pd_temporary d)" "pd_temporary (seen d) = pd_temporary d"
  by (simp_all add: on_temporary_def untouched_temporary seen_def)

lemma fwp_openI:
  assumes "pd_temporary d = None"
    and "fwp (fcall (we_open env) (\<lambda>d. d\<lparr>pd_temporary := Some \<lparr>pf_content = None, pf_synced = False, pf_mode = 384\<rparr>\<rparr>)) Q E d"
  shows "fwp (open_temporary env) Q E d"
  using assms by (simp add: fwp_def open_temporary_def)

lemma write_temporary_ok:
  assumes "untouched old d" "pd_temporary d = None"
  shows "fwp (write_temporary env value)
     (\<lambda>_ d. untouched old d \<and> pd_temporary d = Some (complete value)) (\<lambda>e d. untouched old d \<and> (\<exists>code. e = File_error code)) d"
  unfolding write_temporary_def
  by (intro fwp_bindI fwp_openI fwp_callI fwp_finallyI)
    (simp_all add: assms untouched_seen untouched_temporary on_temporary_fields complete_def)

definition swapped :: "private_file option \<Rightarrow> jsval \<Rightarrow> private_dir \<Rightarrow> bool" where
  "swapped old value d = (pd_target d = Some (complete value) \<and> set (pd_seen d) \<subseteq> {old, Some (complete value)} \<and> pd_temporary d = None)"

lemma swapped_seen: "swapped old value d \<Longrightarrow> swapped old value (seen d)"
  by (simp add: swapped_def seen_def)

lemma swapped_chmod: "swapped old value d \<Longrightarrow> swapped old value (on_target (\<lambda>f. f\<lparr>pf_mode := 384\<rparr>) d)"
  by (simp add: swapped_def on_target_def complete_def)

lemma swapped_rename:
  "untouched old d \<Longrightarrow> pd_temporary d = Some (complete value) \<Longrightarrow> swapped old value (seen (rename_temporary d))"
  by (auto simp: untouched_def swapped_def seen_def rename_temporary_def)

lemma seen_target_changes: "pd_seen (rename_temporary d) = pd_seen d" "pd_seen (on_target f d) = pd_seen d"
  by (simp_all add: rename_temporary_def on_target_def)

lemma syncParentDirectory_keeps:
  assumes "swapped old value d"
  shows "swapped old value (fst (syncParentDirectory env d))" "\<nexists>a b. snd (syncParentDirectory env d) = Inl (Cleanup_failed a b)"
  using assms
  by (auto simp: syncParentDirectory_def fcall_seen ffinally_def swapped_seen Let_def
      split: call.splits prod.splits sum.splits file_error.splits if_splits)

definition recorded :: "private_file option \<Rightarrow> jsval \<Rightarrow> file_error \<Rightarrow> private_dir \<Rightarrow> bool" where
  "recorded old value e d = ((untouched old d \<or> swapped old value d) \<and> ((\<exists>a b. e = Cleanup_failed a b) \<or> pd_temporary d = None))"

lemma rename_step:
  assumes "untouched old d" "pd_temporary d = None"
  shows "fwp (fbind (write_temporary env value) (\<lambda>_. fcall (we_rename env) rename_temporary))
     (\<lambda>_. swapped old value) (\<lambda>e d. (untouched old d \<or> swapped old value d) \<and> (\<exists>code. e = File_error code)) d"
  by (rule fwp_bindI, rule fwp_mono [OF write_temporary_ok [OF assms]])
    (auto intro!: fwp_callI simp: seen_target_changes swapped_rename)

lemma unlink_step:
  assumes "untouched old d \<or> swapped old value d" "we_unlink env \<noteq> Call_failed ''ENOENT'' False"
  shows "fwp (unlink_temporary env (File_error code)) (\<lambda>_ _. False) (recorded old value) d"
proof (cases "pd_temporary d")
  case None
  then show ?thesis
    using assms(1) by (simp add: fwp_def unlink_temporary_def recorded_def)
next
  case (Some t)
  then have "untouched old d"
    using assms(1) by (simp add: swapped_def)
  then show ?thesis
    using Some assms(2)
    by (cases "we_unlink env") (auto simp: fwp_def unlink_temporary_def recorded_def fcall_seen untouched_seen untouched_temporary on_temporary_fields)
qed

lemma write_recorded:
  assumes "untouched old d" "pd_temporary d = None" "we_unlink env \<noteq> Call_failed ''ENOENT'' False"
  shows "fwp (writePrivateJsonAtomically env value) (\<lambda>_. swapped old value) (recorded old value) d"
proof -
  obtain d' r where step: "fbind (write_temporary env value) (\<lambda>_. fcall (we_rename env) rename_temporary) d = (d', r)"
    by fastforce
  show ?thesis
  proof (cases r)
    case (Inl e)
    then obtain code where "e = File_error code" "untouched old d' \<or> swapped old value d'"
      using rename_step [OF assms(1,2), of env "value"] step by (auto simp: fwp_def)
    then show ?thesis
      using unlink_step [OF _ assms(3), of old d' "value" code] step Inl
      by (simp add: fwp_def writePrivateJsonAtomically_def split: prod.splits sum.splits)
  next
    case (Inr u)
    then have swapped: "swapped old value d'"
      using rename_step [OF assms(1,2), of env "value"] step by (simp add: fwp_def)
    have error: "recorded old value (File_error code) d''" if "swapped old value d''" for code d''
      using that by (simp add: recorded_def swapped_def)
    have sync: "fwp (syncParentDirectory env) (\<lambda>_. swapped old value) (recorded old value) (seen (on_target (\<lambda>f. f\<lparr>pf_mode := 384\<rparr>) d'))"
      using syncParentDirectory_keeps [OF swapped_seen [OF swapped_chmod [OF swapped]], of env]
      by (auto simp: fwp_def recorded_def swapped_def split: prod.splits sum.splits)
    have "fwp (fbind (fcall (we_chmodTarget env) (on_target (\<lambda>f. f\<lparr>pf_mode := 384\<rparr>))) (\<lambda>_. syncParentDirectory env))
        (\<lambda>_. swapped old value) (recorded old value) d'"
      by (intro fwp_bindI fwp_callI) (simp_all add: seen_target_changes sync error swapped swapped_seen swapped_chmod)
    then show ?thesis
      using step Inr by (simp add: fwp_def writePrivateJsonAtomically_def)
  qed
qed

section \<open>Properties\<close>

text \<open>What reading a file gives.\<close>

definition sidecar_of :: "private_file option \<Rightarrow> sidecar" where
  "sidecar_of f = (case f of None \<Rightarrow> Absent | Some f \<Rightarrow> (case pf_content f of None \<Rightarrow> Unreadable | Some v \<Rightarrow> Content v))"

text \<open>C23. Writing a private file is atomic, whichever calls of the file system fail and whether or not a failing call took effect:
  at every moment, so after every crash, the target is the old file or the complete new one, on the disk and readable by
  the owner only; a write that returns has replaced it; unless the clean-up itself is reported to have failed, no temporary
  file is left. So the quarantine file changes as in the model of the reset: the write took place, it failed before, or it failed after
  it took place. \<open>unlink\<close> reports \<open>ENOENT\<close> only for a file that is not there.\<close>
theorem private_write_is_atomic:
  assumes "pd_temporary d = None" "pd_seen d = []" "we_unlink env \<noteq> Call_failed ''ENOENT'' False"
    and "writePrivateJsonAtomically env (store_value store) d = (d', result)"
    and "sc_quarantineFile st = sidecar_of (pd_target d)"
  shows "set (pd_seen d') \<subseteq> {pd_target d, Some (complete (store_value store))}
    \<and> (result = Inr () \<longrightarrow> pd_target d' = Some (complete (store_value store)))
    \<and> ((\<exists>first code. result = Inl (Cleanup_failed first code)) \<or> pd_temporary d' = None)
    \<and> (\<exists>wrote. sc_quarantineFile (fst (write_store wrote store st)) = sidecar_of (pd_target d')
         \<and> (snd (write_store wrote store st) = Inr () \<longleftrightarrow> result = Inr ()))"
proof (cases result)
  case (Inr u)
  have "swapped (pd_target d) (store_value store) d'"
    using write_recorded [of "pd_target d" d env "store_value store"] assms Inr by (simp add: untouched_def fwp_def)
  then show ?thesis
    using Inr by (intro conjI exI [of _ Done]) (auto simp: swapped_def write_store_def act_effect_def sidecar_of_def complete_def)
next
  case (Inl e)
  have "recorded (pd_target d) (store_value store) e d'"
    using write_recorded [of "pd_target d" d env "store_value store"] assms Inl by (simp add: untouched_def fwp_def)
  then consider "untouched (pd_target d) d'" "(\<exists>a b. e = Cleanup_failed a b) \<or> pd_temporary d' = None"
    | "swapped (pd_target d) (store_value store) d'"
    by (auto simp: recorded_def)
  then show ?thesis
  proof cases
    case 1
    then show ?thesis
      using Inl assms(5) by (intro conjI exI [of _ Failed_before]) (auto simp: untouched_def write_store_def act_effect_def)
  next
    case 2
    then show ?thesis
      using Inl by (intro conjI exI [of _ Failed_after]) (auto simp: swapped_def write_store_def act_effect_def sidecar_of_def complete_def)
  qed
qed

definition calls_ok :: write_env where
  "calls_ok = \<lparr>we_open = Call_ok, we_write = Call_ok, we_sync = Call_ok, we_close = Call_ok, we_chmod = Call_ok, we_rename = Call_ok,
     we_chmodTarget = Call_ok, we_openDirectory = Call_ok, we_syncDirectory = Call_failed ''EINVAL'' False, we_closeDirectory = Call_ok,
     we_unlink = Call_ok\<rparr>"

definition empty_dir :: private_dir where
  "empty_dir = \<lparr>pd_target = None, pd_temporary = None, pd_seen = []\<rparr>"

definition fresh_client :: spike_client where
  "fresh_client = \<lparr>sc_name = ''a'', sc_principal = None, sc_app = app_init, sc_queue = [], sc_quarantine = [], sc_session = None,
     sc_resetRequired = False, sc_resetCount = 0, sc_databaseClosed = False, sc_quarantineFile = Absent, sc_resetFile = Absent\<rparr>"

theorem private_write_is_atomic_witness:
  "(case writePrivateJsonAtomically calls_ok (store_value empty_store) empty_dir of
      (d', result) \<Rightarrow> result = Inr () \<and> pd_target d' = Some (complete (store_value empty_store)) \<and> pd_temporary d' = None)
   \<and> (case writePrivateJsonAtomically (calls_ok\<lparr>we_rename := Call_failed ''EIO'' True\<rparr>) (store_value empty_store) empty_dir of
      (d', result) \<Rightarrow> result = Inl (File_error ''EIO'') \<and> set (pd_seen d') \<subseteq> {None, Some (complete (store_value empty_store))})"
proof -
  obtain d1 where one: "writePrivateJsonAtomically calls_ok (store_value empty_store) empty_dir = (d1, Inr ())"
    by (simp add: writePrivateJsonAtomically_def write_temporary_def open_temporary_def syncParentDirectory_def
        fbind_def ffinally_def fcall_def Let_def calls_ok_def empty_dir_def on_temporary_def on_target_def rename_temporary_def)
  obtain d2 where two: "writePrivateJsonAtomically (calls_ok\<lparr>we_rename := Call_failed ''EIO'' True\<rparr>) (store_value empty_store) empty_dir
      = (d2, Inl (File_error ''EIO''))"
    by (simp add: writePrivateJsonAtomically_def write_temporary_def open_temporary_def unlink_temporary_def
        fbind_def ffinally_def fcall_def Let_def calls_ok_def empty_dir_def on_temporary_def rename_temporary_def)
  have start: "pd_temporary empty_dir = None" "pd_seen empty_dir = []" "pd_target empty_dir = None"
      "sc_quarantineFile fresh_client = sidecar_of (pd_target empty_dir)"
      "we_unlink calls_ok \<noteq> Call_failed ''ENOENT'' False"
      "we_unlink (calls_ok\<lparr>we_rename := Call_failed ''EIO'' True\<rparr>) \<noteq> Call_failed ''ENOENT'' False"
    by (simp_all add: empty_dir_def fresh_client_def sidecar_of_def calls_ok_def)
  show ?thesis
    using private_write_is_atomic [OF start(1,2) start(5) one start(4)] private_write_is_atomic [OF start(1,2) start(6) two start(4)] start(3)
    unfolding one two by simp
qed

end
