(* ===== verification/Support_Compatibility.thy ===== *)
theory Support_Compatibility
  imports Negotiation Validator
begin

text \<open>
  The compatibility check of the advertised version ranges, \<open>scripts/support-compatibility.mjs\<close>: it reads two
  support documents, the trusted base and the candidate, and lists what the candidate takes away. A file
  is the value \<open>JSON.parse\<close> gives, or \<open>None\<close> where reading or parsing throws.

  The properties connect it with the client's negotiation: the check passes exactly when every client that
  can talk to the base can talk to the candidate.
\<close>

section \<open>Model\<close>

datatype support_failure =
    Cannot_read
  | Not_a_document
  | Missing_contract
  | Invalid_contract
  | Not_an_object string
  | Not_positive string
  | Bad_range string
  | Bad_command_type string
  | Duplicate_command string
  | Breaking_changes "string list"

record support =
  su_api :: server_range
  su_commands :: "command_support list"

definition support_positive :: "jsval \<Rightarrow> string \<Rightarrow> support_failure + jsnum" where
  "support_positive v label =
     rbind (guard (val_isSafeInteger v \<and> \<not> num_lt (num_of v) (of_int_num 1)) (Not_positive label)) (\<lambda>_. Inr (num_of v))"

text \<open>\<open>range\<close>; its result for a command carries the command's type.\<close>

definition support_range :: "jsval \<Rightarrow> string \<Rightarrow> support_failure + server_range" where
  "support_range v label =
     rbind (guard (isRecord v) (Not_an_object label)) (\<lambda>_.
     rbind (support_positive (obj_get (props_of v) ''minimum_supported'') (label @ ''.minimum_supported'')) (\<lambda>minimum.
     rbind (support_positive (obj_get (props_of v) ''current'') (label @ ''.current'')) (\<lambda>cur.
     rbind (support_positive (obj_get (props_of v) ''maximum_supported'') (label @ ''.maximum_supported'')) (\<lambda>maximum.
     rbind (guard (\<not> num_lt cur minimum \<and> \<not> num_lt maximum cur) (Bad_range label)) (\<lambda>_.
     Inr \<lparr>minimum_supported = minimum, maximum_supported = maximum, current = cur\<rparr>)))))"

definition command_range :: "jsval \<Rightarrow> string \<Rightarrow> support_failure + command_support" where
  "command_range v label =
     rbind (support_range v label) (\<lambda>r.
     let type = obj_get (props_of v) ''command_type'' in
     rbind (guard (is_str type \<and> str_of type \<noteq> '''') (Bad_command_type label)) (\<lambda>_.
     Inr (server_range.extend r (command_support.fields (str_of type)))))"

text \<open>The loop over the commands, with the map built so far in the order of insertion.\<close>

fun load_commands :: "nat \<Rightarrow> jsval list \<Rightarrow> command_support list \<Rightarrow> support_failure + command_support list" where
  "load_commands i [] commands = Inr commands"
| "load_commands i (item # items) commands =
     rbind (command_range item (''contract.commands['' @ nat_str i @ '']'')) (\<lambda>parsed.
     rbind (guard (command_type parsed \<notin> set (map command_type commands)) (Duplicate_command (command_type parsed))) (\<lambda>_.
     load_commands (Suc i) items (commands @ [parsed])))"

definition loadSupport :: "bool \<Rightarrow> jsval option \<Rightarrow> support_failure + support option" where
  "loadSupport allowMissing content =
     (case content of
        None \<Rightarrow> Inl Cannot_read
      | Some document \<Rightarrow>
          rbind (guard (isRecord document) Not_a_document) (\<lambda>_.
          if ''contract'' \<notin> set (map fst (props_of document))
          then (if allowMissing then Inr None else Inl Missing_contract)
          else
            let contract = obj_get (props_of document) ''contract''; ps = props_of contract in
            rbind (guard (isRecord contract \<and> obj_get ps ''schema_version'' = JStr ''1'' \<and> is_arr (obj_get ps ''commands''))
                     Invalid_contract) (\<lambda>_.
            rbind (support_range (obj_get ps ''api'') ''contract.api'') (\<lambda>api.
            rbind (load_commands 0 (arr_of (obj_get ps ''commands'')) []) (\<lambda>commands.
            Inr (Some \<lparr>su_api = api, su_commands = commands\<rparr>))))))"

text \<open>The comparison both the API's and a command's range go through.\<close>

definition contracted :: "'a version_range_scheme \<Rightarrow> 'b version_range_scheme \<Rightarrow> bool" where
  "contracted old new =
     (num_lt (minimum_supported old) (minimum_supported new) \<or> num_lt (maximum_supported new) (maximum_supported old))"

definition command_change :: "support \<Rightarrow> command_support \<Rightarrow> string list" where
  "command_change candidate old =
     (case find (\<lambda>c. command_type c = command_type old) (su_commands candidate) of
        None \<Rightarrow> [''command removed: '' @ command_type old]
      | Some new \<Rightarrow> if contracted old new then [''command supported range contracted: '' @ command_type old] else [])"

definition supportBreakingChanges :: "support option \<Rightarrow> support \<Rightarrow> string list" where
  "supportBreakingChanges base candidate =
     (case base of
        None \<Rightarrow> []
      | Some b \<Rightarrow> (if contracted (su_api b) (su_api candidate) then [''API supported range contracted''] else [])
          @ concat (map (command_change candidate) (su_commands b)))"

text \<open>\<open>main\<close> on the two files; a missing contract is accepted in the base only.\<close>

definition support_main :: "jsval option \<Rightarrow> jsval option \<Rightarrow> support_failure + unit" where
  "support_main base_file candidate_file =
     rbind (loadSupport True base_file) (\<lambda>base.
     rbind (loadSupport False candidate_file) (\<lambda>candidate.
     case candidate of
       None \<Rightarrow> Inl Missing_contract
     | Some c \<Rightarrow>
         let changes = supportBreakingChanges base c in
         rbind (guard (changes = []) (Breaking_changes changes)) (\<lambda>_. Inr ())))"

section \<open>What is loaded\<close>

text \<open>The metadata a server with this support advertises.\<close>

definition advertised :: "support \<Rightarrow> contract_discovery" where
  "advertised s = \<lparr>schema_version = ''1'', api_range = su_api s, command_ranges = su_commands s\<rparr>"

lemma support_positive_Inr: "support_positive v label = Inr n \<longleftrightarrow> v = JNum n \<and> positiveSafeInteger n"
proof (cases v)
  case (JNum m)
  have "\<not> num_lt m (of_int_num 1) \<longleftrightarrow> num_lt (of_int_num 0) m" if "num_isSafeInteger m"
    using that num_lt_integer [of m] by (auto simp: num_isSafeInteger_def)
  then show ?thesis
    using JNum by (auto simp: support_positive_def positiveSafeInteger_def res_iff)
qed (auto simp: support_positive_def guard_def)

lemma support_range_valid: "support_range v label = Inr r \<Longrightarrow> valid_server_range r"
  by (auto simp: support_range_def res_iff support_positive_Inr valid_server_range_def supports_def valid_range_def num_lt_positive)

lemma command_range_valid: "command_range v label = Inr r \<Longrightarrow> valid_server_range r"
  by (auto simp: command_range_def res_iff Let_def server_range.extend_def command_support.fields_def
      valid_server_range_def supports_def valid_range_def dest!: support_range_valid)

lemma load_commands_valid:
  assumes "load_commands i items commands = Inr cs" "distinct (map command_type commands)" "\<forall>c \<in> set commands. valid_server_range c"
  shows "distinct (map command_type cs) \<and> (\<forall>c \<in> set cs. valid_server_range c)"
  using assms
proof (induction items arbitrary: i commands)
  case Nil
  then show ?case by simp
next
  case (Cons item items)
  obtain parsed where "command_range item (''contract.commands['' @ nat_str i @ '']'') = Inr parsed"
    "command_type parsed \<notin> set (map command_type commands)" "load_commands (Suc i) items (commands @ [parsed]) = Inr cs"
    using Cons.prems(1) by (auto simp: res_iff)
  then show ?case
    using Cons.IH [of "Suc i" "commands @ [parsed]"] Cons.prems(2,3) command_range_valid by auto
qed

lemma loadSupport_valid: "loadSupport allowMissing content = Inr (Some s) \<Longrightarrow> valid_discovery (advertised s)"
  by (auto simp: loadSupport_def res_iff Let_def advertised_def valid_discovery_def
      split: option.splits if_splits dest!: support_range_valid load_commands_valid)

section \<open>Compatibility and negotiation\<close>

lemma contracted_iff:
  assumes "valid_range old" "valid_range new"
  shows "contracted old new \<longleftrightarrow> (\<exists>v. supports old v \<and> \<not> supports new v)"
proof -
  have "contracted old new \<longleftrightarrow> num_int (minimum_supported old) < num_int (minimum_supported new)
      \<or> num_int (maximum_supported new) < num_int (maximum_supported old)"
    using assms by (auto simp: contracted_def valid_range_def num_lt_positive)
  then show ?thesis
    using assms by (auto simp: supports_def valid_range_def)
qed

lemma negotiates_iff:
  "(\<exists>r. negotiate_with own m = Inr r) \<longleftrightarrow> valid_discovery m
     \<and> (\<exists>v. supports (support_api own) v \<and> supports (api_range m) v)
     \<and> (\<forall>(k, c) \<in> set (support_commands own). \<exists>s. find (\<lambda>c. command_type c = k) (command_ranges m) = Some s
          \<and> (\<exists>v. supports c v \<and> supports s v))"
  using negotiate_commands_ex [of "\<lambda>k. find (\<lambda>c. command_type c = k) (command_ranges m)" "support_commands own"]
    negotiateRange_Inr_ex [of "support_api own" "api_range m"]
  by (simp add: negotiate_with_cases rbind_Inr_iff) blast

text \<open>A client that supports one version of the API, and one of a command.\<close>

definition only :: "int \<Rightarrow> version_range" where
  "only v = \<lparr>minimum_supported = of_int_num v, maximum_supported = of_int_num v\<rparr>"

lemma only_supports:
  assumes "supports r v"
  shows "supports (only v) w \<longleftrightarrow> w = v"
proof -
  have "1 \<le> v" "v \<le> max_safe"
    using assms positiveSafeInteger_ge [of "minimum_supported r"] num_isInteger_Some [of "maximum_supported r"]
    by (auto simp: supports_def valid_range_def positiveSafeInteger_def num_isSafeInteger_def)
  then show ?thesis
    by (auto simp: supports_def only_def valid_range_def positiveSafeInteger_def)
qed

lemma highest_common_mono:
  assumes "highest_common c s v" "highest_common c t w" "\<forall>u. supports s u \<longrightarrow> supports t u"
  shows "v \<le> w"
  using assms by (auto simp: highest_common_def)

lemma command_change_Nil:
  "concat (map (command_change candidate) olds) = [] \<longleftrightarrow>
     (\<forall>old \<in> set olds. \<exists>new. find (\<lambda>c. command_type c = command_type old) (su_commands candidate) = Some new \<and> \<not> contracted old new)"
  by (auto simp: command_change_def split: option.splits if_splits)

lemma kept_command_versions:
  assumes "negotiate_commands m cs = Inr vs" "negotiate_commands m' cs = Inr vs'"
    and "\<And>k s. m k = Some s \<Longrightarrow> \<exists>t. m' k = Some t \<and> (\<forall>u. supports s u \<longrightarrow> supports t u)"
  shows "list_all2 (\<lambda>(k, v) (k', v'). k' = k \<and> num_int v \<le> num_int v') vs vs'"
  using assms(1,2)
proof (induction cs arbitrary: vs vs')
  case Nil
  then show ?case by simp
next
  case (Cons kc cs)
  obtain k c where kc: "kc = (k, c)" by fastforce
  obtain s v ws where old: "m k = Some s" "negotiateRange c s = Inr v" "negotiate_commands m cs = Inr ws" "vs = (k, v) # ws"
    using Cons.prems(1) by (auto simp: kc res_iff split: option.splits sum.splits)
  obtain t v' ws' where new: "m' k = Some t" "negotiateRange c t = Inr v'" "negotiate_commands m' cs = Inr ws'" "vs' = (k, v') # ws'"
    using Cons.prems(2) by (auto simp: kc res_iff split: option.splits sum.splits)
  have "num_int v \<le> num_int v'"
    using assms(3) [OF old(1)] new(1) negotiateRange_Inr [OF old(2)] negotiateRange_Inr [OF new(2)]
    by (auto intro: highest_common_mono)
  then show ?case
    using Cons.IH [OF old(3) new(3)] old(4) new(4) by simp
qed

text \<open>What the check passing means for the ranges.\<close>

lemma no_changes_iff:
  assumes "valid_discovery (advertised b)" "valid_discovery (advertised c)"
  shows "supportBreakingChanges (Some b) c = [] \<longleftrightarrow>
     (\<forall>v. supports (su_api b) v \<longrightarrow> supports (su_api c) v)
     \<and> (\<forall>old \<in> set (su_commands b). \<exists>new. find (\<lambda>x. command_type x = command_type old) (su_commands c) = Some new
          \<and> (\<forall>v. supports old v \<longrightarrow> supports new v))"
proof -
  have ranges: "valid_range (su_api b)" "valid_range (su_api c)"
    "old \<in> set (su_commands b) \<Longrightarrow> valid_range old" "new \<in> set (su_commands c) \<Longrightarrow> valid_range new" for old new
    using assms by (auto simp: advertised_def valid_discovery_def valid_server_range_def supports_def)
  have "\<not> contracted old new \<longleftrightarrow> (\<forall>v. supports old v \<longrightarrow> supports new v)"
    if "old \<in> set (su_commands b)" "find (\<lambda>x. command_type x = command_type old) (su_commands c) = Some new" for old new
    using contracted_iff [of old new] ranges(3) [OF that(1)] ranges(4) [of new] find_SomeD [OF that(2)] by simp
  then show ?thesis
    using contracted_iff [OF ranges(1,2)]
    by (auto simp: supportBreakingChanges_def command_change_Nil simp del: concat_eq_Nil_conv)
qed

lemma breaking_change_breaks:
  assumes b: "valid_discovery (advertised b)" and c: "valid_discovery (advertised c)" and changes: "supportBreakingChanges (Some b) c \<noteq> []"
  shows "\<exists>own. (\<exists>r. negotiate_with own (advertised b) = Inr r) \<and> (\<nexists>r. negotiate_with own (advertised c) = Inr r)"
proof (cases "\<exists>v. supports (su_api b) v \<and> \<not> supports (su_api c) v")
  case True
  then obtain v where v: "supports (su_api b) v" "\<not> supports (su_api c) v" by blast
  show ?thesis
    by (rule exI [of _ "\<lparr>support_api = only v, support_commands = []\<rparr>"])
      (use b v only_supports [OF v(1)] in \<open>auto simp: negotiates_iff advertised_def\<close>)
next
  case False
  obtain old where old: "old \<in> set (su_commands b)"
    "\<nexists>new. find (\<lambda>x. command_type x = command_type old) (su_commands c) = Some new \<and> (\<forall>v. supports old v \<longrightarrow> supports new v)"
    using changes False no_changes_iff [OF b c] by blast
  have find: "find (\<lambda>x. command_type x = command_type old) (su_commands b) = Some old"
    using b old(1) advertised_command [of "su_commands b" "command_type old" old] find_advertised [of "su_commands b" "command_type old"]
    by (simp add: advertised_def valid_discovery_def)
  have "supports old (num_int (current old))" "supports (su_api b) (num_int (current (su_api b)))"
    using b old(1) by (simp_all add: advertised_def valid_discovery_def valid_server_range_def)
  then obtain v u where v: "supports old v" "\<And>new. find (\<lambda>x. command_type x = command_type old) (su_commands c) = Some new \<Longrightarrow> \<not> supports new v"
      and u: "supports (su_api b) u"
    using old(2) by (cases "find (\<lambda>x. command_type x = command_type old) (su_commands c)") auto
  show ?thesis
    by (rule exI [of _ "\<lparr>support_api = only u, support_commands = [(command_type old, only v)]\<rparr>"])
      (use b find v u only_supports [OF v(1)] only_supports [OF u] in \<open>auto simp: negotiates_iff advertised_def\<close>)
qed

lemma compatible_negotiation:
  assumes b: "valid_discovery (advertised b)" and c: "valid_discovery (advertised c)" and none: "supportBreakingChanges (Some b) c = []"
    and r: "negotiate_with own (advertised b) = Inr r"
  shows "\<exists>r'. negotiate_with own (advertised c) = Inr r' \<and> num_int (apiVersion r) \<le> num_int (apiVersion r')
     \<and> list_all2 (\<lambda>(k, v) (k', v'). k' = k \<and> num_int v \<le> num_int v') (commandVersions r) (commandVersions r')"
proof -
  have api: "\<forall>v. supports (su_api b) v \<longrightarrow> supports (su_api c) v"
    and old: "\<And>old. old \<in> set (su_commands b) \<Longrightarrow>
      \<exists>new. find (\<lambda>x. command_type x = command_type old) (su_commands c) = Some new \<and> (\<forall>v. supports old v \<longrightarrow> supports new v)"
    using none no_changes_iff [OF b c] by blast+
  have commands: "\<exists>t. find (\<lambda>x. command_type x = k) (su_commands c) = Some t \<and> (\<forall>u. supports s u \<longrightarrow> supports t u)"
    if "find (\<lambda>x. command_type x = k) (su_commands b) = Some s" for k s
    using old [of s] find_SomeD [OF that] by auto
  have "\<exists>r'. negotiate_with own (advertised c) = Inr r'"
    using negotiates_iff [of own "advertised b"] r c api commands
    by (fastforce simp: negotiates_iff advertised_def split_beta)
  then obtain r' where r': "negotiate_with own (advertised c) = Inr r'" by blast
  obtain v vs where v: "negotiateRange (support_api own) (su_api b) = Inr v"
      "negotiate_commands (\<lambda>k. find (\<lambda>c. command_type c = k) (su_commands b)) (support_commands own) = Inr vs"
      "r = \<lparr>apiVersion = v, commandVersions = vs\<rparr>"
    using r b by (auto simp: negotiate_with_cases rbind_Inr_iff) (simp add: advertised_def)
  obtain v' vs' where v': "negotiateRange (support_api own) (su_api c) = Inr v'"
      "negotiate_commands (\<lambda>k. find (\<lambda>c. command_type c = k) (su_commands c)) (support_commands own) = Inr vs'"
      "r' = \<lparr>apiVersion = v', commandVersions = vs'\<rparr>"
    using r' c by (auto simp: negotiate_with_cases rbind_Inr_iff) (simp add: advertised_def)
  show ?thesis
    using r' v(3) v'(3) api negotiateRange_Inr [OF v(1)] negotiateRange_Inr [OF v'(1)] kept_command_versions [OF v(2) v'(2) commands]
    by (auto intro: highest_common_mono)
qed

text \<open>C22. The check of the advertised support passes exactly when no client is left behind: it passes if and only if every client,
  whatever versions of the API and of commands it supports, that negotiates a contract with the base
  still negotiates one with the candidate, and then no negotiated version is lower than before.\<close>
theorem support_check_exact:
  assumes "loadSupport True base_file = Inr (Some base)" "loadSupport False candidate_file = Inr (Some candidate)"
  shows "support_main base_file candidate_file = Inr () \<longleftrightarrow>
    (\<forall>own r. negotiate_with own (advertised base) = Inr r \<longrightarrow>
      (\<exists>r'. negotiate_with own (advertised candidate) = Inr r' \<and> num_int (apiVersion r) \<le> num_int (apiVersion r')
         \<and> list_all2 (\<lambda>(k, v) (k', v'). k' = k \<and> num_int v \<le> num_int v') (commandVersions r) (commandVersions r')))"
proof -
  have valid: "valid_discovery (advertised base)" "valid_discovery (advertised candidate)"
    using assms by (auto dest: loadSupport_valid)
  have "support_main base_file candidate_file = Inr () \<longleftrightarrow> supportBreakingChanges (Some base) candidate = []"
    using assms by (simp add: support_main_def Let_def res_iff)
  then show ?thesis
    using compatible_negotiation [OF valid] breaking_change_breaks [OF valid] by (metis (mono_tags, lifting))
qed

definition demo_support :: "int \<Rightarrow> int \<Rightarrow> jsval option" where
  "demo_support l h = Some (JObj [(''contract'', JObj [(''schema_version'', JStr ''1''),
     (''api'', JObj [(''current'', JInt h), (''minimum_supported'', JInt l), (''maximum_supported'', JInt h)]),
     (''commands'', JArr [JObj [(''command_type'', JStr ''journey.update''), (''current'', JInt 1),
        (''minimum_supported'', JInt 1), (''maximum_supported'', JInt 1)]])])])"

definition demo_loaded :: "int \<Rightarrow> int \<Rightarrow> support" where
  "demo_loaded l h = \<lparr>su_api = demo_range l h,
     su_commands = [server_range.extend (demo_range 1 1) (command_support.fields ''journey.update'')]\<rparr>"

lemma demo_support_loads:
  assumes "1 \<le> l" "l \<le> h" "h \<le> 9"
  shows "loadSupport allow (demo_support l h) = Inr (Some (demo_loaded l h))"
  using assms
  by (simp add: loadSupport_def demo_support_def demo_loaded_def support_range_def command_range_def support_positive_def
      obj_get_Cons demo_range_def max_safe_def)

theorem support_check_exact_witness:
  "support_main (demo_support 1 2) (demo_support 1 3) = Inr () \<and> support_main (demo_support 1 2) (demo_support 2 2) \<noteq> Inr ()
   \<and> (\<exists>r. negotiate_with clientSupport (advertised (demo_loaded 1 3)) = Inr r)
   \<and> (\<exists>own r. negotiate_with own (advertised (demo_loaded 1 2)) = Inr r \<and> (\<nexists>r'. negotiate_with own (advertised (demo_loaded 2 2)) = Inr r'
        \<and> num_int (apiVersion r) \<le> num_int (apiVersion r')
        \<and> list_all2 (\<lambda>(k, v) (k', v'). k' = k \<and> num_int v \<le> num_int v') (commandVersions r) (commandVersions r')))"
proof -
  have loads: "loadSupport a (demo_support 1 2) = Inr (Some (demo_loaded 1 2))"
    "loadSupport a (demo_support 1 3) = Inr (Some (demo_loaded 1 3))" "loadSupport a (demo_support 2 2) = Inr (Some (demo_loaded 2 2))" for a
    by (simp_all add: demo_support_loads)
  have checks: "support_main (demo_support 1 2) (demo_support 1 3) = Inr ()" "support_main (demo_support 1 2) (demo_support 2 2) \<noteq> Inr ()"
    by (simp_all add: support_main_def loads supportBreakingChanges_def contracted_def demo_loaded_def demo_range_def command_change_def
        server_range.extend_def command_support.fields_def)
  have "negotiate_with clientSupport (advertised (demo_loaded 1 2))
      = Inr \<lparr>apiVersion = of_int_num 1, commandVersions = [(''journey.update'', of_int_num 1)]\<rparr>"
    by (simp add: negotiate_with_def advertised_def demo_loaded_def demo_range_def clientSupport_def
        validateServerRange_def validateRange_def positiveSafeInteger_def negotiateRange_def
        num_min_def js_Map_def server_range.extend_def command_support.fields_def max_safe_def)
  then show ?thesis
    using checks support_check_exact [OF loads(1,2)] support_check_exact [OF loads(1,3)] by blast
qed

end
