(* ===== verification/Contract_Compatibility.thy ===== *)
theory Contract_Compatibility
  imports Uri
begin

text \<open>
  The compatibility check of the OpenAPI contract, \<open>scripts/contract-compatibility.mjs\<close>: which documents it
  accepts, and which of the differences between two of them block. The differences come from the package
  \<open>api-smart-diff\<close>, whose \<open>apiCompare\<close> is the parameter \<open>compare\<close>; a file is the value \<open>JSON.parse\<close> gives, or
  \<open>None\<close> where reading or parsing throws.
\<close>

section \<open>Local references\<close>

text \<open>\<open>String.prototype.replaceAll\<close> with a pattern and a replacement without special meaning, and \<open>split\<close>, on code units.\<close>

fun replace_pair :: "'a \<Rightarrow> 'a \<Rightarrow> 'a \<Rightarrow> 'a list \<Rightarrow> 'a list" where
  "replace_pair p q r (a # b # rest) =
     (if a = p \<and> b = q then r # replace_pair p q r rest else a # replace_pair p q r (b # rest))"
| "replace_pair p q r rest = rest"

fun split_at :: "'a \<Rightarrow> 'a list \<Rightarrow> 'a list list" where
  "split_at s [] = [[]]"
| "split_at s (a # rest) =
     (if a = s then [] # split_at s rest
      else case split_at s rest of [] \<Rightarrow> [[a]] | t # ts \<Rightarrow> (a # t) # ts)"

definition pointer_tokens :: "string \<Rightarrow> nat list list option" where
  "pointer_tokens reference =
     map_option (\<lambda>us. map (\<lambda>t. replace_pair 126 48 126 (replace_pair 126 49 47 t)) (split_at 47 (drop 1 us)))
       (decodeURIComponent (drop 1 reference))"

text \<open>An own property of an object or array, \<open>Object.hasOwn\<close> and the read; the key is a list of code units.\<close>

fun own_property :: "jsval \<Rightarrow> nat list \<Rightarrow> jsval option" where
  "own_property (JObj ps) t = map_of (map (\<lambda>(k, v). (units_of k, v)) ps) t"
| "own_property (JArr vs) t =
     (if t = units_of ''length'' then Some (JInt (int (length vs)))
      else map_of (map (\<lambda>i. (units_of (nat_str i), vs ! i)) [0..<length vs]) t)"
| "own_property _ t = None"

fun walk :: "jsval \<Rightarrow> nat list list \<Rightarrow> bool" where
  "walk v [] = True"
| "walk v (t # ts) = (case own_property v t of None \<Rightarrow> False | Some w \<Rightarrow> walk w ts)"

definition resolvesLocalReference :: "jsval \<Rightarrow> string \<Rightarrow> bool" where
  "resolvesLocalReference document reference =
     (case pointer_tokens reference of None \<Rightarrow> False | Some tokens \<Rightarrow> walk document tokens)"

datatype contract_failure =
    Cannot_read_contract
  | Not_openapi_31
  | Non_local_ref string
  | Dangling_ref string string
  | Not_iterable

definition escapePointerToken :: "string \<Rightarrow> string" where
  "escapePointerToken s =
     concat (map (\<lambda>c. if c = CHR ''~'' then ''~0'' else if c = CHR ''/'' then ''~1'' else [c]) s)"

definition check_ref :: "jsval \<Rightarrow> string \<Rightarrow> jsval \<Rightarrow> contract_failure + unit" where
  "check_ref document pointer child =
     rbind (guard (is_str child \<and> take 2 (str_of child) = ''#/'') (Non_local_ref pointer)) (\<lambda>_.
     guard (resolvesLocalReference document (str_of child)) (Dangling_ref pointer (str_of child)))"

fun assertLocalReferences :: "jsval \<Rightarrow> string \<Rightarrow> jsval \<Rightarrow> contract_failure + unit"
  and references_in_items :: "jsval \<Rightarrow> string \<Rightarrow> nat \<Rightarrow> jsval list \<Rightarrow> contract_failure + unit"
  and references_in_entries :: "jsval \<Rightarrow> string \<Rightarrow> (string \<times> jsval) list \<Rightarrow> contract_failure + unit"
where
  "assertLocalReferences document pointer (JArr vs) = references_in_items document pointer 0 vs"
| "assertLocalReferences document pointer (JObj ps) = references_in_entries document pointer ps"
| "assertLocalReferences document pointer _ = Inr ()"
| "references_in_items document pointer i [] = Inr ()"
| "references_in_items document pointer i (v # vs) =
     rbind (assertLocalReferences document (pointer @ ''/'' @ nat_str i) v) (\<lambda>_. references_in_items document pointer (Suc i) vs)"
| "references_in_entries document pointer [] = Inr ()"
| "references_in_entries document pointer ((key, child) # ps) =
     (let childPointer = pointer @ ''/'' @ escapePointerToken key in
      rbind (if key = ''$ref'' then check_ref document childPointer child else Inr ()) (\<lambda>_.
      rbind (assertLocalReferences document childPointer child) (\<lambda>_.
      references_in_entries document pointer ps)))"

definition openapi_31 :: "string \<Rightarrow> bool" where
  "openapi_31 s = (take 4 s = ''3.1.'' \<and> drop 4 s \<noteq> [] \<and> list_all is_digit (drop 4 s))"

definition loadOpenApi :: "jsval option \<Rightarrow> contract_failure + jsval" where
  "loadOpenApi content =
     (case content of
        None \<Rightarrow> Inl Cannot_read_contract
      | Some document \<Rightarrow>
          let version = obj_get (props_of document) ''openapi''; paths = obj_get (props_of document) ''paths'' in
          rbind (guard (isRecord document \<and> is_str version \<and> openapi_31 (str_of version) \<and> (isRecord paths \<or> is_arr paths))
                   Not_openapi_31) (\<lambda>_.
          rbind (assertLocalReferences document ''$'' document) (\<lambda>_.
          Inr document)))"

section \<open>The policy\<close>

text \<open>A difference as \<open>api-smart-diff\<close> reports it; a path is made of keys and indices.\<close>

datatype path_item = Key string | Index nat

record difference =
  df_type :: string
  df_action :: string
  df_path :: "path_item list"
  df_after :: jsval

definition allowed_types :: "string list" where
  "allowed_types = [''annotation'', ''deprecated'', ''non-breaking'']"

definition protected_items :: "path_item list" where
  "protected_items = map Key [''security'', ''securitySchemes'', ''servers'', ''operationId'', ''x-trax-command-type'']"

definition required_of :: "jsval \<Rightarrow> jsval" where
  "required_of v = (case v of JObj ps \<Rightarrow> obj_get ps ''required'' | _ \<Rightarrow> JUndef)"

definition isOptionalParameterAddition :: "difference \<Rightarrow> nat \<Rightarrow> bool" where
  "isOptionalParameterAddition d parametersIndex =
     (df_action d = ''add'' \<and> length (df_path d) \<le> parametersIndex + 1
      \<and> list_all (\<lambda>p. (isRecord p \<or> is_arr p) \<and> required_of p \<noteq> JBool True)
          (if is_arr (df_after d) then arr_of (df_after d) else [df_after d]))"

definition violatesTraxCompatibilityPolicy :: "difference \<Rightarrow> bool" where
  "violatesTraxCompatibilityPolicy d =
     (let path = df_path d in
      if list_ex (\<lambda>item. item \<in> set protected_items) path then True
      else case findIndex (\<lambda>item. item = Key ''parameters'') path of
        Some i \<Rightarrow> \<not> isOptionalParameterAddition d i
      | None \<Rightarrow>
          (case findIndex (\<lambda>item. item = Key ''requestBody'') path of
             None \<Rightarrow> False
           | Some b \<Rightarrow>
               (case findIndex (\<lambda>item. item = Key ''properties'') (drop b path) of
                  None \<Rightarrow> False
                | Some p \<Rightarrow> \<not> (df_action d = ''add'' \<and> length path = b + p + 2))))"

section \<open>The legacy correction\<close>

definition mutation_operations :: "string list" where
  "mutation_operations =
     [''POST /api/v1/auth/logout'',
      ''POST /api/v1/commands/journey.update'',
      ''POST /api/v1/journeys'',
      ''PUT /api/v1/journeys/{journey_id}'',
      ''DELETE /api/v1/journeys/{journey_id}'',
      ''POST /api/v1/journeys/{journey_id}/segments'',
      ''PUT /api/v1/journeys/{journey_id}/segments/{segment_id}'',
      ''POST /api/v1/journeys/{journey_id}/segments/{segment_id}/reorder'',
      ''DELETE /api/v1/journeys/{journey_id}/segments/{segment_id}'',
      ''POST /api/v1/journeys/{journey_id}/packing'',
      ''PUT /api/v1/journeys/{journey_id}/packing/{item_id}'',
      ''PUT /api/v1/journeys/{journey_id}/packing/{item_id}/progress'',
      ''DELETE /api/v1/journeys/{journey_id}/packing/{item_id}'']"

definition authenticated_operations :: "string list" where
  "authenticated_operations =
     [''GET /api/v1/auth/session'',
      ''GET /api/v1/journeys'',
      ''GET /api/v1/journeys/{journey_id}'',
      ''GET /api/v1/journeys/{journey_id}/segments'',
      ''GET /api/v1/journeys/{journey_id}/packing''] @ mutation_operations"

definition session_security :: jsval where
  "session_security = JArr [JObj [(''SessionCookie'', JArr [])]]"

definition session_scheme :: jsval where
  "session_scheme = JObj [(''type'', JStr ''apiKey''), (''description'', JStr ''Opaque authenticated Trax OS session cookie.''),
     (''in'', JStr ''cookie''), (''name'', JStr ''trax_session'')]"

definition csrf_parameter :: jsval where
  "csrf_parameter = JObj [(''name'', JStr ''X-CSRF-Token''), (''in'', JStr ''header''), (''required'', JBool True),
     (''description'', JStr ''Double-submit token matching the trax_csrf cookie.''), (''schema'', JObj [(''type'', JStr ''string'')])]"

text \<open>\<open>isDeepStrictEqual\<close> on the values of JSON: the order of properties does not matter.\<close>

fun deep_equal :: "jsval \<Rightarrow> jsval \<Rightarrow> bool"
  and deep_equal_items :: "jsval list \<Rightarrow> jsval list \<Rightarrow> bool"
  and deep_equal_entries :: "(string \<times> jsval) list \<Rightarrow> (string \<times> jsval) list \<Rightarrow> bool"
where
  "deep_equal (JArr vs) (JArr ws) = deep_equal_items vs ws"
| "deep_equal (JObj ps) (JObj qs) = (length ps = length qs \<and> deep_equal_entries ps qs)"
| "deep_equal v w = (v = w)"
| "deep_equal_items [] [] = True"
| "deep_equal_items (v # vs) (w # ws) = (deep_equal v w \<and> deep_equal_items vs ws)"
| "deep_equal_items _ _ = False"
| "deep_equal_entries [] qs = True"
| "deep_equal_entries ((k, v) # ps) qs = ((case map_of qs k of None \<Rightarrow> False | Some w \<Rightarrow> deep_equal v w) \<and> deep_equal_entries ps qs)"

text \<open>An optional read \<open>v?.k\<close> of a name no prototype has, and \<open>v ?? []\<close>.\<close>

definition opt_get :: "jsval \<Rightarrow> string \<Rightarrow> jsval" where
  "opt_get v k = (case v of JObj ps \<Rightarrow> obj_get ps k | _ \<Rightarrow> JUndef)"

definition or_empty :: "jsval \<Rightarrow> jsval" where
  "or_empty v = (if v = JUndef \<or> v = JNull then JArr [] else v)"

text \<open>\<open>[...v]\<close>; what is no array or string cannot be iterated.\<close>

definition spread :: "jsval \<Rightarrow> contract_failure + jsval list" where
  "spread v = (case v of JArr vs \<Rightarrow> Inr vs | JStr s \<Rightarrow> Inr (map (\<lambda>c. JStr [c]) s) | _ \<Rightarrow> Inl Not_iterable)"

definition findOperation :: "jsval \<Rightarrow> string \<Rightarrow> jsval" where
  "findOperation document operationKey =
     (let verb = toLowerCase (takeWhile (\<lambda>c. c \<noteq> CHR '' '') operationKey);
          path = drop 1 (dropWhile (\<lambda>c. c \<noteq> CHR '' '') operationKey) in
      opt_get (opt_get (opt_get document ''paths'') path) verb)"

definition hasCsrfParameter :: "jsval \<Rightarrow> bool" where
  "hasCsrfParameter operation =
     (is_arr (opt_get operation ''parameters'')
      \<and> list_ex (\<lambda>p. deep_equal p csrf_parameter) (arr_of (opt_get operation ''parameters'')))"

text \<open>The body of the loop over the authenticated operations.\<close>

definition corrected_operation :: "jsval \<Rightarrow> jsval \<Rightarrow> string \<Rightarrow> contract_failure + bool" where
  "corrected_operation source destination operationKey =
     (let old = findOperation source operationKey; new = findOperation destination operationKey in
      if \<not> truthy old \<or> \<not> truthy new \<or> opt_get old ''security'' \<noteq> JUndef
         \<or> \<not> deep_equal (opt_get new ''security'') session_security then Inr False
      else
        let sourceParameters = or_empty (opt_get old ''parameters'') in
        rbind (if operationKey \<in> set mutation_operations
               then rbind (spread sourceParameters) (\<lambda>ps. Inr (JArr (ps @ [csrf_parameter])))
               else Inr sourceParameters) (\<lambda>expectedParameters.
        Inr (\<not> hasCsrfParameter old \<and> deep_equal (or_empty (opt_get new ''parameters'')) expectedParameters)))"

fun all_corrected :: "jsval \<Rightarrow> jsval \<Rightarrow> string list \<Rightarrow> contract_failure + bool" where
  "all_corrected source destination [] = Inr True"
| "all_corrected source destination (key # keys) =
     rbind (corrected_operation source destination key) (\<lambda>ok.
     if ok then all_corrected source destination keys else Inr False)"

definition qualifiesLegacySecurityMetadataCorrection :: "jsval \<Rightarrow> jsval \<Rightarrow> contract_failure + bool" where
  "qualifiesLegacySecurityMetadataCorrection source destination =
     (if opt_get (opt_get source ''components'') ''securitySchemes'' \<noteq> JUndef
         \<or> \<not> deep_equal (opt_get (opt_get destination ''components'') ''securitySchemes'') (JObj [(''SessionCookie'', session_scheme)])
      then Inr False
      else all_corrected source destination authenticated_operations)"

text \<open>\<open>String.prototype.toUpperCase\<close> below code unit 256; the result may leave that range.\<close>

definition upper_units :: "char \<Rightarrow> nat list" where
  "upper_units c =
     (let n = of_char c :: nat in
      if (97 \<le> n \<and> n \<le> 122) \<or> (224 \<le> n \<and> n \<le> 254 \<and> n \<noteq> 247) then [n - 32]
      else if n = 181 then [924] else if n = 223 then [83, 83] else if n = 255 then [376] else [n])"

definition toUpperCase :: "string \<Rightarrow> nat list" where
  "toUpperCase s = concat (map upper_units s)"

text \<open>\<open>String\<close> of a path item, which may be missing.\<close>

definition item_string :: "path_item option \<Rightarrow> string" where
  "item_string item = (case item of None \<Rightarrow> ''undefined'' | Some (Key k) \<Rightarrow> k | Some (Index i) \<Rightarrow> nat_str i)"

definition path_at :: "path_item list \<Rightarrow> nat \<Rightarrow> path_item option" where
  "path_at path i = (if i < length path then Some (path ! i) else None)"

definition isLegacySecurityMetadataDifference :: "difference \<Rightarrow> bool" where
  "isLegacySecurityMetadataDifference d =
     (let path = df_path d in
      df_action d = ''add''
      \<and> (path = [Key ''components'', Key ''securitySchemes'']
         \<or> path_at path 0 = Some (Key ''paths'')
           \<and> (let operationKey = toUpperCase (item_string (path_at path 2)) @ [32] @ units_of (item_string (path_at path 1)) in
              path_at path 3 = Some (Key ''security'') \<and> operationKey \<in> set (map units_of authenticated_operations)
              \<or> path_at path 3 = Some (Key ''parameters'') \<and> operationKey \<in> set (map units_of mutation_operations))))"

section \<open>Comparison\<close>

definition blocks :: "bool \<Rightarrow> difference \<Rightarrow> bool" where
  "blocks securityMetadataCorrection d =
     ((df_type d \<notin> set allowed_types \<or> violatesTraxCompatibilityPolicy d)
      \<and> \<not> (securityMetadataCorrection \<and> isLegacySecurityMetadataDifference d))"

definition compareOpenApi ::
  "(jsval \<Rightarrow> jsval \<Rightarrow> difference list) \<Rightarrow> jsval \<Rightarrow> jsval \<Rightarrow> contract_failure + difference list \<times> difference list \<times> bool"
where
  "compareOpenApi compare source destination =
     rbind (qualifiesLegacySecurityMetadataCorrection source destination) (\<lambda>correction.
     Inr (compare source destination, filter (blocks correction) (compare source destination), correction))"

definition describeDifference :: "difference \<Rightarrow> string" where
  "describeDifference d =
     df_type d @ '': '' @ df_action d @ '' ''
       @ concat (map (\<lambda>item. ''/'' @ escapePointerToken (item_string (Some item))) (df_path d))
       @ (if df_path d = [] then ''/'' else '''')"

text \<open>What \<open>main\<close> reports on two files: the blocking differences, at most twenty described and the others counted, or the
  number of accepted ones and whether the correction qualified.\<close>

datatype contract_report =
    Compatible nat bool
  | Incompatible nat "string list" nat
  | Check_failed contract_failure

definition contract_main :: "(jsval \<Rightarrow> jsval \<Rightarrow> difference list) \<Rightarrow> jsval option \<Rightarrow> jsval option \<Rightarrow> contract_report" where
  "contract_main compare base_file candidate_file =
     (case rbind (loadOpenApi base_file) (\<lambda>source.
           rbind (loadOpenApi candidate_file) (\<lambda>destination.
           compareOpenApi compare source destination)) of
        Inl e \<Rightarrow> Check_failed e
      | Inr (differences, blocking, correction) \<Rightarrow>
          if blocking \<noteq> [] then Incompatible (length blocking) (map describeDifference (take 20 blocking)) (length blocking - 20)
          else Compatible (length differences) correction)"

section \<open>References\<close>

text \<open>The values inside a value.\<close>

inductive part_of :: "jsval \<Rightarrow> jsval \<Rightarrow> bool" for v where
  part_self: "part_of v v"
| part_item: "part_of v (JArr vs) \<Longrightarrow> w \<in> set vs \<Longrightarrow> part_of v w"
| part_entry: "part_of v (JObj ps) \<Longrightarrow> (k, w) \<in> set ps \<Longrightarrow> part_of v w"

lemma part_of_trans: "part_of v w \<Longrightarrow> part_of u v \<Longrightarrow> part_of u w"
  by (induction rule: part_of.induct) (auto intro: part_of.intros)

lemma part_of_JArr: "part_of (JArr vs) w \<longleftrightarrow> w = JArr vs \<or> (\<exists>v \<in> set vs. part_of v w)"
proof
  assume "part_of (JArr vs) w"
  then show "w = JArr vs \<or> (\<exists>v \<in> set vs. part_of v w)"
    by (induction rule: part_of.induct) (auto intro: part_of.intros)
qed (auto intro: part_self part_of_trans [OF _ part_item [OF part_self]])

lemma part_of_JObj: "part_of (JObj ps) w \<longleftrightarrow> w = JObj ps \<or> (\<exists>(k, v) \<in> set ps. part_of v w)"
proof
  assume "part_of (JObj ps) w"
  then show "w = JObj ps \<or> (\<exists>(k, v) \<in> set ps. part_of v w)"
    by (induction rule: part_of.induct) (auto intro: part_of.intros)
qed (auto intro: part_self part_of_trans [OF _ part_entry [OF part_self]])

lemma part_of_leaf: "\<not> isRecord v \<Longrightarrow> \<not> is_arr v \<Longrightarrow> part_of v w \<longleftrightarrow> w = v"
proof
  assume leaf: "\<not> isRecord v" "\<not> is_arr v" and "part_of v w"
  from this(3) show "w = v"
    by (induction rule: part_of.induct) (use leaf in auto)
qed (auto intro: part_of.intros)

definition local_reference :: "jsval \<Rightarrow> jsval \<Rightarrow> bool" where
  "local_reference document c = (\<exists>s. c = JStr s \<and> take 2 s = ''#/'' \<and> resolvesLocalReference document s)"

definition references_local :: "jsval \<Rightarrow> jsval \<Rightarrow> bool" where
  "references_local document v = (\<forall>ps c. part_of v (JObj ps) \<and> (''$ref'', c) \<in> set ps \<longrightarrow> local_reference document c)"

lemma check_ref_Inr: "check_ref document pointer c = Inr u \<longleftrightarrow> local_reference document c"
  by (cases c) (auto simp: check_ref_def local_reference_def res_iff)

lemma references_local_JArr:
  "references_local document (JArr vs) \<longleftrightarrow> (\<forall>v \<in> set vs. references_local document v)"
  unfolding references_local_def part_of_JArr by blast

lemma references_local_JObj:
  "references_local document (JObj ps) \<longleftrightarrow>
     (\<forall>(k, c) \<in> set ps. (k = ''$ref'' \<longrightarrow> local_reference document c) \<and> references_local document c)"
  unfolding references_local_def part_of_JObj by (simp add: split_beta) (metis fst_conv snd_conv prod.collapse)

lemma references_local_leaf: "\<not> isRecord v \<Longrightarrow> \<not> is_arr v \<Longrightarrow> references_local document v"
  unfolding references_local_def by (simp add: part_of_leaf) (metis isRecord.simps(1))

lemmas references_local_simps = references_local_JArr references_local_JObj references_local_leaf

lemma assertLocalReferences_iff:
  "assertLocalReferences document pointer v = Inr () \<longleftrightarrow> references_local document v"
  "references_in_items document pointer i vs = Inr () \<longleftrightarrow> (\<forall>v \<in> set vs. references_local document v)"
  "references_in_entries document pointer ps = Inr () \<longleftrightarrow>
     (\<forall>(k, c) \<in> set ps. (k = ''$ref'' \<longrightarrow> local_reference document c) \<and> references_local document c)"
  by (induction document pointer v and document pointer i vs and document pointer ps
      rule: assertLocalReferences_references_in_items_references_in_entries.induct)
    (auto simp: references_local_simps res_iff Let_def check_ref_Inr)

section \<open>Pointers\<close>

text \<open>The reference to the value at a path of keys.\<close>

definition reference_to :: "string list \<Rightarrow> string" where
  "reference_to keys = ''#'' @ concat (map (\<lambda>k. ''/'' @ encodeURIComponent (escapePointerToken k)) keys)"

lemma decode_encoded_append:
  "decodeURIComponent (encodeURIComponent s @ r) = map_option (append (units_of s)) (decodeURIComponent r)"
  by (induction s)
    (simp_all add: encodeURIComponent_def units_of_def decode_unit option.map_comp comp_def option.map_ident)

lemma decode_reference:
  "decodeURIComponent (concat (map (\<lambda>k. CHR ''/'' # encodeURIComponent (escapePointerToken k)) keys))
     = Some (concat (map (\<lambda>k. 47 # units_of (escapePointerToken k)) keys))"
  by (induction keys) (simp_all add: decodeURIComponent.simps decode_encoded_append)

lemma of_char_47: "(of_char c :: nat) = 47 \<longleftrightarrow> c = CHR ''/''"
  using of_char_eq_iff [of c "CHR ''/''", where 'a = nat] by simp

lemma of_char_126: "(of_char c :: nat) = 126 \<longleftrightarrow> c = CHR ''~''"
  using of_char_eq_iff [of c "CHR ''~''", where 'a = nat] by simp

lemma escaped_no_slash: "47 \<notin> set (units_of (escapePointerToken k))"
  by (auto simp: units_of_def escapePointerToken_def of_char_47 split: if_splits)

lemma split_at_join:
  assumes "47 \<notin> set (us :: nat list)" "\<forall>v \<in> set vss. 47 \<notin> set v"
  shows "split_at 47 (us @ concat (map (Cons 47) vss)) = us # vss"
  using assms
proof (induction vss arbitrary: us)
  case Nil
  then show ?case by (induction us) auto
next
  case (Cons vs vss)
  have rest: "split_at 47 (vs @ concat (map (Cons 47) vss)) = vs # vss"
    using Cons.IH [of vs] Cons.prems(2) by simp
  show ?case
    using Cons.prems(1) by (induction us) (simp_all add: rest)
qed

lemma unescape_first:
  "replace_pair 126 49 47 (units_of (escapePointerToken k)) = concat (map (\<lambda>c. if c = CHR ''~'' then [126, 48] else [of_char c]) k)"
proof (induction k)
  case Nil
  then show ?case by (simp add: units_of_def escapePointerToken_def)
next
  case (Cons c k)
  have plain: "replace_pair 126 49 47 (x # xs) = x # replace_pair 126 49 47 xs" if "x \<noteq> (126 :: nat)" for x xs
    using that by (cases xs) auto
  show ?case
    using Cons plain [of 48] plain [of "of_char c"] of_char_126 [of c]
    by (simp add: units_of_def escapePointerToken_def)
qed

lemma unescape_second:
  "replace_pair 126 48 126 (concat (map (\<lambda>c. if c = CHR ''~'' then [126, 48] else [of_char c]) k)) = units_of k"
proof (induction k)
  case Nil
  then show ?case by (simp add: units_of_def)
next
  case (Cons c k)
  have plain: "replace_pair 126 48 126 (x # xs) = x # replace_pair 126 48 126 xs" if "x \<noteq> (126 :: nat)" for x xs
    using that by (cases xs) auto
  show ?case
    using Cons plain [of "of_char c"] of_char_126 [of c] by (simp add: units_of_def)
qed

lemma pointer_tokens_reference:
  assumes "keys \<noteq> []"
  shows "pointer_tokens (reference_to keys) = Some (map units_of keys)"
proof -
  obtain k ks where keys: "keys = k # ks"
    using assms by (cases keys) auto
  have "split_at 47 (drop 1 (concat (map (\<lambda>k. 47 # units_of (escapePointerToken k)) keys)))
      = map (\<lambda>k. units_of (escapePointerToken k)) keys"
    using split_at_join [of "units_of (escapePointerToken k)" "map (\<lambda>k. units_of (escapePointerToken k)) ks"]
    by (simp add: keys escaped_no_slash comp_def)
  then show ?thesis
    by (simp add: pointer_tokens_def reference_to_def decode_reference unescape_first unescape_second)
qed

section \<open>Properties\<close>

text \<open>C25. A contract is only compared when its references are sound: \<open>assertLocalReferences\<close> returns exactly when every
  \<open>$ref\<close> in the document, however deep, is a string that starts with \<open>#/\<close> and resolves inside the document;
  and a reference that spells a path of keys, with the JSON pointer and percent escapes, resolves exactly when the
  document has a value at that path, whatever characters the keys hold.\<close>
theorem references_checked_exactly:
  "(assertLocalReferences document pointer v = Inr () \<longleftrightarrow> references_local document v)
   \<and> resolvesLocalReference document (reference_to (key # keys)) = walk document (map units_of (key # keys))"
  using pointer_tokens_reference [of "key # keys"]
  by (simp add: assertLocalReferences_iff resolvesLocalReference_def)

lemma corrected_operation_True:
  assumes "corrected_operation source destination key = Inr True"
  shows "opt_get (findOperation source key) ''security'' = JUndef
    \<and> deep_equal (opt_get (findOperation destination key) ''security'') session_security
    \<and> (key \<in> set mutation_operations \<longrightarrow> (\<exists>ps. spread (or_empty (opt_get (findOperation source key) ''parameters'')) = Inr ps
         \<and> deep_equal (or_empty (opt_get (findOperation destination key) ''parameters'')) (JArr (ps @ [csrf_parameter]))))"
  using assms by (auto simp: corrected_operation_def Let_def res_iff split: if_splits)

lemma all_corrected_True:
  "all_corrected source destination keys = Inr True \<longleftrightarrow> (\<forall>key \<in> set keys. corrected_operation source destination key = Inr True)"
  by (induction keys) (auto simp: res_iff split: if_splits)

lemma path_four:
  assumes "path_at path 0 = Some a" "path_at path 3 = Some b"
  shows "path = a # path ! 1 # path ! 2 # b # drop 4 path"
  using assms by (cases path rule: list.exhaust; cases "tl path"; cases "tl (tl path)"; cases "tl (tl (tl path))")
    (auto simp: path_at_def nth_Cons' split: if_splits)

lemma legacy_difference_place:
  assumes "isLegacySecurityMetadataDifference d"
  shows "df_action d = ''add'' \<and> (df_path d = [Key ''components'', Key ''securitySchemes'']
    \<or> (\<exists>p m field rest key. df_path d = Key ''paths'' # p # m # Key field # rest \<and> key \<in> set authenticated_operations
         \<and> field \<in> {''security'', ''parameters''}
         \<and> toUpperCase (item_string (Some m)) @ [32] @ units_of (item_string (Some p)) = units_of key))"
proof (cases "df_path d = [Key ''components'', Key ''securitySchemes'']")
  case True
  then show ?thesis
    using assms by (simp add: isLegacySecurityMetadataDifference_def)
next
  case False
  then obtain field key where place: "path_at (df_path d) 0 = Some (Key ''paths'')" "path_at (df_path d) 3 = Some (Key field)"
      "field \<in> {''security'', ''parameters''}" "key \<in> set authenticated_operations" "df_action d = ''add''"
      "toUpperCase (item_string (path_at (df_path d) 2)) @ [32] @ units_of (item_string (path_at (df_path d) 1)) = units_of key"
    using assms by (auto simp: isLegacySecurityMetadataDifference_def Let_def authenticated_operations_def)
  have four: "df_path d = Key ''paths'' # df_path d ! 1 # df_path d ! 2 # Key field # drop 4 (df_path d)"
    using path_four [OF place(1,2)] .
  have "path_at (df_path d) 1 = Some (df_path d ! 1)" "path_at (df_path d) 2 = Some (df_path d ! 2)"
    using place(2) by (auto simp: path_at_def split: if_splits)
  then show ?thesis
    using place four by metis
qed

text \<open>C24. A comparison that passes never weakens authentication. If it accepts a difference whose path names a security
  requirement or scheme, servers, an operation's identifier or its command type, that is an addition, of the security
  schemes or at an authenticated operation, and the correction is complete: in the base no
  authenticated operation had a requirement, in the candidate every one of them requires the session
  cookie, and every mutation has got the CSRF header as its last parameter.\<close>
theorem accepted_security_change_is_the_correction:
  assumes "contract_main compare base_file candidate_file = Compatible n correction"
    and "loadOpenApi base_file = Inr source" "loadOpenApi candidate_file = Inr destination"
    and "d \<in> set (compare source destination)" "set (df_path d) \<inter> set protected_items \<noteq> {}"
  shows "correction \<and> df_action d = ''add'' \<and> (df_path d = [Key ''components'', Key ''securitySchemes'']
      \<or> (\<exists>p m field rest key. df_path d = Key ''paths'' # p # m # Key field # rest \<and> key \<in> set authenticated_operations
           \<and> field \<in> {''security'', ''parameters''}
           \<and> toUpperCase (item_string (Some m)) @ [32] @ units_of (item_string (Some p)) = units_of key))
    \<and> (\<forall>key \<in> set authenticated_operations. opt_get (findOperation source key) ''security'' = JUndef
         \<and> deep_equal (opt_get (findOperation destination key) ''security'') session_security)
    \<and> (\<forall>key \<in> set mutation_operations. \<exists>ps. spread (or_empty (opt_get (findOperation source key) ''parameters'')) = Inr ps
         \<and> deep_equal (or_empty (opt_get (findOperation destination key) ''parameters'')) (JArr (ps @ [csrf_parameter])))"
proof -
  have qualifies: "qualifiesLegacySecurityMetadataCorrection source destination = Inr correction"
    and none: "filter (blocks correction) (compare source destination) = []"
    using assms(1-3) by (auto simp: contract_main_def compareOpenApi_def rbind_def split: sum.splits if_splits)
  have "violatesTraxCompatibilityPolicy d"
    using assms(5) by (auto simp: violatesTraxCompatibilityPolicy_def Let_def list_ex_iff)
  then have legacy: "correction" "isLegacySecurityMetadataDifference d"
    using none assms(4) by (auto simp: filter_empty_conv blocks_def)
  have "all_corrected source destination authenticated_operations = Inr True"
    using qualifies legacy(1) by (auto simp: qualifiesLegacySecurityMetadataCorrection_def split: if_splits)
  then have all: "corrected_operation source destination key = Inr True" if "key \<in> set authenticated_operations" for key
    using that by (simp add: all_corrected_True)
  have "set mutation_operations \<subseteq> set authenticated_operations"
    by (auto simp: authenticated_operations_def)
  then show ?thesis
    using legacy legacy_difference_place [OF legacy(2)] corrected_operation_True [OF all] by (meson subsetD)
qed

text \<open>A base without security metadata and its corrected candidate.\<close>

definition demo_operation :: "bool \<Rightarrow> bool \<Rightarrow> jsval" where
  "demo_operation corrected mutation =
     JObj (if \<not> corrected then []
       else (''security'', session_security) # (if mutation then [(''parameters'', JArr [csrf_parameter])] else []))"

definition demo_path :: "bool \<Rightarrow> bool \<Rightarrow> string list \<Rightarrow> jsval" where
  "demo_path corrected readable mutations =
     JObj ((if readable then [(''get'', demo_operation corrected False)] else [])
       @ map (\<lambda>verb. (verb, demo_operation corrected True)) mutations)"

definition demo_contract :: "bool \<Rightarrow> jsval" where
  "demo_contract corrected = JObj [(''openapi'', JStr ''3.1.0''),
     (''paths'', JObj
       [(''/api/v1/auth/session'', demo_path corrected True []),
        (''/api/v1/auth/logout'', demo_path corrected False [''post'']),
        (''/api/v1/commands/journey.update'', demo_path corrected False [''post'']),
        (''/api/v1/journeys'', demo_path corrected True [''post'']),
        (''/api/v1/journeys/{journey_id}'', demo_path corrected True [''put'', ''delete'']),
        (''/api/v1/journeys/{journey_id}/segments'', demo_path corrected True [''post'']),
        (''/api/v1/journeys/{journey_id}/segments/{segment_id}'', demo_path corrected False [''put'', ''delete'']),
        (''/api/v1/journeys/{journey_id}/segments/{segment_id}/reorder'', demo_path corrected False [''post'']),
        (''/api/v1/journeys/{journey_id}/packing'', demo_path corrected True [''post'']),
        (''/api/v1/journeys/{journey_id}/packing/{item_id}'', demo_path corrected False [''put'', ''delete'']),
        (''/api/v1/journeys/{journey_id}/packing/{item_id}/progress'', demo_path corrected False [''put''])]),
     (''components'', JObj (if corrected then [(''securitySchemes'', JObj [(''SessionCookie'', session_scheme)])] else []))]"

definition demo_added :: difference where
  "demo_added = \<lparr>df_type = ''breaking'', df_action = ''add'', df_path = [Key ''components'', Key ''securitySchemes''],
     df_after = JObj [(''SessionCookie'', session_scheme)]\<rparr>"

lemma demo_references:
  "assertLocalReferences document pointer (demo_contract corrected) = Inr ()"
  by (cases corrected)
    (simp_all add: demo_contract_def demo_path_def demo_operation_def session_security_def session_scheme_def csrf_parameter_def)

lemma demo_contracts_load: "loadOpenApi (Some (demo_contract corrected)) = Inr (demo_contract corrected)"
proof -
  have "isRecord (demo_contract corrected)" "obj_get (props_of (demo_contract corrected)) ''openapi'' = JStr ''3.1.0''"
    "isRecord (obj_get (props_of (demo_contract corrected)) ''paths'')"
    by (simp_all add: demo_contract_def obj_get_Cons)
  moreover have "openapi_31 ''3.1.0''"
    by (simp add: openapi_31_def is_digit_def)
  ultimately show ?thesis
    by (simp add: loadOpenApi_def demo_references)
qed

lemma demo_correction: "qualifiesLegacySecurityMetadataCorrection (demo_contract False) (demo_contract True) = Inr True"
  by code_simp

lemma demo_contracts_compatible:
  "contract_main (\<lambda>_ _. [demo_added]) (Some (demo_contract False)) (Some (demo_contract True)) = Compatible 1 True"
  by (simp add: contract_main_def demo_contracts_load compareOpenApi_def demo_correction blocks_def
      isLegacySecurityMetadataDifference_def demo_added_def)

theorem accepted_security_change_is_the_correction_witness:
  "contract_main (\<lambda>_ _. [demo_added]) (Some (demo_contract False)) (Some (demo_contract True)) = Compatible 1 True
   \<and> opt_get (findOperation (demo_contract False) ''GET /api/v1/journeys'') ''security'' = JUndef
   \<and> deep_equal (opt_get (findOperation (demo_contract True) ''GET /api/v1/journeys'') ''security'') session_security"
proof -
  have "set (df_path demo_added) \<inter> set protected_items \<noteq> {}" "''GET /api/v1/journeys'' \<in> set authenticated_operations"
    by (simp_all add: demo_added_def protected_items_def authenticated_operations_def)
  then show ?thesis
    using accepted_security_change_is_the_correction [OF demo_contracts_compatible demo_contracts_load demo_contracts_load, of demo_added] demo_contracts_compatible
    by simp
qed

end
