(* ===== verification/Spec2Isabelle.thy ===== *)
theory Spec2Isabelle
  imports Prelude Journey_Properties Negotiation Server_Properties Contract_Properties
    Api_Client_Properties Negotiation_Cache Pages Spike_Properties Quarantine_Properties Private_Files
    Support_Compatibility Contract_Compatibility
begin

text \<open>
  A model of the TypeScript code of Trax OS, with the theorems that make it correct. This theory imports the
  whole development and documents it.

  \<^bold>\<open>The program.\<close> The repository holds a travel planner. A web application (\<open>apps/web\<close>) shows journeys with their
  timelines and packing lists; it talks to a server through a generated and validating API client
  (\<open>packages/api-client\<close>). A feasibility spike (\<open>spikes/powersync/harness\<close>) explores offline work: a client queues
  commands in a local replica, uploads them to a command server, and recovers when the server
  declares its replica stale. Two scripts (\<open>scripts\<close>) keep new versions of the API compatible with old clients.

  \<^bold>\<open>How it is modelled.\<close> Every function of the source is a HOL function, in the order of the source, with its
  name where HOL allows it. A function that throws returns a sum with the error on the left, one branch for each
  throw. Values of type \<open>unknown\<close> are dynamic values (\<open>jsval\<close> of \<open>Prelude\<close>) with the reads through
  \<open>Object.prototype\<close>; numbers are IEEE numbers (\<open>jsnum\<close>) where the source must rule out \<open>NaN\<close> or fractions, and
  integers after that. Strings are lists of UTF-16 code units below 256. Asynchronous code that awaits each step is
  a function on the state; where calls interleave, it is a step relation (\<open>provider_step\<close>, \<open>cache_step\<close>,
  \<open>spike_step\<close>, and the server's \<open>db_step\<close>), and its invariants come from the locale \<open>invariant_system\<close>.
  SQL transactions are atomic, as the database makes them.

  \<^bold>\<open>Theories and sources.\<close>
  \<^item> \<open>Prelude\<close>, \<open>Text\<close>, \<open>Uri\<close>: what the sources take from the language, and the locales \<open>invariant_system\<close> and
    \<open>receipt_store\<close> that the components interpret.
  \<^item> \<open>Domain\<close>, \<open>Journey_Service\<close> (\<open>features/journeys/domain.ts\<close>, \<open>journey-service.ts\<close>): the data, its reader, and every operation.
    \<open>Journey_Invariants\<close> and \<open>Journey_Properties\<close>: what the service writes, the reader accepts; moving and deleting
    segments do exactly what they should; the reader accepts exactly the well-formed data; and positions with gaps
    break the service.
  \<^item> \<open>Negotiation\<close>, \<open>Negotiation_Cache\<close> (\<open>negotiation.ts\<close>, \<open>client.ts\<close>): version ranges, and the shared promise of
    the discovery.
  \<^item> \<open>Validator\<close>, \<open>Contract_Dates\<close>, \<open>Contract_Schemas\<close>, \<open>Contract_Operations\<close>, \<open>Contract_Properties\<close> (\<open>validator.ts\<close>,
    \<open>generated/client.ts\<close>): validation against schemas, and the generated contract as data. Validation follows references and takes
    fuel; 7 is the nesting depth of the generated schemas, and with it every validation against them returns.
  \<^item> \<open>Api_Client\<close>, \<open>Api_Client_Properties\<close> (\<open>packages/api-client/src/client.ts\<close>): one request from its validation to the
    typed answer or error; only valid requests are sent and only typed payloads are returned.
  \<^item> \<open>Journey_Sync\<close>, \<open>Journey_Sync_Properties\<close>, \<open>Journey_Data\<close> (the repositories and \<open>journey-data.tsx\<close>): a save as the requests it
    sends, and the provider over any repository (locale \<open>journey_repository\<close>, interpreted for the HTTP and for the
    in-memory one): what is shown is what the repository holds.
  \<^item> \<open>Routes\<close>, \<open>Pages\<close>, \<open>Accounts\<close> (\<open>routes.ts\<close>, \<open>app.tsx\<close>, \<open>auth\<close>, the auth and instance repositories): paths, page
    selection, sessions and sign-in.
  \<^item> \<open>Command_Protocol\<close> with \<open>Command_Protocol_Lemmas\<close> and \<open>Command_Protocol_Properties\<close> (\<open>command-protocol.ts\<close>): the readers accept
    exactly the well-formed messages, the digest's input is injective, a response answers each command once.
  \<^item> \<open>Command_Server\<close>, \<open>Command_Execution\<close>, \<open>Replica_Lifecycle\<close>, \<open>Server_Invariant\<close>, \<open>Server_Properties\<close> (\<open>command-server.ts\<close> and the tables
    and functions of \<open>00-source.sql\<close> it uses): commands take effect at most once, answers are replayed, nothing happens
    without a grant, resets are idempotent, and every request is a sequence of the transactions.
  \<^item> \<open>Application_State\<close>, \<open>Quarantine\<close>, \<open>Command_Upload\<close>, \<open>Replica_Reset\<close>, \<open>Replica_Resume\<close>, \<open>Private_Files\<close>
    (\<open>harness/src/client.ts\<close>): the client's rows, queue and files; queueing, upload, reset, opening and the atomic write.
    A durable step of a reset succeeds, fails before it took effect, or fails after it did, as \<open>reset_env\<close> says; so a run that stops
    at any of them is a crash there, and \<open>Private_Files\<close> proves that the write of a file has exactly these outcomes.
    \<open>Spike_Client_Properties\<close>, \<open>Replica_Reset_Properties\<close> (with a calculus of weakest preconditions),
    \<open>Replica_Resume_Properties\<close>, \<open>Upload_Properties\<close>, \<open>Quarantine_Properties\<close>, \<open>Replica_Recovery\<close> and \<open>Spike_Properties\<close>: the
    outstanding work stays within its capacity, no attempt of a reset loses a command, an interrupted reset
    can be completed, undeliverable commands end after five attempts, payloads survive a reset only when authorised
    twice, quarantine files are read back as written and fit their reservations; and three ways in which the
    recovery fails: commands lost between two attempts, files that no later attempt accepts, and results quarantined a second time.
  \<^item> \<open>Support_Compatibility\<close>, \<open>Contract_Compatibility\<close> (\<open>scripts/support-compatibility.mjs\<close>, \<open>contract-compatibility.mjs\<close>): the support check
    passes exactly when no client is left behind, by the negotiation of \<open>Negotiation\<close>; the contract check
    resolves every reference, and lets security metadata change only as the one complete correction.

  \<^bold>\<open>Parameters.\<close> Code outside the repository is an argument of the definitions: the answers of \<open>fetch\<close> (for the API client a
  world that answers requests, for the spike a \<open>reply\<close>), the hash and HMAC (\<open>sha\<close>, \<open>hmac\<close>), UUIDs and clocks,
  \<open>localeCompare\<close> (\<open>collate\<close>), regular expressions and \<open>Date.parse\<close> in the validator's environment, the printing and reading of
  numbers (\<open>num_str\<close>, \<open>str_num\<close>), the SDK's binding of values to columns (\<open>nonstr\<close>) and its transactions (\<open>sdk\<close>), the calls of the file system,
  and \<open>apiCompare\<close> of \<open>api-smart-diff\<close>. What a theorem needs of them is a hypothesis, such as \<open>hex_digest\<close>, and its witness
  instantiates it.

  \<^bold>\<open>Not modelled.\<close> React markup, hooks and styles, translations, browser events and the build, which compute nothing the
  theorems could speak of beyond the modelled state; the generated types, which have no run-time meaning; of the spike,
  the endpoints and hooks that exist for its tests, the migration of old application databases, the snapshot of a
  closed replica, token signing by a library, and the evidence reports; the scripts that check module boundaries, the threat
  model, architecture decisions and that generate the client, which work on the syntax trees and documents of other tools; and the
  Python server.
\<close>

end
